(* ===== verification/Prelude.thy ===== *)
theory Prelude
  imports Main "HOL-Library.Word" "HOL-Library.Sublist" "HOL-Library.Char_ord"
begin

text \<open>
  What the components share: the error values of Go (\<open>gerror\<close>, results as sums), the
  functions of the packages \<open>strings\<close> and \<open>strconv\<close> the sources call, restricted to
  ASCII where they depend on Unicode tables, and the lemmas on them. The collections
  \<open>go_string\<close> (string functions) and \<open>db_simps\<close> (database calls) carry the proofs of
  the components.
\<close>

named_theorems go_string \<open>simplification rules of the Go string functions\<close>
named_theorems db_simps \<open>simplification rules of the database layer\<close>

section \<open>Errors\<close>

text \<open>
  A Go \<open>error\<close> is compared in two ways by the sources: by identity with the sentinel
  \<open>redis.Nil\<close>, and by its text. An error built by \<open>fmt.Errorf\<close> is its text.
\<close>

datatype gerror = RedisNil | Errorf string

fun Error :: "gerror \<Rightarrow> string" where
  "Error RedisNil = ''redis: nil''"
| "Error (Errorf s) = s"

type_synonym 'a result = "gerror + 'a"

section \<open>Package strings\<close>

fun contains :: "string \<Rightarrow> string \<Rightarrow> bool" where
  "contains s sub = (prefix sub s \<or> (case s of [] \<Rightarrow> False | _ # t \<Rightarrow> contains t sub))"

declare contains.simps [simp del]

lemma contains_Nil [go_string]: "contains [] sub = (sub = [])"
  by (subst contains.simps) auto

lemma contains_Cons [go_string]: "contains (c # t) sub = (prefix sub (c # t) \<or> contains t sub)"
  by (subst contains.simps) simp

lemma contains_iff_sublist: "contains s sub \<longleftrightarrow> sublist sub s"
proof (induction s)
  case Nil
  then show ?case by (simp add: contains_Nil)
next
  case (Cons c s)
  then show ?case by (simp add: contains_Cons sublist_Cons_right)
qed

lemma contains_refl [simp]: "contains s s"
  by (simp add: contains_iff_sublist)

lemma contains_append [simp]: "contains (pre @ sub @ post) sub"
  by (simp add: contains_iff_sublist)

definition CutPrefix :: "string \<Rightarrow> string \<Rightarrow> string option" where
  "CutPrefix s p = (if prefix p s then Some (drop (length p) s) else None)"

lemma CutPrefix_append [simp]: "CutPrefix (p @ s) p = Some s"
  by (simp add: CutPrefix_def)

definition TrimPrefix :: "string \<Rightarrow> string \<Rightarrow> string" where
  "TrimPrefix s p = (case CutPrefix s p of Some r \<Rightarrow> r | None \<Rightarrow> s)"

text \<open>The ASCII white space of \<open>strings.TrimSpace\<close>: tab, LF, VT, FF, CR and space.\<close>

definition is_space :: "char \<Rightarrow> bool" where
  "is_space c = ((9 \<le> (of_char c :: nat) \<and> (of_char c :: nat) \<le> 13) \<or> c = CHR '' '')"

definition TrimSpace :: "string \<Rightarrow> string" where
  "TrimSpace s = rev (dropWhile is_space (rev (dropWhile is_space s)))"

lemma TrimSpace_Nil [simp]: "TrimSpace [] = []"
  by (simp add: TrimSpace_def)

lemma rev_dropWhile_hd: "xs \<noteq> [] \<Longrightarrow> \<not> P (hd xs) \<Longrightarrow> dropWhile P xs = xs"
  by (cases xs) auto

lemma TrimSpace_ends:
  assumes "TrimSpace s \<noteq> []"
  shows "\<not> is_space (hd (TrimSpace s)) \<and> \<not> is_space (last (TrimSpace s))"
proof -
  let ?d = "dropWhile is_space s" and ?t = "TrimSpace s"
  have rev: "rev ?t = dropWhile is_space (rev ?d)" by (simp add: TrimSpace_def)
  have "dropWhile is_space (rev ?d) \<noteq> []" using assms unfolding rev [symmetric] by simp
  then have "\<not> is_space (hd (rev ?t))" unfolding rev by (rule hd_dropWhile)
  then have last: "\<not> is_space (last ?t)" using assms by (simp add: hd_rev)
  obtain zs where zs: "rev ?d = zs @ rev ?t"
    using rev by (metis takeWhile_dropWhile_id)
  then have d: "?d = ?t @ rev zs" by (metis rev_append rev_rev_ident)
  then have "hd ?d = hd ?t" and "?d \<noteq> []" using assms by auto
  then have "\<not> is_space (hd ?t)" using hd_dropWhile [of is_space s] by simp
  with last show ?thesis by simp
qed

lemma TrimSpace_idem [simp]: "TrimSpace (TrimSpace s) = TrimSpace s"
proof (cases "TrimSpace s = []")
  case False
  then have h: "\<not> is_space (hd (TrimSpace s))" and l: "\<not> is_space (last (TrimSpace s))"
    using TrimSpace_ends by auto
  from h False have 1: "dropWhile is_space (TrimSpace s) = TrimSpace s"
    by (simp add: rev_dropWhile_hd)
  from l False have "dropWhile is_space (rev (TrimSpace s)) = rev (TrimSpace s)"
    by (simp add: rev_dropWhile_hd hd_rev)
  with 1 show ?thesis by (simp only: TrimSpace_def [of "TrimSpace s"] rev_rev_ident)
qed simp

definition lower_char :: "char \<Rightarrow> char" where
  "lower_char c = (let n = (of_char c :: nat) in if 65 \<le> n \<and> n \<le> 90 then char_of (n + 32) else c)"

definition upper_char :: "char \<Rightarrow> char" where
  "upper_char c = (let n = (of_char c :: nat) in if 97 \<le> n \<and> n \<le> 122 then char_of (n - 32) else c)"

definition ToLower :: "string \<Rightarrow> string" where
  "ToLower = map lower_char"

definition ToUpper :: "string \<Rightarrow> string" where
  "ToUpper = map upper_char"

definition EqualFold :: "string \<Rightarrow> string \<Rightarrow> bool" where
  "EqualFold s t \<longleftrightarrow> ToLower s = ToLower t"

text \<open>\<open>strings.Split\<close> and \<open>strings.SplitN(s, sep, 2)\<close> with a one-byte separator, \<open>strings.Cut\<close>.\<close>

fun Split :: "char \<Rightarrow> string \<Rightarrow> string list" where
  "Split d [] = [[]]"
| "Split d (c # s) = (if c = d then [] # Split d s
     else (case Split d s of [] \<Rightarrow> [[c]] | w # ws \<Rightarrow> (c # w) # ws))"

lemma Split_not_Nil [simp]: "Split d s \<noteq> []"
  by (induction s) (auto split: list.splits)

fun Join :: "string \<Rightarrow> string list \<Rightarrow> string" where
  "Join sep [] = []"
| "Join sep [w] = w"
| "Join sep (w # v # ws) = w @ sep @ Join sep (v # ws)"

lemma Join_Split: "Join [d] (Split d s) = s"
proof (induction s)
  case (Cons c s)
  show ?case
  proof (cases "Split d s")
    case (Cons w ws)
    with Cons.IH show ?thesis by (cases ws) auto
  qed simp
qed simp

lemma Split_no_sep: "d \<notin> set s \<Longrightarrow> Split d s = [s]"
  by (induction s) auto

lemma Split_append: "d \<notin> set w \<Longrightarrow> Split d (w @ d # s) = w # Split d s"
  by (induction w) (auto split: list.splits)

lemma Split_parts_no_sep: "w \<in> set (Split d s) \<Longrightarrow> d \<notin> set w"
proof (induction s arbitrary: w)
  case (Cons c s)
  then show ?case by (cases "Split d s") (auto split: if_splits)
qed simp

fun Cut :: "char \<Rightarrow> string \<Rightarrow> string \<times> string \<times> bool" where
  "Cut d [] = ([], [], False)"
| "Cut d (c # s) = (if c = d then ([], s, True)
     else (case Cut d s of (a, b, f) \<Rightarrow> (c # a, b, f)))"

lemma Cut_found: "Cut d s = (a, b, True) \<Longrightarrow> s = a @ d # b \<and> d \<notin> set a"
  by (induction s arbitrary: a) (auto split: if_splits prod.splits)

lemma Cut_not_found: "Cut d s = (a, b, False) \<Longrightarrow> a = s \<and> b = [] \<and> d \<notin> set s"
  by (induction s arbitrary: a) (auto split: if_splits prod.splits)

section \<open>Package strconv\<close>

definition digit_char :: "nat \<Rightarrow> char" where
  "digit_char n = char_of (48 + n)"

definition is_digit :: "char \<Rightarrow> bool" where
  "is_digit c \<longleftrightarrow> 48 \<le> (of_char c :: nat) \<and> (of_char c :: nat) \<le> 57"

definition digit_val :: "char \<Rightarrow> nat" where
  "digit_val c = of_char c - 48"

fun show_nat :: "nat \<Rightarrow> string" where
  "show_nat n = (if n < 10 then [digit_char n] else show_nat (n div 10) @ [digit_char (n mod 10)])"

declare show_nat.simps [simp del]

definition FormatInt :: "int \<Rightarrow> string" where
  "FormatInt i = (if i < 0 then CHR ''-'' # show_nat (nat (- i)) else show_nat (nat i))"

definition read_nat :: "string \<Rightarrow> nat" where
  "read_nat = foldl (\<lambda>a c. 10 * a + digit_val c) 0"

definition int64_ok :: "int \<Rightarrow> bool" where
  "int64_ok i \<longleftrightarrow> - (2 ^ 63) \<le> i \<and> i < 2 ^ 63"

text \<open>\<open>strconv.Atoi\<close> and \<open>strconv.ParseInt(s, 10, 64)\<close>: optional sign, decimal digits, 64 bits.\<close>

definition Atoi :: "string \<Rightarrow> int result" where
  "Atoi s = (let (neg, ds) = (case s of [] \<Rightarrow> (False, [])
       | c # r \<Rightarrow> if c = CHR ''-'' then (True, r) else if c = CHR ''+'' then (False, r) else (False, s))
     in if ds = [] \<or> \<not> list_all is_digit ds then Inl (Errorf ''invalid syntax'')
        else let i = (if neg then - int (read_nat ds) else int (read_nat ds))
             in if int64_ok i then Inr i else Inl (Errorf ''value out of range''))"

lemma of_char_digit [simp]: "n < 10 \<Longrightarrow> (of_char (digit_char n) :: nat) = 48 + n"
  by (simp add: digit_char_def)

lemma is_digit_digit_char [simp]: "n < 10 \<Longrightarrow> is_digit (digit_char n)"
  by (simp add: is_digit_def)

lemma digit_val_digit_char [simp]: "n < 10 \<Longrightarrow> digit_val (digit_char n) = n"
  by (simp add: digit_val_def)

lemma show_nat_not_Nil [simp]: "show_nat n \<noteq> []"
  by (subst show_nat.simps) simp

lemma show_nat_digits: "list_all is_digit (show_nat n)"
proof (induction n rule: show_nat.induct)
  case (1 n)
  then show ?case by (subst show_nat.simps) simp
qed

lemma read_nat_append: "read_nat (s @ [c]) = 10 * read_nat s + digit_val c"
  by (simp add: read_nat_def)

lemma read_show_nat [simp]: "read_nat (show_nat n) = n"
proof (induction n rule: show_nat.induct)
  case (1 n)
  then show ?case
    by (subst show_nat.simps) (simp add: read_nat_append, simp add: read_nat_def)
qed

lemma show_nat_hd: "0 < n \<Longrightarrow> hd (show_nat n) \<noteq> CHR ''0''"
proof (induction n rule: show_nat.induct)
  case (1 n)
  have z: "(of_char CHR ''0'' :: nat) = 48" by simp
  show ?case
  proof (cases "n < 10")
    case True
    then have "of_char (digit_char n) \<noteq> (48 :: nat)" using "1.prems" by simp
    with True show ?thesis by (subst show_nat.simps) (metis list.sel(1) z)
  next
    case False
    then have "hd (show_nat (n div 10)) \<noteq> CHR ''0''" using "1.IH" by simp
    with False show ?thesis by (subst show_nat.simps) simp
  qed
qed

lemma is_digit_hd_show_nat: "is_digit (hd (show_nat n))"
  using show_nat_digits [of n] show_nat_not_Nil [of n] by (cases "show_nat n") auto

lemma show_nat_inj: "show_nat m = show_nat n \<Longrightarrow> m = n"
  by (metis read_show_nat)

lemma digit_not_sign [simp]: "\<not> is_digit CHR ''-''" "\<not> is_digit CHR ''+''"
  by (simp_all add: is_digit_def)

lemma FormatInt_inj [simp]: "FormatInt i = FormatInt j \<longleftrightarrow> i = j"
proof -
  have h: "show_nat n \<noteq> CHR ''-'' # r" for n r
    using is_digit_hd_show_nat [of n] by force
  show ?thesis
    using show_nat_inj [of "nat i" "nat j"] show_nat_inj [of "nat (- i)" "nat (- j)"]
    by (auto simp: FormatInt_def h h [symmetric] not_less split: if_splits)
qed

theorem Atoi_FormatInt: "int64_ok i \<Longrightarrow> Atoi (FormatInt i) = Inr i"
proof -
  assume ok: "int64_ok i"
  show ?thesis
  proof (cases "i < 0")
    case True
    with ok show ?thesis by (simp add: FormatInt_def Atoi_def show_nat_digits)
  next
    case False
    obtain c r where cr: "show_nat (nat i) = c # r" by (cases "show_nat (nat i)") auto
    then have "is_digit c" using is_digit_hd_show_nat [of "nat i"] by simp
    then have "c \<noteq> CHR ''-''" "c \<noteq> CHR ''+''" by auto
    moreover have "list_all is_digit (c # r)" using show_nat_digits [of "nat i"] cr by simp
    moreover have "read_nat (c # r) = nat i" using cr by (metis read_show_nat)
    ultimately show ?thesis using ok False by (simp add: FormatInt_def Atoi_def cr)
  qed
qed

end
