(* ===== verification/Json.thy ===== *)
theory Json
  imports Prelude "HOL-Library.List_Lexorder"
begin

text \<open>
  What the sources use of the package \<open>encoding/json\<close>: JSON values, the compact printer of
  \<open>json.Marshal\<close> (with its escaping of quotes, control characters and \<open><\<close>, \<open>>\<close>, \<open>&\<close>), the
  parser behind \<open>json.Unmarshal\<close>, and the value a document becomes when it is decoded into
  \<open>map[string]any\<close> (numbers become \<open>float64\<close>, duplicate keys keep the last value, keys are
  marshalled in sorted order). Strings are byte strings; bytes from 128 on are passed through,
  and surrogate pairs in \<open>\u\<close> escapes are outside the model. A number literal with a
  fraction or an exponent is kept as its text (\<open>JReal\<close>): no field of the sources' payloads
  is of a floating type.
\<close>

datatype json =
    JNull
  | JBool bool
  | JNum int
  | JReal string
  | JStr string
  | JArr "json list"
  | JObj "(string \<times> json) list"

section \<open>Printing\<close>

definition hex_digit :: "nat \<Rightarrow> char" where
  "hex_digit n = (if n < 10 then char_of (48 + n) else char_of (87 + n))"

definition esc_char :: "char \<Rightarrow> string" where
  "esc_char c = (let n = (of_char c :: nat) in
     if n = 34 then [char_of (92::nat), c]
     else if n = 92 then [c, c]
     else if n = 8 then [char_of (92::nat), CHR ''b'']
     else if n = 12 then [char_of (92::nat), CHR ''f'']
     else if n = 10 then [char_of (92::nat), CHR ''n'']
     else if n = 13 then [char_of (92::nat), CHR ''r'']
     else if n = 9 then [char_of (92::nat), CHR ''t'']
     else if n < 32 \<or> n = 60 \<or> n = 62 \<or> n = 38
       then [char_of (92::nat), CHR ''u'', CHR ''0'', CHR ''0'', hex_digit (n div 16), hex_digit (n mod 16)]
     else [c])"

definition quote :: char where
  "quote = char_of (34::nat)"

definition backslash :: char where
  "backslash = char_of (92::nat)"

definition jstr :: "string \<Rightarrow> string" where
  "jstr s = quote # concat (map esc_char s) @ [quote]"

fun jprint :: "json \<Rightarrow> string"
and jprint_elems :: "json list \<Rightarrow> string"
and jprint_members :: "(string \<times> json) list \<Rightarrow> string" where
  "jprint JNull = ''null''"
| "jprint (JBool b) = (if b then ''true'' else ''false'')"
| "jprint (JNum i) = FormatInt i"
| "jprint (JReal t) = t"
| "jprint (JStr s) = jstr s"
| "jprint (JArr vs) = CHR ''['' # jprint_elems vs"
| "jprint (JObj ms) = CHR ''{'' # jprint_members ms"
| "jprint_elems [] = '']''"
| "jprint_elems [v] = jprint v @ '']''"
| "jprint_elems (v # w # vs) = jprint v @ '','' @ jprint_elems (w # vs)"
| "jprint_members [] = ''}''"
| "jprint_members [(k, v)] = jstr k @ '':'' @ jprint v @ ''}''"
| "jprint_members ((k, v) # m # ms) = jstr k @ '':'' @ jprint v @ '','' @ jprint_members (m # ms)"

section \<open>Parsing\<close>

definition is_ws :: "char \<Rightarrow> bool" where
  "is_ws c \<longleftrightarrow> c = CHR '' '' \<or> (of_char c :: nat) \<in> {9, 10, 13}"

abbreviation skip_ws :: "string \<Rightarrow> string" where
  "skip_ws \<equiv> dropWhile is_ws"

definition hex_val :: "char \<Rightarrow> nat option" where
  "hex_val c = (let n = (of_char c :: nat) in
     if 48 \<le> n \<and> n \<le> 57 then Some (n - 48)
     else if 97 \<le> n \<and> n \<le> 102 then Some (n - 87)
     else if 65 \<le> n \<and> n \<le> 70 then Some (n - 55) else None)"

definition hex4 :: "char \<Rightarrow> char \<Rightarrow> char \<Rightarrow> char \<Rightarrow> nat option" where
  "hex4 a b c d = (case (hex_val a, hex_val b, hex_val c, hex_val d) of
     (Some w, Some x, Some y, Some z) \<Rightarrow> Some (4096 * w + 256 * x + 16 * y + z) | _ \<Rightarrow> None)"

text \<open>The UTF-8 encoding of a code point; a lone surrogate decodes to U+FFFD, as in Go.\<close>

definition utf8 :: "nat \<Rightarrow> string" where
  "utf8 n = (if n < 128 then [char_of n]
     else if n < 2048 then [char_of (192 + n div 64), char_of (128 + n mod 64)]
     else if 55296 \<le> n \<and> n \<le> 57343 then [char_of (239::nat), char_of (191::nat), char_of (189::nat)]
     else [char_of (224 + n div 4096), char_of (128 + n div 64 mod 64), char_of (128 + n mod 64)])"

definition unesc :: "char \<Rightarrow> char option" where
  "unesc e = (if e = quote \<or> e = backslash \<or> e = CHR ''/'' then Some e
     else if e = CHR ''b'' then Some (char_of (8::nat))
     else if e = CHR ''f'' then Some (char_of (12::nat))
     else if e = CHR ''n'' then Some (char_of (10::nat))
     else if e = CHR ''r'' then Some (char_of (13::nat))
     else if e = CHR ''t'' then Some (char_of (9::nat))
     else None)"

text \<open>The rest of a string literal after its opening quote, and what follows it.\<close>

fun pstr :: "string \<Rightarrow> (string \<times> string) option" where
  "pstr [] = None"
| "pstr (c # cs) =
     (if c = quote then Some ([], cs)
      else if c = backslash then
        (case cs of
           [] \<Rightarrow> None
         | e # r \<Rightarrow>
             if e = CHR ''u'' then
               (case r of
                  h1 # h2 # h3 # h4 # r' \<Rightarrow>
                    (case hex4 h1 h2 h3 h4 of
                       None \<Rightarrow> None
                     | Some n \<Rightarrow> map_option (\<lambda>(s, t). (utf8 n @ s, t)) (pstr r'))
                | _ \<Rightarrow> None)
             else (case unesc e of
                 None \<Rightarrow> None
               | Some d \<Rightarrow> map_option (\<lambda>(s, t). (d # s, t)) (pstr r)))
      else if (of_char c :: nat) < 32 then None
      else map_option (\<lambda>(s, t). (c # s, t)) (pstr cs))"

definition is_num_char :: "char \<Rightarrow> bool" where
  "is_num_char c \<longleftrightarrow> is_digit c \<or> c = CHR ''.'' \<or> c = CHR ''e'' \<or> c = CHR ''E'' \<or> c = CHR ''+'' \<or> c = CHR ''-''"

text \<open>
  The characters of the JSON number grammar after the integer part: an optional fraction and
  an optional exponent.
\<close>

definition frac_exp_ok :: "string \<Rightarrow> bool" where
  "frac_exp_ok t = (let (fr, r) = (case t of c # u \<Rightarrow> if c = CHR ''.'' then (Some (takeWhile is_digit u), dropWhile is_digit u) else (None, t) | [] \<Rightarrow> (None, t))
     in fr \<noteq> Some [] \<and>
        (case r of [] \<Rightarrow> True
         | c # u \<Rightarrow> (c = CHR ''e'' \<or> c = CHR ''E'') \<and>
             (let v = (case u of s # w \<Rightarrow> if s = CHR ''+'' \<or> s = CHR ''-'' then w else u | [] \<Rightarrow> [])
              in v \<noteq> [] \<and> list_all is_digit v)))"

definition pnum :: "string \<Rightarrow> (json \<times> string) option" where
  "pnum s = (let (neg, u) = (case s of [] \<Rightarrow> (False, []) | c # r \<Rightarrow> if c = CHR ''-'' then (True, r) else (False, s));
       ds0 = takeWhile is_digit u;
       ds = (case ds0 of [] \<Rightarrow> [] | d # _ \<Rightarrow> if d = CHR ''0'' then [d] else ds0);
       r = drop (length ds) u;
       t = takeWhile is_num_char r
     in if ds = [] then None
        else if t = [] then Some (JNum (if neg then - int (read_nat ds) else int (read_nat ds)), r)
        else if frac_exp_ok t then Some (JReal ((if neg then ''-'' else []) @ ds @ t), drop (length t) r)
        else None)"

fun pval :: "nat \<Rightarrow> string \<Rightarrow> (json \<times> string) option"
and pelems :: "nat \<Rightarrow> string \<Rightarrow> (json list \<times> string) option"
and pmembers :: "nat \<Rightarrow> string \<Rightarrow> ((string \<times> json) list \<times> string) option" where
  "pval 0 s = None"
| "pval (Suc n) s = (case skip_ws s of
     [] \<Rightarrow> None
   | c # cs \<Rightarrow>
       if c = quote then map_option (\<lambda>(t, r). (JStr t, r)) (pstr cs)
       else if c = CHR ''['' then
         (case skip_ws cs of
            d # r \<Rightarrow> if d = CHR '']'' then Some (JArr [], r)
              else map_option (\<lambda>(vs, r). (JArr vs, r)) (pelems n cs)
          | [] \<Rightarrow> None)
       else if c = CHR ''{'' then
         (case skip_ws cs of
            d # r \<Rightarrow> if d = CHR ''}'' then Some (JObj [], r)
              else map_option (\<lambda>(ms, r). (JObj ms, r)) (pmembers n cs)
          | [] \<Rightarrow> None)
       else if prefix ''null'' (c # cs) then Some (JNull, drop 4 (c # cs))
       else if prefix ''true'' (c # cs) then Some (JBool True, drop 4 (c # cs))
       else if prefix ''false'' (c # cs) then Some (JBool False, drop 5 (c # cs))
       else pnum (c # cs))"
| "pelems 0 s = None"
| "pelems (Suc n) s = (case pval n s of
     None \<Rightarrow> None
   | Some (v, r) \<Rightarrow>
       (case skip_ws r of
          [] \<Rightarrow> None
        | c # r' \<Rightarrow>
            if c = CHR '']'' then Some ([v], r')
            else if c = CHR '','' then map_option (\<lambda>(vs, t). (v # vs, t)) (pelems n r')
            else None))"
| "pmembers 0 s = None"
| "pmembers (Suc n) s = (case skip_ws s of
     [] \<Rightarrow> None
   | q # r0 \<Rightarrow>
       if q \<noteq> quote then None else
       (case pstr r0 of
          None \<Rightarrow> None
        | Some (k, r1) \<Rightarrow>
            (case skip_ws r1 of
               [] \<Rightarrow> None
             | c # r2 \<Rightarrow>
                 if c \<noteq> CHR '':'' then None else
                 (case pval n r2 of
                    None \<Rightarrow> None
                  | Some (v, r3) \<Rightarrow>
                      (case skip_ws r3 of
                         [] \<Rightarrow> None
                       | d # r4 \<Rightarrow>
                           if d = CHR ''}'' then Some ([(k, v)], r4)
                           else if d = CHR '','' then map_option (\<lambda>(ms, t). ((k, v) # ms, t)) (pmembers n r4)
                           else None)))))"

definition json_parse :: "string \<Rightarrow> json option" where
  "json_parse s = (case pval (2 * length s + 2) s of
     Some (v, r) \<Rightarrow> if skip_ws r = [] then Some v else None
   | None \<Rightarrow> None)"

section \<open>The round trip\<close>

text \<open>Number literals the printer copies must be literals the parser reads back whole.\<close>

definition real_ok :: "string \<Rightarrow> bool" where
  "real_ok t \<longleftrightarrow> pnum t = Some (JReal t, [])"

fun json_ok :: "json \<Rightarrow> bool" where
  "json_ok (JReal t) = real_ok t"
| "json_ok (JArr vs) = list_all json_ok vs"
| "json_ok (JObj ms) = list_all (\<lambda>(k, v). json_ok v) ms"
| "json_ok _ = True"

lemma hex_val_hex_digit [simp]: "n < 16 \<Longrightarrow> hex_val (hex_digit n) = Some n"
  by (simp add: hex_val_def hex_digit_def Let_def)

lemma of_quote [simp]: "(of_char quote :: nat) = 34"
  by (simp add: quote_def)

lemma of_backslash [simp]: "(of_char backslash :: nat) = 92"
  by (simp add: backslash_def)

lemma char_eq_nat: "(c :: char) = d \<longleftrightarrow> (of_char c :: nat) = of_char d"
  by (simp add: of_char_eq_iff)

lemma quote_not_backslash [simp]: "quote \<noteq> backslash" "backslash \<noteq> quote"
  by (simp_all add: char_eq_nat)

lemma pstr_u: "pstr (backslash # CHR ''u'' # a # b # c # d # r) =
    (case hex4 a b c d of None \<Rightarrow> None
     | Some n \<Rightarrow> map_option (\<lambda>(s, t). (utf8 n @ s, t)) (pstr r))"
  by simp

lemma pstr_esc_other: "e \<noteq> CHR ''u'' \<Longrightarrow> unesc e = Some d \<Longrightarrow>
    pstr (backslash # e # r) = map_option (\<lambda>(s, t). (d # s, t)) (pstr r)"
  by simp

lemma pstr_plain: "c \<noteq> quote \<Longrightarrow> c \<noteq> backslash \<Longrightarrow> \<not> (of_char c :: nat) < 32 \<Longrightarrow>
    pstr (c # r) = map_option (\<lambda>(s, t). (c # s, t)) (pstr r)"
  by simp

declare pstr.simps(2) [simp del]

lemma pstr_quote [simp]: "pstr (quote # r) = Some ([], r)"
  by (simp add: pstr.simps)

lemma unesc_simps [simp]:
  "unesc quote = Some quote" "unesc backslash = Some backslash"
  "unesc CHR ''b'' = Some (char_of (8::nat))" "unesc CHR ''f'' = Some (char_of (12::nat))"
  "unesc CHR ''n'' = Some (char_of (10::nat))" "unesc CHR ''r'' = Some (char_of (13::nat))"
  "unesc CHR ''t'' = Some (char_of (9::nat))"
  by (simp_all add: unesc_def char_eq_nat)

lemma pstr_esc_char:
  assumes "pstr r = Some (s, t)"
  shows "pstr (esc_char c @ r) = Some (c # s, t)"
proof -
  define n where "n = (of_char c :: nat)"
  have c: "c = char_of n" by (simp add: n_def)
  have bs: "char_of (92::nat) = backslash" by (simp add: backslash_def)
  have n256: "n < 256" by (simp add: n_def)
  have nu: "quote \<noteq> CHR ''u''" "backslash \<noteq> CHR ''u''" by (simp_all add: char_eq_nat)
  consider "n = 34" | "n = 92" | "n = 8" | "n = 12" | "n = 10" | "n = 13" | "n = 9"
    | (hex) "n < 32 \<or> n = 60 \<or> n = 62 \<or> n = 38"
        "n \<noteq> 8" "n \<noteq> 12" "n \<noteq> 10" "n \<noteq> 13" "n \<noteq> 9"
    | (plain) "n \<noteq> 34" "n \<noteq> 92" "\<not> n < 32" "n \<noteq> 60" "n \<noteq> 62" "n \<noteq> 38"
    by linarith
  then show ?thesis
  proof cases
    case 1
    then have "c = quote" by (simp add: c quote_def)
    with 1 show ?thesis using assms nu pstr_esc_other [of quote]
      by (simp add: esc_char_def Let_def bs)
  next
    case 2
    then have "c = backslash" by (simp add: c backslash_def)
    with 2 show ?thesis using assms nu pstr_esc_other [of backslash]
      by (simp add: esc_char_def Let_def)
  next
    case hex
    then have h: "hex4 CHR ''0'' CHR ''0'' (hex_digit (n div 16)) (hex_digit (n mod 16)) = Some n"
      using n256 by (auto simp: hex4_def hex_val_def [of "CHR ''0''"])
    from hex have "n \<noteq> 34" "n \<noteq> 92" by auto
    with hex have "esc_char c = [backslash, CHR ''u'', CHR ''0'', CHR ''0'', hex_digit (n div 16), hex_digit (n mod 16)]"
      by (auto simp: esc_char_def Let_def bs simp flip: n_def)
    moreover have "utf8 n = [c]" using hex by (auto simp: utf8_def c)
    ultimately show ?thesis using assms h by (simp add: pstr_u del: pstr.simps)
  next
    case plain
    then have "c \<noteq> quote" "c \<noteq> backslash" by (auto simp: char_eq_nat simp flip: n_def)
    moreover have "esc_char c = [c]" using plain by (simp add: esc_char_def Let_def flip: n_def)
    ultimately show ?thesis using assms plain pstr_plain [of c r] by (simp flip: n_def)
  qed (use assms in \<open>simp_all add: esc_char_def Let_def bs c pstr_esc_other\<close>)
qed

lemma pstr_jstr: "pstr (concat (map esc_char s) @ quote # r) = Some (s, r)"
  by (induction s) (simp_all add: pstr_esc_char)

text \<open>What may follow a value: the end, a comma, a closing bracket or white space.\<close>

definition ends_value :: "string \<Rightarrow> bool" where
  "ends_value r \<longleftrightarrow> (case r of [] \<Rightarrow> True | c # _ \<Rightarrow> \<not> is_num_char c)"

lemma ends_value_simps [simp]:
  "ends_value []" "ends_value (CHR '']'' # r)" "ends_value (CHR ''}'' # r)" "ends_value (CHR '','' # r)"
  by (simp_all add: ends_value_def is_num_char_def is_digit_def)

lemma takeWhile_ends_value: "ends_value r \<Longrightarrow> takeWhile is_num_char r = []"
  by (cases r) (auto simp: ends_value_def)

lemma takeWhile_digit_ends: "ends_value r \<Longrightarrow> takeWhile is_digit (s @ r) = takeWhile is_digit s"
  by (induction s) (auto simp: ends_value_def is_num_char_def split: list.splits)

lemma takeWhile_all: "list_all P s \<Longrightarrow> takeWhile P s = s"
  by (induction s) auto

lemma show_nat_zero [simp]: "show_nat 0 = ''0''"
  by (subst show_nat.simps) (simp add: char_eq_nat)

lemma pnum_digits:
  assumes "ends_value r"
  shows "(let ds0 = takeWhile is_digit (show_nat n @ r)
          in case ds0 of [] \<Rightarrow> [] | d # _ \<Rightarrow> if d = CHR ''0'' then [d] else ds0) = show_nat n"
proof -
  have t: "takeWhile is_digit (show_nat n @ r) = show_nat n"
    by (simp add: takeWhile_digit_ends assms takeWhile_all show_nat_digits)
  show ?thesis
  proof (cases "n = 0")
    case False
    then show ?thesis using show_nat_hd [of n] unfolding t by (cases "show_nat n") auto
  qed (use t in simp)
qed

lemma pnum_FormatInt:
  assumes "ends_value r"
  shows "pnum (FormatInt i @ r) = Some (JNum i, r)"
proof (cases "i < 0")
  case True
  then show ?thesis using pnum_digits [OF assms, of "nat (- i)"] takeWhile_ends_value [OF assms]
    by (simp add: FormatInt_def pnum_def Let_def)
next
  case False
  obtain c t where ct: "show_nat (nat i) = c # t" by (cases "show_nat (nat i)") auto
  then have "c \<noteq> CHR ''-''" using is_digit_hd_show_nat [of "nat i"] by auto
  moreover have "read_nat (c # t) = nat i" using ct by (metis read_show_nat)
  ultimately show ?thesis
    using pnum_digits [OF assms, of "nat i"] takeWhile_ends_value [OF assms] False
    by (simp add: FormatInt_def pnum_def Let_def ct del: takeWhile.simps)
qed

text \<open>A real ends where the number before it does: the sign, the digits and the rest are read alike.\<close>

definition num_sign :: "string \<Rightarrow> bool \<times> string" where
  "num_sign s = (case s of [] \<Rightarrow> (False, []) | c # r \<Rightarrow> if c = CHR ''-'' then (True, r) else (False, s))"

definition num_digits :: "string \<Rightarrow> string" where
  "num_digits u = (case takeWhile is_digit u of [] \<Rightarrow> [] | d # _ \<Rightarrow> if d = CHR ''0'' then [d] else takeWhile is_digit u)"

definition num_rest :: "bool \<Rightarrow> string \<Rightarrow> string \<Rightarrow> (json \<times> string) option" where
  "num_rest neg ds r = (if ds = [] then None
     else if takeWhile is_num_char r = [] then Some (JNum (if neg then - int (read_nat ds) else int (read_nat ds)), r)
     else if frac_exp_ok (takeWhile is_num_char r)
     then Some (JReal ((if neg then ''-'' else []) @ ds @ takeWhile is_num_char r), dropWhile is_num_char r) else None)"

lemma drop_takeWhile: "drop (length (takeWhile P xs)) xs = dropWhile P xs"
  by (induction xs) auto

lemma pnum_parts: "pnum s = (case num_sign s of (neg, u) \<Rightarrow> num_rest neg (num_digits u) (drop (length (num_digits u)) u))"
  unfolding pnum_def num_sign_def num_digits_def num_rest_def Let_def drop_takeWhile ..

lemma num_digits_le: "length (num_digits u) \<le> length u"
proof (cases "takeWhile is_digit u")
  case (Cons d ds)
  then show ?thesis using length_takeWhile_le [of is_digit u] by (simp add: num_digits_def)
qed (simp add: num_digits_def)

lemma pnum_real:
  assumes "real_ok t" "ends_value r"
  shows "pnum (t @ r) = Some (JReal t, r)"
proof -
  obtain neg u where u: "num_sign t = (neg, u)" by fastforce
  define x where "x = drop (length (num_digits u)) u"
  have "t \<noteq> []" using assms(1) by (auto simp: real_ok_def pnum_parts num_sign_def num_digits_def num_rest_def)
  then have u': "num_sign (t @ r) = (neg, u @ r)" using u by (cases t) (auto simp: num_sign_def split: if_splits)
  have ds: "num_digits (u @ r) = num_digits u"
    unfolding num_digits_def takeWhile_digit_ends [OF assms(2)] ..
  have t: "num_rest neg (num_digits u) x = Some (JReal t, [])"
    using assms(1) u by (simp add: real_ok_def pnum_parts x_def)
  then have all: "\<forall>c\<in>set x. is_num_char c" by (auto simp: num_rest_def split: if_splits)
  then have tw: "takeWhile is_num_char (x @ r) = x" "takeWhile is_num_char x = x" "dropWhile is_num_char (x @ r) = r"
    using takeWhile_ends_value [OF assms(2)] by (auto simp: takeWhile_append2 dropWhile_append2 takeWhile_eq_Nil_iff dropWhile_eq_self_iff)
  have "pnum (t @ r) = num_rest neg (num_digits u) (x @ r)"
    using u' ds num_digits_le [of u] by (simp add: pnum_parts x_def)
  also have "\<dots> = Some (JReal t, r)" using t by (auto simp: num_rest_def tw split: if_splits)
  finally show ?thesis .
qed

lemma real_chars:
  assumes "real_ok t" "c \<in> set t"
  shows "is_num_char c"
proof -
  obtain neg u where u: "num_sign t = (neg, u)" by fastforce
  have t: "t = (if neg then ''-'' else []) @ num_digits u @ takeWhile is_num_char (drop (length (num_digits u)) u)"
    using assms(1) u by (auto simp: real_ok_def pnum_parts num_rest_def split: if_splits)
  have "is_digit d" if "d \<in> set (num_digits u)" for d
    using that by (auto simp: num_digits_def split: list.splits if_splits dest: set_takeWhileD)
      (metis list.set_intros(1) set_takeWhileD)
  then have "\<forall>d\<in>set ((if neg then ''-'' else []) @ num_digits u @ takeWhile is_num_char (drop (length (num_digits u)) u)). is_num_char d"
    by (auto simp: is_num_char_def dest: set_takeWhileD)
  then show ?thesis using assms(2) t by metis
qed

fun jsize :: "json \<Rightarrow> nat" and jsizes :: "json list \<Rightarrow> nat" and jsizem :: "(string \<times> json) list \<Rightarrow> nat" where
  "jsize (JArr vs) = Suc (jsizes vs)"
| "jsize (JObj ms) = Suc (jsizem ms)"
| "jsize _ = 1"
| "jsizes [] = 0"
| "jsizes (v # vs) = Suc (jsize v + jsizes vs)"
| "jsizem [] = 0"
| "jsizem ((k, v) # ms) = Suc (jsize v + jsizem ms)"

lemma is_ws_simps [simp]:
  "\<not> is_ws quote" "\<not> is_ws CHR ''[''" "\<not> is_ws CHR '']''" "\<not> is_ws CHR ''{''" "\<not> is_ws CHR ''}''"
  "\<not> is_ws CHR '',''" "\<not> is_ws CHR '':''" "\<not> is_ws CHR ''-''" "\<not> is_ws CHR ''n''"
  "\<not> is_ws CHR ''t''" "\<not> is_ws CHR ''f''"
  by (simp_all add: is_ws_def char_eq_nat)

lemma quote_neqs [simp]:
  "quote \<noteq> CHR ''[''" "quote \<noteq> CHR '']''" "quote \<noteq> CHR ''{''" "quote \<noteq> CHR ''}''"
  "CHR ''['' \<noteq> quote" "CHR '']'' \<noteq> quote" "CHR ''{'' \<noteq> quote" "CHR ''}'' \<noteq> quote"
  "CHR ''n'' \<noteq> quote" "CHR ''t'' \<noteq> quote" "CHR ''f'' \<noteq> quote" "CHR ''-'' \<noteq> quote"
  by (simp_all add: char_eq_nat)

definition starts_value :: "char \<Rightarrow> bool" where
  "starts_value c \<longleftrightarrow> \<not> is_ws c \<and> c \<noteq> CHR '']'' \<and> c \<noteq> CHR ''}''"

lemma digit_starts: "is_digit c \<Longrightarrow> starts_value c \<and> c \<noteq> quote \<and> c \<noteq> CHR ''['' \<and> c \<noteq> CHR ''{''
    \<and> c \<noteq> CHR ''n'' \<and> c \<noteq> CHR ''t'' \<and> c \<noteq> CHR ''f''"
  by (auto simp: starts_value_def is_digit_def is_ws_def char_eq_nat)

lemma FormatInt_start: "\<exists>c t. FormatInt i = c # t \<and> (is_digit c \<or> c = CHR ''-'')"
proof (cases "i < 0")
  case False
  then show ?thesis using is_digit_hd_show_nat [of "nat i"] show_nat_not_Nil [of "nat i"]
    by (cases "show_nat (nat i)") (auto simp: FormatInt_def simp del: show_nat_not_Nil)
qed (simp add: FormatInt_def)

lemma real_start:
  assumes "real_ok t"
  shows "\<exists>c w. t = c # w \<and> (is_digit c \<or> c = CHR ''-'')"
proof (cases t)
  case (Cons c w)
  have "is_digit c \<or> c = CHR ''-''"
  proof (rule ccontr)
    assume "\<not> (is_digit c \<or> c = CHR ''-'')"
    then have "pnum t = None" by (simp add: pnum_def Cons)
    then show False using assms by (simp add: real_ok_def)
  qed
  then show ?thesis using Cons by blast
qed (use assms in \<open>simp add: real_ok_def pnum_def\<close>)

lemma jprint_start:
  assumes "json_ok v"
  shows "\<exists>c t. jprint v = c # t \<and> starts_value c"
proof (cases v)
  case (JNum i)
  then show ?thesis using FormatInt_start [of i] digit_starts
    by (auto simp: starts_value_def is_ws_def)
next
  case (JReal t)
  then obtain c w where "t = c # w" "is_digit c \<or> c = CHR ''-''" using real_start [of t] assms by auto
  then show ?thesis using JReal digit_starts [of c] by (auto simp: starts_value_def)
qed (use assms in \<open>auto simp: starts_value_def jstr_def\<close>)

lemma skip_ws_start: "starts_value c \<Longrightarrow> skip_ws (c # t) = c # t"
  by (simp add: starts_value_def)

lemma skip_ws_delims [simp]:
  "skip_ws (CHR '']'' # r) = CHR '']'' # r" "skip_ws (CHR ''}'' # r) = CHR ''}'' # r"
  "skip_ws (CHR '','' # r) = CHR '','' # r" "skip_ws (CHR '':'' # r) = CHR '':'' # r"
  "skip_ws (CHR ''['' # r) = CHR ''['' # r" "skip_ws (CHR ''{'' # r) = CHR ''{'' # r"
  "skip_ws (quote # r) = quote # r"
  by simp_all

lemma pval_number:
  assumes "s = c # t" "is_digit c \<or> c = CHR ''-''"
  shows "pval (Suc n) (s @ r) = pnum (s @ r)"
proof -
  have "starts_value c" "c \<noteq> quote" "c \<noteq> CHR ''['' \<and> c \<noteq> CHR ''{'' \<and> c \<noteq> CHR ''n'' \<and> c \<noteq> CHR ''t'' \<and> c \<noteq> CHR ''f''"
    using assms(2) digit_starts [of c] by (auto simp: starts_value_def is_ws_def char_eq_nat)
  then show ?thesis by (auto simp: assms(1) starts_value_def)
qed

lemma pval_num: "ends_value r \<Longrightarrow> pval (Suc n) (FormatInt i @ r) = Some (JNum i, r)"
  using FormatInt_start [of i] pval_number pnum_FormatInt by metis

lemma pval_real: "real_ok t \<Longrightarrow> ends_value r \<Longrightarrow> pval (Suc n) (t @ r) = Some (JReal t, r)"
  using real_start [of t] pval_number pnum_real by metis

lemma pval_jstr: "pval (Suc n) (jstr s @ r) = Some (JStr s, r)"
  by (simp add: jstr_def pstr_jstr)

lemma pval_lits:
  "pval (Suc n) (''null'' @ r) = Some (JNull, r)"
  "pval (Suc n) (''true'' @ r) = Some (JBool True, r)"
  "pval (Suc n) (''false'' @ r) = Some (JBool False, r)"
  by simp_all

lemma pval_arr: "vs \<noteq> [] \<Longrightarrow> list_all json_ok vs \<Longrightarrow>
    pelems n (jprint_elems vs @ r) = Some (vs, r) \<Longrightarrow> pval (Suc n) (jprint (JArr vs) @ r) = Some (JArr vs, r)"
proof -
  assume ne: "vs \<noteq> []" and nr: "list_all json_ok vs" and p: "pelems n (jprint_elems vs @ r) = Some (vs, r)"
  obtain v ws where vs: "vs = v # ws" using ne by (cases vs) auto
  obtain c t where ct: "jprint v = c # t" "starts_value c" using jprint_start [of v] nr vs by auto
  then have "\<exists>u. jprint_elems vs = c # u" by (cases ws) (auto simp: vs)
  then obtain u where u: "jprint_elems vs = c # u" ..
  have "skip_ws (c # u @ r) = c # u @ r" by (rule skip_ws_start [OF ct(2)])
  then show ?thesis using ct(2) p u by (simp add: starts_value_def char_eq_nat)
qed

lemma pval_obj: "ms \<noteq> [] \<Longrightarrow>
    pmembers n (jprint_members ms @ r) = Some (ms, r) \<Longrightarrow> pval (Suc n) (jprint (JObj ms) @ r) = Some (JObj ms, r)"
proof -
  assume ne: "ms \<noteq> []" and p: "pmembers n (jprint_members ms @ r) = Some (ms, r)"
  obtain k v ns where ms: "ms = (k, v) # ns" using ne by (cases ms) auto
  have "\<exists>u. jprint_members ms = quote # u" by (cases ns) (auto simp: ms jstr_def)
  then obtain u where u: "jprint_members ms = quote # u" ..
  then show ?thesis using p by (simp add: char_eq_nat)
qed

lemma pval_jprint:
  "json_ok v \<Longrightarrow> ends_value r \<Longrightarrow> jsize v \<le> n \<Longrightarrow> pval n (jprint v @ r) = Some (v, r)"
  and pelems_jprint:
  "vs \<noteq> [] \<Longrightarrow> list_all json_ok vs \<Longrightarrow> jsizes vs \<le> n \<Longrightarrow> pelems n (jprint_elems vs @ r) = Some (vs, r)"
  and pmembers_jprint:
  "ms \<noteq> [] \<Longrightarrow> list_all (\<lambda>(k, v). json_ok v) ms \<Longrightarrow> jsizem ms \<le> n \<Longrightarrow>
     pmembers n (jprint_members ms @ r) = Some (ms, r)"
proof (induction v and vs and ms arbitrary: n r and n r and n r rule: jprint_jprint_elems_jprint_members.induct)
  case 1 then show ?case using pval_lits(1) by (cases n) auto
next
  case (2 b) then show ?case using pval_lits(2,3) by (cases n; cases b) auto
next
  case (3 i) then show ?case using pval_num by (cases n) auto
next
  case (4 t) then show ?case using pval_real by (cases n) auto
next
  case (5 s) then show ?case using pval_jstr by (cases n) auto
next
  case (6 vs)
  then obtain m where n: "n = Suc m" "jsizes vs \<le> m" by (cases n) auto
  show ?case
  proof (cases "vs = []")
    case False
    then show ?thesis using pval_arr [OF False] 6 n by simp
  qed (simp add: n char_eq_nat)
next
  case (7 ms)
  then obtain m where n: "n = Suc m" "jsizem ms \<le> m" by (cases n) auto
  show ?case
  proof (cases "ms = []")
    case False
    then show ?thesis using pval_obj [OF False] 7 n by simp
  qed (simp add: n char_eq_nat)
next
  case (9 v)
  then obtain m where n: "n = Suc m" "jsize v \<le> m" by (cases n) auto
  then show ?case using 9 by simp
next
  case (10 v w vs)
  then obtain m where n: "n = Suc m" "jsize v \<le> m" "jsizes (w # vs) \<le> m" by (cases n) auto
  then show ?case using 10 by simp
next
  case (12 k v)
  then obtain m where n: "n = Suc m" "jsize v \<le> m" by (cases n) auto
  then show ?case using 12 by (simp add: jstr_def pstr_jstr)
next
  case (13 k v k2 ms)
  then obtain m where n: "n = Suc m" "jsize v \<le> m" "jsizem (k2 # ms) \<le> m" by (cases n) auto
  then show ?case using 13 by (simp add: jstr_def pstr_jstr)
qed simp_all

lemma jsize_le_length:
  "json_ok v \<Longrightarrow> jsize v \<le> length (jprint v)"
  "vs \<noteq> [] \<Longrightarrow> list_all json_ok vs \<Longrightarrow> jsizes vs \<le> length (jprint_elems vs)"
  "ms \<noteq> [] \<Longrightarrow> list_all (\<lambda>(k, v). json_ok v) ms \<Longrightarrow> jsizem ms \<le> length (jprint_members ms)"
proof (induction v and vs and ms rule: jprint_jprint_elems_jprint_members.induct)
  case (3 i) then show ?case using FormatInt_start [of i] by auto
next
  case (4 t) then show ?case using real_start [of t] by auto
next
  case (6 vs) then show ?case by (cases "vs = []") auto
next
  case (7 ms) then show ?case by (cases "ms = []") auto
qed (auto simp: jstr_def)

theorem json_parse_jprint: "json_ok v \<Longrightarrow> json_parse (jprint v) = Some v"
proof -
  assume nr: "json_ok v"
  have "jsize v \<le> 2 * length (jprint v) + 2" using jsize_le_length(1) [OF nr] by simp
  then have "pval (2 * length (jprint v) + 2) (jprint v @ []) = Some (v, [])"
    by (intro pval_jprint nr) simp_all
  then show ?thesis by (simp add: json_parse_def)
qed

section \<open>Decoding into \<open>map[string]any\<close>\<close>

text \<open>
  A number decoded into \<open>any\<close> becomes a \<open>float64\<close>: 53 significant bits, rounded to
  nearest, ties to even. Only integers below \<open>10 ^ 21\<close>, which \<open>json.Marshal\<close> prints back
  without an exponent, are considered.
\<close>

fun bitlen :: "nat \<Rightarrow> nat" where
  "bitlen n = (if n = 0 then 0 else Suc (bitlen (n div 2)))"

declare bitlen.simps [simp del]

definition f64_nat :: "nat \<Rightarrow> nat" where
  "f64_nat n = (if bitlen n \<le> 53 then n
     else let k = bitlen n - 53; q = n div 2 ^ k; r = n mod 2 ^ k; half = 2 ^ (k - 1)
          in (if r > half \<or> (r = half \<and> odd q) then q + 1 else q) * 2 ^ k)"

definition f64 :: "int \<Rightarrow> int" where
  "f64 i = (if i < 0 then - int (f64_nat (nat (- i))) else int (f64_nat (nat i)))"

fun map_insert :: "string \<Rightarrow> json \<Rightarrow> (string \<times> json) list \<Rightarrow> (string \<times> json) list" where
  "map_insert k v [] = [(k, v)]"
| "map_insert k v ((k', v') # ms) =
     (if k = k' then (k, v) # ms
      else if k < k' then (k, v) # (k', v') # ms
      else (k', v') # map_insert k v ms)"

fun any_members :: "(string \<times> json) list \<Rightarrow> (string \<times> json) list \<Rightarrow> (string \<times> json) list" where
  "any_members acc [] = acc"
| "any_members acc ((k, v) # ms) = any_members (map_insert k v acc) ms"

fun any_value :: "json \<Rightarrow> json" where
  "any_value (JNum i) = JNum (f64 i)"
| "any_value (JArr vs) = JArr (map any_value vs)"
| "any_value (JObj ms) = JObj (any_members [] (map (\<lambda>(k, v). (k, any_value v)) ms))"
| "any_value v = v"

lemma bitlen_le: "n < 2 ^ m \<Longrightarrow> bitlen n \<le> m"
proof (induction n arbitrary: m rule: bitlen.induct)
  case (1 n)
  show ?case
  proof (cases "n = 0")
    case False
    then obtain k where m: "m = Suc k" using "1.prems" by (cases m) auto
    then have "n div 2 < 2 ^ k" using "1.prems" by simp
    then show ?thesis using "1.IH" [OF False] False m by (subst bitlen.simps) simp
  qed (simp add: bitlen.simps)
qed

lemma bitlen_pow: "bitlen (2 ^ m) = Suc m"
proof (induction m)
  case 0
  then show ?case by (simp add: bitlen.simps)
next
  case (Suc m)
  then show ?case by (subst bitlen.simps) simp
qed

lemma f64_nat_exact: "n \<le> 2 ^ 53 \<Longrightarrow> f64_nat n = n"
proof (cases "n = 2 ^ 53")
  case True
  then show ?thesis using bitlen_pow [of 53] by (simp add: f64_nat_def)
next
  case False
  assume "n \<le> 2 ^ 53"
  with False have "n < 2 ^ 53" by simp
  then show ?thesis using bitlen_le [of n 53] by (simp add: f64_nat_def)
qed

definition exact64 :: "int \<Rightarrow> bool" where
  "exact64 i \<longleftrightarrow> \<bar>i\<bar> \<le> 2 ^ 53"

lemma f64_exact: "exact64 i \<Longrightarrow> f64 i = i"
  by (auto simp: f64_def exact64_def f64_nat_exact nat_le_iff)

lemma f64_rounds: "f64 (2 ^ 53 + 1) = 2 ^ 53"
  by (simp add: f64_def f64_nat_def bitlen.simps Let_def)

lemma any_value_json_ok: "json_ok v \<Longrightarrow> json_ok (any_value v)"
proof (induction v rule: any_value.induct)
  case (3 ms)
  have ins: "list_all (\<lambda>(k, v). json_ok v) ms' \<Longrightarrow> json_ok v \<Longrightarrow>
      list_all (\<lambda>(k, v). json_ok v) (map_insert k v ms')" for k v ms'
    by (induction k v ms' rule: map_insert.induct) auto
  have "json_ok (JObj acc) \<Longrightarrow> json_ok (JObj ns) \<Longrightarrow> json_ok (JObj (any_members acc ns))" for acc ns
    by (induction acc ns rule: any_members.induct) (auto simp: ins)
  moreover have "json_ok (JObj (map (\<lambda>(k, v). (k, any_value v)) ms))"
    using 3 by (auto simp: list_all_iff split: prod.splits)
  ultimately show ?case by auto
qed (auto simp: list_all_iff)

end
