(* ===== verification/Jobs.thy ===== *)
theory Jobs
  imports Json
begin

text \<open>
  The queue payloads: \<open>QueueJob\<close>, \<open>Repository\<close> and \<open>SimplifiedWorkflowJob\<close> of
  \<open>internal/github/config.go\<close>, \<open>VM\<close> of \<open>internal/anka/vm.go\<close>, their JSON form (the struct tags
  and \<open>Repository.UnmarshalJSON\<close>) and \<open>Unwrap[QueueJob]\<close> of \<open>internal/database/database.go\<close>.
  A nil pointer is \<open>None\<close>; a \<open>github.Timestamp\<close>, whose (un)marshalling is third-party code, is
  its JSON value. \<open>*string\<close> and \<open>*int64\<close> fields are options, \<open>int\<close> and \<open>int64\<close> are integers
  whose 64-bit range the decoder checks, \<open>uint64\<close> is a 64-bit word.
\<close>

section \<open>The structs\<close>

record VM =
  VMName :: string
  CPUCount :: int
  MEMBytes :: "64 word"

record Repository =
  RepoName :: "string option"
  RepoOwner :: "string option"
  RepoVisibility :: "string option"
  RepoPrivate :: "bool option"

record SimplifiedWorkflowJob =
  ID :: "int option"
  JobName :: "string option"
  RunID :: "int option"
  Status :: "string option"
  Conclusion :: "string option"
  StartedAt :: "json option"
  CompletedAt :: "json option"
  Labels :: "string list option"
  HTMLURL :: "string option"
  WorkflowName :: "string option"

record QueueJob =
  Type :: string
  WorkflowJob :: SimplifiedWorkflowJob
  AnkaVM :: VM
  Repo :: Repository
  Action :: string
  PausedOn :: string
  Attempts :: int

definition zero_VM :: VM where
  "zero_VM = \<lparr>VMName = [], CPUCount = 0, MEMBytes = 0\<rparr>"

definition zero_Repository :: Repository where
  "zero_Repository = \<lparr>RepoName = None, RepoOwner = None, RepoVisibility = None, RepoPrivate = None\<rparr>"

definition zero_WorkflowJob :: SimplifiedWorkflowJob where
  "zero_WorkflowJob = \<lparr>ID = None, JobName = None, RunID = None, Status = None, Conclusion = None,
     StartedAt = None, CompletedAt = None, Labels = None, HTMLURL = None, WorkflowName = None\<rparr>"

definition zero_QueueJob :: QueueJob where
  "zero_QueueJob = \<lparr>Type = [], WorkflowJob = zero_WorkflowJob, AnkaVM = zero_VM,
     Repo = zero_Repository, Action = [], PausedOn = [], Attempts = 0\<rparr>"

lemmas zero_defs = zero_VM_def zero_Repository_def zero_WorkflowJob_def zero_QueueJob_def

text \<open>\<open>QueueJob{Action: a}\<close>, the notification the plugin sends to itself.\<close>

definition action_job :: "string \<Rightarrow> QueueJob" where
  "action_job a = zero_QueueJob\<lparr>Action := a\<rparr>"

abbreviation labels_of :: "QueueJob \<Rightarrow> string list" where
  "labels_of j \<equiv> (case Labels (WorkflowJob j) of None \<Rightarrow> [] | Some ls \<Rightarrow> ls)"

text \<open>\<open>RepositoryOwnerAndName\<close>.\<close>

definition RepositoryOwnerAndName :: "QueueJob \<Rightarrow> (string \<times> string) result" where
  "RepositoryOwnerAndName q =
     (case RepoOwner (Repo q) of
        None \<Rightarrow> Inl (Errorf ''job repository owner is missing'')
      | Some ow \<Rightarrow>
          if ow = [] then Inl (Errorf ''job repository owner is missing'')
          else (case RepoName (Repo q) of
             None \<Rightarrow> Inl (Errorf ''job repository name is missing'')
           | Some n \<Rightarrow> if n = [] then Inl (Errorf ''job repository name is missing'') else Inr (ow, n)))"

section \<open>Marshalling\<close>

definition opt_json :: "('a \<Rightarrow> json) \<Rightarrow> 'a option \<Rightarrow> json" where
  "opt_json f x = (case x of None \<Rightarrow> JNull | Some a \<Rightarrow> f a)"

definition enc_VM :: "VM \<Rightarrow> json" where
  "enc_VM v = JObj [(''name'', JStr (VMName v)), (''cpu_cores'', JNum (CPUCount v)),
     (''ram_size'', JNum (uint (MEMBytes v)))]"

definition enc_Repository :: "Repository \<Rightarrow> json" where
  "enc_Repository r = JObj [(''name'', opt_json JStr (RepoName r)), (''owner'', opt_json JStr (RepoOwner r)),
     (''visibility'', opt_json JStr (RepoVisibility r)), (''private'', opt_json JBool (RepoPrivate r))]"

definition enc_WorkflowJob :: "SimplifiedWorkflowJob \<Rightarrow> json" where
  "enc_WorkflowJob w = JObj [(''id'', opt_json JNum (ID w)), (''name'', opt_json JStr (JobName w)),
     (''run_id'', opt_json JNum (RunID w)), (''status'', opt_json JStr (Status w)),
     (''conclusion'', opt_json JStr (Conclusion w)), (''started_at'', opt_json id (StartedAt w)),
     (''completed_at'', opt_json id (CompletedAt w)),
     (''labels'', opt_json (\<lambda>ls. JArr (map JStr ls)) (Labels w)),
     (''html_url'', opt_json JStr (HTMLURL w)), (''workflow_name'', opt_json JStr (WorkflowName w))]"

definition enc_QueueJob :: "QueueJob \<Rightarrow> json" where
  "enc_QueueJob j = JObj [(''type'', JStr (Type j)), (''workflow_job'', enc_WorkflowJob (WorkflowJob j)),
     (''anka_vm'', enc_VM (AnkaVM j)), (''repository'', enc_Repository (Repo j)),
     (''action'', JStr (Action j)), (''paused_on'', JStr (PausedOn j)), (''attempts'', JNum (Attempts j))]"

definition MarshalJob :: "QueueJob \<Rightarrow> string" where
  "MarshalJob j = jprint (enc_QueueJob j)"

section \<open>Unmarshalling\<close>

definition mismatch :: gerror where
  "mismatch = Errorf ''json: cannot unmarshal''"

fun dec_string :: "string \<Rightarrow> json \<Rightarrow> string result" where
  "dec_string cur (JStr s) = Inr s"
| "dec_string cur JNull = Inr cur"
| "dec_string cur _ = Inl mismatch"

fun dec_int :: "int \<Rightarrow> json \<Rightarrow> int result" where
  "dec_int cur (JNum i) = (if int64_ok i then Inr i else Inl mismatch)"
| "dec_int cur JNull = Inr cur"
| "dec_int cur _ = Inl mismatch"

fun dec_uint64 :: "64 word \<Rightarrow> json \<Rightarrow> 64 word result" where
  "dec_uint64 cur (JNum i) = (if 0 \<le> i \<and> i < 2 ^ 64 then Inr (word_of_int i) else Inl mismatch)"
| "dec_uint64 cur JNull = Inr cur"
| "dec_uint64 cur _ = Inl mismatch"

fun dec_bool :: "json \<Rightarrow> bool result" where
  "dec_bool (JBool b) = Inr b"
| "dec_bool _ = Inl mismatch"

text \<open>A pointer field: \<open>null\<close> is nil, any other value is decoded into a fresh target.\<close>

definition dec_ptr :: "(json \<Rightarrow> 'a result) \<Rightarrow> json \<Rightarrow> 'a option result" where
  "dec_ptr f v = (if v = JNull then Inr None else map_sum id Some (f v))"

fun dec_strings :: "json list \<Rightarrow> string list result" where
  "dec_strings [] = Inr []"
| "dec_strings (v # vs) = (case dec_string [] v of Inl e \<Rightarrow> Inl e
     | Inr s \<Rightarrow> map_sum id (Cons s) (dec_strings vs))"

fun dec_string_slice :: "json \<Rightarrow> string list result" where
  "dec_string_slice (JArr vs) = dec_strings vs"
| "dec_string_slice _ = Inl mismatch"

fun dec_members :: "(string \<Rightarrow> json \<Rightarrow> 'a \<Rightarrow> 'a result) \<Rightarrow> 'a \<Rightarrow> (string \<times> json) list \<Rightarrow> 'a result" where
  "dec_members f t [] = Inr t"
| "dec_members f t ((k, v) # ms) =
     (case f (ToLower k) v t of Inl e \<Rightarrow> Inl e | Inr t' \<Rightarrow> dec_members f t' ms)"

fun dec_struct :: "(string \<Rightarrow> json \<Rightarrow> 'a \<Rightarrow> 'a result) \<Rightarrow> 'a \<Rightarrow> json \<Rightarrow> 'a result" where
  "dec_struct f t JNull = Inr t"
| "dec_struct f t (JObj ms) = dec_members f t ms"
| "dec_struct f t _ = Inl mismatch"

definition set_VM :: "string \<Rightarrow> json \<Rightarrow> VM \<Rightarrow> VM result" where
  "set_VM k v t =
     (if k = ''name'' then map_sum id (\<lambda>s. t\<lparr>VMName := s\<rparr>) (dec_string (VMName t) v)
      else if k = ''cpu_cores'' then map_sum id (\<lambda>i. t\<lparr>CPUCount := i\<rparr>) (dec_int (CPUCount t) v)
      else if k = ''ram_size'' then map_sum id (\<lambda>i. t\<lparr>MEMBytes := i\<rparr>) (dec_uint64 (MEMBytes t) v)
      else Inr t)"

text \<open>
  \<open>Repository.UnmarshalJSON\<close>: the owner may be absent, \<open>null\<close>, a string, or an object with a
  \<open>login\<close>; the other fields are decoded as usual.
\<close>

definition dec_owner :: "json \<Rightarrow> string option result" where
  "dec_owner v = (case v of
     JNull \<Rightarrow> Inr None
   | JStr s \<Rightarrow> Inr (Some s)
   | _ \<Rightarrow> (case dec_struct (\<lambda>k w t. if k = ''login'' then dec_ptr (dec_string []) w else Inr t) None v of
        Inl e \<Rightarrow> Inl (Errorf (''cannot unmarshal repository owner: '' @ Error e))
      | Inr l \<Rightarrow> Inr l))"

definition set_Repository :: "string \<Rightarrow> json \<Rightarrow> Repository \<Rightarrow> Repository result" where
  "set_Repository k v t =
     (if k = ''name'' then map_sum id (\<lambda>s. t\<lparr>RepoName := s\<rparr>) (dec_ptr (dec_string []) v)
      else if k = ''owner'' then map_sum id (\<lambda>s. t\<lparr>RepoOwner := s\<rparr>) (dec_owner v)
      else if k = ''visibility'' then map_sum id (\<lambda>s. t\<lparr>RepoVisibility := s\<rparr>) (dec_ptr (dec_string []) v)
      else if k = ''private'' then map_sum id (\<lambda>s. t\<lparr>RepoPrivate := s\<rparr>) (dec_ptr dec_bool v)
      else Inr t)"

definition set_WorkflowJob :: "string \<Rightarrow> json \<Rightarrow> SimplifiedWorkflowJob \<Rightarrow> SimplifiedWorkflowJob result" where
  "set_WorkflowJob k v t =
     (if k = ''id'' then map_sum id (\<lambda>i. t\<lparr>ID := i\<rparr>) (dec_ptr (dec_int 0) v)
      else if k = ''name'' then map_sum id (\<lambda>s. t\<lparr>JobName := s\<rparr>) (dec_ptr (dec_string []) v)
      else if k = ''run_id'' then map_sum id (\<lambda>i. t\<lparr>RunID := i\<rparr>) (dec_ptr (dec_int 0) v)
      else if k = ''status'' then map_sum id (\<lambda>s. t\<lparr>Status := s\<rparr>) (dec_ptr (dec_string []) v)
      else if k = ''conclusion'' then map_sum id (\<lambda>s. t\<lparr>Conclusion := s\<rparr>) (dec_ptr (dec_string []) v)
      else if k = ''started_at'' then map_sum id (\<lambda>s. t\<lparr>StartedAt := s\<rparr>) (dec_ptr Inr v)
      else if k = ''completed_at'' then map_sum id (\<lambda>s. t\<lparr>CompletedAt := s\<rparr>) (dec_ptr Inr v)
      else if k = ''labels'' then map_sum id (\<lambda>ls. t\<lparr>Labels := ls\<rparr>) (dec_ptr dec_string_slice v)
      else if k = ''html_url'' then map_sum id (\<lambda>s. t\<lparr>HTMLURL := s\<rparr>) (dec_ptr (dec_string []) v)
      else if k = ''workflow_name'' then map_sum id (\<lambda>s. t\<lparr>WorkflowName := s\<rparr>) (dec_ptr (dec_string []) v)
      else Inr t)"

definition set_QueueJob :: "string \<Rightarrow> json \<Rightarrow> QueueJob \<Rightarrow> QueueJob result" where
  "set_QueueJob k v t =
     (if k = ''type'' then map_sum id (\<lambda>s. t\<lparr>Type := s\<rparr>) (dec_string (Type t) v)
      else if k = ''workflow_job'' then map_sum id (\<lambda>w. t\<lparr>WorkflowJob := w\<rparr>) (dec_struct set_WorkflowJob (WorkflowJob t) v)
      else if k = ''anka_vm'' then map_sum id (\<lambda>w. t\<lparr>AnkaVM := w\<rparr>) (dec_struct set_VM (AnkaVM t) v)
      else if k = ''repository'' then map_sum id (\<lambda>w. t\<lparr>Repo := w\<rparr>) (dec_struct set_Repository (Repo t) v)
      else if k = ''action'' then map_sum id (\<lambda>s. t\<lparr>Action := s\<rparr>) (dec_string (Action t) v)
      else if k = ''paused_on'' then map_sum id (\<lambda>s. t\<lparr>PausedOn := s\<rparr>) (dec_string (PausedOn t) v)
      else if k = ''attempts'' then map_sum id (\<lambda>i. t\<lparr>Attempts := i\<rparr>) (dec_int (Attempts t) v)
      else Inr t)"

definition dec_QueueJob :: "json \<Rightarrow> QueueJob result" where
  "dec_QueueJob = dec_struct set_QueueJob zero_QueueJob"

definition UnmarshalJob :: "string \<Rightarrow> QueueJob result" where
  "UnmarshalJob s = (case json_parse s of
     None \<Rightarrow> Inl (Errorf ''invalid JSON'') | Some v \<Rightarrow> dec_QueueJob v)"

text \<open>
  \<open>Unwrap[QueueJob]\<close>: the payload is decoded into \<open>map[string]any\<close>, marshalled again and
  decoded into the struct. The \<open>null\<close> document gives a nil map and so the zero job. The
  second error the code returns is nil on every path and is left out.
\<close>

definition Unwrap :: "string \<Rightarrow> QueueJob result" where
  "Unwrap payload = (case json_parse payload of
     None \<Rightarrow> Inl (Errorf ''invalid JSON'')
   | Some v \<Rightarrow>
       (case v of
          JObj ms \<Rightarrow> UnmarshalJob (jprint (any_value (JObj ms)))
        | JNull \<Rightarrow> UnmarshalJob (jprint JNull)
        | _ \<Rightarrow> Inl mismatch))"

section \<open>The round trip of a queued job\<close>

text \<open>
  The values that survive the \<open>float64\<close> detour: numbers of at most 53 bits in their 64-bit
  ranges, and timestamps that are plain JSON values other than \<open>null\<close>.
\<close>

definition ts_ok :: "json option \<Rightarrow> bool" where
  "ts_ok t \<longleftrightarrow> (case t of None \<Rightarrow> True | Some v \<Rightarrow> json_ok v \<and> any_value v = v \<and> v \<noteq> JNull)"

definition id_ok :: "int option \<Rightarrow> bool" where
  "id_ok i \<longleftrightarrow> (case i of None \<Rightarrow> True | Some n \<Rightarrow> exact64 n)"

definition job_ok :: "QueueJob \<Rightarrow> bool" where
  "job_ok j \<longleftrightarrow> id_ok (ID (WorkflowJob j)) \<and> id_ok (RunID (WorkflowJob j))
     \<and> ts_ok (StartedAt (WorkflowJob j)) \<and> ts_ok (CompletedAt (WorkflowJob j))
     \<and> exact64 (CPUCount (AnkaVM j)) \<and> exact64 (uint (MEMBytes (AnkaVM j))) \<and> exact64 (Attempts j)"

lemma exact64_ok: "exact64 i \<Longrightarrow> int64_ok i"
  by (auto simp: exact64_def int64_ok_def)

lemma opt_json_simps [simp]: "opt_json f None = JNull" "opt_json f (Some a) = f a"
  by (simp_all add: opt_json_def)

lemma any_opt:
  "any_value (opt_json JStr x) = opt_json JStr x"
  "any_value (opt_json JBool b) = opt_json JBool b"
  "any_value (opt_json (\<lambda>ls. JArr (map JStr ls)) l) = opt_json (\<lambda>ls. JArr (map JStr ls)) l"
  "id_ok i \<Longrightarrow> any_value (opt_json JNum i) = opt_json JNum i"
  "ts_ok t \<Longrightarrow> any_value (opt_json id t) = opt_json id t"
  by (cases x; cases b; cases l; cases i; cases t; simp add: id_ok_def ts_ok_def f64_exact)+

lemma json_ok_opt:
  "json_ok (opt_json JStr x)" "json_ok (opt_json JBool b)"
  "json_ok (opt_json (\<lambda>ls. JArr (map JStr ls)) l)" "json_ok (opt_json JNum i)"
  "ts_ok t \<Longrightarrow> json_ok (opt_json id t)"
  by (cases x; cases b; cases l; cases i; cases t; simp add: ts_ok_def list_all_iff)+

lemma dec_strings_JStr [simp]: "dec_strings (map JStr ls) = Inr ls"
  by (induction ls) auto

lemma dec_ptr_opt:
  "dec_ptr (dec_string c) (opt_json JStr x) = Inr x"
  "dec_ptr dec_bool (opt_json JBool b) = Inr b"
  "dec_ptr dec_string_slice (opt_json (\<lambda>ls. JArr (map JStr ls)) l) = Inr l"
  "id_ok i \<Longrightarrow> dec_ptr (dec_int d) (opt_json JNum i) = Inr i"
  "ts_ok t \<Longrightarrow> dec_ptr Inr (opt_json id t) = Inr t"
  by (cases x; cases b; cases l; cases i; cases t; simp add: dec_ptr_def id_ok_def ts_ok_def exact64_ok)+

lemma dec_owner_opt: "dec_owner (opt_json JStr x) = Inr x"
  by (cases x) (simp_all add: dec_owner_def)

lemma json_ok_enc: "job_ok j \<Longrightarrow> json_ok (enc_QueueJob j)"
  by (simp add: job_ok_def enc_QueueJob_def enc_WorkflowJob_def enc_VM_def enc_Repository_def json_ok_opt)

lemmas lit_simps = less_char_def ToLower_def lower_char_def Let_def

lemma VM_trip:
  assumes "exact64 (CPUCount v)" "exact64 (uint (MEMBytes v))"
  shows "dec_struct set_VM zero_VM (any_value (enc_VM v)) = Inr v"
proof -
  have "uint (MEMBytes v) < 2 ^ 64" by (rule uint_lt2p [where 'a = 64, simplified, THEN less_le_trans]) simp
  then show ?thesis using assms
    by (simp add: enc_VM_def f64_exact set_VM_def lit_simps exact64_ok zero_VM_def)
qed

lemma Repository_trip: "dec_struct set_Repository zero_Repository (any_value (enc_Repository r)) = Inr r"
  by (simp add: enc_Repository_def any_opt set_Repository_def lit_simps dec_ptr_opt dec_owner_opt zero_Repository_def)

lemma WorkflowJob_trip:
  assumes "id_ok (ID w)" "id_ok (RunID w)" "ts_ok (StartedAt w)" "ts_ok (CompletedAt w)"
  shows "dec_struct set_WorkflowJob zero_WorkflowJob (any_value (enc_WorkflowJob w)) = Inr w"
  using assms
  by (simp add: enc_WorkflowJob_def any_opt set_WorkflowJob_def lit_simps dec_ptr_opt zero_WorkflowJob_def)

lemma QueueJob_trip:
  assumes "job_ok j"
  shows "dec_QueueJob (any_value (enc_QueueJob j)) = Inr j"
proof -
  note trips = VM_trip [of "AnkaVM j"] Repository_trip [of "Repo j"] WorkflowJob_trip [of "WorkflowJob j"]
  have att: "f64 (Attempts j) = Attempts j" "int64_ok (Attempts j)"
    using assms by (simp_all add: job_ok_def f64_exact exact64_ok)
  have "any_value (enc_QueueJob j) = JObj [(''action'', JStr (Action j)), (''anka_vm'', any_value (enc_VM (AnkaVM j))),
      (''attempts'', JNum (Attempts j)), (''paused_on'', JStr (PausedOn j)),
      (''repository'', any_value (enc_Repository (Repo j))), (''type'', JStr (Type j)),
      (''workflow_job'', any_value (enc_WorkflowJob (WorkflowJob j)))]"
    by (simp add: enc_QueueJob_def lit_simps att)
  then show ?thesis using assms trips att
    by (simp add: dec_QueueJob_def set_QueueJob_def lit_simps zero_QueueJob_def job_ok_def)
qed

theorem Unwrap_MarshalJob: "job_ok j \<Longrightarrow> Unwrap (MarshalJob j) = Inr j"
proof -
  assume ok: "job_ok j"
  have nr: "json_ok (enc_QueueJob j)" by (rule json_ok_enc [OF ok])
  obtain ms where ms: "enc_QueueJob j = JObj ms" by (simp add: enc_QueueJob_def)
  have "json_parse (jprint (any_value (JObj ms))) = Some (any_value (JObj ms))"
    using any_value_json_ok [OF nr] by (intro json_parse_jprint) (simp only: ms)
  then show ?thesis using json_parse_jprint [OF nr] QueueJob_trip [OF ok]
    by (simp add: Unwrap_def MarshalJob_def UnmarshalJob_def ms del: any_value.simps)
qed

end
