(* ===== verification/Database.thy ===== *)
theory Database
  imports Jobs Complex_Main
begin

text \<open>
  \<open>internal/database/database.go\<close>: the retry loop around every Redis command and its wrappers.
  The Redis client (\<open>redis.Cmdable\<close>) is third-party code: a record of functions over an
  arbitrary world \<open>'s\<close>, of which the model fixes nothing. The same holds for a context:
  cancellation, deadline, clock and timers are functions of the world. What Redis documents of
  its list commands is stated by the locale \<open>redis_lists\<close>, interpreted on the reference server
  \<open>mem_client\<close>.
\<close>

section \<open>The interfaces\<close>

record 's Cmdable =
  LRange :: "string \<Rightarrow> int \<Rightarrow> int \<Rightarrow> 's \<Rightarrow> string list result \<times> 's"
  LRem :: "string \<Rightarrow> int \<Rightarrow> string \<Rightarrow> 's \<Rightarrow> int result \<times> 's"
  LIndex :: "string \<Rightarrow> int \<Rightarrow> 's \<Rightarrow> string result \<times> 's"
  LLen :: "string \<Rightarrow> 's \<Rightarrow> int result \<times> 's"
  RPush :: "string \<Rightarrow> string list \<Rightarrow> 's \<Rightarrow> int result \<times> 's"
  LPush :: "string \<Rightarrow> string list \<Rightarrow> 's \<Rightarrow> int result \<times> 's"
  RPop :: "string \<Rightarrow> 's \<Rightarrow> string result \<times> 's"
  RPopLPush :: "string \<Rightarrow> string \<Rightarrow> 's \<Rightarrow> string result \<times> 's"
  LSet :: "string \<Rightarrow> int \<Rightarrow> string \<Rightarrow> 's \<Rightarrow> unit result \<times> 's"
  Del :: "string list \<Rightarrow> 's \<Rightarrow> int result \<times> 's"
  Exists :: "string list \<Rightarrow> 's \<Rightarrow> int result \<times> 's"
  Keys :: "string \<Rightarrow> 's \<Rightarrow> string list result \<times> 's"
  Get :: "string \<Rightarrow> 's \<Rightarrow> string result \<times> 's"
  SetKey :: "string \<Rightarrow> string \<Rightarrow> int \<Rightarrow> 's \<Rightarrow> unit result \<times> 's"
  Scan :: "int \<Rightarrow> string \<Rightarrow> int \<Rightarrow> 's \<Rightarrow> (string list \<times> int) result \<times> 's"

text \<open>
  A context: its error, its deadline (nanoseconds), the clock, and waiting for a timer or for
  the cancellation, whichever comes first.
\<close>

record 's Ctx =
  CtxErr :: "'s \<Rightarrow> gerror option"
  Deadline :: "int option"
  Now :: "'s \<Rightarrow> int"
  Sleep :: "int \<Rightarrow> 's \<Rightarrow> 's"

definition Background :: "'s Ctx \<Rightarrow> 's Ctx" where
  "Background ctx = ctx\<lparr>CtxErr := (\<lambda>_. None), Deadline := None\<rparr>"

record 's Database =
  UniqueRunKey :: string
  Client :: "'s Cmdable"
  MaxRetries :: int
  RetryDelay :: int
  RetryBackoffFactor :: rat

section \<open>The retry loop\<close>

definition second :: int where
  "second = 1000000000"

definition millisecond :: int where
  "millisecond = 1000000"

definition isRetriableError :: "gerror \<Rightarrow> bool" where
  "isRetriableError e = (let errStr = ToLower (Error e) in
     contains errStr ''timeout'' \<or>
     contains errStr ''connection refused'' \<or>
     contains errStr ''connection reset'' \<or>
     contains errStr ''no route to host'' \<or>
     contains errStr ''network is unreachable'' \<or>
     contains errStr ''broken pipe'' \<or>
     contains errStr ''dial tcp'' \<or>
     contains errStr ''i/o timeout'')"

definition trunc_rat :: "rat \<Rightarrow> int" where
  "trunc_rat q = (if 0 \<le> q then \<lfloor>q\<rfloor> else \<lceil>q\<rceil>)"

definition retry_delay :: "'s Database \<Rightarrow> int \<Rightarrow> int" where
  "retry_delay db attempt = trunc_rat (of_int (RetryDelay db) * of_int attempt * RetryBackoffFactor db)"

text \<open>The bound on retries, lowered when the context is about to expire.\<close>

definition effective_retries :: "'s Ctx \<Rightarrow> 's Database \<Rightarrow> 's \<Rightarrow> int" where
  "effective_retries ctx db s = (case Deadline ctx of
     None \<Rightarrow> MaxRetries db
   | Some deadline \<Rightarrow> (let timeRemaining = deadline - Now ctx s in
       if timeRemaining < 10 * second then 0
       else if timeRemaining < 30 * second then 1
       else MaxRetries db))"

definition err_text :: "gerror option \<Rightarrow> string" where
  "err_text e = (case e of None \<Rightarrow> ''%!w(<nil>)'' | Some e \<Rightarrow> Error e)"

text \<open>The pause before a retry: \<open>Some\<close> error ends the operation.\<close>

definition retry_wait :: "'s Ctx \<Rightarrow> 's Database \<Rightarrow> string \<Rightarrow> int \<Rightarrow> gerror option \<Rightarrow> 's \<Rightarrow> gerror option \<times> 's" where
  "retry_wait ctx db name attempt lastErr s =
     (let delay = retry_delay db attempt in
      if (case Deadline ctx of None \<Rightarrow> False | Some deadline \<Rightarrow> delay > deadline - Now ctx s)
      then (Some (Errorf (''insufficient time remaining for retry of '' @ name @ '': '' @ err_text lastErr)), s)
      else (let s' = Sleep ctx delay s in
        case CtxErr ctx s' of
          Some e \<Rightarrow> (Some (Errorf (''context canceled during retry for '' @ name @ '': '' @ Error e)), s')
        | None \<Rightarrow> (None, s')))"

function retry_loop :: "'s Ctx \<Rightarrow> 's Database \<Rightarrow> string \<Rightarrow> ('s \<Rightarrow> 'a result \<times> 's) \<Rightarrow> int \<Rightarrow> int \<Rightarrow>
    gerror option \<Rightarrow> 's \<Rightarrow> 'a result \<times> 's" where
  "retry_loop ctx db name op maxRetries attempt lastErr s =
     (if attempt > maxRetries
      then (Inl (Errorf (name @ '' failed after '' @ FormatInt (MaxRetries db) @ '' retries: '' @ err_text lastErr)), s)
      else (case CtxErr ctx s of
        Some e \<Rightarrow> (Inl (Errorf (''context canceled before '' @ name @ '': '' @ Error e)), s)
      | None \<Rightarrow>
        (case (if attempt > 0 then retry_wait ctx db name attempt lastErr s else (None, s)) of
           (Some e, s1) \<Rightarrow> (Inl e, s1)
         | (None, s1) \<Rightarrow>
           (case op s1 of (r, s2) \<Rightarrow>
              (case CtxErr ctx s2 of
                 Some e \<Rightarrow> (Inl (Errorf (''context canceled after '' @ name @ '' operation: '' @ Error e)), s2)
               | None \<Rightarrow>
                 (case r of
                    Inr a \<Rightarrow> (Inr a, s2)
                  | Inl e \<Rightarrow>
                      if \<not> isRetriableError e then (Inl e, s2)
                      else retry_loop ctx db name op maxRetries (attempt + 1) (Some e) s2))))))"
  by pat_completeness auto
termination
  by (relation "measure (\<lambda>(ctx, db, name, op, maxRetries, attempt, lastErr, s). nat (maxRetries + 1 - attempt))") auto

declare retry_loop.simps [simp del]

definition retryOperation :: "'s Ctx \<Rightarrow> 's Database \<Rightarrow> string \<Rightarrow> ('s \<Rightarrow> 'a result \<times> 's) \<Rightarrow> 's \<Rightarrow> 'a result \<times> 's" where
  "retryOperation ctx db name op s = retry_loop ctx db name op (effective_retries ctx db s) 0 None s"

section \<open>The wrappers\<close>

definition RetryGet :: "'s Ctx \<Rightarrow> 's Database \<Rightarrow> string \<Rightarrow> 's \<Rightarrow> string result \<times> 's" where
  "RetryGet ctx db key = retryOperation ctx db ''get key'' (Get (Client db) key)"

definition RetrySet :: "'s Ctx \<Rightarrow> 's Database \<Rightarrow> string \<Rightarrow> string \<Rightarrow> int \<Rightarrow> 's \<Rightarrow> unit result \<times> 's" where
  "RetrySet ctx db key v expiration = retryOperation ctx db ''set key'' (SetKey (Client db) key v expiration)"

definition RetryDel :: "'s Ctx \<Rightarrow> 's Database \<Rightarrow> string list \<Rightarrow> 's \<Rightarrow> int result \<times> 's" where
  "RetryDel ctx db keys = retryOperation ctx db ''delete keys'' (Del (Client db) keys)"

definition RetryExists :: "'s Ctx \<Rightarrow> 's Database \<Rightarrow> string list \<Rightarrow> 's \<Rightarrow> int result \<times> 's" where
  "RetryExists ctx db keys = retryOperation ctx db ''check exists'' (Exists (Client db) keys)"

definition RetryLPush :: "'s Ctx \<Rightarrow> 's Database \<Rightarrow> string \<Rightarrow> string list \<Rightarrow> 's \<Rightarrow> int result \<times> 's" where
  "RetryLPush ctx db key vs = retryOperation ctx db ''list push'' (LPush (Client db) key vs)"

definition RetryRPush :: "'s Ctx \<Rightarrow> 's Database \<Rightarrow> string \<Rightarrow> string list \<Rightarrow> 's \<Rightarrow> int result \<times> 's" where
  "RetryRPush ctx db key vs = retryOperation ctx db ''list rpush'' (RPush (Client db) key vs)"

definition RetryLRange :: "'s Ctx \<Rightarrow> 's Database \<Rightarrow> string \<Rightarrow> int \<Rightarrow> int \<Rightarrow> 's \<Rightarrow> string list result \<times> 's" where
  "RetryLRange ctx db key start stop = retryOperation ctx db ''list range'' (LRange (Client db) key start stop)"

definition RetryLRem :: "'s Ctx \<Rightarrow> 's Database \<Rightarrow> string \<Rightarrow> int \<Rightarrow> string \<Rightarrow> 's \<Rightarrow> int result \<times> 's" where
  "RetryLRem ctx db key count v = retryOperation ctx db ''list remove'' (LRem (Client db) key count v)"

definition RetryLIndex :: "'s Ctx \<Rightarrow> 's Database \<Rightarrow> string \<Rightarrow> int \<Rightarrow> 's \<Rightarrow> string result \<times> 's" where
  "RetryLIndex ctx db key index = retryOperation ctx db ''list index'' (LIndex (Client db) key index)"

definition RetryLLen :: "'s Ctx \<Rightarrow> 's Database \<Rightarrow> string \<Rightarrow> 's \<Rightarrow> int result \<times> 's" where
  "RetryLLen ctx db key = retryOperation ctx db ''list length'' (LLen (Client db) key)"

definition RetryRPopLPush :: "'s Ctx \<Rightarrow> 's Database \<Rightarrow> string \<Rightarrow> string \<Rightarrow> 's \<Rightarrow> string result \<times> 's" where
  "RetryRPopLPush ctx db source destination = retryOperation ctx db ''rpop lpush'' (RPopLPush (Client db) source destination)"

definition RetryRPop :: "'s Ctx \<Rightarrow> 's Database \<Rightarrow> string \<Rightarrow> 's \<Rightarrow> string result \<times> 's" where
  "RetryRPop ctx db key = retryOperation ctx db ''rpop'' (RPop (Client db) key)"

definition RetryKeys :: "'s Ctx \<Rightarrow> 's Database \<Rightarrow> string \<Rightarrow> 's \<Rightarrow> string list result \<times> 's" where
  "RetryKeys ctx db pat = retryOperation ctx db ''keys search'' (Keys (Client db) pat)"

definition RetryScan :: "'s Ctx \<Rightarrow> 's Database \<Rightarrow> int \<Rightarrow> string \<Rightarrow> int \<Rightarrow> 's \<Rightarrow> (string list \<times> int) result \<times> 's" where
  "RetryScan ctx db cursor match count = retryOperation ctx db ''scan'' (Scan (Client db) cursor match count)"

definition RetryLSet :: "'s Ctx \<Rightarrow> 's Database \<Rightarrow> string \<Rightarrow> int \<Rightarrow> string \<Rightarrow> 's \<Rightarrow> unit result \<times> 's" where
  "RetryLSet ctx db key index v = retryOperation ctx db ''list set'' (LSet (Client db) key index v)"

section \<open>The configuration of a client\<close>

text \<open>
  \<open>NewClient\<close> fills in the retry settings and pings the server through the retry loop; the
  connection itself (\<open>rdb\<close> and its ping) is third-party.
\<close>

record DBConfig =
  DBURL :: string
  DBPort :: int
  DBUser :: string
  DBPassword :: string
  DBDatabase :: int
  DBMaxRetries :: int
  DBRetryDelay :: int
  DBRetryBackoffFactor :: rat
  DBClusterMode :: bool
  DBTLSEnabled :: bool
  DBTLSInsecure :: bool

definition configure :: "DBConfig \<Rightarrow> 's Cmdable \<Rightarrow> 's Database" where
  "configure config rdb = \<lparr>UniqueRunKey = [], Client = rdb,
     MaxRetries = (if DBMaxRetries config < 0 then 0 else if DBMaxRetries config = 0 then 5 else DBMaxRetries config),
     RetryDelay = (if DBRetryDelay config * millisecond = 0 then 1000 * millisecond else DBRetryDelay config * millisecond),
     RetryBackoffFactor = (if DBRetryBackoffFactor config = 0 then 2 else DBRetryBackoffFactor config)\<rparr>"

definition ping_check :: "('s \<Rightarrow> string result \<times> 's) \<Rightarrow> 's \<Rightarrow> unit result \<times> 's" where
  "ping_check ping s = (case ping s of
     (Inl e, s') \<Rightarrow> (Inl (Errorf (if Error e = [] then [] else ''error pinging redis client: '' @ Error e)), s')
   | (Inr pong, s') \<Rightarrow> if pong \<noteq> ''PONG'' then (Inl (Errorf (''unable to connect to Redis, received: '' @ pong)), s')
        else (Inr (), s'))"

definition NewClient :: "'s Ctx \<Rightarrow> DBConfig \<Rightarrow> 's Cmdable \<Rightarrow> ('s \<Rightarrow> string result \<times> 's) \<Rightarrow> 's \<Rightarrow> 's Database result \<times> 's" where
  "NewClient ctx config rdb ping s =
     (let db = configure config rdb in
      case retryOperation ctx db ''initial connection ping'' (ping_check ping) s of
        (Inl e, s') \<Rightarrow> (Inl e, s')
      | (Inr _, s') \<Rightarrow> (Inr db, s'))"

section \<open>Facts on the retry loop\<close>

lemma RedisNil_not_retriable [simp]: "\<not> isRetriableError RedisNil"
  by (simp add: isRetriableError_def ToLower_def lower_char_def Let_def go_string)

lemma CtxErr_Background [simp]: "CtxErr (Background ctx) s = None" "Deadline (Background ctx) = None"
    "Sleep (Background ctx) = Sleep ctx" "Now (Background ctx) = Now ctx"
  by (simp_all add: Background_def)

lemma effective_Background [simp]: "effective_retries (Background ctx) db s = MaxRetries db"
  by (simp add: effective_retries_def)

text \<open>
  The loop keeps what the waiting and a failed operation keep, and its outcome is that of its
  last operation: the lemma that lifts a law of a Redis command to its wrapper.
\<close>

lemma retry_wait_view:
  assumes "\<And>d s. V (Sleep ctx d s) = V s"
  shows "retry_wait ctx db name attempt lastErr s = (r, s') \<Longrightarrow> V s' = V s"
  using assms by (auto simp: retry_wait_def Let_def split: if_splits option.splits)

lemma retry_wait_not_nil: "retry_wait ctx db name attempt lastErr s = (Some e, s') \<Longrightarrow> e \<noteq> RedisNil"
  by (auto simp: retry_wait_def Let_def split: if_splits option.splits)

lemma retry_loop_step:
  assumes "\<not> n > m" "CtxErr ctx s = None"
    and "(if n > 0 then retry_wait ctx db name n le s else (None, s)) = (w, s1)"
    and "op s1 = (q, s2)"
  shows "retry_loop ctx db name op m n le s = (case w of Some e \<Rightarrow> (Inl e, s1) | None \<Rightarrow>
        (case CtxErr ctx s2 of
           Some e \<Rightarrow> (Inl (Errorf (''context canceled after '' @ name @ '' operation: '' @ Error e)), s2)
         | None \<Rightarrow> (case q of Inr a \<Rightarrow> (Inr a, s2)
            | Inl e \<Rightarrow> if \<not> isRetriableError e then (Inl e, s2)
                else retry_loop ctx db name op m (n + 1) (Some e) s2)))"
  using assms by (subst retry_loop.simps) (simp split: option.splits)

lemma retry_loop_spec:
  fixes V :: "'s \<Rightarrow> 'v"
  assumes ok: "\<And>s a s'. op s = (Inr a, s') \<Longrightarrow> Q (V s) a (V s')"
    and err: "\<And>s e s'. op s = (Inl e, s') \<Longrightarrow> V s' = V s \<and> (e = RedisNil \<longrightarrow> N (V s))"
    and sl: "\<And>d s. V (Sleep ctx d s) = V s"
  shows "retry_loop ctx db name op m n le s = (r, s') \<Longrightarrow>
    (case r of Inr a \<Rightarrow> Q (V s) a (V s')
     | Inl e \<Rightarrow> (V s' = V s \<or> (\<exists>a. Q (V s) a (V s'))) \<and> (e = RedisNil \<longrightarrow> V s' = V s \<and> N (V s)))"
proof (induction "nat (m + 1 - n)" arbitrary: n le s rule: less_induct)
  case less
  show ?case
  proof (cases "n > m \<or> CtxErr ctx s \<noteq> None")
    case True
    then show ?thesis using less.prems by (subst (asm) retry_loop.simps) (auto split: option.splits if_splits)
  next
    case False
    then have go: "\<not> n > m" "CtxErr ctx s = None" by auto
    obtain w s1 where w: "(if n > 0 then retry_wait ctx db name n le s else (None, s)) = (w, s1)"
      by fastforce
    have V1: "V s1 = V s" using w retry_wait_view [of V, OF sl] by (auto split: if_splits)
    obtain q s2 where op: "op s1 = (q, s2)" by fastforce
    note step = retry_loop_step [where op = op, OF go w op]
    show ?thesis
    proof (cases w)
      case (Some e)
      then have "e \<noteq> RedisNil" using w by (auto dest: retry_wait_not_nil split: if_splits)
      then show ?thesis using less.prems step Some V1 by auto
    next
      case None
      show ?thesis
      proof (cases q)
        case (Inr a)
        then have "Q (V s) a (V s2)" using ok op V1 by metis
        then show ?thesis using less.prems step None Inr by (auto split: option.splits)
      next
        case (Inl e)
        have V2: "V s2 = V s" and N: "e = RedisNil \<longrightarrow> N (V s)" using err op Inl V1 by metis+
        show ?thesis
        proof (cases "CtxErr ctx s2 = None \<and> isRetriableError e")
          case True
          then have rec: "retry_loop ctx db name op m (n + 1) (Some e) s2 = (r, s')"
            using less.prems step None Inl by simp
          have "nat (m + 1 - (n + 1)) < nat (m + 1 - n)" using go by simp
          from less.hyps [OF this rec] show ?thesis unfolding V2 .
        next
          case False
          then show ?thesis using less.prems step None Inl V2 N by (auto split: option.splits if_splits)
        qed
      qed
    qed
  qed
qed

lemma retryOperation_spec:
  fixes V :: "'s \<Rightarrow> 'v"
  assumes "\<And>s a s'. op s = (Inr a, s') \<Longrightarrow> Q (V s) a (V s')"
    and "\<And>s e s'. op s = (Inl e, s') \<Longrightarrow> V s' = V s \<and> (e = RedisNil \<longrightarrow> N (V s))"
    and "\<And>d s. V (Sleep ctx d s) = V s"
    and "retryOperation ctx db name op s = (r, s')"
  shows "case r of Inr a \<Rightarrow> Q (V s) a (V s')
     | Inl e \<Rightarrow> (V s' = V s \<or> (\<exists>a. Q (V s) a (V s'))) \<and> (e = RedisNil \<longrightarrow> V s' = V s \<and> N (V s))"
  using retry_loop_spec [of op Q V N ctx] assms by (simp add: retryOperation_def)

text \<open>The number of runs of the operation: any ghost count of the world that only it moves.\<close>

lemma retry_loop_runs:
  fixes cnt :: "'s \<Rightarrow> nat"
  assumes op: "\<And>s. cnt (snd (op s)) = Suc (cnt s)" and sl: "\<And>d s. cnt (Sleep ctx d s) = cnt s"
  shows "cnt (snd (retry_loop ctx db name op m n le s)) \<le> cnt s + nat (m + 1 - n)"
proof (induction "nat (m + 1 - n)" arbitrary: n le s rule: less_induct)
  case less
  show ?case
  proof (cases "n > m \<or> CtxErr ctx s \<noteq> None")
    case True
    then show ?thesis by (subst retry_loop.simps) (auto split: option.splits)
  next
    case False
    then have go: "\<not> n > m" "CtxErr ctx s = None" by auto
    obtain w s1 where w: "(if n > 0 then retry_wait ctx db name n le s else (None, s)) = (w, s1)"
      by fastforce
    have c1: "cnt s1 = cnt s" using w retry_wait_view [of cnt, OF sl] by (auto split: if_splits)
    obtain q s2 where q: "op s1 = (q, s2)" by fastforce
    then have c2: "cnt s2 = Suc (cnt s)" using op [of s1] c1 by simp
    have lt: "nat (m + 1 - (n + 1)) < nat (m + 1 - n)" using go by simp
    have "Suc (nat (m - n)) = nat (m + 1 - n)" using go by simp
    then have "cnt (snd (retry_loop ctx db name op m (n + 1) l s2)) \<le> cnt s + nat (m + 1 - n)" for l
      using less.hyps [OF lt, of l s2] c2 by simp
    then show ?thesis unfolding retry_loop_step [where op = op, OF go w q]
      using go c1 c2 by (auto split: option.splits sum.splits)
  qed
qed

text \<open>
  Liveness: an operation that fails with a retriable error on its first \<open>k\<close> runs and then
  succeeds makes the loop succeed, if \<open>k\<close> retries are left, the context is never cancelled
  and has no deadline.
\<close>

lemma retry_loop_succeeds:
  fixes cnt :: "'s \<Rightarrow> nat"
  assumes ctx: "\<And>s. CtxErr ctx s = None" "Deadline ctx = None"
    and sl: "\<And>d s. cnt (Sleep ctx d s) = cnt s"
    and fail: "\<And>s. cnt s < k \<Longrightarrow> \<exists>e s'. op s = (Inl e, s') \<and> isRetriableError e \<and> cnt s' = Suc (cnt s)"
    and okay: "\<And>s. cnt s = k \<Longrightarrow> \<exists>a s'. op s = (Inr a, s')"
    and bound: "0 \<le> n" "cnt s \<le> k" "int (k - cnt s) \<le> m - n"
  shows "\<exists>a s'. retry_loop ctx db name op m n le s = (Inr a, s')"
  using bound
proof (induction "k - cnt s" arbitrary: n le s)
  case 0
  then have "cnt s = k" by simp
  define s1 where "s1 = snd (if n > 0 then retry_wait ctx db name n le s else (None, s))"
  have w: "(if n > 0 then retry_wait ctx db name n le s else (None, s)) = (None, s1)" and "cnt s1 = k"
    using ctx sl \<open>cnt s = k\<close> by (auto simp: s1_def retry_wait_def Let_def)
  then obtain a s2 where "op s1 = (Inr a, s2)" using okay by blast
  then show ?case using w ctx 0 by (subst retry_loop.simps) simp
next
  case (Suc d)
  define s1 where "s1 = snd (if n > 0 then retry_wait ctx db name n le s else (None, s))"
  have w: "(if n > 0 then retry_wait ctx db name n le s else (None, s)) = (None, s1)" and c1: "cnt s1 = cnt s"
    using ctx sl by (auto simp: s1_def retry_wait_def Let_def)
  have "cnt s1 < k" using Suc.hyps(2) c1 by simp
  then obtain e s2 where op: "op s1 = (Inl e, s2)" "isRetriableError e" "cnt s2 = Suc (cnt s)"
    using fail c1 by metis
  have "\<exists>a s'. retry_loop ctx db name op m (n + 1) (Some e) s2 = (Inr a, s')"
    using Suc.hyps(2) Suc.prems op(3) by (intro Suc.hyps(1)) auto
  then show ?case using w ctx op Suc.prems Suc.hyps(2) by (subst retry_loop.simps) simp
qed

end
