(* ===== verification/Redis.thy ===== *)
theory Redis
  imports Database
begin

text \<open>
  The contract between the program and its Redis server, as the locale \<open>redis_lists\<close>: what the
  documentation of the list commands says of the lists stored under each key, seen through a
  function \<open>view\<close> of the world, when no other client writes and a command that returns an error
  has not been applied. \<open>redis_db\<close> adds that waiting changes no list, and derives the same laws
  for the wrappers of \<open>Database\<close>: a wrapper that reports success has been applied exactly
  once, one that reports an error at most once. \<open>mem_client\<close> is a server that keeps these laws
  and fails where a schedule of faults says so; both locales are interpreted on it.
\<close>

type_synonym lists = "string \<Rightarrow> string list"

section \<open>The list commands\<close>

definition list_range :: "'a list \<Rightarrow> int \<Rightarrow> int \<Rightarrow> 'a list" where
  "list_range xs start stop = (let n = int (length xs);
       i = (if start < 0 then max 0 (n + start) else start);
       j = (if stop < 0 then n + stop else min stop (n - 1))
     in take (nat (j + 1 - i)) (drop (nat i) xs))"

definition list_index :: "'a list \<Rightarrow> int \<Rightarrow> 'a option" where
  "list_index xs i = (let n = int (length xs); j = (if i < 0 then n + i else i)
     in if 0 \<le> j \<and> j < n then Some (xs ! nat j) else None)"

lemma list_range_from [simp]: "0 \<le> i \<Longrightarrow> list_range xs i (- 1) = drop (nat i) xs"
  by (auto simp: list_range_def Let_def)

lemma list_index_0 [simp]: "list_index xs 0 = (case xs of [] \<Rightarrow> None | x # _ \<Rightarrow> Some x)"
  by (cases xs) (simp_all add: list_index_def)

lemma list_index_last [simp]: "list_index xs (- 1) = (if xs = [] then None else Some (last xs))"
  by (cases xs) (auto simp: list_index_def last_conv_nth nat_diff_distrib')

text \<open>
  Each command as a relation between the lists before, its reply and the lists after. \<open>RedisNil\<close>
  is the reply of a command that reads an absent element.
\<close>

definition range_spec :: "string \<Rightarrow> int \<Rightarrow> int \<Rightarrow> lists \<Rightarrow> string list \<Rightarrow> lists \<Rightarrow> bool" where
  "range_spec k a b v xs v' \<longleftrightarrow> xs = list_range (v k) a b \<and> v' = v"

definition rem_spec :: "string \<Rightarrow> string \<Rightarrow> lists \<Rightarrow> int \<Rightarrow> lists \<Rightarrow> bool" where
  "rem_spec k x v n v' \<longleftrightarrow> n = (if x \<in> set (v k) then 1 else 0) \<and> v' = v(k := remove1 x (v k))"

definition index_spec :: "string \<Rightarrow> int \<Rightarrow> lists \<Rightarrow> string \<Rightarrow> lists \<Rightarrow> bool" where
  "index_spec k i v x v' \<longleftrightarrow> list_index (v k) i = Some x \<and> v' = v"

definition len_spec :: "string \<Rightarrow> lists \<Rightarrow> int \<Rightarrow> lists \<Rightarrow> bool" where
  "len_spec k v n v' \<longleftrightarrow> n = int (length (v k)) \<and> v' = v"

definition rpush_spec :: "string \<Rightarrow> string list \<Rightarrow> lists \<Rightarrow> int \<Rightarrow> lists \<Rightarrow> bool" where
  "rpush_spec k xs v n v' \<longleftrightarrow> n = int (length (v k) + length xs) \<and> v' = v(k := v k @ xs)"

definition lpush_spec :: "string \<Rightarrow> string list \<Rightarrow> lists \<Rightarrow> int \<Rightarrow> lists \<Rightarrow> bool" where
  "lpush_spec k xs v n v' \<longleftrightarrow> n = int (length (v k) + length xs) \<and> v' = v(k := rev xs @ v k)"

definition rpop_spec :: "string \<Rightarrow> lists \<Rightarrow> string \<Rightarrow> lists \<Rightarrow> bool" where
  "rpop_spec k v x v' \<longleftrightarrow> v k \<noteq> [] \<and> x = last (v k) \<and> v' = v(k := butlast (v k))"

definition move_spec :: "string \<Rightarrow> string \<Rightarrow> lists \<Rightarrow> string \<Rightarrow> lists \<Rightarrow> bool" where
  "move_spec src dst v x v' \<longleftrightarrow> v src \<noteq> [] \<and> x = last (v src) \<and>
     (let w = v(src := butlast (v src)) in v' = w(dst := x # w dst))"

definition del_spec :: "string list \<Rightarrow> lists \<Rightarrow> int \<Rightarrow> lists \<Rightarrow> bool" where
  "del_spec ks v n v' \<longleftrightarrow> v' = (\<lambda>k. if k \<in> set ks then [] else v k)"

definition set_spec :: "string \<Rightarrow> int \<Rightarrow> string \<Rightarrow> lists \<Rightarrow> unit \<Rightarrow> lists \<Rightarrow> bool" where
  "set_spec k i x v u v' \<longleftrightarrow> 0 \<le> i \<and> i < int (length (v k)) \<and> v' = v(k := (v k)[nat i := x])"

text \<open>\<open>KEYS p*\<close> for a prefix without the special characters of Redis patterns.\<close>

definition plain_pattern :: "string \<Rightarrow> bool" where
  "plain_pattern p \<longleftrightarrow> CHR ''*'' \<notin> set p \<and> CHR ''?'' \<notin> set p \<and> CHR ''['' \<notin> set p \<and> backslash \<notin> set p"

definition keys_spec :: "string \<Rightarrow> lists \<Rightarrow> string list \<Rightarrow> lists \<Rightarrow> bool" where
  "keys_spec p v ks v' \<longleftrightarrow> v' = v \<and> (\<forall>k\<in>set ks. prefix p k) \<and> (\<forall>k. prefix p k \<and> v k \<noteq> [] \<longrightarrow> k \<in> set ks)"

lemmas command_specs = range_spec_def rem_spec_def index_spec_def len_spec_def rpush_spec_def lpush_spec_def
  rpop_spec_def move_spec_def del_spec_def set_spec_def keys_spec_def

section \<open>Laws and their lifting\<close>

definition lawful :: "('v \<Rightarrow> 'a \<Rightarrow> 'v \<Rightarrow> bool) \<Rightarrow> ('v \<Rightarrow> bool) \<Rightarrow> ('s \<Rightarrow> 'v) \<Rightarrow> ('s \<Rightarrow> 'a result \<times> 's) \<Rightarrow> bool" where
  "lawful Q N V op \<longleftrightarrow> (\<forall>s r s'. op s = (r, s') \<longrightarrow>
     (case r of Inr a \<Rightarrow> Q (V s) a (V s') | Inl e \<Rightarrow> V s' = V s \<and> (e = RedisNil \<longrightarrow> N (V s))))"

definition lawful_retry :: "('v \<Rightarrow> 'a \<Rightarrow> 'v \<Rightarrow> bool) \<Rightarrow> ('v \<Rightarrow> bool) \<Rightarrow> ('s \<Rightarrow> 'v) \<Rightarrow> ('s \<Rightarrow> 'a result \<times> 's) \<Rightarrow> bool" where
  "lawful_retry Q N V op \<longleftrightarrow> (\<forall>s r s'. op s = (r, s') \<longrightarrow>
     (case r of Inr a \<Rightarrow> Q (V s) a (V s')
      | Inl e \<Rightarrow> (V s' = V s \<or> (\<exists>a. Q (V s) a (V s'))) \<and> (e = RedisNil \<longrightarrow> V s' = V s \<and> N (V s))))"

lemma lawful_retryD:
  assumes "lawful_retry Q N V op" and "op s = (r, s')"
  shows "r = Inr a \<Longrightarrow> Q (V s) a (V s')"
    and "r = Inl e \<Longrightarrow> V s' = V s \<or> (\<exists>a. Q (V s) a (V s'))"
    and "r = Inl RedisNil \<Longrightarrow> V s' = V s \<and> N (V s)"
  using assms unfolding lawful_retry_def by (auto split: sum.splits)

lemma lawful_retryI:
  assumes "lawful Q N V op" and "\<And>d s. V (Sleep ctx d s) = V s"
  shows "lawful_retry Q N V (retryOperation ctx db name op)"
  unfolding lawful_retry_def
proof (intro allI impI)
  fix s r s'
  assume "retryOperation ctx db name op s = (r, s')"
  moreover have "op s = (Inr a, s') \<Longrightarrow> Q (V s) a (V s')" for s a s'
    using assms(1) unfolding lawful_def by force
  moreover have "op s = (Inl e, s') \<Longrightarrow> V s' = V s \<and> (e = RedisNil \<longrightarrow> N (V s))" for s e s'
    using assms(1) unfolding lawful_def by force
  ultimately show "case r of Inr a \<Rightarrow> Q (V s) a (V s')
      | Inl e \<Rightarrow> (V s' = V s \<or> (\<exists>a. Q (V s) a (V s'))) \<and> (e = RedisNil \<longrightarrow> V s' = V s \<and> N (V s))"
    using retryOperation_spec [of op Q V N ctx db name] assms(2) by blast
qed

locale redis_lists =
  fixes C :: "'s Cmdable" and view :: "'s \<Rightarrow> lists"
  assumes LRange_law: "lawful (range_spec k a b) (\<lambda>_. False) view (LRange C k a b)"
    and LRem_law: "lawful (rem_spec k x) (\<lambda>_. False) view (LRem C k 1 x)"
    and LIndex_law: "lawful (index_spec k i) (\<lambda>v. list_index (v k) i = None) view (LIndex C k i)"
    and LLen_law: "lawful (len_spec k) (\<lambda>_. False) view (LLen C k)"
    and RPush_law: "lawful (rpush_spec k xs) (\<lambda>_. False) view (RPush C k xs)"
    and LPush_law: "lawful (lpush_spec k xs) (\<lambda>_. False) view (LPush C k xs)"
    and RPop_law: "lawful (rpop_spec k) (\<lambda>v. v k = []) view (RPop C k)"
    and RPopLPush_law: "lawful (move_spec k l) (\<lambda>v. v k = []) view (RPopLPush C k l)"
    and LSet_law: "lawful (set_spec k i x) (\<lambda>_. False) view (LSet C k i x)"
    and Del_law: "lawful (del_spec ks) (\<lambda>_. False) view (Del C ks)"
    and Keys_law: "plain_pattern p \<Longrightarrow> lawful (keys_spec p) (\<lambda>_. False) view (Keys C (p @ ''*''))"

locale redis_db = redis_lists "Client db" view for db :: "'s Database" and view :: "'s \<Rightarrow> lists" +
  fixes ctx :: "'s Ctx"
  assumes Sleep_view: "view (Sleep ctx d s) = view s"
begin

lemma RetryLRange_law: "lawful_retry (range_spec k a b) (\<lambda>_. False) view (RetryLRange ctx db k a b)"
  unfolding RetryLRange_def by (rule lawful_retryI [OF LRange_law Sleep_view])

lemma RetryLRem_law: "lawful_retry (rem_spec k x) (\<lambda>_. False) view (RetryLRem ctx db k 1 x)"
  unfolding RetryLRem_def by (rule lawful_retryI [OF LRem_law Sleep_view])

lemma RetryLIndex_law: "lawful_retry (index_spec k i) (\<lambda>v. list_index (v k) i = None) view (RetryLIndex ctx db k i)"
  unfolding RetryLIndex_def by (rule lawful_retryI [OF LIndex_law Sleep_view])

lemma RetryLLen_law: "lawful_retry (len_spec k) (\<lambda>_. False) view (RetryLLen ctx db k)"
  unfolding RetryLLen_def by (rule lawful_retryI [OF LLen_law Sleep_view])

lemma RetryRPush_law: "lawful_retry (rpush_spec k xs) (\<lambda>_. False) view (RetryRPush ctx db k xs)"
  unfolding RetryRPush_def by (rule lawful_retryI [OF RPush_law Sleep_view])

lemma RetryLPush_law: "lawful_retry (lpush_spec k xs) (\<lambda>_. False) view (RetryLPush ctx db k xs)"
  unfolding RetryLPush_def by (rule lawful_retryI [OF LPush_law Sleep_view])

lemma RetryRPop_law: "lawful_retry (rpop_spec k) (\<lambda>v. v k = []) view (RetryRPop ctx db k)"
  unfolding RetryRPop_def by (rule lawful_retryI [OF RPop_law Sleep_view])

lemma RetryRPopLPush_law: "lawful_retry (move_spec k l) (\<lambda>v. v k = []) view (RetryRPopLPush ctx db k l)"
  unfolding RetryRPopLPush_def by (rule lawful_retryI [OF RPopLPush_law Sleep_view])

lemma RetryLSet_law: "lawful_retry (set_spec k i x) (\<lambda>_. False) view (RetryLSet ctx db k i x)"
  unfolding RetryLSet_def by (rule lawful_retryI [OF LSet_law Sleep_view])

lemma RetryDel_law: "lawful_retry (del_spec ks) (\<lambda>_. False) view (RetryDel ctx db ks)"
  unfolding RetryDel_def by (rule lawful_retryI [OF Del_law Sleep_view])

lemma RetryKeys_law: "plain_pattern p \<Longrightarrow> lawful_retry (keys_spec p) (\<lambda>_. False) view (RetryKeys ctx db (p @ ''*''))"
  unfolding RetryKeys_def by (rule lawful_retryI [OF Keys_law Sleep_view])

lemmas LRangeD = lawful_retryD [OF RetryLRange_law, unfolded range_spec_def]
lemmas LRemD = lawful_retryD [OF RetryLRem_law, unfolded rem_spec_def]
lemmas LIndexD = lawful_retryD [OF RetryLIndex_law, unfolded index_spec_def]
lemmas LLenD = lawful_retryD [OF RetryLLen_law, unfolded len_spec_def]
lemmas RPushD = lawful_retryD [OF RetryRPush_law, unfolded rpush_spec_def]
lemmas LPushD = lawful_retryD [OF RetryLPush_law, unfolded lpush_spec_def]
lemmas RPopD = lawful_retryD [OF RetryRPop_law, unfolded rpop_spec_def]
lemmas RPopLPushD = lawful_retryD [OF RetryRPopLPush_law, unfolded move_spec_def]
lemmas LSetD = lawful_retryD [OF RetryLSet_law, unfolded set_spec_def]
lemmas DelD = lawful_retryD [OF RetryDel_law, unfolded del_spec_def]
lemmas KeysD = lawful_retryD [OF RetryKeys_law, unfolded keys_spec_def]

text \<open>Read-only commands leave the lists as they are, whatever they return.\<close>

lemma LRange_view: "RetryLRange ctx db k a b s = (r, s') \<Longrightarrow> view s' = view s"
  using LRangeD [of k a b s r s'] by (cases r) auto

lemma LIndex_view: "RetryLIndex ctx db k i s = (r, s') \<Longrightarrow> view s' = view s"
  using LIndexD [of k i s r s'] by (cases r) auto

lemma LLen_view: "RetryLLen ctx db k s = (r, s') \<Longrightarrow> view s' = view s"
  using LLenD [of k s r s'] by (cases r) auto

end

text \<open>The laws carry over to a context with the same timers, such as \<open>context.Background()\<close>.\<close>

lemma redis_db_Background: "redis_db db view ctx \<Longrightarrow> redis_db db view (Background ctx)"
  by (simp add: redis_db_def redis_db_axioms_def)

context redis_db begin

lemmas bg = redis_db_Background [OF redis_db_axioms]
lemmas bg_LRangeD = redis_db.LRangeD [OF bg]
lemmas bg_LRemD = redis_db.LRemD [OF bg]
lemmas bg_LIndexD = redis_db.LIndexD [OF bg]
lemmas bg_LRange_view = redis_db.LRange_view [OF bg]
lemmas bg_LIndex_view = redis_db.LIndex_view [OF bg]

end

text \<open>
  In a context that is never cancelled an error means the command has not been applied: the
  laws of a single command hold for its wrapper.
\<close>

lemma lawfulD:
  assumes "lawful Q N V op" and "op s = (r, s')"
  shows "r = Inr a \<Longrightarrow> Q (V s) a (V s')"
    and "r = Inl e \<Longrightarrow> V s' = V s"
    and "r = Inl RedisNil \<Longrightarrow> N (V s)"
  using assms unfolding lawful_def by (auto split: sum.splits)

lemma retry_loop_lawful:
  fixes V :: "'s \<Rightarrow> 'v"
  assumes law: "lawful Q N V op" and sl: "\<And>d s. V (Sleep ctx d s) = V s" and live: "\<And>s. CtxErr ctx s = None"
  shows "retry_loop ctx db name op m n le s = (r, s') \<Longrightarrow>
    (case r of Inr a \<Rightarrow> Q (V s) a (V s') | Inl e \<Rightarrow> V s' = V s \<and> (e = RedisNil \<longrightarrow> N (V s)))"
proof (induction "nat (m + 1 - n)" arbitrary: n le s rule: less_induct)
  case less
  show ?case
  proof (cases "n > m")
    case True
    then show ?thesis using less.prems by (subst (asm) retry_loop.simps) auto
  next
    case False
    obtain w s1 where w: "(if n > 0 then retry_wait ctx db name n le s else (None, s)) = (w, s1)"
      by fastforce
    have V1: "V s1 = V s" using w retry_wait_view [of V, OF sl] by (auto split: if_splits)
    obtain q s2 where op: "op s1 = (q, s2)" by fastforce
    note step = retry_loop_step [where op = op, OF False live w op]
    show ?thesis
    proof (cases w)
      case (Some e)
      then have "e \<noteq> RedisNil" using w by (auto dest: retry_wait_not_nil split: if_splits)
      then show ?thesis using less.prems step Some V1 by auto
    next
      case None
      show ?thesis
      proof (cases "\<exists>e. q = Inl e \<and> isRetriableError e")
        case True
        then obtain e where e: "q = Inl e" "isRetriableError e" by blast
        then have V2: "V s2 = V s" using lawfulD(2) [OF law op] V1 by simp
        have rec: "retry_loop ctx db name op m (n + 1) (Some e) s2 = (r, s')"
          using less.prems step None e live by simp
        have "nat (m + 1 - (n + 1)) < nat (m + 1 - n)" using False by simp
        from less.hyps [OF this rec] show ?thesis unfolding V2 .
      next
        case False
        then show ?thesis using less.prems step None live lawfulD [OF law op] V1
          by (auto split: sum.splits if_splits)
      qed
    qed
  qed
qed

context redis_db begin

lemma lawful_Background:
  assumes "lawful Q N view op"
  shows "lawful Q N view (retryOperation (Background ctx) db name op)"
  unfolding lawful_def retryOperation_def
proof (intro allI impI)
  fix s r s'
  assume *: "retry_loop (Background ctx) db name op (effective_retries (Background ctx) db s) 0 None s = (r, s')"
  show "case r of Inr a \<Rightarrow> Q (view s) a (view s') | Inl e \<Rightarrow> view s' = view s \<and> (e = RedisNil \<longrightarrow> N (view s))"
    by (rule retry_loop_lawful [OF assms _ _ *]) (simp_all add: Sleep_view)
qed

lemma bg_RPop: "lawful (rpop_spec k) (\<lambda>v. v k = []) view (RetryRPop (Background ctx) db k)"
  unfolding RetryRPop_def by (rule lawful_Background [OF RPop_law])

lemma bg_LPush: "lawful (lpush_spec k xs) (\<lambda>_. False) view (RetryLPush (Background ctx) db k xs)"
  unfolding RetryLPush_def by (rule lawful_Background [OF LPush_law])

lemma bg_Del: "lawful (del_spec ks) (\<lambda>_. False) view (RetryDel (Background ctx) db ks)"
  unfolding RetryDel_def by (rule lawful_Background [OF Del_law])

lemma bg_RPopLPush: "lawful (move_spec k l) (\<lambda>v. v k = []) view (RetryRPopLPush (Background ctx) db k l)"
  unfolding RetryRPopLPush_def by (rule lawful_Background [OF RPopLPush_law])

lemma bg_LRem: "lawful (rem_spec k x) (\<lambda>_. False) view (RetryLRem (Background ctx) db k 1 x)"
  unfolding RetryLRem_def by (rule lawful_Background [OF LRem_law])

lemmas bg_RPopD = lawfulD [OF bg_RPop, unfolded rpop_spec_def]
lemmas bg_LPushD = lawfulD [OF bg_LPush, unfolded lpush_spec_def]
lemmas bg_DelD = lawfulD [OF bg_Del, unfolded del_spec_def]
lemmas bg_RPopLPushD = lawfulD [OF bg_RPopLPush, unfolded move_spec_def]
lemmas bg_LRem1D = lawfulD [OF bg_LRem, unfolded rem_spec_def]

end

lemma redis_db_MaxRetries: "redis_db db view ctx \<Longrightarrow> redis_db (db\<lparr>MaxRetries := n\<rparr>) view ctx"
  by (simp add: redis_db_def)

section \<open>A reference server\<close>

text \<open>
  Lists under keys as an association list, where a string is a list of one, and a schedule of faults: each command takes the
  next entry, fails with it if it is an error, and is carried out otherwise.
\<close>

record mem =
  mstore :: "(string \<times> string list) list"
  mfaults :: "gerror option list"
  mnow :: int
  mcancelled :: bool

definition mem_view :: "mem \<Rightarrow> lists" where
  "mem_view m k = (case map_of (mstore m) k of None \<Rightarrow> [] | Some xs \<Rightarrow> xs)"

definition mem_put :: "string \<Rightarrow> string list \<Rightarrow> mem \<Rightarrow> mem" where
  "mem_put k xs m = m\<lparr>mstore := (k, xs) # filter (\<lambda>(l, _). l \<noteq> k) (mstore m)\<rparr>"

definition faulty :: "(mem \<Rightarrow> 'a result \<times> mem) \<Rightarrow> mem \<Rightarrow> 'a result \<times> mem" where
  "faulty op m = (case mfaults m of
     [] \<Rightarrow> op m
   | f # fs \<Rightarrow> (case f of Some e \<Rightarrow> (Inl (Errorf (Error e)), m\<lparr>mfaults := fs\<rparr>)
       | None \<Rightarrow> op (m\<lparr>mfaults := fs\<rparr>)))"

definition mem_client :: "mem Cmdable" where
  "mem_client = \<lparr>
     LRange = (\<lambda>k a b. faulty (\<lambda>m. (Inr (list_range (mem_view m k) a b), m))),
     LRem = (\<lambda>k c x. faulty (\<lambda>m. (Inr (if x \<in> set (mem_view m k) then 1 else 0), mem_put k (remove1 x (mem_view m k)) m))),
     LIndex = (\<lambda>k i. faulty (\<lambda>m. (case list_index (mem_view m k) i of None \<Rightarrow> Inl RedisNil | Some x \<Rightarrow> Inr x, m))),
     LLen = (\<lambda>k. faulty (\<lambda>m. (Inr (int (length (mem_view m k))), m))),
     RPush = (\<lambda>k xs. faulty (\<lambda>m. (Inr (int (length (mem_view m k) + length xs)), mem_put k (mem_view m k @ xs) m))),
     LPush = (\<lambda>k xs. faulty (\<lambda>m. (Inr (int (length (mem_view m k) + length xs)), mem_put k (rev xs @ mem_view m k) m))),
     RPop = (\<lambda>k. faulty (\<lambda>m. if mem_view m k = [] then (Inl RedisNil, m)
        else (Inr (last (mem_view m k)), mem_put k (butlast (mem_view m k)) m))),
     RPopLPush = (\<lambda>k l. faulty (\<lambda>m. if mem_view m k = [] then (Inl RedisNil, m)
        else (let x = last (mem_view m k); m' = mem_put k (butlast (mem_view m k)) m in (Inr x, mem_put l (x # mem_view m' l) m')))),
     LSet = (\<lambda>k i x. faulty (\<lambda>m. if 0 \<le> i \<and> i < int (length (mem_view m k))
        then (Inr (), mem_put k ((mem_view m k)[nat i := x]) m) else (Inl (Errorf ''ERR index out of range''), m))),
     Del = (\<lambda>ks. faulty (\<lambda>m. (Inr (int (length (filter (\<lambda>k. mem_view m k \<noteq> []) ks))),
        m\<lparr>mstore := filter (\<lambda>(k, _). k \<notin> set ks) (mstore m)\<rparr>))),
     Exists = (\<lambda>ks. faulty (\<lambda>m. (Inr (int (length (filter (\<lambda>k. mem_view m k \<noteq> []) ks))), m))),
     Keys = (\<lambda>p. faulty (\<lambda>m. (Inr (filter (\<lambda>k. prefix (butlast p) k) (map fst (mstore m))), m))),
     Get = (\<lambda>k. faulty (\<lambda>m. (case mem_view m k of [x] \<Rightarrow> Inr x | _ \<Rightarrow> Inl RedisNil, m))),
     SetKey = (\<lambda>k v e. faulty (\<lambda>m. (Inr (), mem_put k [v] m))),
     Scan = (\<lambda>c p n. faulty (\<lambda>m. (Inr (filter (\<lambda>k. prefix (butlast p) k) (map fst (mstore m)), 0), m)))\<rparr>"

definition mem_ctx :: "mem Ctx" where
  "mem_ctx = \<lparr>CtxErr = (\<lambda>m. if mcancelled m then Some (Errorf ''context canceled'') else None),
     Deadline = None, Now = mnow, Sleep = (\<lambda>d m. m\<lparr>mnow := mnow m + d\<rparr>)\<rparr>"

definition mem_db :: "int \<Rightarrow> mem Database" where
  "mem_db n = \<lparr>UniqueRunKey = [], Client = mem_client, MaxRetries = n, RetryDelay = second, RetryBackoffFactor = 2\<rparr>"

definition mem_init :: "(string \<times> string list) list \<Rightarrow> mem" where
  "mem_init kv = \<lparr>mstore = kv, mfaults = [], mnow = 0, mcancelled = False\<rparr>"

lemma map_of_filter_keys: "map_of (filter (\<lambda>(l, _). P l) xs) k = (if P k then map_of xs k else None)"
  by (induction xs) auto

lemma mem_view_put [simp]: "mem_view (mem_put k xs m) = (mem_view m)(k := xs)"
  by (auto simp: mem_view_def mem_put_def fun_eq_iff map_of_filter_keys split: option.splits)

lemma mem_view_faults [simp]: "mem_view (m\<lparr>mfaults := fs\<rparr>) = mem_view m" "mem_view (m\<lparr>mnow := t\<rparr>) = mem_view m"
  by (auto simp: mem_view_def fun_eq_iff)

lemma mem_view_del: "mem_view (m\<lparr>mstore := filter (\<lambda>(k, _). k \<notin> set ks) (mstore m)\<rparr>) = (\<lambda>k. if k \<in> set ks then [] else mem_view m k)"
  by (auto simp: mem_view_def fun_eq_iff map_of_filter_keys)

lemma lawful_faulty:
  assumes "\<And>m fs. V (m\<lparr>mfaults := fs\<rparr>) = V m"
    and "\<And>m. case op m of (Inr a, m') \<Rightarrow> Q (V m) a (V m') | (Inl e, m') \<Rightarrow> V m' = V m \<and> (e = RedisNil \<longrightarrow> N (V m))"
  shows "lawful Q N V (faulty op)"
  unfolding lawful_def
proof (intro allI impI)
  fix s r s'
  assume *: "faulty op s = (r, s')"
  show "case r of Inr a \<Rightarrow> Q (V s) a (V s') | Inl e \<Rightarrow> V s' = V s \<and> (e = RedisNil \<longrightarrow> N (V s))"
    using * assms(2) [of s] assms(2) [of "s\<lparr>mfaults := tl (mfaults s)\<rparr>"]
    by (auto simp: faulty_def assms(1) split: list.splits option.splits sum.splits)
qed

lemma mem_keys:
  assumes "mem_view m k \<noteq> []"
  shows "k \<in> fst ` set (mstore m)"
proof -
  obtain xs where "map_of (mstore m) k = Some xs" using assms by (auto simp: mem_view_def split: option.splits)
  then show ?thesis by (force dest: map_of_SomeD)
qed

interpretation mem: redis_db "mem_db n" mem_view mem_ctx for n
proof unfold_locales
  fix d s
  show "mem_view (Sleep mem_ctx d s) = mem_view s" by (simp add: mem_ctx_def)
qed (simp add: mem_db_def mem_client_def, rule lawful_faulty, simp,
   (auto simp: command_specs Let_def mem_view_del dest: mem_keys split: option.splits)[1])+

end
