(* ===== verification/Config.thy ===== *)
theory Config
  imports Database
begin

text \<open>
  \<open>internal/config/config.go\<close> without the template tracker: the configuration and its plugins,
  the GitHub scope of a plugin, the overrides from the environment, and the globals the plugins
  share. The environment is the list of \<open>K=V\<close> strings of \<open>os.Environ\<close>; the YAML decoder is
  third-party. A float field is the exact rational its decimal denotes (rounding to a double,
  and the hexadecimal, infinite and not-a-number forms of \<open>ParseFloat\<close> are left out).
\<close>

record MetricsConfig =
  MAggregator :: bool
  MPort :: string
  MetricsURLs :: "string list"
  MSleepInterval :: int
  MDatabase :: DBConfig

record Workflow =
  WInclude :: "string list"
  WExclude :: "string list"

record Plugin =
  PSleepInterval :: int
  PName :: string
  PPlugin :: string
  PToken :: string
  PRepo :: string
  POwner :: string
  PEnterprise :: string
  PQueueName :: string
  PDatabase :: DBConfig
  PRegistryURL :: string
  PSkipPull :: bool
  PPrivateKey :: string
  PAppID :: int
  PInstallationID :: int
  PWorkflows :: Workflow
  PPort :: string
  PSecret :: string
  PHookID :: int
  PSkipRedeliver :: bool
  PRunnerGroup :: string
  PRedeliverHours :: int
  PRegistrationTimeoutSeconds :: int
  PTemplateDiskBuffer :: rat
  PJobRetryAttempts :: int
  PSkipCPUAndMemoryResourceChecks :: bool
  PHostToGuestFolderMounts :: "string list"

record Config =
  Plugins :: "Plugin list"
  PidFileDir :: string
  LogFileDir :: string
  WorkDir :: string
  Metrics :: MetricsConfig
  GlobalPrivateKey :: string
  GlobalToken :: string
  PluginsPath :: string
  GlobalDatabaseURL :: string
  GlobalDatabasePort :: int
  GlobalDatabaseUser :: string
  GlobalDatabasePassword :: string
  GlobalDatabaseDatabase :: int
  GlobalDatabaseMaxRetries :: int
  GlobalDatabaseRetryDelay :: int
  GlobalDatabaseRetryBackoffFactor :: rat
  GlobalDatabaseClusterMode :: bool
  GlobalDatabaseTLSEnabled :: bool
  GlobalDatabaseTLSInsecure :: bool
  GlobalReceiverSecret :: string
  GlobalTemplateDiskBuffer :: rat
  GlobalSkipCPUAndMemoryResourceChecks :: bool
  GlobalHostToGuestFolderMounts :: "string list"

definition zero_DBConfig :: DBConfig where
  "zero_DBConfig = \<lparr>DBURL = [], DBPort = 0, DBUser = [], DBPassword = [], DBDatabase = 0, DBMaxRetries = 0,
     DBRetryDelay = 0, DBRetryBackoffFactor = 0, DBClusterMode = False, DBTLSEnabled = False, DBTLSInsecure = False\<rparr>"

definition zero_Plugin :: Plugin where
  "zero_Plugin = \<lparr>PSleepInterval = 0, PName = [], PPlugin = [], PToken = [], PRepo = [], POwner = [], PEnterprise = [],
     PQueueName = [], PDatabase = zero_DBConfig, PRegistryURL = [], PSkipPull = False, PPrivateKey = [], PAppID = 0,
     PInstallationID = 0, PWorkflows = \<lparr>WInclude = [], WExclude = []\<rparr>, PPort = [], PSecret = [], PHookID = 0,
     PSkipRedeliver = False, PRunnerGroup = [], PRedeliverHours = 0, PRegistrationTimeoutSeconds = 0,
     PTemplateDiskBuffer = 0, PJobRetryAttempts = 0, PSkipCPUAndMemoryResourceChecks = False, PHostToGuestFolderMounts = []\<rparr>"

definition zero_Config :: Config where
  "zero_Config = \<lparr>Plugins = [], PidFileDir = [], LogFileDir = [], WorkDir = [],
     Metrics = \<lparr>MAggregator = False, MPort = [], MetricsURLs = [], MSleepInterval = 0, MDatabase = zero_DBConfig\<rparr>,
     GlobalPrivateKey = [], GlobalToken = [], PluginsPath = [], GlobalDatabaseURL = [], GlobalDatabasePort = 0,
     GlobalDatabaseUser = [], GlobalDatabasePassword = [], GlobalDatabaseDatabase = 0, GlobalDatabaseMaxRetries = 0,
     GlobalDatabaseRetryDelay = 0, GlobalDatabaseRetryBackoffFactor = 0, GlobalDatabaseClusterMode = False,
     GlobalDatabaseTLSEnabled = False, GlobalDatabaseTLSInsecure = False, GlobalReceiverSecret = [],
     GlobalTemplateDiskBuffer = 0, GlobalSkipCPUAndMemoryResourceChecks = False, GlobalHostToGuestFolderMounts = []\<rparr>"

section \<open>The scope of a plugin\<close>

datatype GitHubScope = GitHubScopeEnterprise | GitHubScopeOrganization | GitHubScopeRepository | GitHubScopeUnspecified

definition ValidateGitHubScope :: "Plugin \<Rightarrow> gerror option" where
  "ValidateGitHubScope p =
     (if PEnterprise p \<noteq> [] \<and> (POwner p \<noteq> [] \<or> PRepo p \<noteq> [])
      then Some (Errorf ''enterprise cannot be combined with owner or repo; pick one scope level'')
      else if PRepo p \<noteq> [] \<and> POwner p = [] then Some (Errorf ''repo requires owner to be set'')
      else if PEnterprise p = [] \<and> POwner p = [] then Some (Errorf ''enterprise or owner must be set'')
      else None)"

definition GitHubScope_of :: "Plugin \<Rightarrow> GitHubScope" where
  "GitHubScope_of p =
     (if PEnterprise p \<noteq> [] then GitHubScopeEnterprise
      else if PRepo p \<noteq> [] then GitHubScopeRepository
      else if POwner p \<noteq> [] then GitHubScopeOrganization
      else GitHubScopeUnspecified)"

definition IsEnterpriseScope :: "Plugin \<Rightarrow> bool" where
  "IsEnterpriseScope p \<longleftrightarrow> GitHubScope_of p = GitHubScopeEnterprise"

definition ValidateEnterpriseGitHubCredentials :: "Plugin \<Rightarrow> gerror option" where
  "ValidateEnterpriseGitHubCredentials p =
     (if \<not> IsEnterpriseScope p then None
      else if PToken p = [] then Some (Errorf ''enterprise scope requires a classic PAT (token or global_token) with manage_runners:enterprise'')
      else if PPrivateKey p = [] \<or> PAppID p = 0
      then Some (Errorf ''enterprise scope requires GitHub App auth (private_key or global_private_key, plus app_id) for org Actions get/cancel'')
      else None)"

definition GitHubRegistrationURL :: "Plugin \<Rightarrow> string" where
  "GitHubRegistrationURL p = (case GitHubScope_of p of
     GitHubScopeEnterprise \<Rightarrow> ''https://github.com/enterprises/'' @ PEnterprise p
   | GitHubScopeRepository \<Rightarrow> ''https://github.com/'' @ POwner p @ ''/'' @ PRepo p
   | GitHubScopeOrganization \<Rightarrow> ''https://github.com/'' @ POwner p
   | GitHubScopeUnspecified \<Rightarrow> [])"

definition GetQueueOwner :: "Plugin \<Rightarrow> string" where
  "GetQueueOwner p = (if PQueueName p \<noteq> [] then PQueueName p
     else if PEnterprise p \<noteq> [] then PEnterprise p else POwner p)"

definition MetricsOwner :: "Plugin \<Rightarrow> string" where
  "MetricsOwner p = (if POwner p \<noteq> [] then POwner p else PEnterprise p)"

definition MetricsKeyEnding :: "Plugin \<Rightarrow> string" where
  "MetricsKeyEnding p = (if MetricsOwner p \<noteq> [] then MetricsOwner p @ ''/'' @ PName p else PName p)"

definition AnyHostToGuestFolderMountsConfigured :: "Config \<Rightarrow> bool" where
  "AnyHostToGuestFolderMountsConfigured cfg \<longleftrightarrow>
     GlobalHostToGuestFolderMounts cfg \<noteq> [] \<or> (\<exists>p\<in>set (Plugins cfg). PHostToGuestFolderMounts p \<noteq> [])"

fun FindIndexFrom :: "int \<Rightarrow> Plugin list \<Rightarrow> string \<Rightarrow> int" where
  "FindIndexFrom i [] name = - 1"
| "FindIndexFrom i (p # ps) name = (if PName p = name then i else FindIndexFrom (i + 1) ps name)"

definition FindIndexByName :: "Plugin list \<Rightarrow> string \<Rightarrow> int" where
  "FindIndexByName ps name = FindIndexFrom 0 ps name"

section \<open>Values from the environment\<close>

fun Getenv :: "string list \<Rightarrow> string \<Rightarrow> string" where
  "Getenv [] key = []"
| "Getenv (e # es) key = (case Cut CHR ''='' e of (k, v, found) \<Rightarrow> if found \<and> k = key then v else Getenv es key)"

text \<open>A decimal: sign, digits, fraction, exponent.\<close>

definition decimal :: "string \<Rightarrow> rat result" where
  "decimal s = (case Cut CHR ''.'' s of (whole, fpart, dot) \<Rightarrow>
     if list_all is_digit (whole @ fpart) \<and> whole @ fpart \<noteq> []
     then Inr (of_nat (read_nat (whole @ fpart)) / 10 ^ length fpart)
     else Inl (Errorf ''invalid syntax''))"

definition ParseFloat :: "string \<Rightarrow> rat result" where
  "ParseFloat s =
     (let neg = (s \<noteq> [] \<and> hd s = CHR ''-'');
          body = (if s \<noteq> [] \<and> (hd s = CHR ''-'' \<or> hd s = CHR ''+'') then tl s else s)
      in case Cut CHR ''e'' (ToLower body) of (mant, ex, hasExp) \<Rightarrow>
        (case (decimal mant, if hasExp then Atoi ex else Inr 0) of
           (Inr m, Inr k) \<Rightarrow> Inr ((if neg then - 1 else 1) * (if 0 \<le> k then m * 10 ^ nat k else m / 10 ^ nat (- k)))
         | _ \<Rightarrow> Inl (Errorf (''strconv.ParseFloat: parsing '' @ s))))"

definition split_trimmed :: "string \<Rightarrow> string list" where
  "split_trimmed s = filter (\<lambda>p. p \<noteq> []) (map TrimSpace (Split CHR '','' s))"

section \<open>Overrides of one plugin\<close>

definition normalizePluginEnvPrefix :: "string \<Rightarrow> string" where
  "normalizePluginEnvPrefix name = map (\<lambda>ch. let n = (of_char ch :: nat) in
     if (65 \<le> n \<and> n \<le> 90) \<or> is_digit ch \<or> ch = CHR ''_'' then ch else CHR ''_'') (ToUpper name)"

text \<open>
  \<open>setStructFieldByEnvKey\<close> on the fields of a plugin and of a database, by their tags: the
  first argument of a setter is the parsed value. A key without a field changes nothing, nor
  does a field of struct kind.
\<close>

fun set_int :: "string \<Rightarrow> (int \<Rightarrow> 'a) \<Rightarrow> 'a result" where
  "set_int v upd = (case Atoi v of Inl e \<Rightarrow> Inl e | Inr i \<Rightarrow> Inr (upd i))"

fun set_float :: "string \<Rightarrow> (rat \<Rightarrow> 'a) \<Rightarrow> 'a result" where
  "set_float v upd = (case ParseFloat v of Inl e \<Rightarrow> Inl e | Inr q \<Rightarrow> Inr (upd q))"

definition set_database_field :: "string \<Rightarrow> string \<Rightarrow> DBConfig \<Rightarrow> DBConfig result" where
  "set_database_field key v d =
     (if key = ''URL'' then Inr (d\<lparr>DBURL := v\<rparr>)
      else if key = ''PORT'' then set_int v (\<lambda>i. d\<lparr>DBPort := i\<rparr>)
      else if key = ''USER'' then Inr (d\<lparr>DBUser := v\<rparr>)
      else if key = ''PASSWORD'' then Inr (d\<lparr>DBPassword := v\<rparr>)
      else if key = ''DATABASE'' then set_int v (\<lambda>i. d\<lparr>DBDatabase := i\<rparr>)
      else if key = ''MAX_RETRIES'' then set_int v (\<lambda>i. d\<lparr>DBMaxRetries := i\<rparr>)
      else if key = ''RETRY_DELAY'' then set_int v (\<lambda>i. d\<lparr>DBRetryDelay := i\<rparr>)
      else if key = ''RETRY_BACKOFF_FACTOR'' then set_float v (\<lambda>q. d\<lparr>DBRetryBackoffFactor := q\<rparr>)
      else if key = ''CLUSTER_MODE'' then Inr (d\<lparr>DBClusterMode := v = ''true''\<rparr>)
      else if key = ''TLS_ENABLED'' then Inr (d\<lparr>DBTLSEnabled := v = ''true''\<rparr>)
      else if key = ''TLS_INSECURE'' then Inr (d\<lparr>DBTLSInsecure := v = ''true''\<rparr>)
      else Inr d)"

definition set_plugin_field :: "string \<Rightarrow> string \<Rightarrow> Plugin \<Rightarrow> Plugin result" where
  "set_plugin_field key v p =
     (if key = ''SLEEP_INTERVAL'' then set_int v (\<lambda>i. p\<lparr>PSleepInterval := i\<rparr>)
      else if key = ''NAME'' then Inr (p\<lparr>PName := v\<rparr>)
      else if key = ''PLUGIN'' then Inr (p\<lparr>PPlugin := v\<rparr>)
      else if key = ''TOKEN'' then Inr (p\<lparr>PToken := v\<rparr>)
      else if key = ''REPO'' then Inr (p\<lparr>PRepo := v\<rparr>)
      else if key = ''OWNER'' then Inr (p\<lparr>POwner := v\<rparr>)
      else if key = ''ENTERPRISE'' then Inr (p\<lparr>PEnterprise := v\<rparr>)
      else if key = ''QUEUE_NAME'' then Inr (p\<lparr>PQueueName := v\<rparr>)
      else if key = ''REGISTRY_URL'' then Inr (p\<lparr>PRegistryURL := v\<rparr>)
      else if key = ''SKIP_PULL'' then Inr (p\<lparr>PSkipPull := v = ''true''\<rparr>)
      else if key = ''PRIVATE_KEY'' then Inr (p\<lparr>PPrivateKey := v\<rparr>)
      else if key = ''APP_ID'' then set_int v (\<lambda>i. p\<lparr>PAppID := i\<rparr>)
      else if key = ''INSTALLATION_ID'' then set_int v (\<lambda>i. p\<lparr>PInstallationID := i\<rparr>)
      else if key = ''PORT'' then Inr (p\<lparr>PPort := v\<rparr>)
      else if key = ''SECRET'' then Inr (p\<lparr>PSecret := v\<rparr>)
      else if key = ''HOOK_ID'' then set_int v (\<lambda>i. p\<lparr>PHookID := i\<rparr>)
      else if key = ''SKIP_REDELIVER'' then Inr (p\<lparr>PSkipRedeliver := v = ''true''\<rparr>)
      else if key = ''RUNNER_GROUP'' then Inr (p\<lparr>PRunnerGroup := v\<rparr>)
      else if key = ''REDELIVER_HOURS'' then set_int v (\<lambda>i. p\<lparr>PRedeliverHours := i\<rparr>)
      else if key = ''REGISTRATION_TIMEOUT_SECONDS'' then set_int v (\<lambda>i. p\<lparr>PRegistrationTimeoutSeconds := i\<rparr>)
      else if key = ''TEMPLATE_DISK_BUFFER'' then set_float v (\<lambda>q. p\<lparr>PTemplateDiskBuffer := q\<rparr>)
      else if key = ''JOB_RETRY_ATTEMPTS'' then set_int v (\<lambda>i. p\<lparr>PJobRetryAttempts := i\<rparr>)
      else if key = ''SKIP_CPU_AND_MEMORY_RESOURCE_CHECKS'' then Inr (p\<lparr>PSkipCPUAndMemoryResourceChecks := v = ''true''\<rparr>)
      else if key = ''HOST_TO_GUEST_FOLDER_MOUNTS'' then Inr (p\<lparr>PHostToGuestFolderMounts := split_trimmed v\<rparr>)
      else Inr p)"

text \<open>One entry of the environment, and the loop over all of them.\<close>

definition apply_env :: "string \<Rightarrow> string \<Rightarrow> Plugin \<Rightarrow> Plugin result" where
  "apply_env pluginEnvPrefix env p = (case Cut CHR ''='' env of (envKey, envValue, found) \<Rightarrow>
     if \<not> found then Inr p
     else (case CutPrefix envKey (pluginEnvPrefix @ ''_'') of
        None \<Rightarrow> Inr p
      | Some suffix_ \<Rightarrow>
          (case CutPrefix suffix_ ''DATABASE_'' of
             Some key \<Rightarrow> (case set_database_field key envValue (PDatabase p) of
                Inl e \<Rightarrow> Inl e | Inr d \<Rightarrow> Inr (p\<lparr>PDatabase := d\<rparr>))
           | None \<Rightarrow> if TrimSpace envValue = [] then Inr p else set_plugin_field suffix_ envValue p)))"

fun applyPluginEnvOverrides :: "string \<Rightarrow> string list \<Rightarrow> Plugin \<Rightarrow> Plugin result" where
  "applyPluginEnvOverrides pre [] p = Inr p"
| "applyPluginEnvOverrides pre (env # envs) p =
     (case apply_env pre env p of Inl e \<Rightarrow> Inl e | Inr p' \<Rightarrow> applyPluginEnvOverrides pre envs p')"

section \<open>LoadInEnvs\<close>

fun env_int :: "string list \<Rightarrow> string \<Rightarrow> (int \<Rightarrow> Config \<Rightarrow> Config) \<Rightarrow> Config \<Rightarrow> Config result" where
  "env_int env key upd cfg = (if Getenv env key = [] then Inr cfg else set_int (Getenv env key) (\<lambda>i. upd i cfg))"

fun env_string :: "string list \<Rightarrow> string \<Rightarrow> (string \<Rightarrow> Config \<Rightarrow> Config) \<Rightarrow> Config \<Rightarrow> Config" where
  "env_string env key upd cfg = (if Getenv env key = [] then cfg else upd (Getenv env key) cfg)"

fun bind_result :: "'a result \<Rightarrow> ('a \<Rightarrow> 'b result) \<Rightarrow> 'b result" where
  "bind_result (Inl e) f = Inl e"
| "bind_result (Inr a) f = f a"

definition load_metrics_envs :: "string list \<Rightarrow> Config \<Rightarrow> Config result" where
  "load_metrics_envs env c0 =
     (let metrics = (\<lambda>f (v::string) c. c\<lparr>Metrics := f v (Metrics c)\<rparr>);
          db = (\<lambda>f c. c\<lparr>Metrics := (Metrics c)\<lparr>MDatabase := f (MDatabase (Metrics c))\<rparr>\<rparr>);
          c1 = env_string env ''ANKLET_METRICS_AGGREGATOR'' (metrics (\<lambda>v m. m\<lparr>MAggregator := v = ''true''\<rparr>)) c0;
          c2 = env_string env ''ANKLET_METRICS_PORT'' (metrics (\<lambda>v m. m\<lparr>MPort := v\<rparr>)) c1
      in bind_result (env_int env ''ANKLET_METRICS_SLEEP_INTERVAL'' (\<lambda>i c. c\<lparr>Metrics := (Metrics c)\<lparr>MSleepInterval := i\<rparr>\<rparr>) c2) (\<lambda>c3.
         let c4 = env_string env ''ANKLET_METRICS_DATABASE_USER'' (\<lambda>v. db (\<lambda>d. d\<lparr>DBUser := v\<rparr>)) c3;
             c5 = env_string env ''ANKLET_METRICS_DATABASE_PASSWORD'' (\<lambda>v. db (\<lambda>d. d\<lparr>DBPassword := v\<rparr>)) c4;
             c6 = env_string env ''ANKLET_METRICS_DATABASE_URL'' (\<lambda>v. db (\<lambda>d. d\<lparr>DBURL := v\<rparr>)) c5
         in bind_result (env_int env ''ANKLET_METRICS_DATABASE_PORT'' (\<lambda>i. db (\<lambda>d. d\<lparr>DBPort := i\<rparr>)) c6)
              (env_int env ''ANKLET_METRICS_DATABASE_DATABASE'' (\<lambda>i. db (\<lambda>d. d\<lparr>DBDatabase := i\<rparr>)))))"

definition load_global_envs :: "string list \<Rightarrow> Config \<Rightarrow> Config result" where
  "load_global_envs env c0 =
     (let c1 = env_string env ''ANKLET_WORK_DIR'' (\<lambda>v c. c\<lparr>WorkDir := v\<rparr>) c0;
          c2 = env_string env ''ANKLET_GLOBAL_PRIVATE_KEY'' (\<lambda>v c. c\<lparr>GlobalPrivateKey := v\<rparr>) c1;
          c3 = env_string env ''ANKLET_GLOBAL_TOKEN'' (\<lambda>v c. c\<lparr>GlobalToken := v\<rparr>) c2;
          c4 = env_string env ''ANKLET_GLOBAL_DATABASE_URL'' (\<lambda>v c. c\<lparr>GlobalDatabaseURL := v\<rparr>) c3
      in bind_result (env_int env ''ANKLET_GLOBAL_DATABASE_PORT'' (\<lambda>i c. c\<lparr>GlobalDatabasePort := i\<rparr>) c4) (\<lambda>c5.
         let c6 = env_string env ''ANKLET_GLOBAL_DATABASE_USER'' (\<lambda>v c. c\<lparr>GlobalDatabaseUser := v\<rparr>) c5;
             c7 = env_string env ''ANKLET_GLOBAL_DATABASE_PASSWORD'' (\<lambda>v c. c\<lparr>GlobalDatabasePassword := v\<rparr>) c6
         in bind_result (env_int env ''ANKLET_GLOBAL_DATABASE_DATABASE'' (\<lambda>i c. c\<lparr>GlobalDatabaseDatabase := i\<rparr>) c7) (\<lambda>c8.
         let c9 = env_string env ''ANKLET_GLOBAL_DATABASE_CLUSTER_MODE'' (\<lambda>v c. c\<lparr>GlobalDatabaseClusterMode := v = ''true''\<rparr>) c8;
             c10 = env_string env ''ANKLET_GLOBAL_DATABASE_TLS_ENABLED'' (\<lambda>v c. c\<lparr>GlobalDatabaseTLSEnabled := v = ''true''\<rparr>) c9;
             c11 = env_string env ''ANKLET_GLOBAL_DATABASE_TLS_INSECURE'' (\<lambda>v c. c\<lparr>GlobalDatabaseTLSInsecure := v = ''true''\<rparr>) c10;
             c12 = env_string env ''ANKLET_GLOBAL_RECEIVER_SECRET'' (\<lambda>v c. c\<lparr>GlobalReceiverSecret := v\<rparr>) c11;
             buffer = Getenv env ''ANKLET_GLOBAL_TEMPLATE_DISK_BUFFER''
         in bind_result (if buffer = [] then Inr c12 else set_float buffer (\<lambda>q. c12\<lparr>GlobalTemplateDiskBuffer := q\<rparr>)) (\<lambda>c13.
         let c14 = env_string env ''ANKLET_GLOBAL_SKIP_CPU_AND_MEMORY_RESOURCE_CHECKS''
                     (\<lambda>v c. c\<lparr>GlobalSkipCPUAndMemoryResourceChecks := v = ''true''\<rparr>) c13
         in Inr (env_string env ''ANKLET_GLOBAL_HOST_TO_GUEST_FOLDER_MOUNTS''
                     (\<lambda>v c. c\<lparr>GlobalHostToGuestFolderMounts := split_trimmed v\<rparr>) c14)))))"

fun override_plugins :: "string list \<Rightarrow> Plugin list \<Rightarrow> Plugin list result" where
  "override_plugins env [] = Inr []"
| "override_plugins env (p # ps) =
     (let pluginEnvPrefix = normalizePluginEnvPrefix (PName p) in
      bind_result (if pluginEnvPrefix = [] then Inr p else applyPluginEnvOverrides pluginEnvPrefix env p)
        (\<lambda>p'. bind_result (override_plugins env ps) (\<lambda>ps'. Inr (p' # ps'))))"

text \<open>The last loop: the global credentials are the default of each plugin's.\<close>

definition default_credentials :: "Config \<Rightarrow> Plugin \<Rightarrow> Plugin" where
  "default_credentials cfg p =
     (let p1 = (if PPrivateKey p = [] \<and> GlobalPrivateKey cfg \<noteq> [] then p\<lparr>PPrivateKey := GlobalPrivateKey cfg\<rparr> else p)
      in if PToken p1 = [] \<and> GlobalToken cfg \<noteq> [] then p1\<lparr>PToken := GlobalToken cfg\<rparr> else p1)"

definition load_plugin_envs :: "string list \<Rightarrow> Config \<Rightarrow> Config result" where
  "load_plugin_envs env c0 =
     bind_result (env_int env ''ANKLET_JOB_RETRY_ATTEMPTS''
        (\<lambda>i c. c\<lparr>Plugins := map (\<lambda>p. p\<lparr>PJobRetryAttempts := i\<rparr>) (Plugins c)\<rparr>) c0) (\<lambda>c1.
     bind_result (override_plugins env (Plugins c1)) (\<lambda>ps.
     Inr (c1\<lparr>Plugins := map (default_credentials c1) ps\<rparr>)))"

definition LoadInEnvs :: "string list \<Rightarrow> Config \<Rightarrow> Config result" where
  "LoadInEnvs env c = bind_result (load_metrics_envs env c) (\<lambda>c1. bind_result (load_global_envs env c1) (load_plugin_envs env))"

section \<open>The globals of the worker\<close>

text \<open>
  The atomics the plugins share. The two-level map of plugins is in the order a range over it
  visits (Go leaves the order open); the keys are the plugin type and the plugin name.
\<close>

record PluginGlobal =
  PluginRunCount :: "64 word"
  Preparing :: bool
  FinishedInitialRun :: bool
  Paused :: bool

record Globals =
  RunPluginsOnce :: bool
  ReturnAllToMainQueue :: bool
  GitHubAPIRateLimitResetUnix :: int
  LastGitHubAPIRateLimitNoticeUnix :: int
  GPluginsPath :: string
  DebugEnabled :: bool
  HostCPUCount :: int
  HostMemoryBytes :: "64 word"
  QueueTargetIndex :: "64 word"
  GPlugins :: "(string \<times> (string \<times> PluginGlobal) list) list"

fun GetPluginRunCountFrom :: "(string \<times> (string \<times> PluginGlobal) list) list \<Rightarrow> string \<Rightarrow> 64 word result" where
  "GetPluginRunCountFrom [] pluginName = Inl (Errorf ''GetPluginRunCount: plugin not found'')"
| "GetPluginRunCountFrom ((t, ps) # rest) pluginName =
     (case map_of ps pluginName of Some g \<Rightarrow> Inr (PluginRunCount g) | None \<Rightarrow> GetPluginRunCountFrom rest pluginName)"

definition GetPluginRunCount :: "Globals \<Rightarrow> string \<Rightarrow> 64 word result" where
  "GetPluginRunCount g = GetPluginRunCountFrom (GPlugins g)"

definition update_global :: "string \<Rightarrow> (PluginGlobal \<Rightarrow> PluginGlobal) \<Rightarrow> (string \<times> PluginGlobal) list \<Rightarrow> (string \<times> PluginGlobal) list" where
  "update_global name f = map (\<lambda>(n, s). (n, if n = name then f s else s))"

definition IncrementPluginRunCount :: "Globals \<Rightarrow> string \<Rightarrow> Globals" where
  "IncrementPluginRunCount g pluginName =
     g\<lparr>GPlugins := map (\<lambda>(t, ps). (t, update_global pluginName (\<lambda>s. s\<lparr>PluginRunCount := PluginRunCount s + 1\<rparr>) ps)) (GPlugins g)\<rparr>"

fun paused_in :: "(string \<times> (string \<times> PluginGlobal) list) list \<Rightarrow> string" where
  "paused_in [] = []"
| "paused_in ((pluginName, ps) # rest) = (if (\<exists>(n, s)\<in>set ps. Paused s) then pluginName else paused_in rest)"

definition GetPausedPlugin :: "Globals \<Rightarrow> string" where
  "GetPausedPlugin g = paused_in (GPlugins g)"

definition IncrementQueueTargetIndex :: "Globals \<Rightarrow> Globals" where
  "IncrementQueueTargetIndex g = g\<lparr>QueueTargetIndex := QueueTargetIndex g + 1\<rparr>"

definition DecrementQueueTargetIndex :: "Globals \<Rightarrow> Globals" where
  "DecrementQueueTargetIndex g = (if 0 <s QueueTargetIndex g then g\<lparr>QueueTargetIndex := QueueTargetIndex g - 1\<rparr> else g)"

definition ResetQueueTargetIndex :: "Globals \<Rightarrow> Globals" where
  "ResetQueueTargetIndex g = g\<lparr>QueueTargetIndex := 0\<rparr>"

section \<open>Facts\<close>

text \<open>A plugin that passes validation has one scope, a registration URL and a queue owner.\<close>

lemma scope_facts:
  "ValidateGitHubScope p = None \<Longrightarrow> GetQueueOwner p \<noteq> [] \<and> MetricsOwner p \<noteq> [] \<and>
     (case GitHubScope_of p of
        GitHubScopeEnterprise \<Rightarrow> POwner p = [] \<and> PRepo p = []
      | GitHubScopeRepository \<Rightarrow> PEnterprise p = [] \<and> POwner p \<noteq> [] \<and> PRepo p \<noteq> []
      | GitHubScopeOrganization \<Rightarrow> PEnterprise p = [] \<and> PRepo p = [] \<and> POwner p \<noteq> []
      | GitHubScopeUnspecified \<Rightarrow> False)"
  by (auto simp: ValidateGitHubScope_def GitHubScope_of_def GetQueueOwner_def MetricsOwner_def split: if_splits)

text \<open>The plugin names an override may reach: an entry with another prefix changes nothing.\<close>

lemma apply_env_other:
  "\<not> prefix (pre @ ''_'') env \<Longrightarrow> apply_env pre env p = Inr p"
proof -
  assume no: "\<not> prefix (pre @ ''_'') env"
  obtain k v f where c: "Cut CHR ''='' env = (k, v, f)" by (metis prod_cases3)
  have "f \<Longrightarrow> \<not> prefix (pre @ ''_'') k"
    using no Cut_found [of "CHR ''=''" env k v] c by (cases f) (auto simp: prefix_def)
  then show ?thesis using c by (auto simp: apply_env_def CutPrefix_def)
qed

lemma overrides_other:
  "list_all (\<lambda>e. \<not> prefix (pre @ ''_'') e) env \<Longrightarrow> applyPluginEnvOverrides pre env p = Inr p"
  by (induction env arbitrary: p) (simp_all add: apply_env_other)

lemma bind_result_Inr [simp]: "bind_result r f = Inr b \<longleftrightarrow> (\<exists>a. r = Inr a \<and> f a = Inr b)"
  by (cases r) auto

lemma override_plugins_length: "override_plugins env ps = Inr qs \<Longrightarrow> length qs = length ps"
  by (induction ps arbitrary: qs) (auto simp: Let_def)

lemma default_credentials_facts:
  "PToken (default_credentials c p) = (if PToken p = [] then GlobalToken c else PToken p)"
  "PPrivateKey (default_credentials c p) = (if PPrivateKey p = [] then GlobalPrivateKey c else PPrivateKey p)"
  by (auto simp: default_credentials_def Let_def)

lemma default_credentials_rest:
  "(default_credentials c p)\<lparr>PToken := t, PPrivateKey := k\<rparr> = p\<lparr>PToken := t, PPrivateKey := k\<rparr>"
  by (simp add: default_credentials_def Let_def)

end
