(* ===== verification/Queue.thy ===== *)
theory Queue
  imports Redis Config
begin

text \<open>
  \<open>internal/github/queue.go\<close> and \<open>internal/github/database.go\<close>: looking jobs up in the Redis
  lists, popping and deleting them, updating the active job of a handler, and the translation
  of the status GitHub reports. A dereference of a nil pointer is the outcome \<open>Panic\<close>. The
  database and the logger are taken to be in the context.
\<close>

datatype 'a go = Ret 'a | Panic

section \<open>Looking up\<close>

definition GetQueueSize :: "'s Ctx \<Rightarrow> 's Database \<Rightarrow> string \<Rightarrow> 's \<Rightarrow> int result \<times> 's" where
  "GetQueueSize ctx db queueName = RetryLLen ctx db queueName"

text \<open>The loop of \<open>GetJobJSONFromQueueByID\<close>; the empty string stands for no match.\<close>

fun find_job :: "int \<Rightarrow> string list \<Rightarrow> string result" where
  "find_job jobID [] = Inr []"
| "find_job jobID (item # items) =
     (case Unwrap item of
        Inl e \<Rightarrow> Inl e
      | Inr job \<Rightarrow>
          (case ID (WorkflowJob job) of
             None \<Rightarrow> Inl (Errorf ''WorkflowJob.ID is nil'')
           | Some i \<Rightarrow> if i = jobID then Inr item else find_job jobID items))"

definition GetJobJSONFromQueueByID :: "'s Ctx \<Rightarrow> 's Database \<Rightarrow> int \<Rightarrow> string \<Rightarrow> 's \<Rightarrow> string result \<times> 's" where
  "GetJobJSONFromQueueByID ctx db jobID queue s =
     (case RetryLRange (Background ctx) db queue 0 (- 1) s of
        (Inl e, s') \<Rightarrow> (Inl e, s')
      | (Inr queued, s') \<Rightarrow> (find_job jobID queued, s'))"

definition GetJobFromQueue :: "'s Ctx \<Rightarrow> 's Database \<Rightarrow> string \<Rightarrow> 's \<Rightarrow> QueueJob result \<times> 's" where
  "GetJobFromQueue ctx db queue s =
     (case RetryLIndex (Background ctx) db queue 0 s of
        (Inl e, s') \<Rightarrow> (Inl e, s')
      | (Inr json, s') \<Rightarrow> (Unwrap json, s'))"

text \<open>\<open>DeleteFromQueue\<close>: the first item with the job's ID is removed by value.\<close>

fun find_delete :: "int \<Rightarrow> string list \<Rightarrow> string option result go" where
  "find_delete jobID [] = Ret (Inr None)"
| "find_delete jobID (item # items) =
     (case Unwrap item of
        Inl e \<Rightarrow> Ret (Inl e)
      | Inr job \<Rightarrow>
          (case ID (WorkflowJob job) of
             None \<Rightarrow> Panic
           | Some i \<Rightarrow> if i = jobID then Ret (Inr (Some item)) else find_delete jobID items))"

definition DeleteFromQueue :: "'s Ctx \<Rightarrow> 's Database \<Rightarrow> int \<Rightarrow> string \<Rightarrow> 's \<Rightarrow> gerror option go \<times> 's" where
  "DeleteFromQueue ctx db jobID queue s =
     (case RetryLRange (Background ctx) db queue 0 (- 1) s of
        (Inl e, s') \<Rightarrow> (Ret (Some e), s')
      | (Inr queued, s') \<Rightarrow>
          (case find_delete jobID queued of
             Panic \<Rightarrow> (Panic, s')
           | Ret (Inl e) \<Rightarrow> (Ret (Some e), s')
           | Ret (Inr None) \<Rightarrow> (Ret None, s')
           | Ret (Inr (Some item)) \<Rightarrow>
               (case RetryLRem (Background ctx) db queue 1 item s' of
                  (Inl e, s'') \<Rightarrow> (Ret (Some e), s'')
                | (Inr success, s'') \<Rightarrow>
                    (Ret (if success = 1 then None else Some (Errorf ''job not removed from queue'')), s''))))"

definition QueueHasJobs :: "'s Ctx \<Rightarrow> 's Database \<Rightarrow> string \<Rightarrow> 's \<Rightarrow> bool result \<times> 's" where
  "QueueHasJobs ctx db queueName s =
     (case RetryLLen ctx db queueName s of
        (Inl e, s') \<Rightarrow> (Inl (Errorf (''error getting queue size: '' @ Error e)), s')
      | (Inr n, s') \<Rightarrow> (Inr (n > 0), s'))"

text \<open>\<open>PopJobOffQueue\<close>: range, then removal by value; the empty string when nothing was got.\<close>

definition take_target :: "'s Ctx \<Rightarrow> 's Database \<Rightarrow> string \<Rightarrow> string list \<Rightarrow> 's \<Rightarrow> string result \<times> 's" where
  "take_target ctx db queueName queued s =
     (case queued of
        [] \<Rightarrow> (Inr [], s)
      | targetElement # _ \<Rightarrow>
          (case RetryLRem ctx db queueName 1 targetElement s of
             (Inl e, s') \<Rightarrow> (Inl (Errorf (''error removing queued job: '' @ Error e)), s')
           | (Inr success, s') \<Rightarrow> if success = 1 then (Inr targetElement, s') else (Inr [], s')))"

definition PopJobOffQueue :: "'s Ctx \<Rightarrow> 's Database \<Rightarrow> string \<Rightarrow> int \<Rightarrow> 's \<Rightarrow> string result \<times> 's" where
  "PopJobOffQueue ctx db queueName queueTargetIndex s =
     (case RetryLRange ctx db queueName queueTargetIndex (- 1) s of
        (Inl e, s') \<Rightarrow>
          if e = RedisNil then (Inr [], s')
          else (Inl (Errorf (''error getting queued job: '' @ Error e)), s')
      | (Inr queued, s') \<Rightarrow> take_target ctx db queueName queued s')"

text \<open>
  \<open>GetJobFromQueueByKeyAndValue\<close>: the value at a dotted path of the decoded object, as text.
\<close>

fun navigate :: "json \<Rightarrow> string list \<Rightarrow> json" where
  "navigate current [] = current"
| "navigate (JObj ms) (part # parts) =
     (case map_of ms part of None \<Rightarrow> JNull
      | Some v \<Rightarrow> if v = JNull then JNull else navigate v parts)"
| "navigate _ (part # parts) = JNull"

fun value_text :: "json \<Rightarrow> string" where
  "value_text JNull = []"
| "value_text (JStr v) = v"
| "value_text (JNum i) = FormatInt i"
| "value_text (JReal t) = (case ParseFloat t of Inl e \<Rightarrow> [] | Inr q \<Rightarrow> FormatInt (trunc_rat q))"
| "value_text (JBool b) = (if b then ''true'' else ''false'')"
| "value_text v = jprint v"

definition decode_map :: "string \<Rightarrow> json result" where
  "decode_map job = (case json_parse job of
     None \<Rightarrow> Inl (Errorf ''invalid JSON'')
   | Some v \<Rightarrow> (case v of JObj ms \<Rightarrow> Inr (any_value (JObj ms)) | JNull \<Rightarrow> Inr (JObj []) | _ \<Rightarrow> Inl mismatch))"

fun find_key_value :: "string \<Rightarrow> string \<Rightarrow> string list \<Rightarrow> string result" where
  "find_key_value key v [] = Inr []"
| "find_key_value key v (job # jobs) =
     (case decode_map job of
        Inl e \<Rightarrow> Inl (Errorf (''error unmarshalling job to map: '' @ Error e))
      | Inr m \<Rightarrow> if value_text (navigate m (Split CHR ''.'' key)) = v then Inr job else find_key_value key v jobs)"

definition GetJobFromQueueByKeyAndValue :: "'s Ctx \<Rightarrow> 's Database \<Rightarrow> string \<Rightarrow> string \<Rightarrow> string \<Rightarrow> 's \<Rightarrow> string result \<times> 's" where
  "GetJobFromQueueByKeyAndValue ctx db queueName key v s =
     (case RetryLRange ctx db queueName 0 (- 1) s of
        (Inl e, s') \<Rightarrow> (Inl (Errorf (''error getting queued jobs: '' @ Error e)), s')
      | (Inr queued, s') \<Rightarrow> (find_key_value key v queued, s'))"

section \<open>The status GitHub reports\<close>

text \<open>The \<open>switch\<close> of \<open>UpdateJobsWorkflowJobStatus\<close> on the status of the API.\<close>

definition set_status :: "string \<Rightarrow> QueueJob \<Rightarrow> QueueJob" where
  "set_status st j = j\<lparr>WorkflowJob := (WorkflowJob j)\<lparr>Status := Some st\<rparr>\<rparr>"

definition set_conclusion :: "string \<Rightarrow> QueueJob \<Rightarrow> QueueJob" where
  "set_conclusion c j = j\<lparr>WorkflowJob := (WorkflowJob j)\<lparr>Conclusion := Some c\<rparr>\<rparr>"

definition apply_status :: "string \<Rightarrow> QueueJob \<Rightarrow> QueueJob" where
  "apply_status status j =
     (if status = ''completed'' then set_status ''completed'' j
      else if status = ''action_required'' then set_status ''completed'' (set_conclusion ''failure'' j)
      else if status = ''cancelled'' then set_status ''completed'' j
      else if status = ''failure'' then set_status ''completed'' (set_conclusion ''failure'' j)
      else if status = ''neutral'' then set_status ''completed'' j
      else if status = ''skipped'' then set_status ''completed'' j
      else if status = ''stale'' then set_status ''completed'' j
      else if status = ''success'' then set_status ''completed'' j
      else if status = ''timed_out'' then set_status ''completed'' (set_conclusion ''failure'' j)
      else if status = ''in_progress'' then set_status ''in_progress'' j
      else if status = ''queued'' then set_status ''queued'' j
      else if status = ''requested'' then set_status ''queued'' j
      else if status = ''waiting'' then set_status ''in_progress'' j
      else if status = ''pending'' then set_status ''in_progress'' j
      else j)"

text \<open>
  \<open>UpdateJobsWorkflowJobStatus\<close>; \<open>getJob owner repo id\<close> is the call of the GitHub API through
  \<open>ExecuteGitHubClientFunction\<close>, giving status and conclusion, and \<open>clientFor\<close> the choice of
  the organisation's client.
\<close>

definition UpdateJobsWorkflowJobStatus ::
    "(string \<Rightarrow> 's \<Rightarrow> gerror option \<times> 's) \<Rightarrow> (string \<Rightarrow> string \<Rightarrow> int \<Rightarrow> 's \<Rightarrow> (string option \<times> string option) result \<times> 's) \<Rightarrow>
     QueueJob \<Rightarrow> 's \<Rightarrow> (QueueJob \<times> gerror option) go \<times> 's" where
  "UpdateJobsWorkflowJobStatus clientFor getJob job s =
     (case RepositoryOwnerAndName job of
        Inl e \<Rightarrow> (Ret (job, Some e), s)
      | Inr (jobOwner, jobRepo) \<Rightarrow>
          (case clientFor jobOwner s of
             (Some e, s') \<Rightarrow> (Ret (job, Some e), s')
           | (None, s') \<Rightarrow>
               (case ID (WorkflowJob job) of
                  None \<Rightarrow> (Panic, s')
                | Some i \<Rightarrow>
                    (case getJob jobOwner jobRepo i s' of
                       (Inl e, s'') \<Rightarrow> (Ret (job, Some e), s'')
                     | (Inr (status, conclusion), s'') \<Rightarrow>
                         (let job1 = (case status of None \<Rightarrow> job | Some st \<Rightarrow> apply_status st job);
                              job2 = (case conclusion of None \<Rightarrow> job1 | Some c \<Rightarrow> set_conclusion c job1)
                          in (Ret (job2, None), s''))))))"

section \<open>The queues of the handlers\<close>

text \<open>One goroutine of \<open>CheckIfJobExistsInHandlerQueues\<close>: the head of one handler queue.\<close>

definition head_matches :: "'s Ctx \<Rightarrow> 's Database \<Rightarrow> int \<Rightarrow> int \<Rightarrow> string \<Rightarrow> 's \<Rightarrow> bool \<times> 's" where
  "head_matches ctx db workflowRunID jobID key s =
     (case RetryLIndex ctx db key 0 s of
        (Inl e, s') \<Rightarrow> (False, s')
      | (Inr json, s') \<Rightarrow>
          (if json = [] then False
           else (case Unwrap json of Inl e \<Rightarrow> False
             | Inr job \<Rightarrow> RunID (WorkflowJob job) = Some workflowRunID \<and> ID (WorkflowJob job) = Some jobID), s'))"

text \<open>
  The goroutines run to their end whatever the collecting loop returns; one after the other here.
\<close>

fun any_head_matches :: "'s Ctx \<Rightarrow> 's Database \<Rightarrow> int \<Rightarrow> int \<Rightarrow> string list \<Rightarrow> 's \<Rightarrow> bool \<times> 's" where
  "any_head_matches ctx db run i [] s = (False, s)"
| "any_head_matches ctx db run i (key # keys) s =
     (case head_matches ctx db run i key s of
        (b, s') \<Rightarrow> (case any_head_matches ctx db run i keys s' of (b', s'') \<Rightarrow> (b \<or> b', s'')))"

definition CheckIfJobExistsInHandlerQueues :: "'s Ctx \<Rightarrow> 's Database \<Rightarrow> int \<Rightarrow> int \<Rightarrow> string \<Rightarrow> 's \<Rightarrow> bool result \<times> 's" where
  "CheckIfJobExistsInHandlerQueues ctx db workflowRunID jobID queueOwner s =
     (case RetryKeys ctx db (''anklet/jobs/github/queued/'' @ queueOwner @ ''/*'') s of
        (Inl e, s') \<Rightarrow> (Inl (Errorf (''error getting handler queue keys: '' @ Error e)), s')
      | (Inr keys, s') \<Rightarrow>
          (case any_head_matches ctx db workflowRunID jobID keys s' of (b, s'') \<Rightarrow> (Inr b, s'')))"

section \<open>Updating the active job\<close>

definition CheckIfJobIsCompleted :: "'s Ctx \<Rightarrow> 's Database \<Rightarrow> string \<Rightarrow> 's \<Rightarrow> (bool \<times> QueueJob) result \<times> 's" where
  "CheckIfJobIsCompleted ctx db pluginQueueName s =
     (case RetryLIndex ctx db pluginQueueName 0 s of
        (Inl e, s') \<Rightarrow> (Inl (Errorf (''error getting first job from queue: '' @ Error e)), s')
      | (Inr jobStr, s') \<Rightarrow>
          (if jobStr = [] then Inl (Errorf ''no job found in queue'')
           else (case Unwrap jobStr of
              Inl e \<Rightarrow> Inl (Errorf ''error unmarshalling job'')
            | Inr job \<Rightarrow> Inr (Status (WorkflowJob job) = Some ''completed'', job)), s'))"

text \<open>The index \<open>UpdateJobInDB\<close> writes to: same type, ID and run ID; items that do not decode are skipped.\<close>

definition same_job :: "QueueJob \<Rightarrow> QueueJob \<Rightarrow> bool go" where
  "same_job existing upToDate =
     (if Type existing \<noteq> Type upToDate then Ret False
      else (case (ID (WorkflowJob existing), ID (WorkflowJob upToDate)) of
        (Some i, Some j) \<Rightarrow>
          if i \<noteq> j then Ret False
          else (case (RunID (WorkflowJob existing), RunID (WorkflowJob upToDate)) of
             (Some r, Some q) \<Rightarrow> Ret (r = q) | _ \<Rightarrow> Panic)
      | _ \<Rightarrow> Panic))"

fun find_update :: "QueueJob \<Rightarrow> string list \<Rightarrow> nat \<Rightarrow> nat option go" where
  "find_update job [] i = Ret None"
| "find_update job (jobStr # jobStrs) i =
     (case Unwrap jobStr of
        Inl e \<Rightarrow> find_update job jobStrs (Suc i)
      | Inr existing \<Rightarrow>
          (case same_job existing job of
             Panic \<Rightarrow> Panic
           | Ret True \<Rightarrow> Ret (Some i)
           | Ret False \<Rightarrow> find_update job jobStrs (Suc i)))"

text \<open>The two error results of \<open>UpdateJobInDB\<close>: the failure, and "already completed".\<close>

definition UpdateJobInDB :: "'s Ctx \<Rightarrow> 's Database \<Rightarrow> string \<Rightarrow> QueueJob \<Rightarrow> 's \<Rightarrow> (gerror option \<times> gerror option) go \<times> 's" where
  "UpdateJobInDB ctx db queue upToDateJob s =
     (case CheckIfJobIsCompleted ctx db queue s of
        (Inl e, s') \<Rightarrow> (Ret (Some (Errorf (''error checking if job is completed: '' @ Error e)), None), s')
      | (Inr (completed, existingJob), s') \<Rightarrow>
          if completed then (Ret (None, Some (Errorf ''job is already completed'')), s')
          else (case RetryLRange ctx db queue 0 (- 1) s' of
             (Inl e, s'') \<Rightarrow> (Ret (Some (Errorf (''error getting job list: '' @ Error e)), None), s'')
           | (Inr jobList, s'') \<Rightarrow>
               (case find_update upToDateJob jobList 0 of
                  Panic \<Rightarrow> (Panic, s'')
                | Ret None \<Rightarrow> (Ret (Some (Errorf ''job not found in database''), None), s'')
                | Ret (Some i) \<Rightarrow>
                    (case RetryLSet ctx db queue (int i) (MarshalJob upToDateJob) s'' of
                       (Inl e, s3) \<Rightarrow> (Ret (Some (Errorf (''error updating job in database: '' @ Error e)), None), s3)
                     | (Inr _, s3) \<Rightarrow> (Ret (None, None), s3)))))"

section \<open>Facts on the lookups\<close>

lemma Unwrap_Nil [simp]: "Unwrap [] = Inl (Errorf ''invalid JSON'')"
  by (simp add: Unwrap_def json_parse_def numeral_2_eq_2)

text \<open>An item of a queue that some other job owns.\<close>

definition other_job :: "int \<Rightarrow> string \<Rightarrow> bool" where
  "other_job i x \<longleftrightarrow> (case Unwrap x of Inl _ \<Rightarrow> False
     | Inr j \<Rightarrow> (case ID (WorkflowJob j) of None \<Rightarrow> False | Some k \<Rightarrow> k \<noteq> i))"

definition job_item :: "int \<Rightarrow> string \<Rightarrow> bool" where
  "job_item i x \<longleftrightarrow> (case Unwrap x of Inl _ \<Rightarrow> False | Inr j \<Rightarrow> ID (WorkflowJob j) = Some i)"

lemma job_item_not_Nil: "job_item i x \<Longrightarrow> x \<noteq> []"
  by (auto simp: job_item_def)

lemma find_job_Inr:
  "find_job i xs = Inr r \<Longrightarrow>
     (if r = [] then list_all (other_job i) xs
      else \<exists>pre post. xs = pre @ r # post \<and> list_all (other_job i) pre \<and> job_item i r)"
proof (induction xs)
  case (Cons x xs)
  show ?case
  proof (cases "other_job i x")
    case True
    then have rec: "find_job i xs = Inr r" using Cons.prems
      by (auto simp: other_job_def split: sum.splits option.splits)
    show ?thesis
    proof (cases "r = []")
      case False
      then obtain pre post where "xs = pre @ r # post" "list_all (other_job i) pre" "job_item i r"
        using Cons.IH [OF rec] by auto
      then have "x # xs = (x # pre) @ r # post \<and> list_all (other_job i) (x # pre) \<and> job_item i r"
        using True by simp
      then show ?thesis using False by metis
    qed (use Cons.IH [OF rec] True in simp)
  next
    case False
    then have "r = x" "job_item i x" using Cons.prems
      by (auto simp: other_job_def job_item_def split: sum.splits option.splits if_splits)
    then have "x # xs = [] @ r # xs \<and> list_all (other_job i) [] \<and> job_item i r" by simp
    then show ?thesis using job_item_not_Nil by metis
  qed
qed simp

lemma find_job_Nil_iff:
  "find_job i xs = Inr [] \<longleftrightarrow> list_all (other_job i) xs"
proof
  assume "list_all (other_job i) xs"
  then show "find_job i xs = Inr []"
    by (induction xs) (auto simp: other_job_def split: sum.splits option.splits)
qed (use find_job_Inr in fastforce)

lemma find_delete_find_job:
  "find_delete i xs = Ret (Inr x) \<Longrightarrow> find_job i xs = Inr (case x of None \<Rightarrow> [] | Some y \<Rightarrow> y)"
  by (induction xs) (auto split: sum.splits option.splits if_splits)

lemma find_delete_Some: "find_delete i xs = Ret (Inr (Some x)) \<Longrightarrow> x \<in> set xs \<and> job_item i x"
  by (induction xs) (auto simp: job_item_def split: sum.splits option.splits if_splits)

text \<open>A queue whose items are jobs of this program refines a list of jobs.\<close>

definition queue_of :: "QueueJob list \<Rightarrow> string list" where
  "queue_of js = map MarshalJob js"

definition jobs_ok :: "QueueJob list \<Rightarrow> bool" where
  "jobs_ok js \<longleftrightarrow> list_all (\<lambda>j. job_ok j \<and> ID (WorkflowJob j) \<noteq> None) js"

abbreviation has_id :: "int \<Rightarrow> QueueJob \<Rightarrow> bool" where
  "has_id i j \<equiv> ID (WorkflowJob j) = Some i"

lemma find_job_queue_of:
  "jobs_ok js \<Longrightarrow> find_job i (queue_of js) =
     Inr (case find (has_id i) js of None \<Rightarrow> [] | Some j \<Rightarrow> MarshalJob j)"
  by (induction js) (auto simp: queue_of_def jobs_ok_def Unwrap_MarshalJob)

lemma find_delete_queue_of:
  "jobs_ok js \<Longrightarrow> find_delete i (queue_of js) = Ret (Inr (map_option MarshalJob (find (has_id i) js)))"
  by (induction js) (auto simp: queue_of_def jobs_ok_def Unwrap_MarshalJob)

lemma MarshalJob_inj: "job_ok j \<Longrightarrow> job_ok k \<Longrightarrow> MarshalJob j = MarshalJob k \<longleftrightarrow> j = k"
  using Unwrap_MarshalJob [of j] Unwrap_MarshalJob [of k] by (metis sum.inject(2))

lemma remove1_queue_of:
  "jobs_ok js \<Longrightarrow> job_ok j \<Longrightarrow> remove1 (MarshalJob j) (queue_of js) = queue_of (remove1 j js)"
  by (induction js) (auto simp: queue_of_def jobs_ok_def MarshalJob_inj)

lemma find_update_Some:
  "find_update job xs n = Ret (Some i) \<Longrightarrow>
     n \<le> i \<and> i < n + length xs \<and> (\<exists>j. Unwrap (xs ! (i - n)) = Inr j \<and> same_job j job = Ret True)"
proof (induction xs arbitrary: n)
  case (Cons x xs)
  show ?case
  proof (cases "find_update job xs (Suc n) = Ret (Some i)")
    case True
    then have "Suc n \<le> i \<and> i < Suc n + length xs \<and> (\<exists>j. Unwrap (xs ! (i - Suc n)) = Inr j \<and> same_job j job = Ret True)"
      by (rule Cons.IH)
    then show ?thesis by (auto simp: nth_Cons')
  next
    case False
    then have "i = n \<and> (\<exists>j. Unwrap x = Inr j \<and> same_job j job = Ret True)"
      using Cons.prems by (auto split: sum.splits go.splits bool.splits)
    then show ?thesis by auto
  qed
qed simp

lemma same_job_True:
  "same_job e j = Ret True \<longleftrightarrow> Type e = Type j \<and> (\<exists>i r. ID (WorkflowJob e) = Some i \<and> ID (WorkflowJob j) = Some i
     \<and> RunID (WorkflowJob e) = Some r \<and> RunID (WorkflowJob j) = Some r)"
  by (auto simp: same_job_def split: option.splits)

section \<open>The operations against the lists\<close>

context redis_db
begin

lemma get_job_law:
  assumes "GetJobJSONFromQueueByID ctx db i q s = (r, s')"
  shows "view s' = view s" and "r = Inr x \<Longrightarrow> find_job i (view s q) = Inr x"
proof -
  obtain r1 s1 where l: "RetryLRange (Background ctx) db q 0 (- 1) s = (r1, s1)" by fastforce
  show "view s' = view s" using assms l bg_LRange_view [OF l]
    by (auto simp: GetJobJSONFromQueueByID_def split: sum.splits)
  show "r = Inr x \<Longrightarrow> find_job i (view s q) = Inr x" using assms l bg_LRangeD(1) [OF l]
    by (auto simp: GetJobJSONFromQueueByID_def split: sum.splits)
qed

lemma take_target_law:
  assumes "take_target ctx db q (x # xs) s = (Inr y, s')"
  shows "if x \<in> set (view s q) then y = x \<and> view s' = (view s)(q := remove1 x (view s q))
         else y = [] \<and> view s' = view s"
proof -
  obtain r1 s1 where l: "RetryLRem ctx db q 1 x s = (r1, s1)" by fastforce
  show ?thesis using assms l LRemD(1) [OF l]
    by (auto simp: take_target_def remove1_idem split: sum.splits if_splits)
qed

lemma pop_law:
  assumes "PopJobOffQueue ctx db q i s = (Inr x, s')" and "0 \<le> i"
  shows "if nat i < length (view s q)
         then x = view s q ! nat i \<and> view s' = (view s)(q := remove1 x (view s q))
         else x = [] \<and> view s' = view s"
proof -
  obtain r1 s1 where l: "RetryLRange ctx db q i (- 1) s = (r1, s1)" by fastforce
  note lr = LRangeD [OF l]
  have "r1 \<noteq> Inl e" for e
    using assms(1) l lr(3) by (auto simp: PopJobOffQueue_def split: if_splits)
  then have r1: "r1 = Inr (drop (nat i) (view s q))" and v1: "view s1 = view s"
    using lr(1) assms(2) by (cases r1; auto)+
  show ?thesis
  proof (cases "nat i < length (view s q)")
    case True
    then have d: "drop (nat i) (view s q) = view s q ! nat i # drop (Suc (nat i)) (view s q)"
      by (rule Cons_nth_drop_Suc [symmetric])
    have "take_target ctx db q (drop (nat i) (view s q)) s1 = (Inr x, s')"
      using assms(1) l r1 by (simp add: PopJobOffQueue_def)
    from take_target_law [OF this [unfolded d]] show ?thesis using True v1 by simp
  next
    case False
    then show ?thesis using assms(1) l r1 v1 by (simp add: PopJobOffQueue_def take_target_def)
  qed
qed

lemma delete_law:
  assumes "DeleteFromQueue ctx db i q s = (Ret None, s')"
  shows "(view s' = view s \<and> find_delete i (view s q) = Ret (Inr None))
     \<or> (\<exists>x. find_delete i (view s q) = Ret (Inr (Some x)) \<and> view s' = (view s)(q := remove1 x (view s q)))"
proof -
  obtain r1 s1 where l: "RetryLRange (Background ctx) db q 0 (- 1) s = (r1, s1)" by fastforce
  then have r1: "r1 = Inr (view s q)" and v1: "view s1 = view s"
    using assms bg_LRangeD(1) [OF l] by (auto simp: DeleteFromQueue_def split: sum.splits)
  obtain fd where fd: "find_delete i (view s q) = Ret (Inr fd)"
    using assms l r1 by (auto simp: DeleteFromQueue_def split: go.splits sum.splits)
  show ?thesis
  proof (cases fd)
    case None
    then show ?thesis using assms l r1 v1 fd by (simp add: DeleteFromQueue_def)
  next
    case (Some x)
    obtain r2 s2 where m: "RetryLRem (Background ctx) db q 1 x s1 = (r2, s2)" by fastforce
    then have "r2 = Inr 1" "s2 = s'" using assms l r1 v1 fd Some
      by (auto simp: DeleteFromQueue_def split: sum.splits if_splits)
    then show ?thesis using bg_LRemD(1) [OF m] v1 fd Some by auto
  qed
qed

text \<open>What a delete can change, whatever it returns: one item of the queue is removed, or nothing.\<close>

lemma delete_frame:
  assumes "DeleteFromQueue ctx db i q s = (r, s')"
  shows "view s' = view s \<or> (\<exists>x. job_item i x \<and> view s' = (view s)(q := remove1 x (view s q)))"
proof -
  obtain r1 s1 where l: "RetryLRange (Background ctx) db q 0 (- 1) s = (r1, s1)" by fastforce
  have v1: "view s1 = view s" by (rule bg_LRange_view [OF l])
  show ?thesis
  proof (cases "\<exists>x. r1 = Inr (view s q) \<and> find_delete i (view s q) = Ret (Inr (Some x))")
    case True
    then obtain x where x: "r1 = Inr (view s q)" "find_delete i (view s q) = Ret (Inr (Some x))" by blast
    obtain r2 s2 where m: "RetryLRem (Background ctx) db q 1 x s1 = (r2, s2)" by fastforce
    then have "s2 = s'" using assms l x by (auto simp: DeleteFromQueue_def split: sum.splits)
    then show ?thesis using bg_LRemD(1,2) [OF m] v1 find_delete_Some [OF x(2)] by (cases r2) auto
  next
    case False
    have "s' = s1"
    proof (cases r1)
      case (Inr xs)
      then have "xs = view s q" using bg_LRangeD(1) [OF l] by simp
      then have "\<nexists>x. find_delete i xs = Ret (Inr (Some x))" using False Inr by blast
      then show ?thesis using assms l Inr
        by (simp add: DeleteFromQueue_def split: sum.splits go.splits option.splits)
    qed (use assms l in \<open>simp add: DeleteFromQueue_def\<close>)
    then show ?thesis using v1 by simp
  qed
qed

lemma check_completed_law:
  assumes "CheckIfJobIsCompleted ctx db q s = (r, s')"
  shows "view s' = view s"
    and "r = Inr (c, j) \<Longrightarrow> \<exists>x xs. view s q = x # xs \<and> Unwrap x = Inr j \<and> c = (Status (WorkflowJob j) = Some ''completed'')"
proof -
  obtain r1 s1 where l: "RetryLIndex ctx db q 0 s = (r1, s1)" by fastforce
  show "view s' = view s" using assms l LIndex_view [OF l]
    by (auto simp: CheckIfJobIsCompleted_def split: sum.splits)
  show "r = Inr (c, j) \<Longrightarrow> \<exists>x xs. view s q = x # xs \<and> Unwrap x = Inr j \<and> c = (Status (WorkflowJob j) = Some ''completed'')"
    using assms l LIndexD(1) [OF l]
    by (auto simp: CheckIfJobIsCompleted_def split: sum.splits if_splits list.splits)
qed

text \<open>What an update can change, whatever it returns: one item that is the same job.\<close>

lemma update_law:
  assumes "UpdateJobInDB ctx db q job s = (r, s')"
  shows "view s' = view s \<or>
    (\<exists>i x. i < length (view s q) \<and> Unwrap (view s q ! i) = Inr x \<and> same_job x job = Ret True
       \<and> (\<exists>h hs j. view s q = h # hs \<and> Unwrap h = Inr j \<and> Status (WorkflowJob j) \<noteq> Some ''completed'')
       \<and> view s' = (view s)(q := (view s q)[i := MarshalJob job]))" (is "_ \<or> ?changed")
    and "r = Ret (None, None) \<Longrightarrow> \<exists>i x. i < length (view s q) \<and> Unwrap (view s q ! i) = Inr x
       \<and> same_job x job = Ret True \<and> view s' = (view s)(q := (view s q)[i := MarshalJob job])"
    and "r = Ret (None, Some e) \<Longrightarrow> view s' = view s \<and>
       (\<exists>h hs j. view s q = h # hs \<and> Unwrap h = Inr j \<and> Status (WorkflowJob j) = Some ''completed'')"
proof -
  obtain r1 s1 where c: "CheckIfJobIsCompleted ctx db q s = (r1, s1)" by fastforce
  note head = check_completed_law(2) [OF c]
  have v1: "view s1 = view s" by (rule check_completed_law(1) [OF c])
  obtain r2 s2 where l: "RetryLRange ctx db q 0 (- 1) s1 = (r2, s2)" by fastforce
  have v2: "view s2 = view s" using LRange_view [OF l] v1 by simp
  have "(view s' = view s \<and> r \<noteq> Ret (None, None) \<and>
      (r = Ret (None, Some e) \<longrightarrow> (\<exists>h hs j. view s q = h # hs \<and> Unwrap h = Inr j \<and> Status (WorkflowJob j) = Some ''completed'')))
    \<or> (?changed \<and> (r = Ret (None, None) \<or> (\<exists>e. r = Ret (Some e, None))))" for e
  proof (cases "\<exists>j. r1 = Inr (False, j) \<and> r2 = Inr (view s q)")
    case False
    have "r2 = Inr xs \<Longrightarrow> xs = view s q" for xs using LRangeD(1) [OF l] v1 by simp
    then have cases: "(\<exists>e. r1 = Inl e) \<or> (\<exists>j. r1 = Inr (True, j)) \<or> (\<exists>j e. r1 = Inr (False, j) \<and> r2 = Inl e)"
      using False by (cases r1; cases r2) auto
    have "r1 = Inr (True, j) \<Longrightarrow> \<exists>h hs j. view s q = h # hs \<and> Unwrap h = Inr j \<and> Status (WorkflowJob j) = Some ''completed''" for j
      using head [of True j] by auto
    then show ?thesis using assms c l v1 v2 cases
      by (elim disjE exE conjE) (auto simp: UpdateJobInDB_def)
  next
    case True
    then obtain j where j: "r1 = Inr (False, j)" "r2 = Inr (view s q)" by blast
    note hd = head [OF j(1)]
    show ?thesis
    proof (cases "find_update job (view s q) 0")
      case (Ret io)
      show ?thesis
      proof (cases io)
        case (Some i)
        note f = find_update_Some [OF Ret [unfolded Some]]
        obtain u s3 where w: "RetryLSet ctx db q (int i) (MarshalJob job) s2 = (u, s3)" by fastforce
        then have s3: "s3 = s'" and r: "r = (case u of Inl e \<Rightarrow>
            Ret (Some (Errorf (''error updating job in database: '' @ Error e)), None) | Inr _ \<Rightarrow> Ret (None, None))"
          using assms c l j Ret Some by (auto simp: UpdateJobInDB_def split: sum.splits)
        have "view s' = (view s)(q := (view s q)[i := MarshalJob job]) \<or> ((\<exists>e. u = Inl e) \<and> view s' = view s)"
          using LSetD(1,2) [OF w] v2 s3 by (cases u) auto
        then show ?thesis using hd f r by (cases u) auto
      qed (use assms c l j Ret v2 in \<open>auto simp: UpdateJobInDB_def\<close>)
    qed (use assms c l j v2 in \<open>auto simp: UpdateJobInDB_def\<close>)
  qed
  note * = this
  show "view s' = view s \<or> ?changed" using * by blast
  show "r = Ret (None, None) \<Longrightarrow> \<exists>i x. i < length (view s q) \<and> Unwrap (view s q ! i) = Inr x
       \<and> same_job x job = Ret True \<and> view s' = (view s)(q := (view s q)[i := MarshalJob job])"
    using * by blast
  show "r = Ret (None, Some e) \<Longrightarrow> view s' = view s \<and>
       (\<exists>h hs j. view s q = h # hs \<and> Unwrap h = Inr j \<and> Status (WorkflowJob j) = Some ''completed'')"
    using * [of e] by auto
qed

end

end
