(* ===== verification/Samples.thy ===== *)
theory Samples
  imports Queue
begin

text \<open>
  Concrete inputs for the properties: what the retry wrappers compute on the reference server of
  \<open>Redis\<close> when no fault is scheduled and the context is live, and a sample job. The
  collection \<open>mem_simps\<close> evaluates the queue operations on that server.
\<close>

named_theorems mem_simps \<open>evaluation of the database wrappers on the reference server\<close>

section \<open>Calls that are not repeated\<close>

lemma retryOperation_ok:
  assumes "op s = (Inr a, s')" "CtxErr ctx s = None" "CtxErr ctx s' = None" "0 \<le> effective_retries ctx db s"
  shows "retryOperation ctx db name op s = (Inr a, s')"
proof -
  have n: "\<not> (0::int) > effective_retries ctx db s" using assms(4) by simp
  have w: "(if (0::int) > 0 then retry_wait ctx db name 0 None s else (None, s)) = (None, s)" by simp
  show ?thesis unfolding retryOperation_def
    by (subst retry_loop_step [where op = op, OF n assms(2) w assms(1)]) (simp add: assms(3))
qed

lemma retryOperation_error:
  assumes "op s = (Inl e, s')" "\<not> isRetriableError e" "CtxErr ctx s = None" "CtxErr ctx s' = None"
    "0 \<le> effective_retries ctx db s"
  shows "retryOperation ctx db name op s = (Inl e, s')"
proof -
  have n: "\<not> (0::int) > effective_retries ctx db s" using assms(5) by simp
  have w: "(if (0::int) > 0 then retry_wait ctx db name 0 None s else (None, s)) = (None, s)" by simp
  show ?thesis unfolding retryOperation_def
    by (subst retry_loop_step [where op = op, OF n assms(3) w assms(1)]) (simp add: assms(2,4))
qed

section \<open>The reference server without faults\<close>

definition mem_live :: "mem \<Rightarrow> bool" where
  "mem_live m \<longleftrightarrow> \<not> mcancelled m \<and> mfaults m = []"

definition mem_context :: "mem Ctx \<Rightarrow> bool" where
  "mem_context c \<longleftrightarrow> c = mem_ctx \<or> c = Background mem_ctx"

lemma mem_context_simps [simp]: "mem_context mem_ctx" "mem_context (Background mem_ctx)"
  by (simp_all add: mem_context_def)

lemma Background_Background [simp]: "Background (Background c) = Background c"
  by (simp add: Background_def)

lemma mem_live_simps [simp]: "mem_live (mem_put k xs m) = mem_live m" "mem_live (mem_init kv)"
    "mem_live (m\<lparr>mnow := t\<rparr>) = mem_live m" "mem_live (m\<lparr>mstore := kv\<rparr>) = mem_live m"
  by (simp_all add: mem_live_def mem_put_def mem_init_def)

lemma mem_live_ctx: "mem_live m \<Longrightarrow> mem_context c \<Longrightarrow> CtxErr c m = None"
  by (auto simp: mem_live_def mem_context_def mem_ctx_def)

lemma mem_ctx_simps [mem_simps]: "mem_live m \<Longrightarrow> CtxErr mem_ctx m = None" "Deadline mem_ctx = None"
    "Sleep mem_ctx d m = m\<lparr>mnow := mnow m + d\<rparr>" "Now mem_ctx m = mnow m"
  by (auto simp: mem_live_def mem_ctx_def)

lemma mem_retries: "mem_context c \<Longrightarrow> effective_retries c (mem_db n) m = n"
  by (auto simp: mem_context_def effective_retries_def mem_ctx_def mem_db_def)

lemma faulty_live: "mem_live m \<Longrightarrow> faulty op m = op m"
  by (simp add: faulty_def mem_live_def)

lemma mem_db_simps [mem_simps]: "Client (mem_db n) = mem_client" "(mem_db n)\<lparr>MaxRetries := k\<rparr> = mem_db k"
  by (simp_all add: mem_db_def)

text \<open>Each wrapper succeeds at once, or reports that the element is absent.\<close>

lemma mem_ok:
  assumes "op m = (Inr a, m')" "mem_live m" "mem_live m'" "mem_context c" "0 \<le> n"
  shows "retryOperation c (mem_db n) name op m = (Inr a, m')"
  using assms by (intro retryOperation_ok) (simp_all add: mem_live_ctx mem_retries)

lemma mem_nil:
  assumes "op m = (Inl RedisNil, m)" "mem_live m" "mem_context c" "0 \<le> n"
  shows "retryOperation c (mem_db n) name op m = (Inl RedisNil, m)"
  using assms by (intro retryOperation_error) (simp_all add: mem_live_ctx mem_retries)

lemma mem_wrappers [mem_simps]:
  assumes "mem_live m" "mem_context c" "0 \<le> n"
  shows "RetryLRange c (mem_db n) k a b m = (Inr (list_range (mem_view m k) a b), m)"
    and "RetryLRem c (mem_db n) k i x m =
      (Inr (if x \<in> set (mem_view m k) then 1 else 0), mem_put k (remove1 x (mem_view m k)) m)"
    and "RetryLLen c (mem_db n) k m = (Inr (int (length (mem_view m k))), m)"
    and "RetryRPush c (mem_db n) k xs m = (Inr (int (length (mem_view m k) + length xs)), mem_put k (mem_view m k @ xs) m)"
    and "RetryLPush c (mem_db n) k xs m = (Inr (int (length (mem_view m k) + length xs)), mem_put k (rev xs @ mem_view m k) m)"
    and "RetryKeys c (mem_db n) p m = (Inr (filter (prefix (butlast p)) (map fst (mstore m))), m)"
  unfolding RetryLRange_def RetryLRem_def RetryLLen_def RetryRPush_def RetryLPush_def RetryKeys_def
  using assms by (intro mem_ok; simp add: mem_client_def mem_db_simps faulty_live)+

lemma mem_LIndex [mem_simps]:
  assumes "mem_live m" "mem_context c" "0 \<le> n"
  shows "RetryLIndex c (mem_db n) k i m =
    (case list_index (mem_view m k) i of None \<Rightarrow> Inl RedisNil | Some x \<Rightarrow> Inr x, m)"
proof (cases "list_index (mem_view m k) i")
  case None
  then show ?thesis unfolding RetryLIndex_def
    using assms by (simp add: mem_nil mem_client_def mem_db_simps faulty_live)
next
  case (Some x)
  then show ?thesis unfolding RetryLIndex_def
    using assms by (simp add: mem_ok mem_client_def mem_db_simps faulty_live)
qed

lemma mem_pops [mem_simps]:
  assumes "mem_live m" "mem_context c" "0 \<le> n"
  shows "RetryRPop c (mem_db n) k m = (if mem_view m k = [] then (Inl RedisNil, m)
       else (Inr (last (mem_view m k)), mem_put k (butlast (mem_view m k)) m))" (is ?pop)
    and "RetryRPopLPush c (mem_db n) k l m = (if mem_view m k = [] then (Inl RedisNil, m)
       else (let x = last (mem_view m k); m' = mem_put k (butlast (mem_view m k)) m
         in (Inr x, mem_put l (x # mem_view m' l) m')))" (is ?move)
proof -
  show ?pop unfolding RetryRPop_def using assms
    by (cases "mem_view m k = []") (simp_all add: mem_nil mem_ok mem_client_def mem_db_simps faulty_live)
  show ?move unfolding RetryRPopLPush_def using assms
    by (cases "mem_view m k = []") (simp_all add: mem_nil mem_ok mem_client_def mem_db_simps faulty_live Let_def)
qed

lemma mem_LSet [mem_simps]:
  assumes "mem_live m" "mem_context c" "0 \<le> n" "0 \<le> i" "i < int (length (mem_view m k))"
  shows "RetryLSet c (mem_db n) k i x m = (Inr (), mem_put k ((mem_view m k)[nat i := x]) m)"
  unfolding RetryLSet_def using assms by (intro mem_ok) (simp_all add: mem_client_def mem_db_simps faulty_live)

lemma mem_Del [mem_simps]:
  assumes "mem_live m" "mem_context c" "0 \<le> n"
  shows "RetryDel c (mem_db n) ks m = (Inr (int (length (filter (\<lambda>k. mem_view m k \<noteq> []) ks))),
     m\<lparr>mstore := filter (\<lambda>(k, _). k \<notin> set ks) (mstore m)\<rparr>)"
  unfolding RetryDel_def using assms by (intro mem_ok) (simp_all add: mem_client_def mem_db_simps faulty_live)

lemma mem_string_wrappers [mem_simps]:
  assumes "mem_live m" "mem_context c" "0 \<le> n"
  shows "RetrySet c (mem_db n) k v e m = (Inr (), mem_put k [v] m)"
    and "RetryExists c (mem_db n) ks m = (Inr (int (length (filter (\<lambda>k. mem_view m k \<noteq> []) ks))), m)"
    and "RetryScan c (mem_db n) i p j m = (Inr (filter (prefix (butlast p)) (map fst (mstore m)), 0), m)"
  unfolding RetrySet_def RetryExists_def RetryScan_def
  using assms by (intro mem_ok; simp add: mem_client_def mem_db_simps faulty_live)+

lemma mem_Get [mem_simps]:
  assumes "mem_live m" "mem_context c" "0 \<le> n"
  shows "RetryGet c (mem_db n) k m = (case mem_view m k of [x] \<Rightarrow> Inr x | _ \<Rightarrow> Inl RedisNil, m)"
proof (cases "\<exists>x. mem_view m k = [x]")
  case True
  then obtain x where "mem_view m k = [x]" by blast
  then show ?thesis unfolding RetryGet_def using assms by (simp add: mem_ok mem_client_def mem_db_simps faulty_live)
next
  case False
  then have "(case mem_view m k of [x] \<Rightarrow> Inr x | _ \<Rightarrow> Inl RedisNil) = (Inl RedisNil :: string result)"
    by (auto split: list.splits)
  then show ?thesis unfolding RetryGet_def using assms by (simp add: mem_nil mem_client_def mem_db_simps faulty_live)
qed

lemma mem_view_init [mem_simps]: "mem_view (mem_init kv) k = (case map_of kv k of None \<Rightarrow> [] | Some xs \<Rightarrow> xs)"
  by (simp add: mem_view_def mem_init_def)

lemma mem_store_init [mem_simps]: "mstore (mem_init kv) = kv" "mnow (mem_init kv) = 0"
  by (simp_all add: mem_init_def)

section \<open>A sample job\<close>

definition sample_job :: "int \<Rightarrow> string \<Rightarrow> QueueJob" where
  "sample_job i st = zero_QueueJob\<lparr>Type := ''WorkflowJobPayload'', Action := ''queued'', Attempts := 1,
     WorkflowJob := zero_WorkflowJob\<lparr>ID := Some i, RunID := Some 100, Status := Some st,
       Labels := Some [''self-hosted'', ''anka-template:d09f'']\<rparr>,
     Repo := zero_Repository\<lparr>RepoName := Some ''anklet'', RepoOwner := Some ''veertu''\<rparr>\<rparr>"

lemma sample_job_ok [simp]: "exact64 i \<Longrightarrow> job_ok (sample_job i st)"
  by (simp add: job_ok_def sample_job_def zero_QueueJob_def zero_WorkflowJob_def zero_VM_def id_ok_def ts_ok_def exact64_def)

lemma sample_job_fields [simp]: "ID (WorkflowJob (sample_job i st)) = Some i" "RunID (WorkflowJob (sample_job i st)) = Some 100"
    "Status (WorkflowJob (sample_job i st)) = Some st" "Type (sample_job i st) = ''WorkflowJobPayload''"
    "Action (sample_job i st) = ''queued''" "PausedOn (sample_job i st) = []"
  by (simp_all add: sample_job_def zero_QueueJob_def)

lemma exact64_small [simp]: "0 \<le> i \<Longrightarrow> i \<le> 1000 \<Longrightarrow> exact64 i"
  by (simp add: exact64_def)

lemma Unwrap_sample [mem_simps]: "exact64 i \<Longrightarrow> Unwrap (MarshalJob (sample_job i st)) = Inr (sample_job i st)"
  by (simp add: Unwrap_MarshalJob)

lemma MarshalJob_not_Nil [simp]: "MarshalJob j \<noteq> []"
  by (simp add: MarshalJob_def enc_QueueJob_def)

text \<open>The globals of a worker on a host of 12 cores and 32 GB, without plugins.\<close>

abbreviation small_host :: Globals where
  "small_host \<equiv> \<lparr>RunPluginsOnce = False, ReturnAllToMainQueue = False, GitHubAPIRateLimitResetUnix = 0,
     LastGitHubAPIRateLimitNoticeUnix = 0, GPluginsPath = [], DebugEnabled = False, HostCPUCount = 12,
     HostMemoryBytes = 34359738368, QueueTargetIndex = 0, GPlugins = []\<rparr>"

end
