(* ===== verification/Data_Properties.thy ===== *)
theory Data_Properties
  imports Samples
begin

text \<open>
  Properties of the data layer: the JSON text of a queue entry and what becomes of it when it is
  read back through \<open>Unwrap\<close>.
\<close>

text \<open>
  C1. A queue entry written with \<open>json.Marshal\<close> is read back by \<open>Unwrap[QueueJob]\<close> (decode into
  \<open>map[string]any\<close>, encode, decode into the struct) as the same job, whenever its numbers fit in
  53 bits and its timestamps are plain JSON values.
\<close>

theorem queue_job_round_trip: "job_ok j \<Longrightarrow> Unwrap (MarshalJob j) = Inr j"
  by (rule Unwrap_MarshalJob)

lemma queue_job_round_trip_witness: "Unwrap (MarshalJob (sample_job 7 ''queued'')) = Inr (sample_job 7 ''queued'')"
  by (rule queue_job_round_trip) simp

lemma Unwrap_any_value:
  assumes "json_ok (enc_QueueJob j)" "job_ok k" "any_value (enc_QueueJob j) = any_value (enc_QueueJob k)"
  shows "Unwrap (MarshalJob j) = Inr k"
proof -
  obtain ms where ms: "enc_QueueJob j = JObj ms" by (simp add: enc_QueueJob_def)
  have any: "any_value (JObj ms) = any_value (enc_QueueJob k)" using assms(3) ms by simp
  have "json_ok (any_value (enc_QueueJob k))" using any_value_json_ok [OF assms(1)] assms(3) by simp
  then have "UnmarshalJob (jprint (any_value (enc_QueueJob k))) = Inr k"
    using QueueJob_trip [OF assms(2)] by (simp add: UnmarshalJob_def json_parse_jprint)
  then show ?thesis using json_parse_jprint [OF assms(1)]
    by (simp add: Unwrap_def MarshalJob_def ms any del: any_value.simps)
qed

abbreviation with_ID :: "int \<Rightarrow> QueueJob \<Rightarrow> QueueJob" where
  "with_ID i j \<equiv> j\<lparr>WorkflowJob := (WorkflowJob j)\<lparr>ID := Some i\<rparr>\<rparr>"

text \<open>
  \<open>Unwrap\<close> does not keep identifiers above \<open>2^53\<close>: the detour through \<open>float64\<close> rounds the
  job ID \<open>2^53 + 1\<close> to \<open>2^53\<close>, so the job read back is another job.
\<close>

theorem large_id_changes:
  assumes "job_ok j"
  shows "Unwrap (MarshalJob (with_ID (2 ^ 53 + 1) j)) = Inr (with_ID (2 ^ 53) j)"
proof (rule Unwrap_any_value)
  show "json_ok (enc_QueueJob (with_ID (2 ^ 53 + 1) j))"
    using assms by (simp add: job_ok_def enc_QueueJob_def enc_WorkflowJob_def enc_VM_def enc_Repository_def json_ok_opt)
  show "job_ok (with_ID (2 ^ 53) j)"
    using assms by (simp add: job_ok_def id_ok_def exact64_def)
  have "f64 (2 ^ 53 + 1) = f64 (2 ^ 53)" using f64_rounds f64_exact [of "2 ^ 53"] by (simp add: exact64_def)
  then show "any_value (enc_QueueJob (with_ID (2 ^ 53 + 1) j)) = any_value (enc_QueueJob (with_ID (2 ^ 53) j))"
    by (simp add: enc_QueueJob_def enc_WorkflowJob_def lit_simps)
qed

lemma large_id_changes_witness:
  "Unwrap (MarshalJob (with_ID (2 ^ 53 + 1) (sample_job 7 ''queued''))) = Inr (with_ID (2 ^ 53) (sample_job 7 ''queued''))"
  by (rule large_id_changes) simp

end
