(* ===== verification/Queue_Properties.thy ===== *)
theory Queue_Properties
  imports Samples "HOL-Library.Multiset"
begin

text \<open>
  Properties of the retry wrappers and of the queue operations. Those on the lists of the
  server hold for every client that keeps the contract \<open>redis_db\<close>; their witnesses are on the
  reference server.
\<close>

section \<open>Retries\<close>

text \<open>
  C33. \<open>retryOperation\<close> runs a database command at most \<open>MaxRetries + 1\<close> times, whatever the command
  returns: a context without deadline gives up after the configured number of retries.
\<close>

theorem retry_bound:
  fixes cnt :: "'s \<Rightarrow> nat"
  assumes "\<And>s. cnt (snd (op s)) = Suc (cnt s)" and "\<And>d s. cnt (Sleep ctx d s) = cnt s" and "Deadline ctx = None"
  shows "cnt (snd (retryOperation ctx db name op s)) \<le> cnt s + nat (MaxRetries db + 1)"
  using retry_loop_runs [of cnt op ctx db name "MaxRetries db" 0 None s] assms
  by (simp add: retryOperation_def effective_retries_def)

lemma retry_bound_witness:
  "nat (mnow (snd (retryOperation (mem_ctx\<lparr>Sleep := (\<lambda>_ m. m)\<rparr>) (mem_db 3) ''op''
      (\<lambda>m. (Inl (Errorf ''i/o timeout'') :: int result, m\<lparr>mnow := int (Suc (nat (mnow m)))\<rparr>)) (mem_init []))))
    \<le> nat (mnow (mem_init [])) + nat (MaxRetries (mem_db 3) + 1)"
  by (rule retry_bound [where cnt = "\<lambda>m. nat (mnow m)"]) (simp_all add: mem_ctx_def del: of_nat_Suc)

text \<open>
  \<open>retryOperation\<close> recovers: a command that fails with retriable errors \<open>k\<close> times and then
  succeeds is reported as a success when the context is live and \<open>k \<le> MaxRetries\<close>.
\<close>

theorem retry_recovers:
  fixes cnt :: "'s \<Rightarrow> nat"
  assumes "\<And>s. CtxErr ctx s = None" "Deadline ctx = None" "\<And>d s. cnt (Sleep ctx d s) = cnt s"
    and "\<And>s. cnt s < k \<Longrightarrow> \<exists>e s'. op s = (Inl e, s') \<and> isRetriableError e \<and> cnt s' = Suc (cnt s)"
    and "\<And>s. cnt s = k \<Longrightarrow> \<exists>a s'. op s = (Inr a, s')"
    and "cnt s = 0" "int k \<le> MaxRetries db"
  shows "\<exists>a s'. retryOperation ctx db name op s = (Inr a, s')"
  unfolding retryOperation_def effective_retries_def assms(2) option.case
  by (rule retry_loop_succeeds [where cnt = cnt and k = k]) (use assms in auto)

lemma retry_recovers_witness:
  "\<exists>a s'. retryOperation (Background mem_ctx\<lparr>Sleep := (\<lambda>_ m. m)\<rparr>) (mem_db 3) ''op''
      (\<lambda>m. if nat (mnow m) < 2 then (Inl (Errorf ''i/o timeout''), m\<lparr>mnow := int (Suc (nat (mnow m)))\<rparr>) else (Inr (5::int), m))
      (mem_init []) = (Inr a, s')"
  by (rule retry_recovers [where cnt = "\<lambda>m. nat (mnow m)" and k = 2])
    (auto simp: Background_def mem_ctx_def mem_init_def mem_db_def isRetriableError_def ToLower_def lower_char_def go_string)

section \<open>Looking up, taking and deleting jobs\<close>

text \<open>
  \<open>GetJobJSONFromQueueByID\<close> refines the search for the first job with that ID in the list of jobs
  the queue stands for, and changes no list.
\<close>

theorem get_job_refines:
  assumes "redis_db db view ctx" "jobs_ok js" "view s q = queue_of js"
    and "GetJobJSONFromQueueByID ctx db i q s = (Inr x, s')"
  shows "view s' = view s \<and> x = (case find (has_id i) js of None \<Rightarrow> [] | Some j \<Rightarrow> MarshalJob j)"
  using redis_db.get_job_law [OF assms(1,4)] assms(2,3) by (simp add: find_job_queue_of)

lemma jobs_ok_samples [simp]: "jobs_ok [] = True" "exact64 i \<Longrightarrow> jobs_ok (sample_job i st # js) = jobs_ok js"
  by (simp_all add: jobs_ok_def)

lemma queue_of_Cons [simp]: "queue_of (j # js) = MarshalJob j # queue_of js" "queue_of [] = []"
  by (simp_all add: queue_of_def)

abbreviation two_jobs :: "QueueJob list" where
  "two_jobs \<equiv> [sample_job 7 ''queued'', sample_job 8 ''queued'']"

abbreviation two_mem :: mem where
  "two_mem \<equiv> mem_init [(''q'', queue_of two_jobs)]"

lemma get_job_refines_witness:
  "mem_view two_mem = mem_view two_mem \<and>
     MarshalJob (sample_job 8 ''queued'') = (case find (has_id 8) two_jobs of None \<Rightarrow> [] | Some j \<Rightarrow> MarshalJob j)"
  by (rule get_job_refines [OF mem.redis_db_axioms [of 3], where q = "''q''" and i = 8])
    (simp_all add: GetJobJSONFromQueueByID_def mem_simps)

text \<open>
  C2. \<open>PopJobOffQueue\<close> at index \<open>i\<close> removes one entry, the first one equal to the entry at \<open>i\<close>, and returns it; with
  fewer than \<open>i + 1\<close> entries it returns the empty string and changes nothing. No entry is lost
  or doubled when the call succeeds.
\<close>

theorem pop_refines:
  assumes "redis_db db view ctx" "PopJobOffQueue ctx db q i s = (Inr x, s')" "0 \<le> i"
  shows "if nat i < length (view s q)
     then x = view s q ! nat i \<and> view s' = (view s)(q := remove1 x (view s q)) \<and> mset (view s q) = add_mset x (mset (view s' q))
     else x = [] \<and> view s' = view s"
  using redis_db.pop_law [OF assms] by (simp add: insert_DiffM split: if_splits)

lemma pop_refines_witness:
  "if nat 1 < length (mem_view two_mem ''q'')
     then MarshalJob (sample_job 8 ''queued'') = mem_view two_mem ''q'' ! nat 1 \<and>
       mem_view (mem_put ''q'' (queue_of [sample_job 7 ''queued'']) two_mem) =
         (mem_view two_mem)(''q'' := remove1 (MarshalJob (sample_job 8 ''queued'')) (mem_view two_mem ''q'')) \<and>
       mset (mem_view two_mem ''q'') = add_mset (MarshalJob (sample_job 8 ''queued''))
         (mset (mem_view (mem_put ''q'' (queue_of [sample_job 7 ''queued'']) two_mem) ''q''))
     else MarshalJob (sample_job 8 ''queued'') = [] \<and> mem_view (mem_put ''q'' (queue_of [sample_job 7 ''queued'']) two_mem) = mem_view two_mem"
  apply (rule pop_refines [OF mem.redis_db_axioms [of 3]])
  by (simp_all add: PopJobOffQueue_def take_target_def mem_simps)



text \<open>
  \<open>DeleteFromQueue\<close> refines the removal of the first job with that ID: when it reports success, the
  queue stands for the same jobs without that one, and no other list has changed.
\<close>

theorem delete_refines:
  assumes "redis_db db view ctx" "jobs_ok js" "view s q = queue_of js"
    and "DeleteFromQueue ctx db i q s = (Ret None, s')"
  shows "view s' = (view s)(q := queue_of (case find (has_id i) js of None \<Rightarrow> js | Some j \<Rightarrow> remove1 j js))"
proof -
  have ok: "job_ok j" if "find (has_id i) js = Some j" for j
    using that assms(2) by (auto simp: find_Some_iff jobs_ok_def list_all_length)
  show ?thesis
    using redis_db.delete_law [OF assms(1,4)] ok assms(2,3)
    by (auto simp: find_delete_queue_of remove1_queue_of split: option.splits)
qed

lemma delete_refines_witness:
  "mem_view (mem_put ''q'' (queue_of [sample_job 8 ''queued'']) two_mem) =
     (mem_view two_mem)(''q'' := queue_of (case find (has_id 7) two_jobs of None \<Rightarrow> two_jobs | Some j \<Rightarrow> remove1 j two_jobs))"
  by (rule delete_refines [OF mem.redis_db_axioms [of 3]]) (simp_all add: DeleteFromQueue_def mem_simps)



text \<open>
  A completed active job is final: while the head of the plugin's queue is a job with status
  \<open>completed\<close>, \<open>UpdateJobInDB\<close> changes no list, whatever job it is called with and whatever it returns.
\<close>

theorem completed_head_is_final:
  assumes "redis_db db view ctx" "view s q = x # xs" "Unwrap x = Inr j" "Status (WorkflowJob j) = Some ''completed''"
    and "UpdateJobInDB ctx db q job s = (r, s')"
  shows "view s' = view s"
  using redis_db.update_law(1) [OF assms(1,5)] assms(2-4) by auto

lemma completed_head_is_final_witness:
  "mem_view (mem_init [(''q'', [MarshalJob (sample_job 7 ''completed'')])]) = mem_view (mem_init [(''q'', [MarshalJob (sample_job 7 ''completed'')])])"
  by (rule completed_head_is_final [OF mem.redis_db_axioms [of 3], where q = "''q''" and xs = "[]" and job = "sample_job 7 ''queued''"])
    (simp add: UpdateJobInDB_def CheckIfJobIsCompleted_def mem_simps)+

end
