(* ===== verification/Tracker.thy ===== *)
theory Tracker
  imports Config "HOL-Library.AList" "HOL-Library.Multiset"
begin

text \<open>
  The template tracker of \<open>internal/config/config.go\<close>: which templates a host holds, how much
  each is used, and the order in which the clean-up deletes them. The map of templates is an
  association list in the order a range over it visits; each operation holds the mutex from
  start to end, so it is one step. The facts: every operation keeps the well-formedness of the
  map, and the exchange sort of \<open>GetLeastRecentlyUsedTemplates\<close> returns a sorted permutation
  of the idle templates.
\<close>

record TemplateUsage =
  UUID :: string
  TName :: string
  TTag :: string
  ImageSize :: "64 word"
  LastAccessed :: int
  UsageCount :: "64 word"
  InUse :: bool
  Pulling :: bool

type_synonym TemplateTracker = "(string \<times> TemplateUsage) list"

definition NewTemplateTracker :: TemplateTracker where
  "NewTemplateTracker = []"

definition UpdateTemplateUsage :: "string \<Rightarrow> string \<Rightarrow> string \<Rightarrow> 64 word \<Rightarrow> int \<Rightarrow> TemplateTracker \<Rightarrow> TemplateTracker" where
  "UpdateTemplateUsage templateUUID templateName templateTag sizeBytes lastAccessed tt =
     (case map_of tt templateUUID of
        Some usage \<Rightarrow> AList.update templateUUID
          (usage\<lparr>UUID := templateUUID, LastAccessed := lastAccessed, UsageCount := UsageCount usage + 1,
             ImageSize := (if sizeBytes > 0 then sizeBytes else ImageSize usage)\<rparr>) tt
      | None \<Rightarrow> AList.update templateUUID
          \<lparr>UUID = templateUUID, TName = templateName, TTag = templateTag, ImageSize = sizeBytes,
             LastAccessed = lastAccessed, UsageCount = 1, InUse = False, Pulling = False\<rparr> tt)"

definition SetTemplateInUse :: "string \<Rightarrow> bool \<Rightarrow> TemplateTracker \<Rightarrow> TemplateTracker" where
  "SetTemplateInUse templateUUID inUse tt =
     (case map_of tt templateUUID of
        Some usage \<Rightarrow> AList.update templateUUID (usage\<lparr>InUse := inUse\<rparr>) tt
      | None \<Rightarrow> tt)"

definition SetTemplatePulling :: "string \<Rightarrow> string \<Rightarrow> string \<Rightarrow> bool \<Rightarrow> int \<Rightarrow> TemplateTracker \<Rightarrow> TemplateTracker" where
  "SetTemplatePulling templateUUID templateName templateTag pulling lastAccessed tt =
     (case map_of tt templateUUID of
        Some usage \<Rightarrow> AList.update templateUUID (usage\<lparr>Pulling := pulling\<rparr>) tt
      | None \<Rightarrow> if pulling then AList.update templateUUID
          \<lparr>UUID = templateUUID, TName = templateName, TTag = templateTag, ImageSize = 0,
             LastAccessed = lastAccessed, UsageCount = 0, InUse = False, Pulling = True\<rparr> tt
        else tt)"

definition RemoveTemplate :: "string \<Rightarrow> TemplateTracker \<Rightarrow> TemplateTracker" where
  "RemoveTemplate templateUUID tt = AList.delete templateUUID tt"

definition GetTemplateUsage :: "string \<Rightarrow> TemplateTracker \<Rightarrow> TemplateUsage option" where
  "GetTemplateUsage templateUUID tt = map_of tt templateUUID"

definition GetTotalTemplateSize :: "TemplateTracker \<Rightarrow> 64 word" where
  "GetTotalTemplateSize tt = foldl (\<lambda>totalSize (_, usage). totalSize + ImageSize usage) 0 tt"

definition HasPullingTemplates :: "TemplateTracker \<Rightarrow> bool" where
  "HasPullingTemplates tt \<longleftrightarrow> (\<exists>(_, usage)\<in>set tt. Pulling usage)"

definition tracks :: "string \<Rightarrow> TemplateTracker \<Rightarrow> bool" where
  "tracks templateUUID tt \<longleftrightarrow> map_of tt templateUUID \<noteq> None"

section \<open>The exchange sort\<close>

text \<open>The comparison under which two entries are exchanged, and the two nested loops.\<close>

definition used_more :: "TemplateUsage \<Rightarrow> TemplateUsage \<Rightarrow> bool" where
  "used_more a b \<longleftrightarrow> UsageCount a > UsageCount b \<or> (UsageCount a = UsageCount b \<and> LastAccessed a > LastAccessed b)"

definition swap :: "nat \<Rightarrow> nat \<Rightarrow> 'a list \<Rightarrow> 'a list" where
  "swap i j xs = xs[i := xs ! j, j := xs ! i]"

function sort_inner :: "nat \<Rightarrow> nat \<Rightarrow> TemplateUsage list \<Rightarrow> TemplateUsage list" where
  "sort_inner i j xs = (if j < length xs
     then sort_inner i (Suc j) (if used_more (xs ! i) (xs ! j) then swap i j xs else xs) else xs)"
  by pat_completeness auto
termination
  by (relation "measure (\<lambda>(i, j, xs). length xs - j)") (auto simp: swap_def)

declare sort_inner.simps [simp del]

lemma length_sort_inner [simp]: "length (sort_inner i j xs) = length xs"
  by (induction i j xs rule: sort_inner.induct) (subst sort_inner.simps, auto simp: swap_def)

function sort_outer :: "nat \<Rightarrow> TemplateUsage list \<Rightarrow> TemplateUsage list" where
  "sort_outer i xs = (if Suc i < length xs then sort_outer (Suc i) (sort_inner i (Suc i) xs) else xs)"
  by pat_completeness auto
termination
  by (relation "measure (\<lambda>(i, xs). length xs - i)") auto

declare sort_outer.simps [simp del]

definition GetLeastRecentlyUsedTemplates :: "TemplateTracker \<Rightarrow> TemplateUsage list" where
  "GetLeastRecentlyUsedTemplates tt =
     sort_outer 0 (filter (\<lambda>usage. \<not> InUse usage \<and> \<not> Pulling usage) (map snd tt))"

section \<open>The map\<close>

text \<open>Distinct keys, each the UUID of its entry.\<close>

definition tracker_ok :: "TemplateTracker \<Rightarrow> bool" where
  "tracker_ok tt \<longleftrightarrow> distinct (map fst tt) \<and> (\<forall>(k, u)\<in>set tt. UUID u = k)"

lemma tracker_ok_lookup: "tracker_ok tt \<Longrightarrow> map_of tt k = Some u \<Longrightarrow> UUID u = k"
  by (auto simp: tracker_ok_def dest!: map_of_SomeD)

lemma in_update: "(k, u) \<in> set (AList.update l x tt) \<Longrightarrow> (k = l \<and> u = x) \<or> (k, u) \<in> set tt"
  by (induction tt) (auto split: if_splits)

lemma tracker_ok_update: "tracker_ok tt \<Longrightarrow> UUID u = k \<Longrightarrow> tracker_ok (AList.update k u tt)"
  unfolding tracker_ok_def by (auto simp: distinct_update dest!: in_update)

lemma tracker_ok_delete: "tracker_ok tt \<Longrightarrow> tracker_ok (AList.delete k tt)"
  unfolding tracker_ok_def by (auto simp: AList.delete_eq distinct_map_filter)

lemmas tracker_defs = UpdateTemplateUsage_def SetTemplateInUse_def SetTemplatePulling_def RemoveTemplate_def

lemma tracker_ok_ops:
  assumes "tracker_ok tt"
  shows "tracker_ok (UpdateTemplateUsage k n t s l tt)"
    and "tracker_ok (SetTemplateInUse k b tt)"
    and "tracker_ok (SetTemplatePulling k n t b l tt)"
    and "tracker_ok (RemoveTemplate k tt)"
  using assms tracker_ok_lookup [OF assms]
  by (auto simp: tracker_defs intro!: tracker_ok_update tracker_ok_delete split: option.splits)

lemma tracker_lookup:
  "map_of (SetTemplateInUse k b tt) l = (if l = k then map_option (\<lambda>u. u\<lparr>InUse := b\<rparr>) (map_of tt k) else map_of tt l)"
  "map_of (RemoveTemplate k tt) l = (if l = k then None else map_of tt l)"
  by (auto simp: SetTemplateInUse_def RemoveTemplate_def AList.update_conv' delete_conv' split: option.splits)

section \<open>The sort\<close>

lemma mset_swap [simp]: "i < length xs \<Longrightarrow> j < length xs \<Longrightarrow> mset (swap i j xs) = mset xs"
  by (simp add: swap_def mset_swap)

lemma mset_sort_inner: "i < length xs \<Longrightarrow> mset (sort_inner i j xs) = mset xs"
proof (induction i j xs rule: sort_inner.induct)
  case (1 i j xs)
  show ?case
  proof (cases "j < length xs")
    case True
    let ?ys = "if used_more (xs ! i) (xs ! j) then swap i j xs else xs"
    have "mset (sort_inner i (Suc j) ?ys) = mset ?ys"
      by (rule "1.IH" [OF True]) (use 1(2) in \<open>simp add: swap_def\<close>)
    also have "mset ?ys = mset xs" using True 1(2) by simp
    finally show ?thesis using True by (subst sort_inner.simps) simp
  qed (subst sort_inner.simps, simp)
qed

lemma mset_sort_outer [simp]: "mset (sort_outer i xs) = mset xs"
  by (induction i xs rule: sort_outer.induct) (subst sort_outer.simps, simp add: mset_sort_inner)

text \<open>After the inner loop, entry \<open>i\<close> is least among those from \<open>i\<close> on.\<close>

lemma used_more_trans: "\<not> used_more a b \<Longrightarrow> \<not> used_more b c \<Longrightarrow> \<not> used_more a c"
  by (auto simp: used_more_def not_less)

lemma used_more_refl [simp]: "\<not> used_more a a"
  by (simp add: used_more_def)

lemma used_more_asym: "used_more a b \<Longrightarrow> \<not> used_more b a"
  by (auto simp: used_more_def)

lemma sort_inner_min:
  "i < j \<Longrightarrow> i < length xs \<Longrightarrow> (\<And>k. i \<le> k \<Longrightarrow> k < j \<Longrightarrow> k < length xs \<Longrightarrow> \<not> used_more (xs ! i) (xs ! k)) \<Longrightarrow>
     (\<forall>k. i \<le> k \<and> k < length xs \<longrightarrow> \<not> used_more (sort_inner i j xs ! i) (sort_inner i j xs ! k))
     \<and> take i (sort_inner i j xs) = take i xs"
proof (induction i j xs rule: sort_inner.induct)
  case (1 i j xs)
  show ?case
  proof (cases "j < length xs")
    case True
    let ?ys = "if used_more (xs ! i) (xs ! j) then swap i j xs else xs"
    have len: "length ?ys = length xs" by (simp add: swap_def)
    have "\<not> used_more (?ys ! i) (?ys ! k)" if "i \<le> k" "k < Suc j" "k < length ?ys" for k
    proof (cases "used_more (xs ! i) (xs ! j)")
      case more: True
      then have "\<not> used_more (xs ! j) (xs ! i)" by (rule used_more_asym)
      moreover have "k \<noteq> i \<Longrightarrow> k \<noteq> j \<Longrightarrow> \<not> used_more (xs ! i) (xs ! k)" using 1(4) [of k] that True len by simp
      ultimately show ?thesis
        using more 1(2,3) True used_more_trans [of "xs ! j" "xs ! i" "xs ! k"]
        by (cases "k = i \<or> k = j") (auto simp: swap_def nth_list_update)
    next
      case False
      then show ?thesis using that 1(4) [of k] less_SucE [of k j] by auto
    qed
    from "1.IH" [OF True _ _ this] have ih:
      "(\<forall>k. i \<le> k \<and> k < length ?ys \<longrightarrow> \<not> used_more (sort_inner i (Suc j) ?ys ! i) (sort_inner i (Suc j) ?ys ! k))
       \<and> take i (sort_inner i (Suc j) ?ys) = take i ?ys" using 1(2,3) len by simp
    have "take i ?ys = take i xs" using 1(2) by (simp add: swap_def)
    then show ?thesis using True ih len by (subst (1 2 3) sort_inner.simps) simp
  next
    case False
    then show ?thesis using 1(4) by (subst (1 2 3) sort_inner.simps) simp
  qed
qed

lemma sort_inner_take_mset:
  assumes "i < j" "i < length xs" "take i (sort_inner i j xs) = take i xs"
  shows "mset (drop i (sort_inner i j xs)) = mset (drop i xs)"
proof -
  have "mset (take i (sort_inner i j xs)) + mset (drop i (sort_inner i j xs)) = mset (take i xs) + mset (drop i xs)"
    by (simp add: mset_append [symmetric] mset_sort_inner assms(2) del: mset_append)
  then show ?thesis using assms(3) by simp
qed

text \<open>The outer loop's invariant: the first \<open>i\<close> entries are sorted and below all later ones.\<close>

definition sorted_upto :: "nat \<Rightarrow> TemplateUsage list \<Rightarrow> bool" where
  "sorted_upto i xs \<longleftrightarrow> (\<forall>a b. a < i \<longrightarrow> a < b \<longrightarrow> b < length xs \<longrightarrow> \<not> used_more (xs ! a) (xs ! b))"

lemma sorted_upto_step:
  assumes "sorted_upto i xs" "Suc i < length xs"
  shows "sorted_upto (Suc i) (sort_inner i (Suc i) xs)"
proof -
  let ?ys = "sort_inner i (Suc i) xs"
  have m: "(\<forall>k. i \<le> k \<and> k < length xs \<longrightarrow> \<not> used_more (?ys ! i) (?ys ! k)) \<and> take i ?ys = take i xs"
    by (rule sort_inner_min) (use assms(2) in \<open>auto simp: le_less_Suc_eq\<close>)
  have same: "a < i \<Longrightarrow> ?ys ! a = xs ! a" for a
    using m nth_take [of a i ?ys] nth_take [of a i xs] by simp
  have "\<not> used_more (?ys ! a) (?ys ! b)" if "a < i" "a < b" "b < length xs" for a b
  proof (cases "b < i")
    case True
    then show ?thesis using assms(1) that same by (simp add: sorted_upto_def)
  next
    case False
    then have "?ys ! b = drop i ?ys ! (b - i)" "b - i < length (drop i ?ys)" using that by simp_all
    then have "?ys ! b \<in> set (drop i ?ys)" by (simp only: nth_mem)
    also have "set (drop i ?ys) = set (drop i xs)"
      using sort_inner_take_mset [of i "Suc i" xs] m assms(2) by (metis lessI mset_eq_setD Suc_lessD)
    finally obtain c where "c < length xs - i" "?ys ! b = xs ! (i + c)" by (auto simp: in_set_conv_nth)
    then show ?thesis using assms(1) that same by (simp add: sorted_upto_def)
  qed
  then show ?thesis using m assms(2) unfolding sorted_upto_def by (metis length_sort_inner less_Suc_eq less_imp_le_nat)
qed

lemma sorted_sort_outer:
  "sorted_upto i xs \<Longrightarrow> sorted_wrt (\<lambda>a b. \<not> used_more a b) (sort_outer i xs)"
proof (induction i xs rule: sort_outer.induct)
  case (1 i xs)
  show ?case
  proof (cases "Suc i < length xs")
    case True
    then show ?thesis using "1.IH" [OF True sorted_upto_step] 1(2) by (subst sort_outer.simps) simp
  next
    case False
    then show ?thesis using 1(2) by (subst sort_outer.simps) (auto simp: sorted_upto_def sorted_wrt_iff_nth_less)
  qed
qed

lemma LRU_spec:
  "mset (GetLeastRecentlyUsedTemplates tt) = mset (filter (\<lambda>u. \<not> InUse u \<and> \<not> Pulling u) (map snd tt))"
  "sorted_wrt (\<lambda>a b. \<not> used_more a b) (GetLeastRecentlyUsedTemplates tt)"
  unfolding GetLeastRecentlyUsedTemplates_def
  by (simp, rule sorted_sort_outer, simp add: sorted_upto_def)

text \<open>The total wraps around at 64 bits.\<close>

lemma total_size_foldl: "foldl (\<lambda>z (_, u). z + ImageSize u) w tt = w + sum_list (map (\<lambda>(_, u). ImageSize u) tt)"
  by (induction tt arbitrary: w) (auto simp: add.assoc)

lemma GetTotalTemplateSize_sum: "GetTotalTemplateSize tt = word_of_int (sum_list (map (\<lambda>(_, u). uint (ImageSize u)) tt))"
proof -
  have "sum_list (map (\<lambda>(_, u). ImageSize u) tt) = word_of_int (sum_list (map (\<lambda>(_, u). uint (ImageSize u)) tt))"
    by (induction tt) auto
  then show ?thesis by (simp add: GetTotalTemplateSize_def total_size_foldl)
qed

end
