(* ===== verification/Anka.thy ===== *)
theory Anka
  imports Queue Tracker
begin

text \<open>
  \<open>internal/anka\<close>: the version check, the mount specifications, the commands of the Anka CLI
  and the functions over them, up to the pull of a template with the clean-up of the least
  recently used ones. Running a program is third-party: the function \<open>run\<close> of the host takes
  the arguments and gives the output and the exit code (an interrupted command gives no
  output). Symbolic links are resolved by \<open>evalSymlinks\<close>. The tracker of templates and the
  count of running VMs are part of the host's state; a failed type assertion is \<open>Panic\<close>.
\<close>

section \<open>Versions\<close>

definition NormalizeAnkaVersion :: "string \<Rightarrow> string" where
  "NormalizeAnkaVersion v = (let t = TrimSpace v in
     if t = [] then t else TrimPrefix (takeWhile (\<lambda>c. c \<noteq> CHR '' '') t) ''v'')"

definition stripNumericPrefix :: "string \<Rightarrow> string" where
  "stripNumericPrefix s = takeWhile is_digit s"

fun parse_segments :: "string list \<Rightarrow> int list result" where
  "parse_segments [] = Inr []"
| "parse_segments (seg # segs) =
     (case Atoi (stripNumericPrefix seg) of
        Inl e \<Rightarrow> Inl (Errorf (''anka version segment '' @ seg @ '': '' @ Error e))
      | Inr n \<Rightarrow> (case parse_segments segs of Inl e \<Rightarrow> Inl e | Inr ns \<Rightarrow> Inr (n # ns)))"

definition parseAnkaVersionTriple :: "string \<Rightarrow> int list result" where
  "parseAnkaVersionTriple v =
     (if v = [] then Inl (Errorf ''empty anka version'')
      else let parts = Split CHR ''.'' v in
        if length parts < 3 then Inl (Errorf (''anka version '' @ v @ '' has fewer than 3 components''))
        else parse_segments (take 3 parts))"

fun at_least :: "int list \<Rightarrow> int list \<Rightarrow> bool" where
  "at_least (h # have) (w # want) = (if h > w then True else if h < w then False else at_least have want)"
| "at_least _ _ = True"

definition AnkaVersionAtLeast :: "string \<Rightarrow> int \<Rightarrow> int \<Rightarrow> int \<Rightarrow> bool result" where
  "AnkaVersionAtLeast v major minor patch = (case parseAnkaVersionTriple (NormalizeAnkaVersion v) of
     Inl e \<Rightarrow> Inl e | Inr have \<Rightarrow> Inr (at_least have [major, minor, patch]))"

definition ValidateAnkaVersionForHostToGuestFolderMounts :: "string \<Rightarrow> gerror option" where
  "ValidateAnkaVersionForHostToGuestFolderMounts ankaVersion = (case AnkaVersionAtLeast ankaVersion 3 9 0 of
     Inl e \<Rightarrow> Some (Errorf (''anka version for host-to-guest folder mounts: '' @ Error e))
   | Inr ok \<Rightarrow> if ok then None
       else Some (Errorf (''mounting host folders into the guest VM requires Anka >= 3.9.0, got '' @ NormalizeAnkaVersion ankaVersion)))"

section \<open>Mounts\<close>

definition ResolveHostToGuestFolderMountSpec :: "(string \<Rightarrow> string result) \<Rightarrow> string \<Rightarrow> string result" where
  "ResolveHostToGuestFolderMountSpec evalSymlinks spec =
     (let mountSpec = TrimSpace spec in
      if mountSpec = [] then Inl (Errorf ''empty host-to-guest folder mount entry'')
      else (case Cut CHR '':'' mountSpec of (host, guest, hasGuest) \<Rightarrow>
        (let hostPart = TrimSpace host in
         if hostPart = [] then Inl (Errorf (''invalid host-to-guest folder mount '' @ mountSpec @ '': empty host path''))
         else (case evalSymlinks hostPart of
            Inl e \<Rightarrow> Inl (Errorf (''eval symlinks for host-to-guest folder mount '' @ hostPart @ '': '' @ Error e))
          | Inr realPath \<Rightarrow>
              if \<not> hasGuest then Inr realPath
              else let guestPart = TrimSpace guest in
                if guestPart = [] then Inl (Errorf (''invalid host-to-guest folder mount '' @ mountSpec @ '': empty guest_folder_name''))
                else Inr (realPath @ '':'' @ guestPart)))))"

fun merge_mounts :: "(string \<Rightarrow> string result) \<Rightarrow> string list \<Rightarrow> string list \<Rightarrow> string list \<Rightarrow> string list result" where
  "merge_mounts ev seen acc [] = Inr acc"
| "merge_mounts ev seen acc (raw # raws) =
     (let trimmed = TrimSpace raw in
      if trimmed = [] then merge_mounts ev seen acc raws
      else (case ResolveHostToGuestFolderMountSpec ev trimmed of
         Inl e \<Rightarrow> Inl e
       | Inr resolved \<Rightarrow>
           if resolved \<in> set seen then merge_mounts ev seen acc raws
           else merge_mounts ev (resolved # seen) (acc @ [trimmed]) raws))"

definition MergeHostToGuestFolderMountLists :: "(string \<Rightarrow> string result) \<Rightarrow> string list \<Rightarrow> string list \<Rightarrow> string list result" where
  "MergeHostToGuestFolderMountLists ev globalEntries pluginEntries = merge_mounts ev [] [] (globalEntries @ pluginEntries)"

section \<open>Running the CLI\<close>

record 's Host =
  hTracker :: TemplateTracker
  hRunningVMs :: int
  hWorld :: 's

record 's Cli =
  run :: "string list \<Rightarrow> 's \<Rightarrow> (string \<times> int \<times> gerror option) \<times> 's"
  evalSymlinks :: "string \<Rightarrow> string result"
  clock :: "'s \<Rightarrow> int"
  workerErr :: "'s \<Rightarrow> gerror option"
  pluginErr :: "'s \<Rightarrow> gerror option"
  cliPlugin :: Plugin
  runTimeout :: "int \<Rightarrow> string list \<Rightarrow> 's \<Rightarrow> (string \<times> int \<times> gerror option \<times> gerror option) \<times> 's"

definition injectAnkaDebugFlag :: "string list \<Rightarrow> string list" where
  "injectAnkaDebugFlag args = (case args of [] \<Rightarrow> args
     | a # rest \<Rightarrow>
         if a \<noteq> ''anka'' \<or> ''--debug'' \<in> set args then args
         else (case rest of
            [] \<Rightarrow> [a, ''--debug'']
          | b # args2 \<Rightarrow> if b = ''-j'' \<or> b = ''--machine-readable'' then a # b # ''--debug'' # args2 else a # ''--debug'' # rest))"

definition shouldLogAnkaStderr :: "bool \<Rightarrow> bool \<Rightarrow> string \<Rightarrow> bool" where
  "shouldLogAnkaStderr debugEnabled failed stderr = (if TrimSpace stderr = [] then False else debugEnabled \<or> failed)"

text \<open>The newline and carriage return characters, and the text after the last return.\<close>

definition LF :: char where "LF = CHR 0x0A"
definition CR :: char where "CR = CHR 0x0D"

definition after_return :: "string \<Rightarrow> string" where
  "after_return line = (if CR \<in> set line then TrimSpace (rev (takeWhile (\<lambda>c. c \<noteq> CR) (rev line))) else line)"

definition lastAnkaProgressLine :: "string \<Rightarrow> string" where
  "lastAnkaProgressLine stderr =
     (case filter (\<lambda>l. l \<noteq> []) (map (\<lambda>l. after_return (TrimSpace l)) (rev (Split LF stderr))) of [] \<Rightarrow> [] | l # _ \<Rightarrow> l)"

definition Execute :: "'s Cli \<Rightarrow> string list \<Rightarrow> 's Host \<Rightarrow> (string \<times> int \<times> gerror option) \<times> 's Host" where
  "Execute cli args h = (case run cli (injectAnkaDebugFlag args) (hWorld h) of (out, s') \<Rightarrow> (out, h\<lparr>hWorld := s'\<rparr>))"

record AnkaJson =
  AStatus :: string
  ACode :: int
  ABody :: json
  AMessage :: string

definition set_AnkaJson :: "string \<Rightarrow> json \<Rightarrow> AnkaJson \<Rightarrow> AnkaJson result" where
  "set_AnkaJson k v a =
     (if EqualFold k ''status'' then (case dec_string (AStatus a) v of Inl e \<Rightarrow> Inl e | Inr x \<Rightarrow> Inr (a\<lparr>AStatus := x\<rparr>))
      else if EqualFold k ''code'' then (case dec_int (ACode a) v of Inl e \<Rightarrow> Inl e | Inr x \<Rightarrow> Inr (a\<lparr>ACode := x\<rparr>))
      else if EqualFold k ''body'' then Inr (a\<lparr>ABody := any_value v\<rparr>)
      else if EqualFold k ''message'' then (case dec_string (AMessage a) v of Inl e \<Rightarrow> Inl e | Inr x \<Rightarrow> Inr (a\<lparr>AMessage := x\<rparr>))
      else Inr a)"

definition ParseAnkaJson :: "string \<Rightarrow> AnkaJson result" where
  "ParseAnkaJson jsonData = (case json_parse jsonData of
     None \<Rightarrow> Inl (Errorf ''invalid JSON'')
   | Some v \<Rightarrow> dec_struct set_AnkaJson \<lparr>AStatus = [], ACode = 0, ABody = JNull, AMessage = []\<rparr> v)"

text \<open>
  \<open>ExecuteParseJson\<close>: the last line that is not blank; the error of \<open>Execute\<close> is dropped. A
  failing exit code gives both the decoded answer and an error.
\<close>

definition last_line :: "string \<Rightarrow> string" where
  "last_line out = (case filter (\<lambda>l. TrimSpace l \<noteq> []) (rev (Split LF out)) of [] \<Rightarrow> [] | l # _ \<Rightarrow> l)"

definition ExecuteParseJson :: "'s Cli \<Rightarrow> string list \<Rightarrow> 's Host \<Rightarrow> (AnkaJson option \<times> gerror option) \<times> 's Host" where
  "ExecuteParseJson cli args h = (case Execute cli args h of ((out, exitCode, _), h') \<Rightarrow>
     (let lastLine = last_line out in
      if lastLine = [] then ((None, Some (Errorf ''no valid JSON output found in command response'')), h')
      else (case ParseAnkaJson lastLine of
         Inl e \<Rightarrow> ((None, Some e), h')
       | Inr ankaJson \<Rightarrow> ((Some ankaJson, if exitCode \<noteq> 0 then Some (Errorf (AMessage ankaJson)) else None), h'))))"

text \<open>Most callers take the answer only without an error: the two as one result.\<close>

definition answer :: "AnkaJson option \<times> gerror option \<Rightarrow> AnkaJson result" where
  "answer r = (case r of (_, Some e) \<Rightarrow> Inl e | (Some a, None) \<Rightarrow> Inr a | (None, None) \<Rightarrow> Inl (Errorf ''no answer''))"

lemma ExecuteParseJson_answer:
  "ExecuteParseJson cli args h = ((oa, oe), h') \<Longrightarrow> oa \<noteq> None \<or> oe \<noteq> None"
  by (auto simp: ExecuteParseJson_def Let_def split: prod.splits if_splits sum.splits)

lemma ExecuteParseJson_state:
  "ExecuteParseJson cli args h = (r, h') \<Longrightarrow> hTracker h' = hTracker h \<and> hRunningVMs h' = hRunningVMs h"
  by (auto simp: ExecuteParseJson_def Execute_def Let_def split: prod.splits if_splits sum.splits)

section \<open>Commands\<close>

text \<open>A command that only checks the status of its answer: what its caller sees is an error.\<close>

definition checked :: "'s Cli \<Rightarrow> string list \<Rightarrow> string \<Rightarrow> 's Host \<Rightarrow> gerror option \<times> 's Host" where
  "checked cli args failure h = (case ExecuteParseJson cli args h of (r, h') \<Rightarrow>
     (case answer r of Inl e \<Rightarrow> Some e
      | Inr a \<Rightarrow> if AStatus a \<noteq> ''OK'' then Some (Errorf (failure @ AMessage a)) else None, h'))"

definition cancelled :: "'s Cli \<Rightarrow> 's Host \<Rightarrow> bool" where
  "cancelled cli h \<longleftrightarrow> workerErr cli (hWorld h) \<noteq> None \<or> pluginErr cli (hWorld h) \<noteq> None"

definition AnkaMount :: "'s Cli \<Rightarrow> string \<Rightarrow> string \<Rightarrow> 's Host \<Rightarrow> gerror option \<times> 's Host" where
  "AnkaMount cli vmName mountSpec h =
     (if pluginErr cli (hWorld h) \<noteq> None then (Some (Errorf ''context canceled before AnkaMount''), h)
      else checked cli [''anka'', ''-j'', ''mount'', vmName, mountSpec] ''anka mount failed: '' h)"

definition AnkaCopyOutOfVM :: "'s Cli \<Rightarrow> string \<Rightarrow> string \<Rightarrow> string \<Rightarrow> 's Host \<Rightarrow> gerror option \<times> 's Host" where
  "AnkaCopyOutOfVM cli vmName objectToCopyOut hostLevelDestination =
     checked cli [''anka'', ''-j'', ''cp'', ''-a'', vmName @ '':'' @ objectToCopyOut, hostLevelDestination] ''error copying out of vm: ''"

definition AnkaClone :: "'s Cli \<Rightarrow> string \<Rightarrow> string \<Rightarrow> 's Host \<Rightarrow> gerror option \<times> 's Host" where
  "AnkaClone cli vmName template h =
     (if cancelled cli h then (Some (Errorf ''context canceled before AnkaClone''), h)
      else checked cli [''anka'', ''-j'', ''clone'', template, vmName] ''error cloning template: '' h)"

definition AnkaStart :: "'s Cli \<Rightarrow> string \<Rightarrow> 's Host \<Rightarrow> gerror option \<times> 's Host" where
  "AnkaStart cli vmName h =
     (if cancelled cli h then (Some (Errorf ''context canceled before AnkaStart''), h)
      else checked cli [''anka'', ''-j'', ''start'', vmName] ''error starting vm: '' h)"

text \<open>Deleting a VM: a failed command is tried once more without \<open>-j\<close>, and its error returned.\<close>

definition delete_again :: "'s Cli \<Rightarrow> string \<Rightarrow> 's Host \<Rightarrow> gerror option \<times> 's Host" where
  "delete_again cli vmName h = (case Execute cli [''anka'', ''delete'', ''--yes'', vmName] h of ((_, _, err), h') \<Rightarrow> (err, h'))"

definition AnkaDelete :: "'s Cli \<Rightarrow> string \<Rightarrow> 's Host \<Rightarrow> gerror option \<times> 's Host" where
  "AnkaDelete cli vmName h = (case ExecuteParseJson cli [''anka'', ''-j'', ''delete'', ''--yes'', vmName] h of (r, h') \<Rightarrow>
     (case answer r of
        Inl e \<Rightarrow> delete_again cli vmName h'
      | Inr _ \<Rightarrow> (None, h'\<lparr>hRunningVMs := (if hRunningVMs h' > 0 then hRunningVMs h' - 1 else hRunningVMs h')\<rparr>)))"

text \<open>How \<open>%s\<close> shows an error that may be nil.\<close>

definition shown_error :: "gerror option \<Rightarrow> string" where
  "shown_error err = (case err of None \<Rightarrow> ''%!s(<nil>)'' | Some e \<Rightarrow> Error e)"

definition AnkaRun :: "'s Cli \<Rightarrow> string \<Rightarrow> string list \<Rightarrow> 's Host \<Rightarrow> gerror option \<times> 's Host" where
  "AnkaRun cli vmName args h =
     (case Execute cli [''anka'', ''-j'', ''run'', vmName, ''bash'', ''-c'', Join '' '' args] h of ((out, exitCode, err), h') \<Rightarrow>
       (if exitCode \<noteq> 0 \<or> err \<noteq> None
        then Some (Errorf (''command execution failed with code '' @ FormatInt exitCode @ '': '' @ out @ '' '' @ shown_error err)) else None, h'))"

text \<open>The two results: the failure of the command, and that it took too long.\<close>

definition AnkaRunWithTimeout :: "'s Cli \<Rightarrow> int \<Rightarrow> string \<Rightarrow> string list \<Rightarrow> 's Host \<Rightarrow> (gerror option \<times> gerror option) \<times> 's Host" where
  "AnkaRunWithTimeout cli timeoutInSeconds vmName args h =
     (case runTimeout cli timeoutInSeconds (injectAnkaDebugFlag [''anka'', ''-j'', ''run'', vmName, ''bash'', ''-c'', Join '' '' args]) (hWorld h) of
       ((out, exitCode, err, errTimeout), s') \<Rightarrow>
         (case errTimeout of
            Some t \<Rightarrow> (None, Some (Errorf (''command execution timed out: '' @ out @ '' '' @ Error t)))
          | None \<Rightarrow> if exitCode \<noteq> 0 \<or> err \<noteq> None
              then (Some (Errorf (''command execution failed with code '' @ FormatInt exitCode @ '': '' @ out @ '' '' @ shown_error err)), None)
              else (None, None), h\<lparr>hWorld := s'\<rparr>))"

text \<open>Copying the files in one by one, each with its links resolved; the first failure ends it.\<close>

fun copy_files :: "'s Cli \<Rightarrow> string \<Rightarrow> string list \<Rightarrow> 's Host \<Rightarrow> gerror option \<times> 's Host" where
  "copy_files cli vmName [] h = (None, h)"
| "copy_files cli vmName (hostLevelFile # files) h = (case evalSymlinks cli hostLevelFile of
     Inl e \<Rightarrow> (Some (Errorf (''error evaluating symlink for '' @ hostLevelFile @ '': '' @ Error e)), h)
   | Inr realPath \<Rightarrow>
       if cancelled cli h then (Some (Errorf ''context canceled before AnkaCopyIntoVM executing anka cp''), h)
       else (case checked cli [''anka'', ''-j'', ''cp'', ''-a'', realPath, vmName @ '':''] ''error copying into vm: '' h of
          (Some e, h') \<Rightarrow> (Some e, h')
        | (None, h') \<Rightarrow> copy_files cli vmName files h'))"

definition AnkaCopyIntoVM :: "'s Cli \<Rightarrow> string \<Rightarrow> string list \<Rightarrow> 's Host \<Rightarrow> gerror option \<times> 's Host" where
  "AnkaCopyIntoVM cli vmName files h =
     (if cancelled cli h then (Some (Errorf ''context canceled before AnkaCopyIntoVM''), h) else copy_files cli vmName files h)"

definition AnkaDeleteVMOnly :: "'s Cli \<Rightarrow> string \<Rightarrow> 's Host \<Rightarrow> gerror option \<times> 's Host" where
  "AnkaDeleteVMOnly cli vmName h = (case ExecuteParseJson cli [''anka'', ''-j'', ''delete'', ''--yes'', vmName] h of (r, h') \<Rightarrow>
     (case answer r of
        Inl e \<Rightarrow> delete_again cli vmName h'
      | Inr a \<Rightarrow> (if AStatus a \<noteq> ''OK'' then Some (Errorf (''error deleting vm: '' @ AMessage a)) else None, h')))"

definition AnkaDeleteTemplate :: "'s Cli \<Rightarrow> string \<Rightarrow> 's Host \<Rightarrow> gerror option \<times> 's Host" where
  "AnkaDeleteTemplate cli templateUUID h =
     (case checked cli [''anka'', ''-j'', ''delete'', ''--yes'', templateUUID] ''error deleting template: '' h of
        (Some e, h') \<Rightarrow> (Some e, h')
      | (None, h') \<Rightarrow> (None, h'\<lparr>hTracker := RemoveTemplate templateUUID (hTracker h')\<rparr>))"

definition AnkaExecuteRegistryCommand :: "'s Cli \<Rightarrow> string list \<Rightarrow> 's Host \<Rightarrow> (AnkaJson option \<times> gerror option) \<times> 's Host" where
  "AnkaExecuteRegistryCommand cli args =
     (let url = PRegistryURL (cliPlugin cli) in
      ExecuteParseJson cli ([''anka'', ''-j'', ''registry''] @ (if url \<noteq> [] then [''--remote'', url] else []) @ args))"

definition AnkaExecutePullCommand :: "'s Cli \<Rightarrow> string list \<Rightarrow> 's Host \<Rightarrow> (AnkaJson option \<times> gerror option) \<times> 's Host" where
  "AnkaExecutePullCommand cli args =
     (let url = PRegistryURL (cliPlugin cli) in
      ExecuteParseJson cli ([''anka'', ''-j'', ''pull''] @ args @ (if url \<noteq> [] then [url] else [])))"

definition AnkaRegistryRunning :: "'s Cli \<Rightarrow> 's Host \<Rightarrow> bool \<times> 's Host" where
  "AnkaRegistryRunning cli h = (case AnkaExecuteRegistryCommand cli [''list''] h of (r, h') \<Rightarrow>
     (case answer r of Inl e \<Rightarrow> False | Inr a \<Rightarrow> AStatus a = ''OK'', h'))"

definition AnkaList :: "'s Cli \<Rightarrow> string list \<Rightarrow> 's Host \<Rightarrow> AnkaJson result \<times> 's Host" where
  "AnkaList cli args h = (case ExecuteParseJson cli ([''anka'', ''-j'', ''list''] @ args) h of (r, h') \<Rightarrow> (answer r, h'))"

definition HostHasVmCapacity :: "'s Cli \<Rightarrow> 's Host \<Rightarrow> bool \<times> 's Host" where
  "HostHasVmCapacity cli h = (case ExecuteParseJson cli [''anka'', ''-j'', ''list'', ''-r''] h of (r, h') \<Rightarrow>
     (case answer r of Inl e \<Rightarrow> True
      | Inr a \<Rightarrow> if AStatus a \<noteq> ''OK'' then False
          else (case ABody a of JArr bodySlice \<Rightarrow> length bodySlice < 2 | _ \<Rightarrow> True), h'))"

section \<open>Facts\<close>

lemma injectAnkaDebugFlag_idem: "injectAnkaDebugFlag (injectAnkaDebugFlag args) = injectAnkaDebugFlag args"
  by (auto simp: injectAnkaDebugFlag_def split: list.splits)

lemma injectAnkaDebugFlag_set:
  "set (injectAnkaDebugFlag args) - {''--debug''} = set args - {''--debug''} \<and>
   (args \<noteq> [] \<longrightarrow> hd args = ''anka'' \<longrightarrow> ''--debug'' \<in> set (injectAnkaDebugFlag args)) \<and>
   (length args \<ge> 2 \<longrightarrow> args ! 1 = ''-j'' \<longrightarrow> injectAnkaDebugFlag args ! 1 = ''-j'')"
  by (auto simp: injectAnkaDebugFlag_def split: list.splits)

text \<open>The comparison of versions is the lexicographic order of the three numbers.\<close>

lemma FormatInt_digits: "0 \<le> i \<Longrightarrow> list_all is_digit (FormatInt i)"
  by (simp add: FormatInt_def show_nat_digits)

lemma FormatInt_not_Nil [simp]: "FormatInt i \<noteq> []"
  by (simp add: FormatInt_def)

lemma digit_not_space: "is_digit c \<Longrightarrow> \<not> is_space c"
  by (auto simp: is_digit_def is_space_def)

lemma digits_no: "list_all is_digit s \<Longrightarrow> \<not> is_digit c \<Longrightarrow> c \<notin> set s"
  by (auto simp: list_all_iff)

lemma TrimSpace_id: "s \<noteq> [] \<Longrightarrow> \<not> is_space (hd s) \<Longrightarrow> \<not> is_space (last s) \<Longrightarrow> TrimSpace s = s"
  by (simp add: TrimSpace_def rev_dropWhile_hd hd_rev)

lemma stripNumericPrefix_digits: "list_all is_digit s \<Longrightarrow> stripNumericPrefix s = s"
  by (simp add: stripNumericPrefix_def list_all_iff)

lemma NormalizeAnkaVersion_id:
  assumes t: "TrimSpace v = v" and w: "takeWhile (\<lambda>c. c \<noteq> CHR '' '') v = v" and p: "\<not> prefix ''v'' v"
  shows "NormalizeAnkaVersion v = v"
proof -
  have "TrimPrefix v ''v'' = v" using p by (simp add: TrimPrefix_def CutPrefix_def)
  then show ?thesis unfolding NormalizeAnkaVersion_def Let_def t w by simp
qed

definition version_text :: "int \<Rightarrow> int \<Rightarrow> int \<Rightarrow> string" where
  "version_text a b c = FormatInt a @ ''.'' @ FormatInt b @ ''.'' @ FormatInt c"

lemma parse_version_text:
  assumes "0 \<le> a" "0 \<le> b" "0 \<le> c" "int64_ok a" "int64_ok b" "int64_ok c"
  shows "parseAnkaVersionTriple (NormalizeAnkaVersion (version_text a b c)) = Inr [a, b, c]"
proof -
  let ?v = "version_text a b c"
  note dg = FormatInt_digits [OF assms(1)] FormatInt_digits [OF assms(2)] FormatInt_digits [OF assms(3)]
  have dot: "\<not> is_digit CHR ''.''" "\<not> is_space CHR ''.''" by (simp_all add: is_digit_def is_space_def)
  have hd: "is_digit (hd ?v)" and last: "is_digit (last ?v)"
    using dg by (auto simp: version_text_def list_all_iff)
  have "TrimSpace ?v = ?v" using digit_not_space [OF hd] digit_not_space [OF last]
    by (intro TrimSpace_id) (auto simp: version_text_def)
  moreover have "takeWhile (\<lambda>ch. ch \<noteq> CHR '' '') ?v = ?v"
    using digits_no [OF dg(1), of "CHR '' ''"] digits_no [OF dg(2), of "CHR '' ''"] digits_no [OF dg(3), of "CHR '' ''"]
    by (intro takeWhile_eq_all_conv [THEN iffD2]) (auto simp: version_text_def is_digit_def)
  moreover have "\<not> prefix ''v'' ?v" using hd by (cases ?v) (auto simp: is_digit_def)
  ultimately have n: "NormalizeAnkaVersion ?v = ?v" by (rule NormalizeAnkaVersion_id)
  have "Split CHR ''.'' ?v = [FormatInt a, FormatInt b, FormatInt c]"
    using digits_no [OF dg(1) dot(1)] digits_no [OF dg(2) dot(1)] digits_no [OF dg(3) dot(1)]
    by (simp add: version_text_def Split_append Split_no_sep)
  then show ?thesis unfolding n
    by (simp add: parseAnkaVersionTriple_def version_text_def Let_def stripNumericPrefix_digits dg Atoi_FormatInt assms)
qed

lemma AnkaVersionAtLeast_text:
  assumes "0 \<le> a" "0 \<le> b" "0 \<le> c" "int64_ok a" "int64_ok b" "int64_ok c"
  shows "AnkaVersionAtLeast (version_text a b c) x y z =
     Inr (x < a \<or> (x = a \<and> (y < b \<or> (y = b \<and> z \<le> c))))"
  unfolding AnkaVersionAtLeast_def parse_version_text [OF assms] by auto

text \<open>Merging: the entries kept resolve to distinct mounts, and every entry's mount is among them.\<close>

lemma merge_mounts_spec:
  assumes "merge_mounts ev seen acc raws = Inr out"
    and "\<forall>t\<in>set acc. \<exists>r. ResolveHostToGuestFolderMountSpec ev t = Inr r \<and> r \<in> set seen"
    and "distinct (map (ResolveHostToGuestFolderMountSpec ev) acc)"
    and "\<forall>r\<in>set seen. \<exists>t\<in>set acc. ResolveHostToGuestFolderMountSpec ev t = Inr r"
  shows "distinct (map (ResolveHostToGuestFolderMountSpec ev) out) \<and> (\<exists>more. out = acc @ more) \<and>
    (\<forall>raw\<in>set raws. TrimSpace raw \<noteq> [] \<longrightarrow> (\<exists>t\<in>set out. \<exists>r. ResolveHostToGuestFolderMountSpec ev t = Inr r \<and>
        ResolveHostToGuestFolderMountSpec ev (TrimSpace raw) = Inr r))"
  using assms
proof (induction ev seen acc raws rule: merge_mounts.induct)
  case (1 ev seen acc)
  then show ?case by simp
next
  case (2 ev seen acc raw raws)
  let ?t = "TrimSpace raw" and ?R = "ResolveHostToGuestFolderMountSpec ev"
  show ?case
  proof (cases "?t = []")
    case True
    then show ?thesis using 2 by simp
  next
    case nonempty: False
    then obtain r where r: "?R ?t = Inr r" using "2.prems"(1) by (auto simp: Let_def split: sum.splits)
    show ?thesis
    proof (cases "r \<in> set seen")
      case True
      then have step: "merge_mounts ev seen acc raws = Inr out" using "2.prems"(1) nonempty r by simp
      note ih = "2.IH"(2) [OF refl nonempty r True step "2.prems"(2-4)]
      moreover obtain t where "t \<in> set acc" "?R t = Inr r" using "2.prems"(4) True by blast
      ultimately have "\<exists>t\<in>set out. ?R t = Inr r" by auto
      then show ?thesis using ih r by auto
    next
      case False
      then have step: "merge_mounts ev (r # seen) (acc @ [?t]) raws = Inr out" using "2.prems"(1) nonempty r by simp
      have "?R t \<noteq> Inr r" if "t \<in> set acc" for t using "2.prems"(2) that False by force
      then have d: "distinct (map ?R (acc @ [?t]))" using "2.prems"(3) r by force
      have s: "\<forall>t\<in>set (acc @ [?t]). \<exists>q. ?R t = Inr q \<and> q \<in> set (r # seen)"
        and s': "\<forall>q\<in>set (r # seen). \<exists>t\<in>set (acc @ [?t]). ?R t = Inr q"
        using "2.prems"(2,4) r by auto
      show ?thesis using "2.IH"(3) [OF refl nonempty r False step s d s'] r by auto
    qed
  qed
qed

lemma MergeHostToGuestFolderMountLists_spec:
  assumes "MergeHostToGuestFolderMountLists ev gs ps = Inr out"
  shows "distinct (map (ResolveHostToGuestFolderMountSpec ev) out) \<and>
    (\<forall>raw\<in>set (gs @ ps). TrimSpace raw \<noteq> [] \<longrightarrow> (\<exists>t\<in>set out. \<exists>r. ResolveHostToGuestFolderMountSpec ev t = Inr r \<and>
        ResolveHostToGuestFolderMountSpec ev (TrimSpace raw) = Inr r))"
  using merge_mounts_spec [of ev "[]" "[]" "gs @ ps" out] assms by (auto simp: MergeHostToGuestFolderMountLists_def)

end
