(* ===== verification/AnkaTemplates.thy ===== *)
theory AnkaTemplates
  imports Anka
begin

text \<open>
  \<open>internal/anka\<close>, continued: reading a VM or template (\<open>AnkaShow\<close>), the resource checks of
  \<open>vm.go\<close>, obtaining a VM, and pulling a template after \<open>EnsureSpaceForTemplate\<close> has made
  room for it. A JSON number is the float64 its text denotes, so an integer goes through
  \<open>f64\<close>; conversion to an unsigned integer truncates (Go leaves the result open beyond 64
  bits; the model wraps).
\<close>

section \<open>Reading numbers and times\<close>

fun json_float :: "json \<Rightarrow> rat option" where
  "json_float (JNum i) = Some (of_int (f64 i))"
| "json_float (JReal t) = (case ParseFloat t of Inr q \<Rightarrow> Some q | Inl _ \<Rightarrow> None)"
| "json_float _ = None"

definition to_uint64 :: "rat \<Rightarrow> 64 word" where
  "to_uint64 q = word_of_int (trunc_rat q)"

fun json_str :: "json \<Rightarrow> string option" where
  "json_str (JStr s) = Some s"
| "json_str _ = None"

text \<open>Days from 1970-01-01 in the proleptic Gregorian calendar, and RFC 3339 times in nanoseconds.\<close>

definition days_from_civil :: "int \<Rightarrow> int \<Rightarrow> int \<Rightarrow> int" where
  "days_from_civil y m d =
     (let y1 = (if m \<le> 2 then y - 1 else y);
          era = y1 div 400; yoe = y1 - era * 400;
          doy = (153 * (if m > 2 then m - 3 else m + 9) + 2) div 5 + d - 1;
          doe = yoe * 365 + yoe div 4 - yoe div 100 + doy
      in era * 146097 + doe - 719468)"

lemma days_epoch: "days_from_civil 1970 1 1 = 0" "days_from_civil 1970 1 2 = 1" "days_from_civil 2000 3 1 = 11017"
  "days_from_civil 1 1 1 = - 719162"
  by (simp_all add: days_from_civil_def)

definition days_in_month :: "int \<Rightarrow> int \<Rightarrow> int" where
  "days_in_month y m = days_from_civil (if m = 12 then y + 1 else y) (if m = 12 then 1 else m + 1) 1 - days_from_civil y m 1"

definition digits_at :: "string \<Rightarrow> nat \<Rightarrow> nat \<Rightarrow> int option" where
  "digits_at s i n = (let t = take n (drop i s) in
     if length t = n \<and> list_all is_digit t then Some (int (read_nat t)) else None)"

definition zone_offset :: "string \<Rightarrow> int option" where
  "zone_offset s =
     (if s = ''Z'' then Some 0
      else if length s = 6 \<and> (hd s = CHR ''+'' \<or> hd s = CHR ''-'') \<and> s ! 3 = CHR '':'' then
        (case (digits_at s 1 2, digits_at s 4 2) of
           (Some h, Some m) \<Rightarrow> if h \<le> 24 \<and> m < 60 then Some ((if hd s = CHR ''-'' then - 1 else 1) * (h * 60 + m)) else None
         | _ \<Rightarrow> None)
      else None)"

definition parse_RFC3339 :: "string \<Rightarrow> int option" where
  "parse_RFC3339 s =
     (let tail = drop 19 s;
          nanos = (if tail \<noteq> [] \<and> hd tail = CHR ''.'' then takeWhile is_digit (tl tail) else []);
          zone = (if nanos = [] then tail else drop (Suc (length nanos)) tail)
      in case (digits_at s 0 4, digits_at s 5 2, digits_at s 8 2, digits_at s 11 2, digits_at s 14 2, digits_at s 17 2, zone_offset zone) of
        (Some y, Some mo, Some d, Some h, Some mi, Some sec, Some off) \<Rightarrow>
          if s ! 4 = CHR ''-'' \<and> s ! 7 = CHR ''-'' \<and> s ! 10 = CHR ''T'' \<and> s ! 13 = CHR '':'' \<and> s ! 16 = CHR '':''
             \<and> 1 \<le> mo \<and> mo \<le> 12 \<and> 1 \<le> d \<and> d \<le> days_in_month y mo \<and> h < 24 \<and> mi < 60 \<and> sec < 60
          then Some ((((days_from_civil y mo d * 24 + h) * 60 + mi - off) * 60 + sec) * second
                 + (if nanos = [] then 0 else int (read_nat (take 9 (nanos @ replicate 9 CHR ''0'')))))
          else None
      | _ \<Rightarrow> None)"

definition zero_time :: int where
  "zero_time = - 719162 * 24 * 3600 * second"

section \<open>AnkaShow\<close>

record AnkaShowOutput =
  ShowName :: string
  CPU :: int
  MEM :: "64 word"
  ShowTag :: string
  ShowImageSize :: "64 word"
  AccessDate :: int

definition zero_AnkaShowOutput :: AnkaShowOutput where
  "zero_AnkaShowOutput = \<lparr>ShowName = [], CPU = 0, MEM = 0, ShowTag = [], ShowImageSize = 0, AccessDate = zero_time\<rparr>"

definition using_latest :: string where
  "using_latest = ''(using latest)''"

definition show_tag :: "json \<Rightarrow> string" where
  "show_tag body = (case body of
     JArr (JObj ms # _) \<Rightarrow> (case map_of ms ''tag'' of
        None \<Rightarrow> using_latest | Some JNull \<Rightarrow> using_latest | Some v \<Rightarrow> value_text v)
   | _ \<Rightarrow> using_latest)"

text \<open>A body that is not an object fails the first assertion, as do the two unchecked numbers.\<close>

fun required_float :: "(string \<times> json) list \<Rightarrow> string \<Rightarrow> rat option go" where
  "required_float ms k = (case map_of ms k of None \<Rightarrow> Ret None
     | Some v \<Rightarrow> (case json_float v of None \<Rightarrow> Panic | Some q \<Rightarrow> Ret (Some q)))"

definition show_output :: "json \<Rightarrow> json \<Rightarrow> AnkaShowOutput go" where
  "show_output body tagBody = (case body of
     JObj ms \<Rightarrow>
       (case required_float ms ''cpu_cores'' of Panic \<Rightarrow> Panic | Ret cpu \<Rightarrow>
       (case required_float ms ''ram_size'' of Panic \<Rightarrow> Panic | Ret mem \<Rightarrow>
        Ret \<lparr>ShowName = [], CPU = (case cpu of None \<Rightarrow> 0 | Some q \<Rightarrow> trunc_rat q),
             MEM = (case mem of None \<Rightarrow> 0 | Some q \<Rightarrow> to_uint64 q), ShowTag = show_tag tagBody,
             ShowImageSize = (case Option.bind (map_of ms ''image_size'') json_float of None \<Rightarrow> 0 | Some q \<Rightarrow> to_uint64 q),
             AccessDate = (case Option.bind (Option.bind (map_of ms ''access_date'') json_str) parse_RFC3339 of
                None \<Rightarrow> zero_time | Some t \<Rightarrow> t)\<rparr>))
   | _ \<Rightarrow> Panic)"

definition AnkaShow :: "'s Cli \<Rightarrow> string \<Rightarrow> 's Host \<Rightarrow> AnkaShowOutput result go \<times> 's Host" where
  "AnkaShow cli vmName h = (case ExecuteParseJson cli [''anka'', ''-j'', ''show'', vmName] h of (r, h1) \<Rightarrow>
     (case answer r of Inl e \<Rightarrow> (Ret (Inl e), h1)
      | Inr ankaJson \<Rightarrow>
          (case ExecuteParseJson cli [''anka'', ''-j'', ''show'', vmName, ''tag''] h1 of (r2, h2) \<Rightarrow>
             (case answer r2 of Inl e \<Rightarrow> (Ret (Inl e), h2)
              | Inr tagJson \<Rightarrow>
                  (case show_output (ABody ankaJson) (ABody tagJson) of Panic \<Rightarrow> Panic | Ret out \<Rightarrow> Ret (Inr out), h2)))))"

definition AnkaGetTemplateSize :: "'s Cli \<Rightarrow> string \<Rightarrow> 's Host \<Rightarrow> 64 word result go \<times> 's Host" where
  "AnkaGetTemplateSize cli template h = (case AnkaShow cli template h of
     (Panic, h') \<Rightarrow> (Panic, h')
   | (Ret (Inl e), h') \<Rightarrow> (Ret (Inl e), h')
   | (Ret (Inr sh), h') \<Rightarrow>
       (Ret (if ShowImageSize sh > 0 then Inr (ShowImageSize sh) else Inl (Errorf ''unable to determine template size'')), h'))"

definition AnkaRegistryShowTemplate :: "'s Cli \<Rightarrow> string \<Rightarrow> string \<Rightarrow> 's Host \<Rightarrow> AnkaShowOutput result go \<times> 's Host" where
  "AnkaRegistryShowTemplate cli template tag h =
     (if cancelled cli h then (Ret (Inl (Errorf ''context canceled before AnkaRegistryShowTemplate'')), h)
      else (case AnkaExecuteRegistryCommand cli (if tag \<noteq> using_latest then [''show'', template, ''--tag'', tag] else [''show'', template]) h of
        (r, h') \<Rightarrow>
          (case answer r of Inl e \<Rightarrow> Ret (Inl e)
           | Inr a \<Rightarrow>
               if AStatus a \<noteq> ''OK'' then Ret (Inl (Errorf (''error showing template from registry: '' @ AMessage a)))
               else (case ABody a of
                  JObj ms \<Rightarrow> Ret (Inr (zero_AnkaShowOutput\<lparr>
                     ShowName := (case Option.bind (map_of ms ''name'') json_str of None \<Rightarrow> [] | Some n \<Rightarrow> n),
                     CPU := (case Option.bind (map_of ms ''cpu_cores'') json_float of None \<Rightarrow> 0 | Some q \<Rightarrow> trunc_rat q),
                     MEM := (case Option.bind (map_of ms ''ram_size'') json_float of None \<Rightarrow> 0 | Some q \<Rightarrow> to_uint64 q),
                     ShowImageSize := (case Option.bind (map_of ms ''image_size'') json_float of None \<Rightarrow> 0 | Some q \<Rightarrow> to_uint64 q)\<rparr>))
                | _ \<Rightarrow> Panic), h')))"

section \<open>Resources\<close>

definition vm_of_show :: "AnkaShowOutput \<Rightarrow> VM" where
  "vm_of_show sh = \<lparr>VMName = [], CPUCount = CPU sh, MEMBytes = MEM sh\<rparr>"

definition GetAnkaRegistryVmInfo :: "'s Cli \<Rightarrow> string \<Rightarrow> string \<Rightarrow> 's Host \<Rightarrow> VM result go \<times> 's Host" where
  "GetAnkaRegistryVmInfo cli template tag h = (case AnkaRegistryShowTemplate cli template tag h of
     (Panic, h') \<Rightarrow> (Panic, h')
   | (Ret (Inl e), h') \<Rightarrow> (Ret (Inl (Errorf (''error getting anka show output: '' @ Error e))), h')
   | (Ret (Inr sh), h') \<Rightarrow> (Ret (Inr (vm_of_show sh)), h'))"

definition GetAnkaVmInfo :: "'s Cli \<Rightarrow> string \<Rightarrow> 's Host \<Rightarrow> VM result go \<times> 's Host" where
  "GetAnkaVmInfo cli name h = (case AnkaShow cli name h of
     (Panic, h') \<Rightarrow> (Panic, h')
   | (Ret (Inl e), h') \<Rightarrow> (Ret (Inl (Errorf (''error getting anka show output: '' @ Error e))), h')
   | (Ret (Inr sh), h') \<Rightarrow> (Ret (Inr (vm_of_show sh)), h'))"

definition VmHasEnoughHostResources :: "Globals \<Rightarrow> VM \<Rightarrow> gerror option" where
  "VmHasEnoughHostResources g vm =
     (if CPUCount vm > HostCPUCount g then Some (Errorf ''host does not have enough CPU cores yet to run VM'')
      else if MEMBytes vm > HostMemoryBytes g then Some (Errorf ''host does not have enough memory yet to run VM'')
      else None)"

text \<open>The sums over the running VMs; memory is summed on 64 bits.\<close>

fun sum_running :: "'s Cli \<Rightarrow> json list \<Rightarrow> int \<Rightarrow> 64 word \<Rightarrow> 's Host \<Rightarrow> (int \<times> 64 word) result go \<times> 's Host" where
  "sum_running cli [] cpu mem h = (Ret (Inr (cpu, mem)), h)"
| "sum_running cli (v # vs) cpu mem h = (case v of
     JObj ms \<Rightarrow> (case Option.bind (map_of ms ''name'') json_str of
        None \<Rightarrow> (Panic, h)
      | Some vmName \<Rightarrow> (case AnkaShow cli vmName h of
           (Panic, h') \<Rightarrow> (Panic, h')
         | (Ret (Inl e), h') \<Rightarrow> (Ret (Inl (Errorf (''error getting anka show output: '' @ Error e))), h')
         | (Ret (Inr sh), h') \<Rightarrow> sum_running cli vs (cpu + CPU sh) (mem + MEM sh) h'))
   | _ \<Rightarrow> (Panic, h))"

definition fits :: "Globals \<Rightarrow> VM \<Rightarrow> int \<Rightarrow> 64 word \<Rightarrow> gerror option" where
  "fits g vm cpuUsed memUsed =
     (if CPUCount vm + cpuUsed > HostCPUCount g then Some (Errorf ''host does not have enough CPU cores to run VM'')
      else if MEMBytes vm + memUsed > HostMemoryBytes g then Some (Errorf ''host does not have enough memory to run VM'')
      else None)"

definition VmHasEnoughResources :: "'s Cli \<Rightarrow> Globals \<Rightarrow> VM \<Rightarrow> 's Host \<Rightarrow> gerror option go \<times> 's Host" where
  "VmHasEnoughResources cli g vm h = (case AnkaList cli [''--running''] h of
     (Inl e, h') \<Rightarrow> (Ret (Some (Errorf (''error getting anka list output: '' @ Error e))), h')
   | (Inr a, h') \<Rightarrow> (case ABody a of
        JArr vms \<Rightarrow> (case sum_running cli vms 0 0 h' of
           (Panic, h'') \<Rightarrow> (Panic, h'')
         | (Ret (Inl e), h'') \<Rightarrow> (Ret (Some e), h'')
         | (Ret (Inr (cpu, mem)), h'') \<Rightarrow> (Ret (fits g vm cpu mem), h''))
      | _ \<Rightarrow> (Panic, h')))"

end
