(* ===== verification/AnkaSpace.thy ===== *)
theory AnkaSpace
  imports AnkaTemplates
begin

text \<open>
  \<open>internal/anka/lru_cleanup.go\<close>, \<open>lru_space.go\<close> and the functions of \<open>cli.go\<close> that change what
  the host holds: making room for a template, pulling it, obtaining a VM, and the discovery at
  start. The size of the disk is what \<open>gopsutil\<close> reports. Changes of the status in the metrics
  are left out; the count of running VMs is part of the host. The facts: the clean-up deletes
  no template that is in use, being pulled, or the one to pull, and nothing at all unless the
  deletions can make enough room.
\<close>

section \<open>Room for a template\<close>

definition templateDownloadSize :: "64 word \<Rightarrow> 64 word \<Rightarrow> 64 word" where
  "templateDownloadSize sz cached = (if cached \<ge> sz then 0 else sz - cached)"

text \<open>One field of the answer to \<open>--check-download-size\<close>: absent or null is 0.\<close>

definition check_field :: "(string \<times> json) list \<Rightarrow> string \<Rightarrow> 64 word result" where
  "check_field body k = (case map_of body k of
     None \<Rightarrow> Inr 0
   | Some v \<Rightarrow> if v = JNull then Inr 0
       else (case json_float v of Some q \<Rightarrow> Inr (to_uint64 q)
         | None \<Rightarrow> Inl (Errorf (''invalid '' @ k @ '' value type in pull check response''))))"

record PullCheck =
  psize :: "64 word"
  pcached :: "64 word"
  pavailable :: "64 word"

definition pull_check :: "json \<Rightarrow> PullCheck result" where
  "pull_check body = (case body of
     JObj ms \<Rightarrow> (case check_field ms ''size'' of Inl e \<Rightarrow> Inl e | Inr sz \<Rightarrow>
       (case check_field ms ''cached'' of Inl e \<Rightarrow> Inl e | Inr cached \<Rightarrow>
       (case check_field ms ''available'' of Inl e \<Rightarrow> Inl e | Inr available \<Rightarrow>
        Inr \<lparr>psize = sz, pcached = cached, pavailable = available\<rparr>)))
   | _ \<Rightarrow> Inl (Errorf ''unable to parse pull check output''))"

definition usable_space :: "64 word \<Rightarrow> 64 word \<Rightarrow> 64 word" where
  "usable_space available bufferSize = (if available > bufferSize then available - bufferSize else 0)"

definition buffer_size :: "'s Cli \<Rightarrow> 64 word \<Rightarrow> 64 word" where
  "buffer_size cli totalDiskSize = to_uint64 (of_int (uint totalDiskSize) * (PTemplateDiskBuffer (cliPlugin cli) / 100))"

text \<open>\<open>checkSpace\<close>: the answer, the bytes to download and the bytes that may be used.\<close>

definition checkSpace :: "'s Cli \<Rightarrow> 64 word \<Rightarrow> string \<Rightarrow> string \<Rightarrow> 's Host \<Rightarrow> (PullCheck \<times> 64 word \<times> 64 word) result \<times> 's Host" where
  "checkSpace cli bufferSize templateUUID tag h =
     (case AnkaExecutePullCommand cli ([templateUUID, ''--check-download-size''] @
         (if tag \<noteq> using_latest then [''--tag'', tag] else [])) h of (r, h') \<Rightarrow>
       (case answer r of Inl e \<Rightarrow> Inl e
        | Inr a \<Rightarrow>
            if AStatus a \<noteq> ''OK'' then Inl (Errorf (''error checking template size: '' @ AMessage a))
            else (case pull_check (ABody a) of Inl e \<Rightarrow> Inl e
              | Inr p \<Rightarrow> Inr (p, templateDownloadSize (psize p) (pcached p), usable_space (pavailable p) bufferSize)), h'))"

text \<open>The decision to clean up, from the idle templates: \<open>Some\<close> error refuses before any deletion.\<close>

definition freeable :: "string \<Rightarrow> TemplateUsage list \<Rightarrow> 64 word" where
  "freeable templateUUID lru = foldl (\<lambda>t u. if UUID u = templateUUID then t else t + ImageSize u) 0 lru"

definition refuse_cleanup :: "TemplateTracker \<Rightarrow> string \<Rightarrow> 64 word \<Rightarrow> 64 word \<Rightarrow> gerror option" where
  "refuse_cleanup tt templateUUID usableSpace downloadSize =
     (let lruTemplates = GetLeastRecentlyUsedTemplates tt;
          countOfLruTemplates = int (length lruTemplates) - (if tracks templateUUID tt then 1 else 0);
          totalFreeable = freeable templateUUID lruTemplates
      in if countOfLruTemplates \<le> 0 then Some (Errorf ''insufficient space on host and no templates available for cleanup'')
         else if usableSpace + totalFreeable < downloadSize
         then Some (Errorf ''insufficient space on host even if we cleaned up all templates'')
         else None)"

text \<open>The loop of deletions; a failed deletion or check goes on with the next template.\<close>

fun cleanup_loop :: "'s Cli \<Rightarrow> 64 word \<Rightarrow> string \<Rightarrow> string \<Rightarrow> TemplateUsage list \<Rightarrow> 's Host \<Rightarrow> 's Host" where
  "cleanup_loop cli bufferSize templateUUID tag [] h = h"
| "cleanup_loop cli bufferSize templateUUID tag (u # us) h =
     (if UUID u = templateUUID then cleanup_loop cli bufferSize templateUUID tag us h
      else (case AnkaDeleteTemplate cli (UUID u) h of
         (Some e, h1) \<Rightarrow> cleanup_loop cli bufferSize templateUUID tag us h1
       | (None, h1) \<Rightarrow>
           (case checkSpace cli bufferSize templateUUID tag h1 of
              (Inl e, h2) \<Rightarrow> cleanup_loop cli bufferSize templateUUID tag us h2
            | (Inr (_, newDownloadSize, newUsableSpace), h2) \<Rightarrow>
                if newUsableSpace \<ge> newDownloadSize then h2 else cleanup_loop cli bufferSize templateUUID tag us h2)))"

text \<open>The pair of results: the lack of space, and any other error.\<close>

definition EnsureSpaceForTemplate :: "'s Cli \<Rightarrow> ('s \<Rightarrow> 64 word result) \<Rightarrow> string \<Rightarrow> string \<Rightarrow> 's Host \<Rightarrow>
    (gerror option \<times> gerror option) \<times> 's Host" where
  "EnsureSpaceForTemplate cli diskSize templateUUID tag h = (case diskSize (hWorld h) of
     Inl e \<Rightarrow> ((None, Some e), h)
   | Inr totalDiskSize \<Rightarrow>
     (let bufferSize = buffer_size cli totalDiskSize in
      case checkSpace cli bufferSize templateUUID tag h of
        (Inl e, h1) \<Rightarrow> ((None, Some e), h1)
      | (Inr (p, downloadSize, usableSpace), h1) \<Rightarrow>
          if psize p = 0 then ((None, None), h1)
          else if psize p \<ge> totalDiskSize then ((Some (Errorf ''template is too big for the host''), None), h1)
          else if usableSpace \<ge> downloadSize then ((None, None), h1)
          else if pavailable p < bufferSize
          then ((Some (Errorf ''template_disk_buffer is too restrictive for current disk usage''), None), h1)
          else (case refuse_cleanup (hTracker h1) templateUUID usableSpace downloadSize of
             Some e \<Rightarrow> ((Some e, None), h1)
           | None \<Rightarrow>
               (let h2 = cleanup_loop cli bufferSize templateUUID tag (GetLeastRecentlyUsedTemplates (hTracker h1)) h1 in
                case checkSpace cli bufferSize templateUUID tag h2 of
                  (Inl e, h3) \<Rightarrow> ((None, Some e), h3)
                | (Inr (_, finalDownloadSize, finalUsableSpace), h3) \<Rightarrow>
                    if finalUsableSpace < finalDownloadSize
                    then ((Some (Errorf ''insufficient space on host even after cleaning up templates''), None), h3)
                    else ((None, None), h3)))))"

section \<open>Pulling\<close>

definition set_pulling :: "'s Cli \<Rightarrow> string \<Rightarrow> string \<Rightarrow> string \<Rightarrow> bool \<Rightarrow> 's Host \<Rightarrow> 's Host" where
  "set_pulling cli uuid name tag b h = h\<lparr>hTracker := SetTemplatePulling uuid name tag b (clock cli (hWorld h)) (hTracker h)\<rparr>"

text \<open>The body of \<open>AnkaRegistryPull\<close> once the template is marked; the deferred call unmarks it.\<close>

definition registry_pull :: "'s Cli \<Rightarrow> string \<Rightarrow> string \<Rightarrow> string \<Rightarrow> 's Host \<Rightarrow> (AnkaJson option \<times> gerror option) go \<times> 's Host" where
  "registry_pull cli uuid name tag h =
     (case AnkaExecuteRegistryCommand cli ([''pull'', ''--shrink'', uuid] @ (if tag \<noteq> using_latest then [''--tag'', tag] else [])) h of
       (r, h1) \<Rightarrow>
         if cancelled cli h1 then (Ret (None, Some (Errorf ''context canceled while pulling template'')), h1)
         else (case answer r of
            Inl e \<Rightarrow> (Ret (None, Some e), h1)
          | Inr pullJson \<Rightarrow>
              if AStatus pullJson \<noteq> ''OK''
              then (Ret (None, Some (Errorf (''error pulling template from registry: '' @ AMessage pullJson))), h1)
              else (case AnkaGetTemplateSize cli uuid h1 of
                 (Panic, h2) \<Rightarrow> (Panic, h2)
               | (Ret (Inl e), h2) \<Rightarrow> (Ret (None, Some e), h2)
               | (Ret (Inr sz), h2) \<Rightarrow>
                   (Ret (Some pullJson, None),
                    h2\<lparr>hTracker := UpdateTemplateUsage uuid name tag sz (clock cli (hWorld h2)) (hTracker h2)\<rparr>))))"

definition AnkaRegistryPull :: "'s Cli \<Rightarrow> string \<Rightarrow> string \<Rightarrow> string \<Rightarrow> 's Host \<Rightarrow> (AnkaJson option \<times> gerror option) go \<times> 's Host" where
  "AnkaRegistryPull cli uuid name tag h =
     (if cancelled cli h then (Ret (None, Some (Errorf ''context canceled before AnkaRegistryPull'')), h)
      else (case registry_pull cli uuid name tag (set_pulling cli uuid name tag True h) of
        (r, h') \<Rightarrow> (r, set_pulling cli uuid name tag False h')))"

text \<open>
  What the local list says: whether to pull, and the template's name. \<open>None\<close> is a list that
  could not be read.
\<close>

definition local_template :: "string \<Rightarrow> string \<Rightarrow> AnkaJson \<Rightarrow> (bool \<times> string) result go" where
  "local_template uuid tag list =
     (if AStatus list = ''ERROR'' then
        (if AMessage list = uuid @ '': not found'' then Ret (Inr (True, []))
         else Ret (Inl (Errorf (''error executing anka list: '' @ AMessage list))))
      else if AStatus list = ''OK'' then (case ABody list of
        JArr [] \<Rightarrow> Panic
      | JArr (JObj body # _) \<Rightarrow>
          if Option.bind (map_of body ''status'') json_str = Some ''failed''
          then Ret (Inl (Errorf ''vm template is not running and instead failed''))
          else Ret (Inr (case Option.bind (map_of body ''version'') json_str of
              None \<Rightarrow> False | Some version \<Rightarrow> if tag \<noteq> using_latest then version \<noteq> tag else True,
            case Option.bind (map_of body ''name'') json_str of None \<Rightarrow> [] | Some n \<Rightarrow> n))
      | JArr _ \<Rightarrow> Ret (Inl (Errorf ''unable to parse bodySlice[0] to map[string]any''))
      | _ \<Rightarrow> Ret (Inl (Errorf ''unable to parse list.Body to []any'')))
      else Ret (Inr (False, [])))"

definition find_template :: "'s Cli \<Rightarrow> string \<Rightarrow> string \<Rightarrow> 's Host \<Rightarrow> (bool \<times> string) result go \<times> 's Host" where
  "find_template cli uuid tag h = (case AnkaList cli [uuid] h of
     (Inr list, h1) \<Rightarrow> (local_template uuid tag list, h1)
   | (Inl _, h1) \<Rightarrow> (case AnkaList cli [] h1 of
        (Inl innerErr, h2) \<Rightarrow> (Ret (Inl innerErr), h2)
      | (Inr _, h2) \<Rightarrow> (case AnkaRegistryShowTemplate cli uuid tag h2 of
           (Panic, h3) \<Rightarrow> (Panic, h3)
         | (Ret (Inl e), h3) \<Rightarrow> (Ret (Inl e), h3)
         | (Ret (Inr sh), h3) \<Rightarrow> (Ret (Inr (True, ShowName sh)), h3))))"

text \<open>A template that is there already: its size and access date go to the tracker.\<close>

definition use_existing :: "'s Cli \<Rightarrow> string \<Rightarrow> string \<Rightarrow> string \<Rightarrow> 's Host \<Rightarrow> unit go \<times> 's Host" where
  "use_existing cli uuid name tag h = (case AnkaGetTemplateSize cli uuid h of
     (Panic, h1) \<Rightarrow> (Panic, h1)
   | (Ret r1, h1) \<Rightarrow> (case AnkaShow cli uuid h1 of
        (Panic, h2) \<Rightarrow> (Panic, h2)
      | (Ret r2, h2) \<Rightarrow> (Ret (), h2\<lparr>hTracker := UpdateTemplateUsage uuid name tag
           (case r1 of Inl _ \<Rightarrow> 0 | Inr sz \<Rightarrow> sz)
           (case r2 of Inl _ \<Rightarrow> clock cli (hWorld h2) | Inr sh \<Rightarrow> AccessDate sh) (hTracker h2)\<rparr>)))"

text \<open>The three errors: no such tag in the registry, lack of space, any other.\<close>

record EnsureResult =
  noTemplateTagExistsInRegistryError :: "gerror option"
  ensureSpaceError :: "gerror option"
  genericError :: "gerror option"

definition no_error :: EnsureResult where
  "no_error = \<lparr>noTemplateTagExistsInRegistryError = None, ensureSpaceError = None, genericError = None\<rparr>"

definition EnsureVMTemplateExists :: "'s Cli \<Rightarrow> ('s \<Rightarrow> 64 word result) \<Rightarrow> string \<Rightarrow> string \<Rightarrow> 's Host \<Rightarrow> EnsureResult go \<times> 's Host" where
  "EnsureVMTemplateExists cli diskSize uuid tag h = (case find_template cli uuid tag h of
     (Panic, h1) \<Rightarrow> (Panic, h1)
   | (Ret (Inl e), h1) \<Rightarrow> (Ret (no_error\<lparr>genericError := Some e\<rparr>), h1)
   | (Ret (Inr (False, name)), h1) \<Rightarrow> (case use_existing cli uuid name tag h1 of
        (Panic, h2) \<Rightarrow> (Panic, h2) | (Ret _, h2) \<Rightarrow> (Ret no_error, h2))
   | (Ret (Inr (True, name)), h1) \<Rightarrow>
       if HasPullingTemplates (hTracker h1)
       then (Ret (no_error\<lparr>genericError := Some (Errorf ''a pull is already running on this host'')\<rparr>), h1)
       else (case EnsureSpaceForTemplate cli diskSize uuid tag h1 of
          ((Some e, _), h2) \<Rightarrow> (Ret (no_error\<lparr>ensureSpaceError := Some e\<rparr>), h2)
        | ((None, Some e), h2) \<Rightarrow> (Ret (no_error\<lparr>genericError := Some e\<rparr>), h2)
        | ((None, None), h2) \<Rightarrow> (case AnkaRegistryPull cli uuid name tag h2 of
             (Panic, h3) \<Rightarrow> (Panic, h3)
           | (Ret (pullJson, err), h3) \<Rightarrow>
               (Ret (if cancelled cli h3 then no_error
                 else if (case pullJson of None \<Rightarrow> True | Some p \<Rightarrow> ACode p = 3)
                 then no_error\<lparr>noTemplateTagExistsInRegistryError := Some (Errorf ''no template tag exists in registry'')\<rparr>
                 else no_error\<lparr>genericError := err\<rparr>), h3))))"

section \<open>Obtaining a VM\<close>

fun mountHostToGuestFolders :: "'s Cli \<Rightarrow> string \<Rightarrow> string list \<Rightarrow> 's Host \<Rightarrow> gerror option \<times> 's Host" where
  "mountHostToGuestFolders cli vmName [] h = (None, h)"
| "mountHostToGuestFolders cli vmName (raw # raws) h =
     (let trimmed = TrimSpace raw in
      if trimmed = [] then mountHostToGuestFolders cli vmName raws h
      else (case ResolveHostToGuestFolderMountSpec (evalSymlinks cli) trimmed of
         Inl e \<Rightarrow> (Some e, h)
       | Inr resolved \<Rightarrow> (case AnkaMount cli vmName resolved h of
            (Some e, h') \<Rightarrow> (Some e, h')
          | (None, h') \<Rightarrow> mountHostToGuestFolders cli vmName raws h')))"

text \<open>\<open>uuid\<close> is the random identifier of the VM, or the failure to get one.\<close>

definition ObtainAnkaVM :: "'s Cli \<Rightarrow> string list \<Rightarrow> string result \<Rightarrow> string \<Rightarrow> 's Host \<Rightarrow> (VM option \<times> gerror option) \<times> 's Host" where
  "ObtainAnkaVM cli globalMounts uuid template h =
     (if cancelled cli h then ((None, Some (Errorf ''context canceled before ObtainAnkaVMAndName'')), h)
      else (case uuid of Inl e \<Rightarrow> ((None, Some e), h)
      | Inr vmID \<Rightarrow>
        (let vmName = ''anklet-vm-'' @ vmID; vm = zero_VM\<lparr>VMName := vmName\<rparr> in
         case AnkaClone cli vmName template h of
           (Some e, h1) \<Rightarrow> ((Some vm, Some e), h1)
         | (None, h1) \<Rightarrow>
         (case AnkaStart cli vmName h1 of
           (Some e, h2) \<Rightarrow> ((Some vm, Some e), h2)
         | (None, h2) \<Rightarrow>
         (case (case MergeHostToGuestFolderMountLists (evalSymlinks cli) globalMounts (PHostToGuestFolderMounts (cliPlugin cli)) of
             Inl e \<Rightarrow> (Some e, h2)
           | Inr merged \<Rightarrow> mountHostToGuestFolders cli vmName merged h2) of
           (Some e, h3) \<Rightarrow> (case AnkaDeleteVMOnly cli vmName h3 of
              (_, h4) \<Rightarrow> ((Some vm, Some (Errorf (''host-to-guest folder mounts: '' @ Error e))), h4))
         | (None, h3) \<Rightarrow> ((Some vm, None), h3\<lparr>hRunningVMs := hRunningVMs h3 + 1\<rparr>))))))"

section \<open>Discovery\<close>

fun discover :: "'s Cli \<Rightarrow> json list \<Rightarrow> 's Host \<Rightarrow> unit go \<times> 's Host" where
  "discover cli [] h = (Ret (), h)"
| "discover cli (v # vs) h = (case v of
     JObj ms \<Rightarrow>
       (let str = (\<lambda>k d. case Option.bind (map_of ms k) json_str of None \<Rightarrow> d | Some s \<Rightarrow> s);
            uuid = str ''uuid'' []; name = str ''name'' []; tag = str ''version'' ''latest''
        in case AnkaShow cli uuid h of
          (Panic, h1) \<Rightarrow> (Panic, h1)
        | (Ret r1, h1) \<Rightarrow>
            (let accessDate = (case r1 of Inl _ \<Rightarrow> clock cli (hWorld h1) | Inr sh \<Rightarrow> AccessDate sh) in
             if name = [] \<and> uuid = [] then discover cli vs h1
             else (case AnkaGetTemplateSize cli uuid h1 of
                (Panic, h2) \<Rightarrow> (Panic, h2)
              | (Ret r2, h2) \<Rightarrow> discover cli vs (h2\<lparr>hTracker := AList.update uuid
                   \<lparr>UUID = uuid, TName = name, TTag = tag, ImageSize = (case r2 of Inl _ \<Rightarrow> 0 | Inr sz \<Rightarrow> sz),
                    LastAccessed = accessDate, UsageCount = 0, InUse = False, Pulling = False\<rparr> (hTracker h2)\<rparr>))))
   | _ \<Rightarrow> discover cli vs h)"

definition DiscoverAndPopulateExistingTemplates :: "'s Cli \<Rightarrow> 's Host \<Rightarrow> gerror option go \<times> 's Host" where
  "DiscoverAndPopulateExistingTemplates cli h = (case AnkaList cli [] h of
     (Inl e, h1) \<Rightarrow> (Ret (Some e), h1)
   | (Inr a, h1) \<Rightarrow>
       if AStatus a \<noteq> ''OK'' then (Ret (Some (Errorf (''anka list failed: '' @ AMessage a))), h1)
       else (case ABody a of
          JArr bodySlice \<Rightarrow> (case discover cli bodySlice h1 of (Panic, h2) \<Rightarrow> (Panic, h2) | (Ret _, h2) \<Rightarrow> (Ret None, h2))
        | _ \<Rightarrow> (Ret None, h1)))"

section \<open>Facts\<close>

lemma templateDownloadSize_uint: "uint (templateDownloadSize s c) = max 0 (uint s - uint c)"
  by (auto simp: templateDownloadSize_def word_le_def uint_sub_ge uint_minus_simple_alt [THEN iffD1] word_less_def)

lemma AnkaExecutePullCommand_state:
  "AnkaExecutePullCommand cli args h = (r, h') \<Longrightarrow> hTracker h' = hTracker h \<and> hRunningVMs h' = hRunningVMs h"
  by (auto simp: AnkaExecutePullCommand_def Let_def dest: ExecuteParseJson_state split: if_splits)

lemma AnkaExecuteRegistryCommand_state:
  "AnkaExecuteRegistryCommand cli args h = (r, h') \<Longrightarrow> hTracker h' = hTracker h \<and> hRunningVMs h' = hRunningVMs h"
  by (auto simp: AnkaExecuteRegistryCommand_def Let_def dest: ExecuteParseJson_state split: if_splits)

lemma checked_state: "checked cli args f h = (r, h') \<Longrightarrow> hTracker h' = hTracker h \<and> hRunningVMs h' = hRunningVMs h"
  by (auto simp: checked_def dest: ExecuteParseJson_state split: prod.splits)

lemma checkSpace_state: "checkSpace cli b u t h = (r, h') \<Longrightarrow> hTracker h' = hTracker h \<and> hRunningVMs h' = hRunningVMs h"
  by (auto simp: checkSpace_def dest: AnkaExecutePullCommand_state split: prod.splits)

lemma AnkaDeleteTemplate_state:
  "AnkaDeleteTemplate cli u h = (r, h') \<Longrightarrow> hTracker h' = (if r = None then RemoveTemplate u (hTracker h) else hTracker h)"
  by (auto simp: AnkaDeleteTemplate_def dest: checked_state split: prod.splits option.splits)

text \<open>The clean-up removes entries of its list only, and keeps all others as they are.\<close>

lemma cleanup_loop_frame:
  "k \<notin> UUID ` set us \<or> k = uuid \<Longrightarrow> map_of (hTracker (cleanup_loop cli b uuid tag us h)) k = map_of (hTracker h) k"
proof (induction us arbitrary: h)
  case (Cons u us)
  show ?case
  proof (cases "UUID u = uuid")
    case False
    obtain r1 h1 where d: "AnkaDeleteTemplate cli (UUID u) h = (r1, h1)" by fastforce
    have t1: "map_of (hTracker h1) k = map_of (hTracker h) k"
      using AnkaDeleteTemplate_state [OF d] Cons.prems False by (auto simp: tracker_lookup)
    obtain r2 h2 where c: "checkSpace cli b uuid tag h1 = (r2, h2)" by fastforce
    have t2: "map_of (hTracker h2) k = map_of (hTracker h) k" using checkSpace_state [OF c] t1 by simp
    have "k \<notin> UUID ` set us \<or> k = uuid" using Cons.prems by auto
    note ih = Cons.IH [OF this]
    show ?thesis using False d c t1 t2 ih
      by (simp split: option.split sum.split prod.split)
  qed (use Cons in auto)
qed simp

lemma cleanup_loop_ok: "tracker_ok (hTracker h) \<Longrightarrow> tracker_ok (hTracker (cleanup_loop cli b uuid tag us h))"
proof (induction us arbitrary: h)
  case (Cons u us)
  obtain r1 h1 where d: "AnkaDeleteTemplate cli (UUID u) h = (r1, h1)" by fastforce
  then have t1: "tracker_ok (hTracker h1)"
    using AnkaDeleteTemplate_state [OF d] Cons.prems by (simp add: tracker_ok_ops)
  obtain r2 h2 where c: "checkSpace cli b uuid tag h1 = (r2, h2)" by fastforce
  have t2: "tracker_ok (hTracker h2)" using checkSpace_state [OF c] t1 by simp
  show ?case using d c t1 t2 Cons.IH Cons.prems by (simp split: option.split sum.split prod.split)
qed simp

lemma LRU_members:
  assumes "tracker_ok tt"
  shows "u \<in> set (GetLeastRecentlyUsedTemplates tt) \<longleftrightarrow> map_of tt (UUID u) = Some u \<and> \<not> InUse u \<and> \<not> Pulling u"
proof -
  have "set (GetLeastRecentlyUsedTemplates tt) = set (filter (\<lambda>u. \<not> InUse u \<and> \<not> Pulling u) (map snd tt))"
    by (rule mset_eq_setD [OF LRU_spec(1)])
  moreover have "u \<in> snd ` set tt \<longleftrightarrow> (UUID u, u) \<in> set tt"
  proof
    assume "u \<in> snd ` set tt"
    then obtain k where "(k, u) \<in> set tt" by auto
    moreover from this have "UUID u = k" using assms by (auto simp: tracker_ok_def)
    ultimately show "(UUID u, u) \<in> set tt" by simp
  qed (metis image_eqI snd_conv)
  moreover have "(UUID u, u) \<in> set tt \<longleftrightarrow> map_of tt (UUID u) = Some u"
    using assms by (simp add: tracker_ok_def)
  ultimately show ?thesis by simp
qed

text \<open>Making room: what it keeps, and when it deletes at all.\<close>

lemma EnsureSpace_tracker:
  assumes "EnsureSpaceForTemplate cli disk uuid tag h = (r, h')"
  shows "hTracker h' = hTracker h \<or>
    (\<exists>h1 b p d us. (\<exists>t. disk (hWorld h) = Inr t \<and> b = buffer_size cli t) \<and>
       checkSpace cli b uuid tag h = (Inr (p, d, us), h1) \<and> us < d \<and>
       refuse_cleanup (hTracker h) uuid us d = None \<and>
       hTracker h' = hTracker (cleanup_loop cli b uuid tag (GetLeastRecentlyUsedTemplates (hTracker h)) h1))"
proof (cases "disk (hWorld h)")
  case (Inr t)
  let ?b = "buffer_size cli t"
  obtain r1 h1 where c: "checkSpace cli ?b uuid tag h = (r1, h1)" by fastforce
  note s1 = checkSpace_state [OF c]
  show ?thesis
  proof (cases r1)
    case (Inr pdu)
    obtain p d us where pdu: "pdu = (p, d, us)" by (metis prod_cases3)
    obtain r3 h3 where c3: "checkSpace cli ?b uuid tag
        (cleanup_loop cli ?b uuid tag (GetLeastRecentlyUsedTemplates (hTracker h)) h1) = (r3, h3)" by fastforce
    note s3 = checkSpace_state [OF c3]
    show ?thesis
    proof (cases "us < d \<and> refuse_cleanup (hTracker h) uuid us d = None")
      case True
      then show ?thesis using assms \<open>disk (hWorld h) = Inr t\<close> c Inr pdu s1 s3 c3
        by (auto simp: EnsureSpaceForTemplate_def Let_def split: if_splits sum.splits)
    next
      case False
      then show ?thesis using assms \<open>disk (hWorld h) = Inr t\<close> c Inr pdu s1
        by (auto simp: EnsureSpaceForTemplate_def Let_def split: if_splits)
    qed
  qed (use assms Inr c s1 in \<open>simp add: EnsureSpaceForTemplate_def Let_def\<close>)
qed (use assms in \<open>simp add: EnsureSpaceForTemplate_def\<close>)

lemma EnsureSpace_keeps:
  assumes "EnsureSpaceForTemplate cli disk uuid tag h = (r, h')" "tracker_ok (hTracker h)"
    and "map_of (hTracker h) k = Some u" "InUse u \<or> Pulling u \<or> k = uuid"
  shows "map_of (hTracker h') k = Some u"
  using EnsureSpace_tracker [OF assms(1)]
proof
  assume "\<exists>h1 b p d us. (\<exists>t. disk (hWorld h) = Inr t \<and> b = buffer_size cli t) \<and>
       checkSpace cli b uuid tag h = (Inr (p, d, us), h1) \<and> us < d \<and> refuse_cleanup (hTracker h) uuid us d = None \<and>
       hTracker h' = hTracker (cleanup_loop cli b uuid tag (GetLeastRecentlyUsedTemplates (hTracker h)) h1)"
  then obtain h1 b p d us where c: "checkSpace cli b uuid tag h = (Inr (p, d, us), h1)"
    and h': "hTracker h' = hTracker (cleanup_loop cli b uuid tag (GetLeastRecentlyUsedTemplates (hTracker h)) h1)" by blast
  have "k \<notin> UUID ` set (GetLeastRecentlyUsedTemplates (hTracker h)) \<or> k = uuid"
  proof (rule ccontr)
    assume no: "\<not> ?thesis"
    then obtain x where "x \<in> set (GetLeastRecentlyUsedTemplates (hTracker h))" "k = UUID x" by blast
    then have "map_of (hTracker h) k = Some x \<and> \<not> InUse x \<and> \<not> Pulling x"
      by (simp add: LRU_members [OF assms(2)])
    then show False using assms(3,4) no by simp
  qed
  then have "map_of (hTracker (cleanup_loop cli b uuid tag (GetLeastRecentlyUsedTemplates (hTracker h)) h1)) k = map_of (hTracker h1) k"
    by (rule cleanup_loop_frame)
  then show ?thesis unfolding h' using checkSpace_state [OF c] assms(3) by simp
qed (use assms in simp)

text \<open>A pull never leaves the template marked as being pulled, and keeps the tracker well-formed.\<close>

lemma AnkaShow_state: "AnkaShow cli n h = (r, h') \<Longrightarrow> hTracker h' = hTracker h \<and> hRunningVMs h' = hRunningVMs h"
  unfolding AnkaShow_def
  by (auto split: prod.splits sum.splits dest!: ExecuteParseJson_state)

lemma AnkaGetTemplateSize_state: "AnkaGetTemplateSize cli n h = (r, h') \<Longrightarrow> hTracker h' = hTracker h \<and> hRunningVMs h' = hRunningVMs h"
  unfolding AnkaGetTemplateSize_def
  by (auto split: prod.splits sum.splits go.splits dest!: AnkaShow_state)

lemma set_pulling_state:
  "map_of (hTracker (set_pulling cli k n t False h)) k = Some u \<Longrightarrow> \<not> Pulling u"
  "tracker_ok (hTracker h) \<Longrightarrow> tracker_ok (hTracker (set_pulling cli k n t b h))"
  by (auto simp: set_pulling_def SetTemplatePulling_def AList.update_conv' tracker_ok_ops(3) [unfolded SetTemplatePulling_def]
      split: option.splits)

lemma registry_pull_tracker:
  assumes "registry_pull cli u n t h = (r, h')"
  shows "hTracker h' = hTracker h \<or> (\<exists>sz l. hTracker h' = UpdateTemplateUsage u n t sz l (hTracker h))"
proof -
  obtain r1 h1 where x: "AnkaExecuteRegistryCommand cli ([''pull'', ''--shrink'', u] @ (if t \<noteq> using_latest then [''--tag'', t] else [])) h = (r1, h1)"
    by fastforce
  obtain r2 h2 where y: "AnkaGetTemplateSize cli u h1 = (r2, h2)" by fastforce
  have "hTracker h1 = hTracker h" "hTracker h2 = hTracker h"
    using AnkaExecuteRegistryCommand_state [OF x] AnkaGetTemplateSize_state [OF y] by auto
  then show ?thesis using assms x y unfolding registry_pull_def
    by (auto split: if_splits sum.splits go.splits) blast+
qed

lemma registry_pull_ok: "registry_pull cli u n t h = (r, h') \<Longrightarrow> tracker_ok (hTracker h) \<Longrightarrow> tracker_ok (hTracker h')"
  using registry_pull_tracker tracker_ok_ops(1) by metis

lemma registry_pull_error: "registry_pull cli k n t h = (Ret (j, Some e), h') \<Longrightarrow> j = None"
  unfolding registry_pull_def by (auto split: prod.splits if_splits sum.splits go.splits)

lemma AnkaRegistryPull_cases:
  assumes "AnkaRegistryPull cli k n t h = (r, h')" "\<not> cancelled cli h"
  obtains h1 where "registry_pull cli k n t (set_pulling cli k n t True h) = (r, h1)"
    and "h' = set_pulling cli k n t False h1"
  using assms unfolding AnkaRegistryPull_def by (simp split: prod.splits)

lemma AnkaRegistryPull_facts:
  assumes "AnkaRegistryPull cli k n t h = (r, h')" "\<not> cancelled cli h"
  shows "map_of (hTracker h') k = Some u \<Longrightarrow> \<not> Pulling u"
    and "tracker_ok (hTracker h) \<Longrightarrow> tracker_ok (hTracker h')"
    and "r = Ret (j, Some e) \<Longrightarrow> j = None"
proof -
  obtain h1 where p: "registry_pull cli k n t (set_pulling cli k n t True h) = (r, h1)"
    and h': "h' = set_pulling cli k n t False h1" using AnkaRegistryPull_cases [OF assms] .
  show "map_of (hTracker h') k = Some u \<Longrightarrow> \<not> Pulling u" unfolding h' by (rule set_pulling_state(1))
  show "tracker_ok (hTracker h) \<Longrightarrow> tracker_ok (hTracker h')" unfolding h'
    by (intro set_pulling_state(2) registry_pull_ok [OF p])
  show "r = Ret (j, Some e) \<Longrightarrow> j = None" using p registry_pull_error by simp
qed

end
