(* ===== verification/Anka_Samples.thy ===== *)
theory Anka_Samples
  imports AnkaSpace
begin

text \<open>
  Command lines for the witnesses: one whose every command fails, and one that answers each
  command with a JSON document. \<open>answer_text\<close> says what \<open>ExecuteParseJson\<close> reads from such an answer.
\<close>

section \<open>A command line that fails\<close>

definition failing_cli :: "nat Cli" where
  "failing_cli = \<lparr>run = (\<lambda>_ n. (([], 1, Some (Errorf ''exit status 1'')), Suc n)), evalSymlinks = Inr, clock = int,
     workerErr = (\<lambda>_. None), pluginErr = (\<lambda>_. None), cliPlugin = zero_Plugin,
     runTimeout = (\<lambda>_ _ n. (([], 1, Some (Errorf ''exit status 1''), None), Suc n))\<rparr>"

abbreviation host :: "TemplateTracker \<Rightarrow> nat Host" where
  "host tt \<equiv> \<lparr>hTracker = tt, hRunningVMs = 0, hWorld = 0\<rparr>"

lemma failing_answer [simp]:
  "ExecuteParseJson failing_cli args h = ((None, Some (Errorf ''no valid JSON output found in command response'')), h\<lparr>hWorld := Suc (hWorld h)\<rparr>)"
  by (simp add: ExecuteParseJson_def Execute_def failing_cli_def last_line_def TrimSpace_def)

lemma failing_not_cancelled [simp]: "\<not> cancelled failing_cli h"
  by (simp add: cancelled_def failing_cli_def)

abbreviation idle :: "string \<Rightarrow> TemplateUsage" where
  "idle k \<equiv> \<lparr>UUID = k, TName = [], TTag = [], ImageSize = 5, LastAccessed = 0, UsageCount = 1, InUse = False, Pulling = False\<rparr>"

section \<open>A command line that answers\<close>

lemma no_LF_esc: "LF \<notin> set (esc_char c)"
proof -
  have h: "m < 16 \<Longrightarrow> LF \<noteq> hex_digit m" for m
    by (auto simp: hex_digit_def LF_def char_eq_nat)
  have "(of_char c :: nat) < 256" by (rule nat_of_char_less_256)
  then show ?thesis using h [of "of_char c div 16"] h [of "of_char c mod 16"]
    by (auto simp: esc_char_def Let_def LF_def char_eq_nat)
qed

lemma no_LF_jstr: "LF \<notin> set (jstr s)"
  by (auto simp: jstr_def no_LF_esc) (simp_all add: LF_def char_eq_nat)

lemma no_LF_FormatInt: "LF \<notin> set (FormatInt i)"
proof -
  have d: "\<not> is_digit LF" by (simp add: is_digit_def LF_def)
  show ?thesis using digits_no [OF show_nat_digits d] by (auto simp: FormatInt_def) (simp_all add: LF_def)
qed

lemma no_LF_jprint:
  "json_ok v \<Longrightarrow> LF \<notin> set (jprint v)"
  "list_all json_ok vs \<Longrightarrow> LF \<notin> set (jprint_elems vs)"
  "list_all (json_ok \<circ> snd) ms \<Longrightarrow> LF \<notin> set (jprint_members ms)"
proof (induction v and vs and ms rule: jprint_jprint_elems_jprint_members.induct)
  case (4 t)
  have "\<not> is_num_char LF" by (simp add: is_num_char_def is_digit_def LF_def)
  then show ?case using 4 real_chars by auto
next
  case (7 ms)
  then show ?case by (auto simp: list_all_iff LF_def split_beta)
qed (use no_LF_jstr no_LF_FormatInt in \<open>auto simp: LF_def\<close>)

lemma last_line_jprint: "json_ok (JObj ms) \<Longrightarrow> last_line (jprint (JObj ms)) = jprint (JObj ms)"
proof -
  assume nr: "json_ok (JObj ms)"
  have s: "Split LF (jprint (JObj ms)) = [jprint (JObj ms)]" by (rule Split_no_sep [OF no_LF_jprint(1) [OF nr]])
  have "dropWhile is_space (jprint (JObj ms)) = jprint (JObj ms)" by (simp add: is_space_def)
  then have "TrimSpace (jprint (JObj ms)) \<noteq> []"
    by (auto simp: TrimSpace_def dropWhile_eq_Nil_conv is_space_def)
  then show ?thesis by (simp add: last_line_def s del: jprint.simps)
qed

definition answering_cli :: "(string list \<Rightarrow> (string \<times> json) list) \<Rightarrow> nat Cli" where
  "answering_cli f = failing_cli\<lparr>run := (\<lambda>args n. ((jprint (JObj (f args)), 0, None), Suc n))\<rparr>"

lemma answer_text:
  assumes "json_ok (JObj (f (injectAnkaDebugFlag args)))"
    and "dec_struct set_AnkaJson \<lparr>AStatus = [], ACode = 0, ABody = JNull, AMessage = []\<rparr> (JObj (f (injectAnkaDebugFlag args))) = Inr a"
  shows "ExecuteParseJson (answering_cli f) args h = ((Some a, None), h\<lparr>hWorld := Suc (hWorld h)\<rparr>)"
proof -
  let ?ms = "f (injectAnkaDebugFlag args)"
  have l: "last_line (jprint (JObj ?ms)) = jprint (JObj ?ms)" by (rule last_line_jprint [OF assms(1)])
  have p: "ParseAnkaJson (jprint (JObj ?ms)) = Inr a"
    unfolding ParseAnkaJson_def json_parse_jprint [OF assms(1)] option.case by (rule assms(2))
  have "jprint (JObj ?ms) \<noteq> []" by simp
  then show ?thesis
    by (simp add: ExecuteParseJson_def Execute_def answering_cli_def l p del: jprint.simps)
qed

lemma answering_not_cancelled [simp]: "\<not> cancelled (answering_cli f) h"
  by (simp add: cancelled_def answering_cli_def failing_cli_def)

lemma answering_plugin [simp]: "cliPlugin (answering_cli f) = zero_Plugin" "clock (answering_cli f) = int"
  by (simp_all add: answering_cli_def failing_cli_def)

lemma AnkaJson_doc:
  assumes "int64_ok c"
  shows "dec_struct set_AnkaJson \<lparr>AStatus = [], ACode = 0, ABody = JNull, AMessage = []\<rparr>
     (JObj [(''status'', JStr s), (''code'', JNum c), (''message'', JStr m), (''body'', b)]) =
   Inr \<lparr>AStatus = s, ACode = c, ABody = any_value b, AMessage = m\<rparr>"
  using assms by (simp add: set_AnkaJson_def EqualFold_def lit_simps)

abbreviation doc :: "string \<Rightarrow> string \<Rightarrow> json \<Rightarrow> (string \<times> json) list" where
  "doc s m b \<equiv> [(''status'', JStr s), (''code'', JNum 0), (''message'', JStr m), (''body'', b)]"

lemma answer_doc:
  assumes "f (injectAnkaDebugFlag args) = doc s m b" "json_ok b"
  shows "ExecuteParseJson (answering_cli f) args h =
     ((Some \<lparr>AStatus = s, ACode = 0, ABody = any_value b, AMessage = m\<rparr>, None), h\<lparr>hWorld := Suc (hWorld h)\<rparr>)"
proof (rule answer_text)
  show "json_ok (JObj (f (injectAnkaDebugFlag args)))" unfolding assms(1) by (simp add: assms(2))
  show "dec_struct set_AnkaJson \<lparr>AStatus = [], ACode = 0, ABody = JNull, AMessage = []\<rparr> (JObj (f (injectAnkaDebugFlag args))) =
      Inr \<lparr>AStatus = s, ACode = 0, ABody = any_value b, AMessage = m\<rparr>"
    unfolding assms(1) by (rule AnkaJson_doc) (simp add: int64_ok_def)
qed

text \<open>
  A registry with room for the template \<open>a\<close>, which the host does not hold, whose pulls fail.
\<close>

definition broken_pull :: "string list \<Rightarrow> (string \<times> json) list" where
  "broken_pull args =
     (if ''list'' \<in> set args then doc ''ERROR'' ''a: not found'' JNull
      else if ''--check-download-size'' \<in> set args
      then doc ''OK'' [] (JObj [(''available'', JNum 100), (''cached'', JNum 0), (''size'', JNum 10)])
      else doc ''ERROR'' ''connection reset by peer'' JNull)"

lemma injected [simp]: "x \<noteq> ''--debug'' \<Longrightarrow> x \<in> set (injectAnkaDebugFlag args) \<longleftrightarrow> x \<in> set args"
  using injectAnkaDebugFlag_set [of args] by blast

lemmas broken_pull_docs =
  answer_doc [of broken_pull _ "''ERROR''" "''a: not found''" JNull]
  answer_doc [of broken_pull _ "''OK''" "[]" "JObj [(''available'', JNum 100), (''cached'', JNum 0), (''size'', JNum 10)]"]
  answer_doc [of broken_pull _ "''ERROR''" "''connection reset by peer''" JNull]

lemma broken_pull_answers:
  "''list'' \<in> set args \<Longrightarrow> ExecuteParseJson (answering_cli broken_pull) args h =
     ((Some \<lparr>AStatus = ''ERROR'', ACode = 0, ABody = JNull, AMessage = ''a: not found''\<rparr>, None), h\<lparr>hWorld := Suc (hWorld h)\<rparr>)"
  "''list'' \<notin> set args \<Longrightarrow> ''--check-download-size'' \<in> set args \<Longrightarrow> ExecuteParseJson (answering_cli broken_pull) args h =
     ((Some \<lparr>AStatus = ''OK'', ACode = 0, ABody = JObj [(''available'', JNum 100), (''cached'', JNum 0), (''size'', JNum 10)],
        AMessage = []\<rparr>, None), h\<lparr>hWorld := Suc (hWorld h)\<rparr>)"
  "''list'' \<notin> set args \<Longrightarrow> ''--check-download-size'' \<notin> set args \<Longrightarrow> ExecuteParseJson (answering_cli broken_pull) args h =
     ((Some \<lparr>AStatus = ''ERROR'', ACode = 0, ABody = JNull, AMessage = ''connection reset by peer''\<rparr>, None), h\<lparr>hWorld := Suc (hWorld h)\<rparr>)"
  using broken_pull_docs(1) [of args h] broken_pull_docs(2) [of args h] broken_pull_docs(3) [of args h]
  by (simp_all add: broken_pull_def f64_exact exact64_def lit_simps)

lemma broken_pull_space:
  "checkSpace (answering_cli broken_pull) 0 ''a'' using_latest h =
     (Inr (\<lparr>psize = 10, pcached = 0, pavailable = 100\<rparr>, 10, 100), h\<lparr>hWorld := Suc (hWorld h)\<rparr>)"
  by (simp add: checkSpace_def AnkaExecutePullCommand_def zero_Plugin_def broken_pull_answers answer_def pull_check_def check_field_def
      to_uint64_def trunc_rat_def f64_exact exact64_def templateDownloadSize_def usable_space_def)

lemma broken_pull_buffer: "buffer_size (answering_cli broken_pull) t = 0"
  by (simp add: buffer_size_def zero_Plugin_def to_uint64_def trunc_rat_def)

lemma broken_pull_ensure:
  "EnsureSpaceForTemplate (answering_cli broken_pull) (\<lambda>_. Inr 200) ''a'' using_latest h = ((None, None), h\<lparr>hWorld := Suc (hWorld h)\<rparr>)"
  by (simp add: EnsureSpaceForTemplate_def broken_pull_buffer broken_pull_space)

end
