(* ===== verification/AnkaVersion.thy ===== *)
theory AnkaVersion
  imports Anka
begin

text \<open>
  The versions of Anka as an order: \<open>AnkaVersionAtLeast\<close> of \<open>internal/anka/version.go\<close> compares the three
  numbers one after the other, which is the lexicographic order on them.
\<close>

datatype anka_version = AnkaVersion (major: int) (minor: int) (patch: int)

instantiation anka_version :: linorder
begin

definition less_eq_anka_version :: "anka_version \<Rightarrow> anka_version \<Rightarrow> bool" where
  "less_eq_anka_version v w \<longleftrightarrow> at_least [major w, minor w, patch w] [major v, minor v, patch v]"

definition less_anka_version :: "anka_version \<Rightarrow> anka_version \<Rightarrow> bool" where
  "less_anka_version v w \<longleftrightarrow> \<not> at_least [major v, minor v, patch v] [major w, minor w, patch w]"

instance
  by standard (auto simp: less_eq_anka_version_def less_anka_version_def anka_version.expand split: if_splits)

end

lemma AnkaVersion_le:
  "AnkaVersion x y z \<le> AnkaVersion a b c \<longleftrightarrow> x < a \<or> (x = a \<and> (y < b \<or> (y = b \<and> z \<le> c)))"
  by (auto simp: less_eq_anka_version_def)

lemma AnkaVersionAtLeast_order:
  assumes "0 \<le> a" "0 \<le> b" "0 \<le> c" "int64_ok a" "int64_ok b" "int64_ok c"
  shows "AnkaVersionAtLeast (version_text a b c) x y z = Inr (AnkaVersion x y z \<le> AnkaVersion a b c)"
  by (simp add: AnkaVersionAtLeast_text [OF assms] AnkaVersion_le)

end
