(* ===== verification/Host_Properties.thy ===== *)
theory Host_Properties
  imports Anka_Samples Samples AnkaVersion
begin

text \<open>
  Properties of the configuration, of the template tracker and of the layer that runs the Anka
  command line. The witnesses use the command lines of \<open>Anka_Samples\<close>.
\<close>

section \<open>Configuration\<close>

text \<open>
  C34. A plugin that passes \<open>ValidateGitHubScope\<close> has exactly one scope: the queue it works on is named, its
  metrics have an owner, and the fields of the other scopes are empty.
\<close>

theorem scope_is_unique:
  "ValidateGitHubScope p = None \<Longrightarrow> GetQueueOwner p \<noteq> [] \<and> MetricsOwner p \<noteq> [] \<and> GitHubRegistrationURL p \<noteq> [] \<and>
     (case GitHubScope_of p of
        GitHubScopeEnterprise \<Rightarrow> POwner p = [] \<and> PRepo p = []
      | GitHubScopeRepository \<Rightarrow> PEnterprise p = [] \<and> POwner p \<noteq> [] \<and> PRepo p \<noteq> []
      | GitHubScopeOrganization \<Rightarrow> PEnterprise p = [] \<and> PRepo p = [] \<and> POwner p \<noteq> []
      | GitHubScopeUnspecified \<Rightarrow> False)"
  using scope_facts [of p] by (auto simp: GitHubRegistrationURL_def split: GitHubScope.splits)

lemma scope_is_unique_witness:
  "GetQueueOwner (zero_Plugin\<lparr>POwner := ''veertu''\<rparr>) \<noteq> [] \<and> MetricsOwner (zero_Plugin\<lparr>POwner := ''veertu''\<rparr>) \<noteq> [] \<and>
     GitHubRegistrationURL (zero_Plugin\<lparr>POwner := ''veertu''\<rparr>) \<noteq> [] \<and>
     (case GitHubScope_of (zero_Plugin\<lparr>POwner := ''veertu''\<rparr>) of
        GitHubScopeEnterprise \<Rightarrow> POwner (zero_Plugin\<lparr>POwner := ''veertu''\<rparr>) = [] \<and> PRepo (zero_Plugin\<lparr>POwner := ''veertu''\<rparr>) = []
      | GitHubScopeRepository \<Rightarrow> PEnterprise (zero_Plugin\<lparr>POwner := ''veertu''\<rparr>) = [] \<and>
          POwner (zero_Plugin\<lparr>POwner := ''veertu''\<rparr>) \<noteq> [] \<and> PRepo (zero_Plugin\<lparr>POwner := ''veertu''\<rparr>) \<noteq> []
      | GitHubScopeOrganization \<Rightarrow> PEnterprise (zero_Plugin\<lparr>POwner := ''veertu''\<rparr>) = [] \<and>
          PRepo (zero_Plugin\<lparr>POwner := ''veertu''\<rparr>) = [] \<and> POwner (zero_Plugin\<lparr>POwner := ''veertu''\<rparr>) \<noteq> []
      | GitHubScopeUnspecified \<Rightarrow> False)"
  by (rule scope_is_unique) (simp add: ValidateGitHubScope_def zero_Plugin_def)

lemma Cut_key: "CHR ''='' \<notin> set k \<Longrightarrow> Cut CHR ''='' (k @ CHR ''='' # v) = (k, v, True)"
  by (induction k) auto

lemma apply_env_key:
  assumes "CHR ''='' \<notin> set pre" "CHR ''='' \<notin> set key"
  shows "apply_env pre ((pre @ ''_'') @ key @ CHR ''='' # v) p = (case CutPrefix key ''DATABASE_'' of
     Some k \<Rightarrow> (case set_database_field k v (PDatabase p) of Inl e \<Rightarrow> Inl e | Inr d \<Rightarrow> Inr (p\<lparr>PDatabase := d\<rparr>))
   | None \<Rightarrow> if TrimSpace v = [] then Inr p else set_plugin_field key v p)"
proof -
  have "Cut CHR ''='' (((pre @ ''_'') @ key) @ CHR ''='' # v) = ((pre @ ''_'') @ key, v, True)"
    by (rule Cut_key) (use assms in auto)
  then have c: "Cut CHR ''='' ((pre @ ''_'') @ key @ CHR ''='' # v) = ((pre @ ''_'') @ key, v, True)"
    by (simp only: append_assoc)
  show ?thesis by (simp only: apply_env_def c prod.case CutPrefix_append) simp
qed

text \<open>
  Blank environment overrides: \<open><PLUGIN>_TOKEN=\<close> with a blank value leaves the plugin as it is, but
  \<open><PLUGIN>_DATABASE_URL=\<close> with the same value replaces the configured database URL.
\<close>

theorem blank_overrides:
  assumes "TrimSpace v = []" "CHR ''='' \<notin> set pre"
  shows "apply_env pre ((pre @ ''_'') @ ''TOKEN'' @ CHR ''='' # v) p = Inr p \<and>
    apply_env pre ((pre @ ''_'') @ ''DATABASE_URL'' @ CHR ''='' # v) p = Inr (p\<lparr>PDatabase := (PDatabase p)\<lparr>DBURL := v\<rparr>\<rparr>)"
  using apply_env_key [OF assms(2), of "''TOKEN''" v p] apply_env_key [OF assms(2), of "''DATABASE_URL''" v p] assms(1)
  by (simp add: CutPrefix_def set_database_field_def)

lemma blank_overrides_witness:
  "apply_env ''GITHUB1'' ((''GITHUB1'' @ ''_'') @ ''TOKEN'' @ CHR ''='' # '' '') zero_Plugin = Inr zero_Plugin \<and>
   apply_env ''GITHUB1'' ((''GITHUB1'' @ ''_'') @ ''DATABASE_URL'' @ CHR ''='' # '' '') zero_Plugin =
     Inr (zero_Plugin\<lparr>PDatabase := (PDatabase zero_Plugin)\<lparr>DBURL := '' ''\<rparr>\<rparr>)"
  by (rule blank_overrides) (simp_all add: TrimSpace_def is_space_def)

section \<open>The template tracker\<close>

text \<open>The states of the tracker: what the operations of the handlers make of the empty map.\<close>

inductive tracked :: "TemplateTracker \<Rightarrow> bool" where
  start: "tracked NewTemplateTracker"
| used: "tracked tt \<Longrightarrow> tracked (UpdateTemplateUsage k n t s l tt)"
| in_use: "tracked tt \<Longrightarrow> tracked (SetTemplateInUse k b tt)"
| pulling: "tracked tt \<Longrightarrow> tracked (SetTemplatePulling k n t b l tt)"
| removed: "tracked tt \<Longrightarrow> tracked (RemoveTemplate k tt)"
| discovered: "tracked tt \<Longrightarrow> UUID u = k \<Longrightarrow> tracked (AList.update k u tt)"

text \<open>
  C30. In every state the operations of the tracker can reach, from the empty tracker, the map has one entry per
  template, each entry carries the UUID it is stored under, and the total size is the sum of
  the sizes modulo \<open>2^64\<close>.
\<close>

theorem tracker_invariant:
  "tracked tt \<Longrightarrow> tracker_ok tt \<and> GetTotalTemplateSize tt = word_of_int (\<Sum>(_, u)\<leftarrow>tt. uint (ImageSize u))"
proof -
  assume "tracked tt"
  then have "tracker_ok tt"
  proof (induction rule: tracked.induct)
    case start
    show ?case by (simp add: tracker_ok_def NewTemplateTracker_def)
  qed (simp_all add: tracker_ok_ops tracker_ok_update)
  then show ?thesis by (simp add: GetTotalTemplateSize_sum)
qed

lemma tracker_invariant_witness:
  "tracker_ok (UpdateTemplateUsage ''a'' ''n'' ''t'' 5 0 NewTemplateTracker) \<and>
     GetTotalTemplateSize (UpdateTemplateUsage ''a'' ''n'' ''t'' 5 0 NewTemplateTracker) =
       word_of_int (\<Sum>(_, u)\<leftarrow>UpdateTemplateUsage ''a'' ''n'' ''t'' 5 0 NewTemplateTracker. uint (ImageSize u))"
  by (rule tracker_invariant) (intro tracked.intros)

text \<open>
  C32. The exchange sort of \<open>GetLeastRecentlyUsedTemplates\<close> returns the idle templates, each once, in the order of
  deletion: less often used first, and among equals the one used longer ago first.
\<close>

theorem lru_order:
  "mset (GetLeastRecentlyUsedTemplates tt) = mset (filter (\<lambda>u. \<not> InUse u \<and> \<not> Pulling u) (map snd tt)) \<and>
   sorted_wrt (\<lambda>a b. \<not> used_more a b) (GetLeastRecentlyUsedTemplates tt)"
  using LRU_spec [of tt] by simp

section \<open>Space for a template\<close>

text \<open>
  C31. Making room never removes what must stay: after \<open>EnsureSpaceForTemplate\<close>, whatever it returns, every template that is in
  use or being pulled, and the template room is made for, are tracked as before.
\<close>

theorem cleanup_keeps:
  assumes "EnsureSpaceForTemplate cli disk uuid tag h = (r, h')" "tracker_ok (hTracker h)"
    and "map_of (hTracker h) k = Some u" "InUse u \<or> Pulling u \<or> k = uuid"
  shows "map_of (hTracker h') k = Some u"
  by (rule EnsureSpace_keeps [OF assms])

lemma cleanup_keeps_witness:
  "map_of (hTracker (snd (EnsureSpaceForTemplate failing_cli (\<lambda>_. Inr 100) ''a'' using_latest (host [(''a'', idle ''a'')])))) ''a'' = Some (idle ''a'')"
  by (rule cleanup_keeps [OF surjective_pairing]) (simp_all add: tracker_ok_def)

lemma distinct_usages: "tracker_ok tt \<Longrightarrow> distinct (map snd tt)"
proof (induction tt)
  case (Cons e tt)
  obtain k u where e: "e = (k, u)" by fastforce
  have k: "UUID u = k" "k \<notin> fst ` set tt" "tracker_ok tt" using Cons.prems e by (auto simp: tracker_ok_def)
  have "u \<noteq> snd x" if "x \<in> set tt" for x
  proof
    assume "u = snd x"
    then have "UUID u = fst x" using that k(3) by (auto simp: tracker_ok_def split_beta)
    then show False using that k(1,2) by force
  qed
  then show ?case using Cons.IH k(3) e by auto
qed simp

text \<open>
  The clean-up is only started when it can help: when \<open>refuse_cleanup\<close> lets it run, some idle template other than the
  one to be pulled can be deleted.
\<close>

theorem cleanup_has_candidate:
  assumes "tracker_ok tt" "refuse_cleanup tt uuid usable needed = None"
  shows "\<exists>u\<in>set (GetLeastRecentlyUsedTemplates tt). UUID u \<noteq> uuid"
proof (rule ccontr)
  let ?l = "GetLeastRecentlyUsedTemplates tt"
  assume "\<not> ?thesis"
  then have all: "UUID u = uuid" if "u \<in> set ?l" for u using that by blast
  have m: "u \<in> set ?l \<Longrightarrow> map_of tt uuid = Some u" for u
    using LRU_members [OF assms(1), of u] all [of u] by simp
  have "distinct ?l" using LRU_spec(1) [of tt] distinct_usages [OF assms(1)]
    by (metis distinct_filter mset_eq_imp_distinct_iff)
  then have l: "length ?l = card (set ?l)" by (simp add: distinct_card)
  have "set ?l \<subseteq> set_option (map_of tt uuid)" using m by auto
  from card_mono [OF _ this] have "card (set ?l) \<le> card (set_option (map_of tt uuid))" by simp
  then have "int (length ?l) \<le> (if tracks uuid tt then 1 else 0)"
    unfolding l tracks_def by (cases "map_of tt uuid") auto
  then show False using assms(2) by (simp add: refuse_cleanup_def Let_def split: if_splits)
qed

lemma cleanup_has_candidate_witness:
  "\<exists>u\<in>set (GetLeastRecentlyUsedTemplates [(''a'', idle ''a''), (''b'', idle ''b'')]). UUID u \<noteq> ''a''"
  by (rule cleanup_has_candidate [where usable = 0 and needed = 5])
    (simp_all add: tracker_ok_def refuse_cleanup_def GetLeastRecentlyUsedTemplates_def tracks_def freeable_def
      sort_outer.simps sort_inner.simps used_more_def)

text \<open>
  When \<open>EnsureSpaceForTemplate\<close> reports no error, its last look at the registry and the disk found room: the
  download fits in the space beyond the configured buffer, or the registry reported no size.
\<close>

theorem space_is_checked:
  assumes "EnsureSpaceForTemplate cli disk uuid tag h = ((None, None), h')"
  shows "\<exists>t h0 p d u. disk (hWorld h) = Inr t \<and> checkSpace cli (buffer_size cli t) uuid tag h0 = (Inr (p, d, u), h') \<and>
     (psize p = 0 \<or> d \<le> u)"
  using assms unfolding EnsureSpaceForTemplate_def Let_def
  by (auto split: sum.splits prod.splits if_splits option.splits simp: not_less)

lemma space_is_checked_witness:
  "\<exists>t h0 p d u. (Inr 200 :: 64 word result) = Inr t \<and>
     checkSpace (answering_cli broken_pull) (buffer_size (answering_cli broken_pull) t) ''a'' using_latest h0 = (Inr (p, d, u), (host [])\<lparr>hWorld := 1\<rparr>) \<and>
     (psize p = 0 \<or> d \<le> u)"
  by (rule space_is_checked [of "answering_cli broken_pull" "\<lambda>_. Inr 200" "''a''" using_latest "host []"])
    (simp add: broken_pull_ensure)

section \<open>Pulling a template\<close>

lemma has_pulling: "tracker_ok tt \<Longrightarrow> HasPullingTemplates tt \<longleftrightarrow> (\<exists>k u. map_of tt k = Some u \<and> Pulling u)"
  by (force simp: HasPullingTemplates_def tracker_ok_def dest: map_of_SomeD)

lemma pulling_kept:
  "map_of (SetTemplatePulling k n t b l tt) j = Some u \<Longrightarrow> j \<noteq> k \<Longrightarrow> map_of tt j = Some u"
  "map_of (UpdateTemplateUsage k n t sz l tt) j = Some u \<Longrightarrow> j \<noteq> k \<Longrightarrow> map_of tt j = Some u"
  by (auto simp: SetTemplatePulling_def UpdateTemplateUsage_def update_conv' split: option.splits if_splits)

text \<open>
  No pull is left marked as running: if no template is being pulled before \<open>AnkaRegistryPull\<close>, none is afterwards,
  whether the pull succeeds, fails, panics or is cancelled; so a failed pull never blocks the next one.
\<close>

theorem pull_flag_is_released:
  assumes "AnkaRegistryPull cli k n t h = (r, h')" "tracker_ok (hTracker h)" "\<not> HasPullingTemplates (hTracker h)"
  shows "\<not> HasPullingTemplates (hTracker h') \<and> tracker_ok (hTracker h')"
proof (cases "cancelled cli h")
  case True
  then show ?thesis using assms by (simp add: AnkaRegistryPull_def)
next
  case False
  note facts = AnkaRegistryPull_facts [OF assms(1) False]
  obtain h1 where h1: "registry_pull cli k n t (set_pulling cli k n t True h) = (r, h1)" "h' = set_pulling cli k n t False h1"
    using AnkaRegistryPull_cases [OF assms(1) False] .
  have "map_of (hTracker h) j = Some u" if "map_of (hTracker h') j = Some u" "j \<noteq> k" for j u
    using registry_pull_tracker [OF h1(1)] that h1(2) by (auto simp: set_pulling_def dest!: pulling_kept)
  then show ?thesis using facts(1,2) assms(2,3) by (force simp: has_pulling)
qed

lemma pull_flag_is_released_witness:
  "\<not> HasPullingTemplates (hTracker (snd (AnkaRegistryPull failing_cli ''a'' ''n'' using_latest (host [])))) \<and>
     tracker_ok (hTracker (snd (AnkaRegistryPull failing_cli ''a'' ''n'' using_latest (host []))))"
  by (rule pull_flag_is_released [OF surjective_pairing]) (simp_all add: tracker_ok_def HasPullingTemplates_def)

text \<open>
  Every failure of the pull itself is reported as a missing tag: when \<open>AnkaRegistryPull\<close> returns an error \<open>e\<close>,
  \<open>EnsureVMTemplateExists\<close> answers "no template tag exists in registry" and drops \<open>e\<close>, so a registry that is
  down for a moment looks like a wrong label.
\<close>

theorem pull_failure_is_missing_tag:
  assumes "find_template cli uuid tag h = (Ret (Inr (True, name)), h1)" "\<not> HasPullingTemplates (hTracker h1)"
    and "EnsureSpaceForTemplate cli disk uuid tag h1 = ((None, None), h2)" "\<not> cancelled cli h2"
    and "AnkaRegistryPull cli uuid name tag h2 = (Ret (j, Some e), h3)" "\<not> cancelled cli h3"
  shows "EnsureVMTemplateExists cli disk uuid tag h =
     (Ret (no_error\<lparr>noTemplateTagExistsInRegistryError := Some (Errorf ''no template tag exists in registry'')\<rparr>), h3)"
  using assms AnkaRegistryPull_facts(3) [OF assms(5,4)] by (simp add: EnsureVMTemplateExists_def)

lemma pull_failure_is_missing_tag_witness:
  "EnsureVMTemplateExists (answering_cli broken_pull) (\<lambda>_. Inr 200) ''a'' using_latest (host []) =
     (Ret (no_error\<lparr>noTemplateTagExistsInRegistryError := Some (Errorf ''no template tag exists in registry'')\<rparr>),
      \<lparr>hTracker = [(''a'', \<lparr>UUID = ''a'', TName = [], TTag = using_latest, ImageSize = 0, LastAccessed = 2, UsageCount = 0,
         InUse = False, Pulling = False\<rparr>)], hRunningVMs = 0, hWorld = 3\<rparr>)"
  by (rule pull_failure_is_missing_tag [where name = "[]" and j = None
        and e = "Errorf (''error pulling template from registry: '' @ ''connection reset by peer'')"])
    (simp add: find_template_def AnkaList_def broken_pull_answers answer_def local_template_def HasPullingTemplates_def
      broken_pull_ensure AnkaRegistryPull_def registry_pull_def set_pulling_def AnkaExecuteRegistryCommand_def zero_Plugin_def
      SetTemplatePulling_def)+

section \<open>Resources and mounts\<close>

text \<open>
  A VM that \<open>VmHasEnoughResources\<close> admits fits on the host: when the \<open>uint64\<close> sum of the memory does not wrap
  around, cores and memory of all running VMs and the new one stay within the host's.
\<close>

theorem admitted_vm_fits:
  assumes "fits g vm cpuUsed memUsed = None" "uint (MEMBytes vm) + uint memUsed < 2 ^ 64"
  shows "CPUCount vm + cpuUsed \<le> HostCPUCount g \<and> uint (MEMBytes vm) + uint memUsed \<le> uint (HostMemoryBytes g)"
  using assms by (auto simp: fits_def word_less_def uint_plus_if' not_less split: if_splits)

lemma admitted_vm_fits_witness:
  "CPUCount \<lparr>VMName = [], CPUCount = 6, MEMBytes = 17179869184\<rparr> + 6 \<le> HostCPUCount small_host \<and>
     uint (MEMBytes \<lparr>VMName = [], CPUCount = 6, MEMBytes = 17179869184\<rparr>) + uint (17179869184 :: 64 word)
       \<le> uint (HostMemoryBytes small_host)"
  by (rule admitted_vm_fits) (simp_all add: fits_def)

text \<open>
  Folder mounts need Anka 3.9.0: for every version \<open>a.b.c\<close> the check accepts exactly the versions that are at least
  3.9.0 in the lexicographic order of their numbers (so 3.10.0 is accepted, though its text sorts before 3.9.0).
\<close>

theorem mount_version_gate:
  assumes "0 \<le> a" "0 \<le> b" "0 \<le> c" "int64_ok a" "int64_ok b" "int64_ok c"
  shows "ValidateAnkaVersionForHostToGuestFolderMounts (version_text a b c) = None \<longleftrightarrow> AnkaVersion 3 9 0 \<le> AnkaVersion a b c"
  using AnkaVersionAtLeast_order [OF assms, of 3 9 0]
  by (simp add: ValidateAnkaVersionForHostToGuestFolderMounts_def split: if_splits)

lemma mount_version_gate_witness:
  "ValidateAnkaVersionForHostToGuestFolderMounts (version_text 3 10 0) = None \<longleftrightarrow> AnkaVersion 3 9 0 \<le> AnkaVersion 3 10 0"
  by (rule mount_version_gate) (simp_all add: int64_ok_def)

text \<open>
  \<open>MergeHostToGuestFolderMountLists\<close> keeps every configured mount once: the merged entries resolve to pairwise different
  mounts, and each entry of the global and of the plugin's list that is not blank resolves to one of them.
\<close>

theorem mounts_are_merged:
  assumes "MergeHostToGuestFolderMountLists ev gs ps = Inr merged"
  shows "distinct (map (ResolveHostToGuestFolderMountSpec ev) merged) \<and>
    (\<forall>raw\<in>set (gs @ ps). TrimSpace raw \<noteq> [] \<longrightarrow> (\<exists>t\<in>set merged. \<exists>r. ResolveHostToGuestFolderMountSpec ev t = Inr r \<and>
        ResolveHostToGuestFolderMountSpec ev (TrimSpace raw) = Inr r))"
  by (rule MergeHostToGuestFolderMountLists_spec [OF assms])

lemma mounts_are_merged_witness:
  "distinct (map (ResolveHostToGuestFolderMountSpec Inr) [''/a'']) \<and>
    (\<exists>r. ResolveHostToGuestFolderMountSpec Inr ''/a'' = Inr r \<and> ResolveHostToGuestFolderMountSpec Inr (TrimSpace '' /a'') = Inr r)"
proof -
  have "MergeHostToGuestFolderMountLists Inr [''/a''] ['' /a''] = Inr [''/a'']"
    by (simp add: MergeHostToGuestFolderMountLists_def ResolveHostToGuestFolderMountSpec_def TrimSpace_def is_space_def)
  from mounts_are_merged [OF this] show ?thesis by (simp add: TrimSpace_def is_space_def)
qed

end
