(* ===== verification/RateLimit.thy ===== *)
theory RateLimit
  imports Config
begin

text \<open>
  \<open>internal/github/ratelimit_pause.go\<close> and \<open>ratelimit_budget.go\<close>: the pause until the primary
  rate limit of the GitHub API resets, and the budget of calls the redelivery of webhooks may
  spend. Times are nanoseconds, \<open>None\<close> the zero time. The \<open>select\<close> of the pause is a function
  of the world that says which channel fires next; the answer of \<open>GET /rate_limit\<close> is another.
  The loops of the program have no bound, so they are partial functions whose \<open>None\<close> is not
  returning. Updates of the metrics during a pause are left out: their errors are only logged.
\<close>

section \<open>The pause\<close>

definition unix :: "int \<Rightarrow> int" where
  "unix t = t div second"

definition githubAPIRateLimitNoticeInterval :: int where
  "githubAPIRateLimitNoticeInterval = 30 * second"

definition setGitHubAPIRateLimitPaused :: "int \<Rightarrow> Globals \<Rightarrow> Globals" where
  "setGitHubAPIRateLimitPaused resetAt g = g\<lparr>GitHubAPIRateLimitResetUnix := unix resetAt\<rparr>"

definition clearGitHubAPIRateLimitPaused :: "Globals \<Rightarrow> Globals" where
  "clearGitHubAPIRateLimitPaused g = g\<lparr>GitHubAPIRateLimitResetUnix := 0\<rparr>"

text \<open>Whether the start line of a run is skipped, and the globals after it.\<close>

definition LogGitHubAPIRateLimitStatusAtRunStart :: "int \<Rightarrow> Globals \<Rightarrow> bool \<times> Globals" where
  "LogGitHubAPIRateLimitStatusAtRunStart now g =
     (let resetUnix = GitHubAPIRateLimitResetUnix g in
      if resetUnix = 0 then (False, g)
      else if resetUnix * second - now \<le> 0 then (False, g\<lparr>GitHubAPIRateLimitResetUnix := 0\<rparr>)
      else if unix now - LastGitHubAPIRateLimitNoticeUnix g < githubAPIRateLimitNoticeInterval div second then (True, g)
      else (True, g\<lparr>LastGitHubAPIRateLimitNoticeUnix := unix now\<rparr>))"

text \<open>
  The channel that fires next: the timer, set to one second after the reset; the ticker; or the
  plugin's context, with its error.
\<close>

datatype wait_event = TimerFired | TickerFired | PluginDone gerror

partial_function (option) wait_loop :: "'s Ctx \<Rightarrow> (int \<Rightarrow> 's \<Rightarrow> wait_event \<times> 's) \<Rightarrow> int \<Rightarrow> int \<Rightarrow> 's \<Rightarrow> (gerror option \<times> 's) option" where
  [code]: "wait_loop ctx select timerAt resetAt s = (case select timerAt s of (ev, s') \<Rightarrow>
     (case ev of
        TimerFired \<Rightarrow> Some (None, s')
      | TickerFired \<Rightarrow> if resetAt - Now ctx s' \<le> 0 then Some (None, s') else wait_loop ctx select timerAt resetAt s'
      | PluginDone e \<Rightarrow> Some (Some e, s')))"

text \<open>
  \<open>waitForGitHubAPIRateLimitReset\<close>: the globals while it waits are those of the first
  component; its deferred call clears the pause on every return.
\<close>

definition wait_start :: "int \<Rightarrow> Globals \<Rightarrow> Globals" where
  "wait_start resetAt = setGitHubAPIRateLimitPaused resetAt"

definition waitForGitHubAPIRateLimitReset :: "'s Ctx \<Rightarrow> (int \<Rightarrow> 's \<Rightarrow> wait_event \<times> 's) \<Rightarrow> int \<Rightarrow> Globals \<times> 's \<Rightarrow>
    (gerror option \<times> Globals \<times> 's) option" where
  "waitForGitHubAPIRateLimitReset ctx select resetAt w = (case w of (g, s) \<Rightarrow>
     (let sleepDuration = resetAt - Now ctx s + second; g1 = wait_start resetAt g in
      case wait_loop ctx select (Now ctx s + sleepDuration) resetAt s of
        None \<Rightarrow> None
      | Some (e, s') \<Rightarrow> Some (e, clearGitHubAPIRateLimitPaused g1, s')))"

section \<open>The redelivery budget\<close>

definition RedeliveryBudgetFromRemaining :: "int \<Rightarrow> int" where
  "RedeliveryBudgetFromRemaining remaining =
     (if remaining \<le> 0 then 0 else let budget = remaining div 2 in if budget < 1 then 1 else budget)"

record RedeliveryBudget =
  budget :: int
  spent :: int
  resetAt :: "int option"

text \<open>The methods tolerate a nil receiver: a budget that is \<open>None\<close>.\<close>

definition Budget :: "RedeliveryBudget option \<Rightarrow> int" where
  "Budget b = (case b of None \<Rightarrow> 0 | Some b \<Rightarrow> budget b)"

definition ResetAt :: "RedeliveryBudget option \<Rightarrow> int option" where
  "ResetAt b = (case b of None \<Rightarrow> None | Some b \<Rightarrow> resetAt b)"

definition StartWindow :: "int \<Rightarrow> int option \<Rightarrow> RedeliveryBudget" where
  "StartWindow remaining reset = \<lparr>budget = RedeliveryBudgetFromRemaining remaining, spent = 0, resetAt = reset\<rparr>"

definition CanSpend :: "RedeliveryBudget option \<Rightarrow> int \<Rightarrow> bool" where
  "CanSpend b n \<longleftrightarrow> (case b of None \<Rightarrow> True | Some b \<Rightarrow> n \<le> 0 \<or> spent b + n \<le> budget b)"

definition Record :: "RedeliveryBudget option \<Rightarrow> int \<Rightarrow> RedeliveryBudget option" where
  "Record b n = (case b of None \<Rightarrow> None | Some b \<Rightarrow> Some (if n \<le> 0 then b else b\<lparr>spent := spent b + n\<rparr>))"

definition ApplyRate :: "RedeliveryBudget option \<Rightarrow> int option \<Rightarrow> RedeliveryBudget option" where
  "ApplyRate b rateReset = (case b of None \<Rightarrow> None
     | Some b \<Rightarrow> Some (case rateReset of None \<Rightarrow> b | Some t \<Rightarrow> b\<lparr>resetAt := Some t\<rparr>))"

text \<open>
  \<open>client\<close> is the call of \<open>GET /rate_limit\<close>, \<open>None\<close> for a nil client; its answer is the core
  limit, if present: remaining calls and time of the reset.
\<close>

type_synonym 's rate_client = "('s \<Rightarrow> (int \<times> int option) option result \<times> 's) option"

definition RefreshFromAPI :: "'s rate_client \<Rightarrow> RedeliveryBudget \<Rightarrow> 's \<Rightarrow> gerror option \<times> RedeliveryBudget \<times> 's" where
  "RefreshFromAPI client b s = (case client of
     None \<Rightarrow> (Some (Errorf ''github client is nil''), b, s)
   | Some get \<Rightarrow> (case get s of
        (Inl e, s') \<Rightarrow> (Some (Errorf (''getting GitHub rate limit: '' @ Error e)), b, s')
      | (Inr None, s') \<Rightarrow> (None, StartWindow 0 None, s')
      | (Inr (Some (remaining, reset)), s') \<Rightarrow> (None, StartWindow remaining reset, s')))"

definition reached :: "int option \<Rightarrow> int \<Rightarrow> bool" where
  "reached t now \<longleftrightarrow> (case t of None \<Rightarrow> True | Some r \<Rightarrow> \<not> now < r)"

definition pause_until :: "int option \<Rightarrow> int \<Rightarrow> int" where
  "pause_until t now = (case t of None \<Rightarrow> now + second | Some r \<Rightarrow> r)"

text \<open>
  One turn of the loop of \<open>Reserve\<close> up to its pause: \<open>Inl\<close> returns (with an error or with
  success), \<open>Inr t\<close> pauses until \<open>t\<close>, refreshes and goes round again. Both halves of the turn
  refresh once when the window is over.
\<close>

definition reserve_turn :: "'s Ctx \<Rightarrow> 's Ctx \<Rightarrow> 's rate_client \<Rightarrow> int \<Rightarrow> RedeliveryBudget \<Rightarrow> 's \<Rightarrow>
    (gerror option + int) \<times> RedeliveryBudget \<times> 's" where
  "reserve_turn workerCtx pluginCtx client n b s =
     (case CtxErr workerCtx s of Some e \<Rightarrow> (Inl (Some e), b, s) | None \<Rightarrow>
     (case CtxErr pluginCtx s of Some e \<Rightarrow> (Inl (Some e), b, s) | None \<Rightarrow>
     (if budget b = 0 then
        (if reached (resetAt b) (Now pluginCtx s) then
           (case RefreshFromAPI client b s of
              (Some e, b', s') \<Rightarrow> (Inl (Some e), b', s')
            | (None, b', s') \<Rightarrow>
                if budget b' > 0 \<and> CanSpend (Some b') n then (Inl None, b', s')
                else (Inr (pause_until (resetAt b') (Now pluginCtx s')), b', s'))
         else (Inr (pause_until (resetAt b) (Now pluginCtx s)), b, s))
      else if CanSpend (Some b) n then (Inl None, b, s)
      else if reached (resetAt b) (Now pluginCtx s) then
        (case RefreshFromAPI client b s of
           (Some e, b', s') \<Rightarrow> (Inl (Some e), b', s')
         | (None, b', s') \<Rightarrow>
             if CanSpend (Some b') n then (Inl None, b', s')
             else (Inr (pause_until (resetAt b') (Now pluginCtx s')), b', s'))
      else (Inr (pause_until (resetAt b) (Now pluginCtx s)), b, s))))"

partial_function (option) reserve_loop :: "'s Ctx \<Rightarrow> 's Ctx \<Rightarrow> (int \<Rightarrow> 's \<Rightarrow> wait_event \<times> 's) \<Rightarrow> 's rate_client \<Rightarrow> int \<Rightarrow>
    RedeliveryBudget \<Rightarrow> Globals \<Rightarrow> 's \<Rightarrow> (gerror option \<times> RedeliveryBudget \<times> Globals \<times> 's) option" where
  [code]: "reserve_loop workerCtx pluginCtx select client n b g s =
     (case reserve_turn workerCtx pluginCtx client n b s of (Inl e, b1, s1) \<Rightarrow> Some (e, b1, g, s1)
      | (Inr t, b1, s1) \<Rightarrow>
     (case waitForGitHubAPIRateLimitReset pluginCtx select t (g, s1) of None \<Rightarrow> None
      | Some (Some e, g2, s2) \<Rightarrow> Some (Some e, b1, g2, s2)
      | Some (None, g2, s2) \<Rightarrow>
     (case RefreshFromAPI client b1 s2 of
        (Some e, b3, s3) \<Rightarrow> Some (Some e, b3, g2, s3)
      | (None, b3, s3) \<Rightarrow> reserve_loop workerCtx pluginCtx select client n b3 g2 s3)))"

definition Reserve :: "'s Ctx \<Rightarrow> 's Ctx \<Rightarrow> (int \<Rightarrow> 's \<Rightarrow> wait_event \<times> 's) \<Rightarrow> 's rate_client \<Rightarrow> int \<Rightarrow>
    RedeliveryBudget option \<Rightarrow> Globals \<Rightarrow> 's \<Rightarrow> (gerror option \<times> RedeliveryBudget option \<times> Globals \<times> 's) option" where
  "Reserve workerCtx pluginCtx select client n ob g s = (case ob of None \<Rightarrow> Some (None, None, g, s) | Some b \<Rightarrow>
     if n \<le> 0 then Some (None, Some b, g, s)
     else (case (if budget b = 0 \<and> spent b = 0 \<and> resetAt b = None then RefreshFromAPI client b s else (None, b, s)) of
        (Some e, b1, s1) \<Rightarrow> Some (Some e, Some b1, g, s1)
      | (None, b1, s1) \<Rightarrow> map_option (\<lambda>(e, b2, g2, s2). (e, Some b2, g2, s2))
           (reserve_loop workerCtx pluginCtx select client n b1 g s1)))"

section \<open>Facts\<close>

lemma Budget_bounds: "0 \<le> RedeliveryBudgetFromRemaining r \<and> (0 < r \<longrightarrow> 2 * RedeliveryBudgetFromRemaining r \<le> r \<or> RedeliveryBudgetFromRemaining r = 1)"
  by (auto simp: RedeliveryBudgetFromRemaining_def Let_def)

text \<open>A budget never overdrawn: every call is recorded after it was reserved.\<close>

definition budget_ok :: "RedeliveryBudget \<Rightarrow> bool" where
  "budget_ok b \<longleftrightarrow> 0 \<le> spent b \<and> spent b \<le> budget b"

lemma budget_ok_start [simp]: "budget_ok (StartWindow r t)"
  using Budget_bounds by (simp add: budget_ok_def StartWindow_def)

lemma RefreshFromAPI_ok: "RefreshFromAPI client b s = (e, b', s') \<Longrightarrow> budget_ok b \<Longrightarrow> budget_ok b'"
  by (auto simp: RefreshFromAPI_def split: option.splits prod.splits sum.splits)

lemma reserve_turn_ok:
  "reserve_turn w p client n b s = (r, b', s') \<Longrightarrow> budget_ok b \<Longrightarrow> budget_ok b'"
  by (auto simp: reserve_turn_def dest: RefreshFromAPI_ok split: option.splits if_splits prod.splits)

lemma reserve_turn_success:
  "reserve_turn w p client n b s = (Inl None, b', s') \<Longrightarrow> CanSpend (Some b') n"
  by (auto simp: reserve_turn_def split: option.splits if_splits prod.splits)

lemma reserve_loop_ok:
  assumes "reserve_loop w p select client n b g s = Some y"
  shows "budget_ok b \<longrightarrow> (case y of (e, b', g', s') \<Rightarrow> budget_ok b' \<and> (e = None \<longrightarrow> CanSpend (Some b') n))"
proof (rule reserve_loop.raw_induct [where P = "\<lambda>w p select client n b g s y.
    budget_ok b \<longrightarrow> (case y of (e, b', g', s') \<Rightarrow> budget_ok b' \<and> (e = None \<longrightarrow> CanSpend (Some b') n))", OF _ assms],
    goal_cases)
  case prems: (1 loop w p select client n b g s y)
  obtain t b1 s1 where t: "reserve_turn w p client n b s = (t, b1, s1)" by (metis prod_cases3)
  note ok1 = reserve_turn_ok [OF t]
  show ?case
  proof (cases t)
    case (Inl e)
    then show ?thesis using prems(2) t ok1 reserve_turn_success [of w p client n b s] by auto
  next
    case (Inr until)
    then show ?thesis using prems t ok1 RefreshFromAPI_ok [of client b1]
      by (auto split: option.splits prod.splits)
  qed
qed

lemma wait_clears:
  "waitForGitHubAPIRateLimitReset ctx select t (g, s) = Some (e, g', s') \<Longrightarrow> g' = g\<lparr>GitHubAPIRateLimitResetUnix := 0\<rparr>"
  by (auto simp: waitForGitHubAPIRateLimitReset_def wait_start_def setGitHubAPIRateLimitPaused_def
      clearGitHubAPIRateLimitPaused_def Let_def split: option.splits)

text \<open>
  Liveness of one pause: when the timer fires first, the wait ends without an error; and a
  reserve whose next window is large enough returns success after that pause.
\<close>

lemma wait_timer:
  assumes "\<And>t s. select t s = (TimerFired, f t s)"
  shows "\<exists>s'. waitForGitHubAPIRateLimitReset ctx select t (g, s) = Some (None, g\<lparr>GitHubAPIRateLimitResetUnix := 0\<rparr>, s')"
  by (auto simp: waitForGitHubAPIRateLimitReset_def wait_start_def setGitHubAPIRateLimitPaused_def
      clearGitHubAPIRateLimitPaused_def Let_def assms wait_loop.simps [of ctx select])

lemma reserve_loop_live:
  assumes ctx: "\<And>s. CtxErr w s = None" "\<And>s. CtxErr p s = None"
    and select: "\<And>t s. select t s = (TimerFired, f t s)"
    and client: "client = Some get" "\<And>s. get s = (Inr (Some (R s, reset s)), h s)" "\<And>s. n \<le> RedeliveryBudgetFromRemaining (R s)"
    and n: "0 < n"
  shows "\<exists>b' g' s'. reserve_loop w p select client n b g s = Some (None, b', g', s')"
proof -
  have fit: "budget (StartWindow (R s) t) > 0" "CanSpend (Some (StartWindow (R s) t)) n" "budget (StartWindow (R s) t) \<noteq> 0" for s t
    using client(3) [of s] n by (auto simp: StartWindow_def CanSpend_def)
  have now: "\<exists>s'. reserve_loop w p select client n (StartWindow (R s) t) g' s1 = Some (None, StartWindow (R s) t, g', s')" for s t g' s1
    by (subst reserve_loop.simps) (simp add: reserve_turn_def ctx fit)
  obtain r b1 s1 where t: "reserve_turn w p client n b s = (r, b1, s1)" by (metis prod_cases3)
  show ?thesis
  proof (cases r)
    case (Inl e)
    then have "e = None" using t ctx client by (auto simp: reserve_turn_def RefreshFromAPI_def split: if_splits)
    then show ?thesis using t Inl by (subst reserve_loop.simps) simp
  next
    case (Inr until)
    obtain s2 where "waitForGitHubAPIRateLimitReset p select until (g, s1) = Some (None, g\<lparr>GitHubAPIRateLimitResetUnix := 0\<rparr>, s2)"
      using wait_timer [where select = select, OF select] by blast
    moreover obtain s3 where "reserve_loop w p select client n (StartWindow (R s2) (reset s2))
        (g\<lparr>GitHubAPIRateLimitResetUnix := 0\<rparr>) (h s2) = Some (None, StartWindow (R s2) (reset s2), g\<lparr>GitHubAPIRateLimitResetUnix := 0\<rparr>, s3)"
      using now by blast
    ultimately show ?thesis using t Inr client(1,2)
      by (subst reserve_loop.simps) (simp add: RefreshFromAPI_def)
  qed
qed

end
