(* ===== verification/GitHubClient.thy ===== *)
theory GitHubClient
  imports RateLimit
begin

text \<open>
  \<open>internal/github/client.go\<close>: which client talks to GitHub, the installation of the GitHub
  App it uses, and \<open>ExecuteGitHubClientFunction\<close>, the loop around every call. The library
  \<open>go-github\<close> and its transports are third-party: a client is the credentials it was built
  from, a call is a function of the world. A call returns its value, the rate data of its
  response (calls remaining and time of the reset) and an error.
\<close>

datatype client = TokenClient string | InstallationClient int

record Wrapper =
  wclient :: client
  appsTransport :: bool
  orgClients :: "(string \<times> client) list"

section \<open>Installations of the App\<close>

record Installation =
  InstallationID :: int
  TargetType :: string
  AccountLogin :: "string option"

fun matchEnterpriseInstallation :: "Installation option list \<Rightarrow> string \<Rightarrow> int" where
  "matchEnterpriseInstallation [] enterprise = 0"
| "matchEnterpriseInstallation (None # insts) enterprise = matchEnterpriseInstallation insts enterprise"
| "matchEnterpriseInstallation (Some inst # insts) enterprise =
     (if \<not> EqualFold (TargetType inst) ''Enterprise'' then matchEnterpriseInstallation insts enterprise
      else (case AccountLogin inst of
         None \<Rightarrow> matchEnterpriseInstallation insts enterprise
       | Some login \<Rightarrow> if EqualFold login enterprise then InstallationID inst else matchEnterpriseInstallation insts enterprise))"

definition installation_part :: "Installation \<Rightarrow> string" where
  "installation_part inst = TargetType inst @ '':'' @ (case AccountLogin inst of None \<Rightarrow> [] | Some l \<Rightarrow> l) @
     ''(id='' @ FormatInt (InstallationID inst) @ '')''"

definition summarizeInstallations :: "Installation option list \<Rightarrow> string" where
  "summarizeInstallations insts =
     (let parts = map installation_part (List.map_filter id insts)
      in if insts = [] \<or> parts = [] then ''none'' else Join '', '' parts)"

text \<open>The pages of \<open>GET /app/installations\<close>; page 0 is the first, and next page 0 the end.\<close>

type_synonym 's lister = "int \<Rightarrow> 's \<Rightarrow> (Installation option list \<times> int option) result \<times> 's"

partial_function (option) findEnterpriseInstallationIDFromList ::
    "'s lister \<Rightarrow> string \<Rightarrow> int \<Rightarrow> Installation option list \<Rightarrow> 's \<Rightarrow> (int result \<times> Installation option list \<times> 's) option" where
  [code]: "findEnterpriseInstallationIDFromList list enterprise page found s = (case list page s of
     (Inl e, s') \<Rightarrow> Some (Inl e, found, s')
   | (Inr (installations, nextPage), s') \<Rightarrow>
       (let found' = found @ installations; i = matchEnterpriseInstallation installations enterprise in
        if i \<noteq> 0 then Some (Inr i, found', s')
        else (case nextPage of None \<Rightarrow> Some (Inr 0, found', s')
          | Some n \<Rightarrow> if n = 0 then Some (Inr 0, found', s')
              else findEnterpriseInstallationIDFromList list enterprise n found' s')))"

definition is404Error :: "gerror option \<Rightarrow> bool" where
  "is404Error err = (case err of None \<Rightarrow> False | Some e \<Rightarrow>
     contains (Error e) ''404 Not Found'' \<or> (contains (Error e) ''404'' \<and> contains (Error e) ''Not Found''))"

definition findEnterpriseInstallationID :: "('s \<Rightarrow> int result \<times> 's) \<Rightarrow> 's lister \<Rightarrow> string \<Rightarrow> 's \<Rightarrow> (int result \<times> 's) option" where
  "findEnterpriseInstallationID get list enterprise s = (case get s of
     (Inr i, s') \<Rightarrow> Some (if i = 0 then Inl (Errorf (''GitHub App is not installed on enterprise '' @ enterprise)) else Inr i, s')
   | (Inl err, s') \<Rightarrow>
       if \<not> is404Error (Some err) then Some (Inl err, s')
       else (case findEnterpriseInstallationIDFromList list enterprise 0 [] s' of
          None \<Rightarrow> None
        | Some (Inl listErr, found, s'') \<Rightarrow>
            Some (Inl (Errorf (Error err @ '' (also failed listing app installations: '' @ Error listErr @ '')'')), s'')
        | Some (Inr i, found, s'') \<Rightarrow>
            Some (if i \<noteq> 0 then Inr i
              else Inl (Errorf (''GitHub App is not installed on enterprise '' @ enterprise @ '': '' @ summarizeInstallations found)), s'')))"

type_synonym 's finder = "string \<Rightarrow> 's \<Rightarrow> int result \<times> 's"

definition resolveInstallationID :: "(string \<Rightarrow> 's \<Rightarrow> int result \<times> 's) \<Rightarrow> 's lister \<Rightarrow> 's finder \<Rightarrow> string \<Rightarrow> string \<Rightarrow> 's \<Rightarrow> (int result \<times> 's) option" where
  "resolveInstallationID get list findOrg enterprise owner s =
     (if enterprise \<noteq> [] then
        (case findEnterpriseInstallationID (get enterprise) list enterprise s of
           None \<Rightarrow> None
         | Some (Inl e, s') \<Rightarrow> Some (Inl (Errorf (''resolving enterprise GitHub App installation for '' @ enterprise @ '': '' @ Error e)), s')
         | Some (Inr i, s') \<Rightarrow> Some (Inr i, s'))
      else if owner \<noteq> [] then
        (case findOrg owner s of
           (Inl e, s') \<Rightarrow> Some (Inl (Errorf (''resolving organization GitHub App installation for '' @ owner @ '': '' @ Error e)), s')
         | (Inr i, s') \<Rightarrow> Some (if i = 0 then Inl (Errorf (''GitHub App is not installed on organization '' @ owner)) else Inr i, s'))
      else Some (Inl (Errorf ''installation_id is required when private_key is set unless enterprise or owner is set to resolve it''), s))"

section \<open>Choosing the client\<close>

text \<open>
  \<open>AuthenticateAndReturnGitHubClient\<close>: the key is the content of the file \<open>privateKey\<close> names,
  if it can be read; \<open>newTransport\<close> is the library's check of the key. The lookups of the rate
  limiter and the transport in the context cannot fail.
\<close>

definition AuthenticateAndReturnGitHubClient ::
    "(string \<Rightarrow> string option) \<Rightarrow> (int \<Rightarrow> string \<Rightarrow> gerror option) \<Rightarrow> (string \<Rightarrow> 's \<Rightarrow> int result \<times> 's) \<Rightarrow> 's lister \<Rightarrow> 's finder \<Rightarrow>
     string \<Rightarrow> int \<Rightarrow> int \<Rightarrow> string \<Rightarrow> string \<Rightarrow> string \<Rightarrow> 's \<Rightarrow> (Wrapper result \<times> 's) option" where
  "AuthenticateAndReturnGitHubClient readFile newTransport get list findOrg privateKey appID installationID token enterprise owner s =
     (if privateKey = [] then Some (Inr \<lparr>wclient = TokenClient token, appsTransport = False, orgClients = []\<rparr>, s)
      else if appID = 0 then Some (Inl (Errorf ''app_id is required when private_key is set''), s)
      else (let privateKeyBytes = (case readFile privateKey of Some b \<Rightarrow> b | None \<Rightarrow> privateKey) in
        case newTransport appID privateKeyBytes of
          Some e \<Rightarrow> Some (Inl (Errorf (''error creating github app transport: '' @ Error e @
             (if contains (Error e) ''invalid key'' then '' (does the key exist on the filesystem?)'' else []))), s)
        | None \<Rightarrow>
            if enterprise \<noteq> [] \<and> token \<noteq> []
            then Some (Inr \<lparr>wclient = TokenClient token, appsTransport = True, orgClients = []\<rparr>, s)
            else (case (if installationID = 0 then resolveInstallationID get list findOrg enterprise owner s
                        else Some (Inr installationID, s)) of
                None \<Rightarrow> None
              | Some (Inl e, s') \<Rightarrow> Some (Inl e, s')
              | Some (Inr i, s') \<Rightarrow> Some (Inr \<lparr>wclient = InstallationClient i, appsTransport = True, orgClients = []\<rparr>, s'))))"

definition ClientForOrganization :: "'s finder \<Rightarrow> Wrapper option \<Rightarrow> string \<Rightarrow> 's \<Rightarrow> client result \<times> Wrapper option \<times> 's" where
  "ClientForOrganization findOrg ow org s = (case ow of
     None \<Rightarrow> (Inl (Errorf ''github client wrapper is nil''), None, s)
   | Some w \<Rightarrow>
       if \<not> appsTransport w \<or> org = [] then (Inr (wclient w), ow, s)
       else (case map_of (orgClients w) org of
          Some cached \<Rightarrow> (Inr cached, ow, s)
        | None \<Rightarrow> (case findOrg org s of
             (Inl e, s') \<Rightarrow> (Inl (Errorf (''finding GitHub App installation for org '' @ org @ '': '' @ Error e)), ow, s')
           | (Inr i, s') \<Rightarrow>
               if i = 0 then (Inl (Errorf (''GitHub App is not installed on organization '' @ org)), ow, s')
               else (Inr (InstallationClient i), Some (w\<lparr>orgClients := (org, InstallationClient i) # orgClients w\<rparr>), s'))))"

section \<open>Calls with retries\<close>

text \<open>\<open>GET /user\<close>: the status code of the response, if any, and the error.\<close>

type_synonym 's user_get = "'s \<Rightarrow> (int option \<times> gerror option) \<times> 's"

definition validateGitHubClientAuthentication :: "'s user_get option \<Rightarrow> 's \<Rightarrow> gerror option \<times> 's" where
  "validateGitHubClientAuthentication client s = (case client of
     None \<Rightarrow> (Some (Errorf ''github client is nil''), s)
   | Some get \<Rightarrow> (case get s of ((status, err), s') \<Rightarrow>
       (case err of None \<Rightarrow> None
        | Some e \<Rightarrow> Some (Errorf (
            if status = Some 401 then ''authentication failed: token is invalid or expired''
            else if status = Some 403 then ''authentication failed: insufficient permissions or rate limited''
            else ''authentication check failed: '' @ Error e)), s')))"

definition backoffDelay :: "int \<Rightarrow> int" where
  "backoffDelay retryAttempt = min (2 ^ nat retryAttempt * (30 * second)) (30 * 60 * second)"

text \<open>A derived context after its \<open>cancel\<close>.\<close>

definition cancel_ctx :: "'s Ctx \<Rightarrow> 's Ctx" where
  "cancel_ctx c = c\<lparr>CtxErr := (\<lambda>s. Some (case CtxErr c s of Some e \<Rightarrow> e | None \<Rightarrow> Errorf ''context canceled''))\<rparr>"

text \<open>
  After a failed call: \<open>None\<close> tries again, \<open>Some\<close> error is returned. The client of the context
  is \<open>Inl\<close> when it is missing, which skips the validation.
\<close>

definition retry_404 :: "'s Ctx \<Rightarrow> 's Ctx \<Rightarrow> 's user_get option result \<Rightarrow> gerror \<Rightarrow> int \<Rightarrow> 's \<Rightarrow> gerror option \<times> 's" where
  "retry_404 workerCtx pluginCtx client err retryAttempt s =
     (if \<not> (is404Error (Some err) \<and> retryAttempt < 4) then (Some err, s)
      else (case (case client of Inl _ \<Rightarrow> (None, s) | Inr c \<Rightarrow> validateGitHubClientAuthentication c s) of
         (Some authErr, s1) \<Rightarrow>
           (Some (Errorf (''GitHub API 404 error with authentication failure: '' @ Error authErr @ '' (original: '' @ Error err @ '')'')), s1)
       | (None, s1) \<Rightarrow>
           if CtxErr workerCtx s1 \<noteq> None \<or> CtxErr pluginCtx s1 \<noteq> None
           then (Some (Errorf ''context canceled while retrying 404 error''), s1)
           else (let s2 = Sleep pluginCtx (backoffDelay retryAttempt) s1 in
             (case CtxErr pluginCtx s2 of Some e \<Rightarrow> Some e | None \<Rightarrow> CtxErr workerCtx s2, s2))))"

type_synonym ('a, 's) api_call = "'s \<Rightarrow> ('a option \<times> (int \<times> int) option \<times> gerror option) \<times> 's"

partial_function (option) executeGitHubClientFunctionWithRetry ::
    "'s Ctx \<Rightarrow> 's Ctx \<Rightarrow> (int \<Rightarrow> 's \<Rightarrow> wait_event \<times> 's) \<Rightarrow> 's user_get option result \<Rightarrow> ('a, 's) api_call \<Rightarrow> int \<Rightarrow>
     Globals \<Rightarrow> 's \<Rightarrow> (('s Ctx \<times> 'a option \<times> (int \<times> int) option \<times> gerror option) \<times> Globals \<times> 's) option" where
  [code]: "executeGitHubClientFunctionWithRetry workerCtx pluginCtx select client executeFunc retryAttempt g s =
     (case executeFunc s of ((res, response, err), s1) \<Rightarrow>
       (case (case response of None \<Rightarrow> None | Some (remaining, reset) \<Rightarrow> if remaining \<le> 10 then Some reset else None) of
          Some reset \<Rightarrow>
            (case waitForGitHubAPIRateLimitReset pluginCtx select reset (g, s1) of
               None \<Rightarrow> None
             | Some (Some e, g2, s2) \<Rightarrow> Some ((pluginCtx, None, None, Some e), g2, s2)
             | Some (None, g2, s2) \<Rightarrow>
                 Option.bind (executeGitHubClientFunctionWithRetry workerCtx pluginCtx select client executeFunc retryAttempt g2 s2)
                   (\<lambda>((c, out), g3, s3). Some ((cancel_ctx c, out), g3, s3)))
        | None \<Rightarrow>
            (case err of
               None \<Rightarrow> Some ((pluginCtx, res, response, None), g, s1)
             | Some e \<Rightarrow>
                 (case retry_404 workerCtx pluginCtx client e retryAttempt s1 of
                    (Some e', s2) \<Rightarrow> Some ((pluginCtx, None, None, Some e'), g, s2)
                  | (None, s2) \<Rightarrow> executeGitHubClientFunctionWithRetry workerCtx pluginCtx select client executeFunc (retryAttempt + 1) g s2))))"

definition ExecuteGitHubClientFunction ::
    "'s Ctx \<Rightarrow> 's Ctx \<Rightarrow> (int \<Rightarrow> 's \<Rightarrow> wait_event \<times> 's) \<Rightarrow> 's user_get option result \<Rightarrow> ('a, 's) api_call \<Rightarrow>
     Globals \<Rightarrow> 's \<Rightarrow> (('s Ctx \<times> 'a option \<times> (int \<times> int) option \<times> gerror option) \<times> Globals \<times> 's) option" where
  "ExecuteGitHubClientFunction workerCtx pluginCtx select client executeFunc =
     executeGitHubClientFunctionWithRetry workerCtx pluginCtx select client executeFunc 0"

section \<open>Facts\<close>

lemma retry_404_None:
  "retry_404 w p client e n s = (None, s') \<Longrightarrow> is404Error (Some e) \<and> n < 4"
  by (auto simp: retry_404_def split: if_splits)

text \<open>
  Without rate limiting every call returns, after at most five executions; \<open>cnt\<close> is any
  ghost count of the world that only the executions move.
\<close>

lemma execute_bound:
  fixes cnt :: "'s \<Rightarrow> nat"
  assumes run: "\<And>s. cnt (snd (executeFunc s)) = Suc (cnt s)"
    and rate: "\<And>s r rem t e s'. executeFunc s = ((r, Some (rem, t), e), s') \<Longrightarrow> 10 < rem"
    and rest: "\<And>e n s. cnt (snd (retry_404 w p client e n s)) = cnt s"
  shows "n \<le> 4 \<Longrightarrow> \<exists>out g' s'. executeGitHubClientFunctionWithRetry w p select client executeFunc n g s = Some ((p, out), g', s')
      \<and> g' = g \<and> cnt s' \<le> cnt s + nat (5 - n) \<and> cnt s < cnt s'"
proof (induction "nat (4 - n)" arbitrary: n s rule: less_induct)
  case less
  obtain r resp err s1 where x: "executeFunc s = ((r, resp, err), s1)" by (metis prod_cases3 surj_pair)
  then have c1: "cnt s1 = Suc (cnt s)" using run [of s] by simp
  have lim: "(case resp of None \<Rightarrow> None | Some (rem, reset) \<Rightarrow> if rem \<le> 10 then Some reset else None) = None"
    using rate x by (fastforce split: option.splits)
  have le: "Suc 0 \<le> nat (5 - n)" using less.prems by simp
  show ?case
  proof (cases err)
    case None
    then show ?thesis using x lim c1 le by (subst executeGitHubClientFunctionWithRetry.simps) simp
  next
    case (Some e)
    obtain q s2 where q: "retry_404 w p client e n s1 = (q, s2)" by fastforce
    then have c2: "cnt s2 = Suc (cnt s)" using rest [of e n s1] c1 by simp
    show ?thesis
    proof (cases q)
      case None
      then have "n < 4" using retry_404_None [of w p client e n s1 s2] q by simp
      then have "\<exists>out g' s'. executeGitHubClientFunctionWithRetry w p select client executeFunc (n + 1) g s2 = Some ((p, out), g', s')
          \<and> g' = g \<and> cnt s' \<le> cnt s2 + nat (5 - (n + 1)) \<and> cnt s2 < cnt s'" by (intro less.hyps) auto
      moreover have "executeGitHubClientFunctionWithRetry w p select client executeFunc n g s =
          executeGitHubClientFunctionWithRetry w p select client executeFunc (n + 1) g s2"
        using x lim Some None q by (subst executeGitHubClientFunctionWithRetry.simps) simp
      ultimately show ?thesis using c2 \<open>n < 4\<close> by fastforce
    next
      case (Some e')
      then show ?thesis using x lim \<open>err = Some e\<close> q c2 le
        by (subst executeGitHubClientFunctionWithRetry.simps) simp
    qed
  qed
qed

lemma CtxErr_cancel [simp]: "CtxErr (cancel_ctx c) s \<noteq> None"
  by (simp add: cancel_ctx_def)

text \<open>
  A response with ten or fewer calls remaining is dropped, whatever it says: the call is made
  again after the pause, and the context handed back is a cancelled one.
\<close>

lemma execute_limited:
  assumes x: "executeFunc s = ((r, Some (rem, reset), err), s1)" "rem \<le> 10"
    and wait: "waitForGitHubAPIRateLimitReset p select reset (g, s1) = Some (None, g2, s2)"
    and again: "executeFunc s2 = ((r', Some (rem', reset'), None), s3)" "10 < rem'"
  shows "executeGitHubClientFunctionWithRetry w p select client executeFunc n g s =
     Some ((cancel_ctx p, r', Some (rem', reset'), None), g2, s3)"
proof -
  have "executeGitHubClientFunctionWithRetry w p select client executeFunc n g2 s2 =
      Some ((p, r', Some (rem', reset'), None), g2, s3)"
    using again by (subst executeGitHubClientFunctionWithRetry.simps) simp
  then show ?thesis using x wait by (subst executeGitHubClientFunctionWithRetry.simps) simp
qed

text \<open>A second lookup of an organisation is served from the cache.\<close>

lemma ClientForOrganization_cached:
  "ClientForOrganization findOrg (Some w) org s = (Inr c, w', s') \<Longrightarrow>
     ClientForOrganization findOrg w' org s'' = (Inr c, w', s'')"
  by (auto simp: ClientForOrganization_def split: if_splits option.splits prod.splits sum.splits)

lemma match_found:
  "matchEnterpriseInstallation insts e = i \<Longrightarrow> i \<noteq> 0 \<Longrightarrow>
     \<exists>inst login. Some inst \<in> set insts \<and> InstallationID inst = i \<and> EqualFold (TargetType inst) ''Enterprise''
       \<and> AccountLogin inst = Some login \<and> EqualFold login e"
  by (induction insts e rule: matchEnterpriseInstallation.induct) (auto split: if_splits option.splits)

end
