(* ===== verification/GitHub_Properties.thy ===== *)
theory GitHub_Properties
  imports GitHubClient Samples
begin

text \<open>
  Properties of the GitHub client: the rate limit pause, the redelivery budget and the wrapper
  around every API call.
\<close>

section \<open>The redelivery budget\<close>

text \<open>
  C27. \<open>Reserve\<close> never overspends: when it returns, the calls spent are within the budget of the window, and when it
  returns without an error the reserved calls still fit.
\<close>

theorem reserve_within_budget:
  assumes "Reserve w p select client n (Some b) g s = Some (e, Some b', g', s')" "budget_ok b"
  shows "budget_ok b' \<and> (e = None \<longrightarrow> 0 < n \<longrightarrow> spent b' + n \<le> budget b')"
proof (cases "n \<le> 0")
  case True
  then show ?thesis using assms by (simp add: Reserve_def)
next
  case False
  obtain e1 b1 s1 where r: "(if budget b = 0 \<and> spent b = 0 \<and> resetAt b = None then RefreshFromAPI client b s else (None, b, s)) = (e1, b1, s1)"
    by (metis prod_cases3)
  have ok: "budget_ok b1" using r assms(2) by (auto split: if_splits dest: RefreshFromAPI_ok)
  show ?thesis
  proof (cases e1)
    case (Some x)
    then show ?thesis using assms(1) False r ok by (auto simp: Reserve_def)
  next
    case None
    then obtain y where y: "reserve_loop w p select client n b1 g s1 = Some y"
        "y = (e, b', g', s')"
      using assms(1) False r by (auto simp: Reserve_def)
    show ?thesis using reserve_loop_ok [OF y(1)] ok y(2) False by (auto simp: CanSpend_def)
  qed
qed

lemma reserve_within_budget_witness:
  "budget_ok \<lparr>budget = 5, spent = 3, resetAt = Some 9\<rparr> \<and> spent \<lparr>budget = 5, spent = 3, resetAt = Some 9\<rparr> + 2 \<le> (5::int)"
proof -
  let ?b = "\<lparr>budget = 5, spent = 3, resetAt = Some 9\<rparr>"
  have "Reserve mem_ctx mem_ctx (\<lambda>t s. (TimerFired, s)) None 2 (Some ?b) small_host (mem_init []) = Some (None, Some ?b, small_host, mem_init [])"
    by (subst Reserve_def, subst (1) option.case, simp, subst reserve_loop.simps)
      (simp add: reserve_turn_def CanSpend_def mem_simps)
  from reserve_within_budget [OF this] show ?thesis by (simp add: budget_ok_def)
qed

text \<open>
  \<open>Reserve\<close> does not wait forever: on a live context, with timers that fire and an API that answers, it returns
  without error as soon as a window of the API has a budget for the call.
\<close>

theorem reserve_returns:
  assumes "\<And>s. CtxErr w s = None" "\<And>s. CtxErr p s = None" "\<And>t s. select t s = (TimerFired, f t s)"
    and "client = Some get" "\<And>s. get s = (Inr (Some (R s, reset s)), h s)" "\<And>s. n \<le> RedeliveryBudgetFromRemaining (R s)"
  shows "\<exists>b' g' s'. Reserve w p select client n (Some b) g s = Some (None, b', g', s')"
proof (cases "n \<le> 0")
  case False
  then have n: "0 < n" by simp
  obtain b1 s1 where r: "(if budget b = 0 \<and> spent b = 0 \<and> resetAt b = None then RefreshFromAPI client b s else (None, b, s)) = (None, b1, s1)"
    using assms(4,5) by (cases "budget b = 0 \<and> spent b = 0 \<and> resetAt b = None") (simp_all add: RefreshFromAPI_def)
  obtain b' g' s' where "reserve_loop w p select client n b1 g s1 = Some (None, b', g', s')"
    using reserve_loop_live [OF assms(1,2), of select f client get R reset h n b1 g s1] assms(3-6) n by blast
  then show ?thesis using False r by (simp add: Reserve_def)
qed (simp add: Reserve_def)

lemma reserve_returns_witness:
  "\<exists>b' g' s'. Reserve (Background mem_ctx) (Background mem_ctx) (\<lambda>t m. (TimerFired, m\<lparr>mnow := t\<rparr>))
     (Some (\<lambda>m. (Inr (Some (100, Some (mnow m + 60))), m))) 3 (Some \<lparr>budget = 5, spent = 4, resetAt = Some 9\<rparr>) small_host (mem_init []) =
       Some (None, b', g', s')"
  by (rule reserve_returns [where R = "\<lambda>_. 100" and f = "\<lambda>t m. m\<lparr>mnow := t\<rparr>" and h = id])
    (simp_all add: RedeliveryBudgetFromRemaining_def)

section \<open>API calls\<close>



text \<open>
  C29. A call whose answer leaves at most ten requests in the window is repeated after the reset even when it succeeded: its
  result is thrown away, and the context handed back to the caller is already cancelled, so
  everything the caller starts with it fails.
\<close>

theorem exhausted_call_is_repeated:
  assumes "executeFunc s = ((r, Some (remaining, reset), err), s1)" "remaining \<le> 10"
    and "waitForGitHubAPIRateLimitReset p select reset (g, s1) = Some (None, g2, s2)"
    and "executeFunc s2 = ((r', Some (remaining', reset'), None), s3)" "10 < remaining'"
  shows "\<exists>ctx. ExecuteGitHubClientFunction w p select client executeFunc g s =
      Some ((ctx, r', Some (remaining', reset'), None), g2, s3) \<and> (\<forall>s. CtxErr ctx s \<noteq> None)"
  using execute_limited [OF assms, of w client 0] CtxErr_cancel [of p] unfolding ExecuteGitHubClientFunction_def by blast

lemma exhausted_call_is_repeated_witness:
  "\<exists>ctx. ExecuteGitHubClientFunction (Background mem_ctx) (Background mem_ctx) (\<lambda>t m. (TimerFired, m\<lparr>mnow := t\<rparr>)) (Inl RedisNil)
      (\<lambda>m. ((Some (mnow m), Some (if mnow m < 100 then (10, 3 * second) else (5000, 7200 * second)), None), m)) small_host (mem_init []) =
      Some ((ctx, Some (4 * second), Some (5000, 7200 * second), None), small_host, (mem_init [])\<lparr>mnow := 4 * second\<rparr>) \<and>
    (\<forall>s. CtxErr ctx s \<noteq> None)"
  by (rule exhausted_call_is_repeated [where remaining = 10 and reset = "3 * second" and r = "Some 0" and err = None and ?s1.0 = "mem_init []" and ?s2.0 = "(mem_init [])\<lparr>mnow := 4 * second\<rparr>"])
    (simp_all add: mem_init_def waitForGitHubAPIRateLimitReset_def wait_start_def setGitHubAPIRateLimitPaused_def
      clearGitHubAPIRateLimitPaused_def wait_loop.simps mem_ctx_def second_def Background_def)

end
