(* ===== verification/Handler.thy ===== *)
theory Handler
  imports AnkaSpace GitHubClient
begin

text \<open>
  The state of the GitHub handler (\<open>plugins/handlers/github\<close>) and its helpers: the channels and
  flags of \<open>PluginGlobals\<close>, the queues it works on, the calls of the GitHub API it makes, and the
  watching of the active job. The goroutines of a handler (\<open>Run\<close>, \<open>checkForCompletedJobs\<close>)
  interleave at the turns of their loops; a turn is one function, and a turn that would wait for
  ever (a send on a full channel) has the outcome \<open>Block\<close>. Metrics are the counters of runs;
  their other updates, whose errors end a turn early, are taken to succeed.
\<close>

section \<open>The state\<close>

text \<open>
  All channels have capacity one. \<open>hDB\<close> is the world of the database and the API; \<open>RunError\<close>
  is the error \<open>Run\<close> returns.
\<close>

record ('s, 'h) HState =
  JobChannel :: "QueueJob list"
  RetryChannel :: "string list"
  PausedCancellationJobChannel :: "QueueJob list"
  ReturnToMainQueue :: "string list"
  Unreturnable :: bool
  FirstCheckForCompletedJobsRan :: bool
  CheckForCompletedJobsRunCount :: "32 word"
  StillInProgressPollCount :: "32 word"
  TotalSuccessful :: int
  TotalFailed :: int
  TotalCanceled :: int
  RunError :: "gerror option"
  hGlobals :: Globals
  hHost :: "'h Host"
  hDB :: 's

record Queues =
  mainQueueName :: string
  pluginQueueName :: string
  mainInProgressQueueName :: string
  pluginCompletedQueueName :: string
  mainCompletedQueueName :: string
  pausedQueueName :: string

definition cleaningQueueName :: "Queues \<Rightarrow> string" where
  "cleaningQueueName q = pluginQueueName q @ ''/cleaning''"

text \<open>
  What a piece of a turn does: go on with a value, return from the goroutine, wait for ever, or
  crash on a nil pointer.
\<close>

datatype 'a turn = Go 'a | Stop | Block | Crash

type_synonym ('a, 's, 'h) action = "('s, 'h) HState \<Rightarrow> 'a turn \<times> ('s, 'h) HState"

definition and_then :: "('a, 's, 'h) action \<Rightarrow> ('a \<Rightarrow> ('b, 's, 'h) action) \<Rightarrow> ('b, 's, 'h) action" where
  "and_then m f st = (case m st of (Go a, st') \<Rightarrow> f a st' | (Stop, st') \<Rightarrow> (Stop, st')
     | (Block, st') \<Rightarrow> (Block, st') | (Crash, st') \<Rightarrow> (Crash, st'))"

definition on_db :: "('s \<Rightarrow> 'a \<times> 's) \<Rightarrow> ('s, 'h) HState \<Rightarrow> 'a \<times> ('s, 'h) HState" where
  "on_db op st = (case op (hDB st) of (a, s') \<Rightarrow> (a, st\<lparr>hDB := s'\<rparr>))"

text \<open>A call of the database whose error ends the goroutine.\<close>

definition db_or_stop :: "('s \<Rightarrow> 'a result \<times> 's) \<Rightarrow> ('a, 's, 'h) action" where
  "db_or_stop op st = (case on_db op st of (Inl e, st') \<Rightarrow> (Stop, st') | (Inr a, st') \<Rightarrow> (Go a, st'))"

definition pure_or_stop :: "'a result \<Rightarrow> ('a, 's, 'h) action" where
  "pure_or_stop r st = (case r of Inl e \<Rightarrow> (Stop, st) | Inr a \<Rightarrow> (Go a, st))"

definition send_job :: "QueueJob \<Rightarrow> (unit, 's, 'h) action" where
  "send_job j st = (if JobChannel st = [] then (Go (), st\<lparr>JobChannel := [j]\<rparr>) else (Block, st))"

definition send_return :: "string \<Rightarrow> (unit, 's, 'h) action" where
  "send_return r st = (if ReturnToMainQueue st = [] then (Go (), st\<lparr>ReturnToMainQueue := [r]\<rparr>) else (Block, st))"

definition send_retry :: "string \<Rightarrow> (unit, 's, 'h) action" where
  "send_retry r st = (if RetryChannel st = [] then (Go (), st\<lparr>RetryChannel := [r]\<rparr>) else (Block, st))"

definition finish_job :: QueueJob where
  "finish_job = action_job ''finish''"

text \<open>
  The calls of the GitHub API, already through \<open>ExecuteGitHubClientFunction\<close>, on the world of
  the database. The registration token also gives the context the program goes on with.
\<close>

record 's Api =
  ClientFor :: "string \<Rightarrow> 's \<Rightarrow> gerror option \<times> 's"
  GetJob :: "string \<Rightarrow> string \<Rightarrow> int \<Rightarrow> 's \<Rightarrow> (string option \<times> string option) result \<times> 's"
  GetRun :: "string \<Rightarrow> string \<Rightarrow> int \<Rightarrow> 's \<Rightarrow> (string option \<times> string option) result \<times> 's"
  CancelRun :: "string \<Rightarrow> string \<Rightarrow> int \<Rightarrow> 's \<Rightarrow> gerror option \<times> 's"
  CreateToken :: "GitHubScope \<Rightarrow> 's Ctx \<Rightarrow> 's \<Rightarrow> ('s Ctx \<times> string option result) \<times> 's"
  ListRunners :: "GitHubScope \<Rightarrow> 's \<Rightarrow> (string option \<times> int option) list result \<times> 's"
  RemoveRunner :: "GitHubScope \<Rightarrow> int \<Rightarrow> 's \<Rightarrow> gerror option \<times> 's"

text \<open>The plugin's own entry in the globals: \<open>workerGlobals.Plugins[plugin][name]\<close>.\<close>

definition own_global :: "Plugin \<Rightarrow> Globals \<Rightarrow> PluginGlobal option" where
  "own_global p g = Option.bind (map_of (GPlugins g) (PPlugin p)) (\<lambda>ps. map_of ps (PName p))"

definition set_own_global :: "Plugin \<Rightarrow> (PluginGlobal \<Rightarrow> PluginGlobal) \<Rightarrow> Globals \<Rightarrow> Globals" where
  "set_own_global p f g = g\<lparr>GPlugins := map (\<lambda>(t, ps). (t, if t = PPlugin p then update_global (PName p) f ps else ps)) (GPlugins g)\<rparr>"

section \<open>Small helpers\<close>

fun extractLabelValue :: "string list \<Rightarrow> string \<Rightarrow> string" where
  "extractLabelValue [] pre = []"
| "extractLabelValue (label # labels) pre = (case CutPrefix label pre of Some r \<Rightarrow> r | None \<Rightarrow> extractLabelValue labels pre)"

definition watchJobIsTerminal :: "string option \<Rightarrow> bool" where
  "watchJobIsTerminal status \<longleftrightarrow> status = Some ''completed'' \<or> status = Some ''failed''"

definition handleWatchJobCompleted :: "QueueJob \<Rightarrow> ('s, 'h) HState \<Rightarrow> ('s, 'h) HState" where
  "handleWatchJobCompleted queuedJob st = (case Conclusion (WorkflowJob queuedJob) of
     None \<Rightarrow> st
   | Some c \<Rightarrow> if c = ''success'' \<or> c = [] then st\<lparr>TotalSuccessful := TotalSuccessful st + 1\<rparr>
       else if c = ''failure'' then st\<lparr>TotalFailed := TotalFailed st + 1\<rparr>
       else st)"

text \<open>Saving a terminal job: a job that is completed already counts as saved.\<close>

definition syncJobInDBBeforeWatchComplete :: "'s Ctx \<Rightarrow> 's Database \<Rightarrow> string \<Rightarrow> QueueJob \<Rightarrow> ('s, 'h) HState \<Rightarrow> gerror option go \<times> ('s, 'h) HState" where
  "syncJobInDBBeforeWatchComplete ctx db queue job st = (case on_db (UpdateJobInDB ctx db queue job) st of
     (Panic, st') \<Rightarrow> (Panic, st')
   | (Ret (err, completed), st') \<Rightarrow> (Ret (if completed \<noteq> None then None else err), st'))"

section \<open>Watching the job\<close>

text \<open>The ready case its \<open>select\<close> takes: the context is done, a job on the channel, or the poll timer.\<close>

datatype watch_event = WatchDone | WatchJob | WatchPoll

definition registration_timeout :: "Plugin \<Rightarrow> int" where
  "registration_timeout p = (if PRegistrationTimeoutSeconds p \<le> 0 then 80 else PRegistrationTimeoutSeconds p)"

text \<open>A result of the whole loop: the error it returns, and whether it is one of success.\<close>

definition watch_finish :: "'s Ctx \<Rightarrow> 's Database \<Rightarrow> string \<Rightarrow> QueueJob \<Rightarrow> ('s, 'h) HState \<Rightarrow> gerror option turn \<times> ('s, 'h) HState" where
  "watch_finish ctx db queue job st = (case syncJobInDBBeforeWatchComplete ctx db queue job st of
     (Panic, st') \<Rightarrow> (Crash, st')
   | (Ret (Some e), st') \<Rightarrow> (Go (Some e), st')
   | (Ret None, st') \<Rightarrow> (Go None, handleWatchJobCompleted job st'))"

text \<open>
  The poll. Its outcomes: \<open>Inl e\<close> returns from the loop with error \<open>e\<close>, \<open>Inr n\<close> goes round again
  with the counter \<open>n\<close>.
\<close>

definition watch_poll :: "'s Ctx \<Rightarrow> 's Database \<Rightarrow> Plugin \<Rightarrow> Queues \<Rightarrow> int \<Rightarrow> ('s, 'h) HState \<Rightarrow> (gerror option + int) turn \<times> ('s, 'h) HState" where
  "watch_poll ctx db plugin q logCounter st =
     (case on_db (RetryLIndex ctx db (pluginQueueName q) 0) st of
        (Inl e, st1) \<Rightarrow> (Go (Inl (Some e)), st1)
      | (Inr json, st1) \<Rightarrow> (case Unwrap json of
        Inl e \<Rightarrow> (Go (Inl (Some e)), st1)
      | Inr queuedJob \<Rightarrow> (case ID (WorkflowJob queuedJob) of
        None \<Rightarrow> (Go (Inr logCounter), st1)
      | Some i \<Rightarrow>
        if Action queuedJob = ''timed_out'' then (Go (Inl None), st1)
        else if watchJobIsTerminal (Status (WorkflowJob queuedJob)) then (Go (Inl None), handleWatchJobCompleted queuedJob st1)
        else (case on_db (GetJobJSONFromQueueByID ctx db i (mainInProgressQueueName q)) st1 of
           (Inl e, st2) \<Rightarrow> (Go (Inl (Some e)), st2)
         | (Inr inProgress, st2) \<Rightarrow>
             if logCounter = registration_timeout plugin div 3 \<and> inProgress = []
             then (case syncJobInDBBeforeWatchComplete ctx db (pluginQueueName q) (queuedJob\<lparr>Action := ''remove_self_hosted_runner''\<rparr>) st2 of
                (Panic, st3) \<Rightarrow> (Crash, st3)
              | (Ret (Some e), st3) \<Rightarrow> (Go (Inl (Some e)), st3)
              | (Ret None, st3) \<Rightarrow> and_then (send_retry ''waiting_for_runner_registration_timed_out'') (\<lambda>_ st4. (Go (Inl None), st4)) st3)
             else (Go (Inr (logCounter + 1)), st2)))))"

definition watch_turn :: "'s Ctx \<Rightarrow> 's Ctx \<Rightarrow> 's Database \<Rightarrow> Plugin \<Rightarrow> Queues \<Rightarrow> watch_event \<Rightarrow> int \<Rightarrow> ('s, 'h) HState \<Rightarrow>
    (gerror option + int) turn \<times> ('s, 'h) HState" where
  "watch_turn workerCtx ctx db plugin q ev logCounter st =
     (if CtxErr workerCtx (hDB st) \<noteq> None \<or> CtxErr ctx (hDB st) \<noteq> None then (Go (Inl None), st)
      else (case ev of
        WatchDone \<Rightarrow> (Go (Inl None), st)
      | WatchJob \<Rightarrow> (case JobChannel st of
          [] \<Rightarrow> (Block, st)
        | chJob # rest \<Rightarrow>
            (let st1 = st\<lparr>JobChannel := rest\<rparr> in
             if Action chJob = ''finish'' then (Go (Inl None), st1)
             else if watchJobIsTerminal (Status (WorkflowJob chJob))
             then and_then (watch_finish ctx db (pluginQueueName q) chJob) (\<lambda>e st2. (Go (Inl e), st2)) st1
             else (Go (Inr logCounter), if JobChannel st1 = [] then st1\<lparr>JobChannel := [chJob]\<rparr> else st1)))
      | WatchPoll \<Rightarrow> watch_poll ctx db plugin q logCounter st))"

text \<open>The loop along the events of its turns.\<close>

fun watchJobStatus :: "'s Ctx \<Rightarrow> 's Ctx \<Rightarrow> 's Database \<Rightarrow> Plugin \<Rightarrow> Queues \<Rightarrow> watch_event list \<Rightarrow> int \<Rightarrow> ('s, 'h) HState \<Rightarrow>
    (gerror option + int) turn \<times> ('s, 'h) HState" where
  "watchJobStatus workerCtx ctx db plugin q [] n st = (Go (Inr n), st)"
| "watchJobStatus workerCtx ctx db plugin q (ev # evs) n st =
     (case watch_turn workerCtx ctx db plugin q ev n st of
        (Go (Inr m), st') \<Rightarrow> watchJobStatus workerCtx ctx db plugin q evs m st'
      | out \<Rightarrow> out)"

section \<open>Cancelling a workflow run\<close>

text \<open>
  The loop asks for the run, sends one cancellation and asks again until the run is over; once
  a cancellation was sent the next answer ends it. The fuel bounds the turns: two always do.
\<close>

fun cancel_loop :: "nat \<Rightarrow> 's Ctx \<Rightarrow> 's Ctx \<Rightarrow> 's Api \<Rightarrow> string \<Rightarrow> string \<Rightarrow> QueueJob \<Rightarrow> bool \<Rightarrow> ('s, 'h) HState \<Rightarrow>
    gerror option turn \<times> ('s, 'h) HState" where
  "cancel_loop 0 workerCtx ctx api owner repo job cancelSent st = (Block, st)"
| "cancel_loop (Suc fuel) workerCtx ctx api owner repo job cancelSent st =
     (case RunID (WorkflowJob job) of None \<Rightarrow> (Crash, st)
      | Some runID \<Rightarrow> (case on_db (GetRun api owner repo runID) st of
        (Inl e, st1) \<Rightarrow> (Go (Some e), st1)
      | (Inr (None, _), st1) \<Rightarrow> (Crash, st1)
      | (Inr (Some status, conclusion), st1) \<Rightarrow>
          if status = ''completed'' \<or> conclusion = Some ''cancelled'' \<or> cancelSent
          then (case HTMLURL (WorkflowJob job) of None \<Rightarrow> (Crash, st1\<lparr>TotalCanceled := TotalCanceled st1 + 1\<rparr>)
            | Some _ \<Rightarrow> (Go None, st1\<lparr>TotalCanceled := TotalCanceled st1 + 1\<rparr>))
          else (case on_db (CancelRun api owner repo runID) st1 of
             (Some e, st2) \<Rightarrow>
               if \<not> contains (Error e) ''try again later'' then (Go (Some e), st2)
               else if CtxErr workerCtx (hDB st2) \<noteq> None \<or> CtxErr ctx (hDB st2) \<noteq> None
               then (Go (Some (Errorf ''context canceled while waiting for workflow cancellation'')), st2)
               else cancel_loop fuel workerCtx ctx api owner repo job True (st2\<lparr>hDB := Sleep ctx (10 * second) (hDB st2)\<rparr>)
           | (None, st2) \<Rightarrow>
               if CtxErr workerCtx (hDB st2) \<noteq> None \<or> CtxErr ctx (hDB st2) \<noteq> None
               then (Go (Some (Errorf ''context canceled while waiting for workflow cancellation'')), st2)
               else cancel_loop fuel workerCtx ctx api owner repo job True (st2\<lparr>hDB := Sleep ctx (10 * second) (hDB st2)\<rparr>))))"

definition sendCancelWorkflowRun :: "'s Ctx \<Rightarrow> 's Ctx \<Rightarrow> 's Api \<Rightarrow> QueueJob \<Rightarrow> ('s, 'h) HState \<Rightarrow> gerror option turn \<times> ('s, 'h) HState" where
  "sendCancelWorkflowRun workerCtx ctx api job st = (case RepositoryOwnerAndName job of
     Inl e \<Rightarrow> (Go (Some e), st)
   | Inr (owner, repo) \<Rightarrow> (case on_db (ClientFor api owner) st of
        (Some e, st1) \<Rightarrow> (Go (Some e), st1)
      | (None, st1) \<Rightarrow> cancel_loop 2 workerCtx ctx api owner repo job False st1))"

section \<open>Facts\<close>

lemma cancel_loop_sent_returns:
  "fst (cancel_loop (Suc n) w c api owner repo job True st) \<noteq> Block"
  by (auto split: option.splits prod.splits sum.splits)

text \<open>The two turns of fuel are enough: the loop always returns or crashes, never runs out.\<close>

lemma cancel_loop_returns:
  "fst (cancel_loop (Suc (Suc n)) w c api owner repo job sent st) \<noteq> Block"
  using cancel_loop_sent_returns [of n w c api owner repo job]
  by (auto split: option.splits prod.splits sum.splits simp del: cancel_loop.simps(2)
      simp: cancel_loop.simps(2) [of "Suc n"])

end
