(* ===== verification/Receiver.thy ===== *)
theory Receiver
  imports Handler
begin

text \<open>
  \<open>plugins/receivers/github/receive.go\<close> and the webhook endpoint of \<open>github.go\<close>: checking and
  decoding a delivery, and filing its job in the Redis queues. Validating the signature and
  parsing the event are calls of \<open>go-github\<close>, parameters of the model. The status code of the
  answer is the result of the handler; one that returns without writing a status has the default
  of \<open>net/http\<close>, 200.
\<close>

section \<open>Events\<close>

record EventRepo =
  EName :: "string option"
  EOwner :: "string option option"
  EVisibility :: "string option"
  EPrivate :: "bool option"

record WorkflowJobEvent =
  EAction :: "string option"
  EJob :: "SimplifiedWorkflowJob option"
  ERepo :: "EventRepo option"

definition repositoryFromEvent :: "EventRepo option \<Rightarrow> Repository" where
  "repositoryFromEvent r = (case r of
     None \<Rightarrow> zero_Repository
   | Some r \<Rightarrow> \<lparr>RepoName = EName r, RepoOwner = (case EOwner r of None \<Rightarrow> None | Some login \<Rightarrow> login),
                RepoVisibility = EVisibility r, RepoPrivate = EPrivate r\<rparr>)"

definition queueJobFromWorkflowJobEvent :: "WorkflowJobEvent option \<Rightarrow> QueueJob result" where
  "queueJobFromWorkflowJobEvent event = (case event of
     None \<Rightarrow> Inl (Errorf ''workflow job event is nil'')
   | Some ev \<Rightarrow> (case EAction ev of
       None \<Rightarrow> Inl (Errorf ''action is missing'')
     | Some act \<Rightarrow>
         if act = [] then Inl (Errorf ''action is missing'')
         else (case EJob ev of
            None \<Rightarrow> Inl (Errorf ''workflow_job is missing'')
          | Some job \<Rightarrow>
              if ID job = None then Inl (Errorf ''workflow_job.id is missing'')
              else Inr (zero_QueueJob\<lparr>Type := ''WorkflowJobPayload'', WorkflowJob := job, Action := act,
                     Repo := repositoryFromEvent (ERepo ev), AnkaVM := zero_VM, Attempts := 0\<rparr>))))"

section \<open>Decoding a delivery\<close>

text \<open>A request: its body, if there is one, or the failure to read it.\<close>

type_synonym request = "string result option option"

text \<open>
  The library: \<open>ValidatePayload secret payload\<close>, and \<open>ParseWebHook\<close>, whose result is \<open>Inr None\<close>
  for an event of another kind.
\<close>

record Webhooks =
  ValidatePayload :: "string \<Rightarrow> string \<Rightarrow> gerror option"
  ParseWebHook :: "string \<Rightarrow> WorkflowJobEvent option option result"

definition readWebhookPayload :: "Webhooks \<Rightarrow> request \<Rightarrow> string \<Rightarrow> string result" where
  "readWebhookPayload lib r secret = (case r of
     None \<Rightarrow> Inl (Errorf ''request is nil'')
   | Some None \<Rightarrow> Inl (Errorf ''request body is empty'')
   | Some (Some (Inl e)) \<Rightarrow> Inl (Errorf (''reading request body: '' @ Error e))
   | Some (Some (Inr raw)) \<Rightarrow> (case ValidatePayload lib secret raw of Some e \<Rightarrow> Inl e | None \<Rightarrow> Inr raw))"

text \<open>\<open>None\<close>: not an event of a workflow job.\<close>

definition decodeReceiverWebhook :: "Webhooks \<Rightarrow> request \<Rightarrow> string \<Rightarrow> QueueJob option result" where
  "decodeReceiverWebhook lib r secret = (case readWebhookPayload lib r secret of
     Inl e \<Rightarrow> Inl (Errorf (''validating payload: '' @ Error e))
   | Inr payload \<Rightarrow> (case ParseWebHook lib payload of
       Inl e \<Rightarrow> Inl (Errorf (''parsing event: '' @ Error e))
     | Inr None \<Rightarrow> Inr None
     | Inr (Some event) \<Rightarrow> map_sum id Some (queueJobFromWorkflowJobEvent event)))"

section \<open>Filing a job\<close>

fun exists_in_array_partial :: "string list \<Rightarrow> string list \<Rightarrow> bool" where
  "exists_in_array_partial items [] \<longleftrightarrow> True"
| "exists_in_array_partial items (desired # rest) \<longleftrightarrow>
     (\<exists>item\<in>set items. contains item desired) \<and> exists_in_array_partial items rest"

definition wants_anka :: "QueueJob \<Rightarrow> bool" where
  "wants_anka job \<longleftrightarrow> exists_in_array_partial (case Labels (WorkflowJob job) of None \<Rightarrow> [] | Some ls \<Rightarrow> ls) [''anka-template'']"

text \<open>
  Pushing the job unless a job with its ID is in the queue; a failure is logged and ends the
  handler all the same. The ID was checked when the event was decoded.
\<close>

definition push_unless_present :: "'s Ctx \<Rightarrow> 's Database \<Rightarrow> string \<Rightarrow> int \<Rightarrow> QueueJob \<Rightarrow> 's \<Rightarrow> 's" where
  "push_unless_present ctx db queue i job s = (case GetJobJSONFromQueueByID ctx db i queue s of
     (Inl e, s1) \<Rightarrow> s1
   | (Inr json, s1) \<Rightarrow> if json = [] then snd (RetryRPush ctx db queue [MarshalJob job] s1) else s1)"

definition receive_queued :: "'s Ctx \<Rightarrow> 's Database \<Rightarrow> string \<Rightarrow> int \<Rightarrow> QueueJob \<Rightarrow> 's \<Rightarrow> 's" where
  "receive_queued ctx db queueOwner i job s =
     (if \<not> wants_anka job then s
      else (let queue = ''anklet/jobs/github/queued/'' @ queueOwner in
        case GetJobJSONFromQueueByID ctx db i queue s of
          (Inl e, s1) \<Rightarrow> s1
        | (Inr json, s1) \<Rightarrow>
            if json \<noteq> [] then s1
            else (case (case RunID (WorkflowJob job) of
                None \<Rightarrow> (Inr False, s1)
              | Some r \<Rightarrow> CheckIfJobExistsInHandlerQueues ctx db r i queueOwner s1) of
                (Inl e, s2) \<Rightarrow> s2
              | (Inr True, s2) \<Rightarrow> s2
              | (Inr False, s2) \<Rightarrow> snd (RetryRPush ctx db queue [MarshalJob job] s2))))"

definition receive_in_progress :: "'s Ctx \<Rightarrow> 's Database \<Rightarrow> string \<Rightarrow> int \<Rightarrow> QueueJob \<Rightarrow> 's \<Rightarrow> 's" where
  "receive_in_progress ctx db queueOwner i job s =
     (if Conclusion (WorkflowJob job) = Some ''cancelled'' \<or> \<not> wants_anka job then s
      else push_unless_present ctx db (''anklet/jobs/github/in_progress/'' @ queueOwner) i job s)"

text \<open>
  The goroutines of the lookup, one per queue; a queue that cannot be searched counts as one
  without the job.
\<close>

fun in_a_queue :: "'s Ctx \<Rightarrow> 's Database \<Rightarrow> int \<Rightarrow> string list \<Rightarrow> 's \<Rightarrow> bool \<times> 's" where
  "in_a_queue ctx db i [] s = (False, s)"
| "in_a_queue ctx db i (queue # queues) s = (case GetJobJSONFromQueueByID ctx db i queue s of (r, s1) \<Rightarrow>
     (case in_a_queue ctx db i queues s1 of (b, s2) \<Rightarrow> ((case r of Inl _ \<Rightarrow> False | Inr json \<Rightarrow> json \<noteq> []) \<or> b, s2)))"

definition receive_completed :: "'s Ctx \<Rightarrow> 's Database \<Rightarrow> string \<Rightarrow> int \<Rightarrow> QueueJob \<Rightarrow> 's \<Rightarrow> 's" where
  "receive_completed ctx db queueOwner i job s =
     (if \<not> wants_anka job then s
      else (case RetryKeys ctx db (''anklet/jobs/github/queued/'' @ queueOwner @ ''*'') s of
        (Inl e, s1) \<Rightarrow> s1
      | (Inr queues, s1) \<Rightarrow> (case in_a_queue ctx db i queues s1 of (inAQueue, s2) \<Rightarrow>
          if inAQueue then push_unless_present ctx db (''anklet/jobs/github/completed/'' @ queueOwner) i job s2 else s2)))"

definition receive_job :: "'s Ctx \<Rightarrow> 's Database \<Rightarrow> string \<Rightarrow> QueueJob \<Rightarrow> 's \<Rightarrow> 's go" where
  "receive_job ctx db queueOwner job s = (case ID (WorkflowJob job) of
     None \<Rightarrow> if wants_anka job then Panic else Ret s
   | Some i \<Rightarrow> Ret (
       if Action job = ''queued'' then receive_queued ctx db queueOwner i job s
       else if Action job = ''in_progress'' then receive_in_progress ctx db queueOwner i job s
       else if Action job = ''completed'' then receive_completed ctx db queueOwner i job s
       else s))"

definition StatusOK :: int where "StatusOK = 200"
definition StatusBadRequest :: int where "StatusBadRequest = 400"

definition receiver_endpoint :: "Webhooks \<Rightarrow> 's Ctx \<Rightarrow> 's Database \<Rightarrow> string \<Rightarrow> string \<Rightarrow> request \<Rightarrow> 's \<Rightarrow> (int \<times> 's) go" where
  "receiver_endpoint lib ctx db secret queueOwner r s = (case decodeReceiverWebhook lib r secret of
     Inl e \<Rightarrow> Ret (StatusBadRequest, s)
   | Inr None \<Rightarrow> Ret (StatusOK, s)
   | Inr (Some job) \<Rightarrow> (case receive_job ctx db queueOwner job s of Panic \<Rightarrow> Panic | Ret s' \<Rightarrow> Ret (StatusOK, s')))"

section \<open>Starting the receiver\<close>

text \<open>The configuration as \<open>Run\<close> uses it: enterprise receivers never redeliver.\<close>

definition validate_receiver :: "string \<Rightarrow> string result \<Rightarrow> Plugin \<Rightarrow> Plugin result" where
  "validate_receiver configFileName homeDir p =
     (case ValidateGitHubScope p of
        Some e \<Rightarrow> Inl (Errorf (''invalid github scope in '' @ configFileName @ '':plugins:'' @ PName p @ '': '' @ Error e))
      | None \<Rightarrow>
          if PSecret p = [] then Inl (Errorf (''secret is not set in '' @ configFileName @ '':plugins:'' @ PName p @ ''<secret>''))
          else let p1 = (if IsEnterpriseScope p then p\<lparr>PSkipRedeliver := True\<rparr> else p) in
            if \<not> IsEnterpriseScope p1 \<and> PToken p1 = [] \<and> PPrivateKey p1 = []
            then Inl (Errorf (''token or private_key are not set at global level or in '' @ configFileName @ '':plugins:'' @ PName p1 @ ''<token/private_key>''))
            else if prefix ''~/'' (PPrivateKey p1)
            then (case homeDir of
               Inl e \<Rightarrow> Inl (Errorf (''unable to get user home directory: '' @ Error e))
             | Inr home \<Rightarrow> Inr (p1\<lparr>PPrivateKey := home @ ''/'' @ drop 2 (PPrivateKey p1)\<rparr>))
            else Inr p1)"

text \<open>Once it listens: the in-progress queue is reset, and the plugin marked as ready.\<close>

definition receiver_ready :: "'s Ctx \<Rightarrow> 's Database \<Rightarrow> Plugin \<Rightarrow> Globals \<Rightarrow> 's \<Rightarrow> gerror option \<times> Globals \<times> 's" where
  "receiver_ready ctx db p g s = (case RetryDel ctx db [''anklet/jobs/github/in_progress/'' @ GetQueueOwner p] s of
     (Inl e, s') \<Rightarrow> (Some (Errorf (''error deleting in_progress queue: '' @ Error e)), g, s')
   | (Inr _, s') \<Rightarrow> (None, set_own_global p (\<lambda>own. own\<lparr>Preparing := False, Paused := False, FinishedInitialRun := True\<rparr>) g, s'))"

section \<open>Facts\<close>

lemma wants_anka_iff:
  "wants_anka job \<longleftrightarrow> (\<exists>ls. Labels (WorkflowJob job) = Some ls \<and> (\<exists>l\<in>set ls. contains l ''anka-template''))"
  by (cases "Labels (WorkflowJob job)") (simp_all add: wants_anka_def)

lemma map_sum_Inr: "map_sum id f x = Inr y \<longleftrightarrow> (\<exists>z. x = Inr z \<and> y = f z)"
  by (cases x) auto

text \<open>Only a well-formed delivery with a valid signature reaches the queues.\<close>

lemma decode_Some:
  assumes "decodeReceiverWebhook lib r secret = Inr (Some job)"
  obtains raw where "r = Some (Some (Inr raw))" "ValidatePayload lib secret raw = None"
    "Type job = ''WorkflowJobPayload''" "ID (WorkflowJob job) \<noteq> None" "Action job \<noteq> []" "Attempts job = 0" "PausedOn job = []"
proof -
  obtain raw ev where raw: "readWebhookPayload lib r secret = Inr raw" and ev: "queueJobFromWorkflowJobEvent ev = Inr job"
    using assms by (auto simp: decodeReceiverWebhook_def map_sum_Inr split: sum.splits option.splits)
  then show ?thesis
    by (intro that [of raw])
       (auto simp: readWebhookPayload_def queueJobFromWorkflowJobEvent_def zero_QueueJob_def split: option.splits sum.splits if_splits)
qed

lemma endpoint_no_panic: "receiver_endpoint lib ctx db secret queueOwner r s \<noteq> Panic"
proof (cases "decodeReceiverWebhook lib r secret")
  case (Inr oj)
  then show ?thesis
    by (cases oj) (auto simp: receiver_endpoint_def receive_job_def elim!: decode_Some split: option.splits)
qed (simp add: receiver_endpoint_def)

text \<open>The IDs in a queue of well-formed jobs, and that no two jobs of it have the same.\<close>

definition item_id :: "string \<Rightarrow> int option" where
  "item_id item = (case Unwrap item of Inl _ \<Rightarrow> None | Inr job \<Rightarrow> ID (WorkflowJob job))"

definition no_duplicates :: "string list \<Rightarrow> bool" where
  "no_duplicates items \<longleftrightarrow> (\<forall>item\<in>set items. item_id item \<noteq> None) \<and> distinct (map item_id items)"

lemma other_job_item_id: "other_job i item \<longleftrightarrow> (\<exists>j. item_id item = Some j \<and> j \<noteq> i)"
  by (auto simp: other_job_def item_id_def split: sum.splits option.splits)

lemma item_id_Marshal: "job_ok job \<Longrightarrow> item_id (MarshalJob job) = ID (WorkflowJob job)"
  by (simp add: item_id_def Unwrap_MarshalJob)

lemma no_duplicates_push:
  assumes "no_duplicates items" "list_all (other_job i) items" "job_ok job" "ID (WorkflowJob job) = Some i"
  shows "no_duplicates (items @ [MarshalJob job])"
  using assms by (auto simp: no_duplicates_def list_all_iff other_job_item_id item_id_Marshal)

text \<open>What filing can do to the lists: nothing, or push the job on a queue without its ID.\<close>

definition filed :: "int \<Rightarrow> QueueJob \<Rightarrow> string \<Rightarrow> lists \<Rightarrow> lists \<Rightarrow> bool" where
  "filed i job q v v' \<longleftrightarrow> v' = v \<or> (list_all (other_job i) (v q) \<and> v' = v(q := v q @ [MarshalJob job]))"

context redis_db begin

lemma GetJobJSON_law:
  assumes "GetJobJSONFromQueueByID ctx db i queue s = (r, s')"
  shows "view s' = view s" and "r = Inr [] \<Longrightarrow> list_all (other_job i) (view s queue)"
proof -
  obtain r1 where l: "RetryLRange (Background ctx) db queue 0 (- 1) s = (r1, s')"
    and r: "r = (case r1 of Inl e \<Rightarrow> Inl e | Inr q \<Rightarrow> find_job i q)"
    using assms by (auto simp: GetJobJSONFromQueueByID_def split: prod.splits sum.splits)
  show "view s' = view s" using bg_LRange_view [OF l] .
  show "list_all (other_job i) (view s queue)" if "r = Inr []"
    using bg_LRangeD(1) [OF l] that r by (auto simp: find_job_Nil_iff split: sum.splits)
qed

lemma handler_queues_view:
  "CheckIfJobExistsInHandlerQueues ctx db r i queueOwner s = (x, s') \<Longrightarrow>
     plain_pattern (''anklet/jobs/github/queued/'' @ queueOwner @ ''/'') \<Longrightarrow> view s' = view s"
proof -
  have heads: "any_head_matches ctx db r i keys s = (b, s') \<Longrightarrow> view s' = view s" for keys b s s'
    by (induction keys arbitrary: s b)
       (auto simp: head_matches_def split: prod.splits sum.splits dest!: LIndex_view)
  assume *: "CheckIfJobExistsInHandlerQueues ctx db r i queueOwner s = (x, s')"
    and plain: "plain_pattern (''anklet/jobs/github/queued/'' @ queueOwner @ ''/'')"
  obtain ks s1 where k: "RetryKeys ctx db (''anklet/jobs/github/queued/'' @ queueOwner @ ''/*'') s = (ks, s1)"
    by (cases "RetryKeys ctx db (''anklet/jobs/github/queued/'' @ queueOwner @ ''/*'') s")
  have "view s1 = view s" using KeysD [OF plain, of s ks s1] k by (cases ks) auto
  then show ?thesis using * k by (auto simp: CheckIfJobExistsInHandlerQueues_def split: sum.splits prod.splits dest!: heads)
qed

lemma RPush_filed:
  assumes "view s1 = view s" "list_all (other_job i) (view s q)"
  shows "filed i job q (view s) (view (snd (RetryRPush ctx db q [MarshalJob job] s1)))"
proof (cases "RetryRPush ctx db q [MarshalJob job] s1")
  case (Pair r s2)
  show ?thesis using RPushD [OF Pair] assms Pair by (cases r) (auto simp: filed_def)
qed

lemma push_unless_present_filed:
  assumes "view s0 = view s"
  shows "filed i job q (view s) (view (push_unless_present ctx db q i job s0))"
proof (cases "GetJobJSONFromQueueByID ctx db i q s0")
  case (Pair r s1)
  note g = GetJobJSON_law [OF Pair]
  show ?thesis
  proof (cases "r = Inr []")
    case True
    then show ?thesis using Pair g assms by (simp add: push_unless_present_def RPush_filed)
  next
    case False
    then show ?thesis using Pair g assms by (auto simp: push_unless_present_def filed_def split: sum.splits)
  qed
qed

lemma in_a_queue_view: "in_a_queue ctx db i queues s = (b, s') \<Longrightarrow> view s' = view s"
  by (induction queues arbitrary: s b) (auto split: prod.splits dest!: GetJobJSON_law(1))

lemma receive_queued_filed:
  assumes "plain_pattern (''anklet/jobs/github/queued/'' @ queueOwner @ ''/'')"
  shows "filed i job (''anklet/jobs/github/queued/'' @ queueOwner) (view s) (view (receive_queued ctx db queueOwner i job s))"
proof -
  let ?q = "''anklet/jobs/github/queued/'' @ queueOwner"
  obtain r s1 where g: "GetJobJSONFromQueueByID ctx db i ?q s = (r, s1)" by fastforce
  note gl = GetJobJSON_law [OF g]
  show ?thesis
  proof (cases "wants_anka job \<and> r = Inr []")
    case False
    then show ?thesis using g gl by (auto simp: receive_queued_def filed_def split: sum.splits)
  next
    case True
    obtain c s2 where c: "(case RunID (WorkflowJob job) of None \<Rightarrow> (Inr False, s1)
        | Some x \<Rightarrow> CheckIfJobExistsInHandlerQueues ctx db x i queueOwner s1) = (c, s2)" by fastforce
    then have v: "view s2 = view s" using gl(1) handler_queues_view [OF _ assms] by (auto split: option.splits)
    have step: "receive_queued ctx db queueOwner i job s =
        (case c of Inl e \<Rightarrow> s2 | Inr True \<Rightarrow> s2 | Inr False \<Rightarrow> snd (RetryRPush ctx db ?q [MarshalJob job] s2))"
      using True g c by (simp add: receive_queued_def Let_def del: append_Cons split: sum.splits bool.splits)
    show ?thesis unfolding step using v gl(2) True RPush_filed [OF v, of i ?q job]
      by (auto simp: filed_def split: sum.splits bool.splits)
  qed
qed

lemma receive_completed_filed:
  assumes "plain_pattern (''anklet/jobs/github/queued/'' @ queueOwner)"
  shows "filed i job (''anklet/jobs/github/completed/'' @ queueOwner) (view s) (view (receive_completed ctx db queueOwner i job s))"
proof -
  obtain ks s1 where k: "RetryKeys ctx db ((''anklet/jobs/github/queued/'' @ queueOwner) @ ''*'') s = (ks, s1)" by fastforce
  then have v1: "view s1 = view s" using KeysD [OF assms k] by (cases ks) auto
  show ?thesis
  proof (cases ks)
    case (Inl e)
    then show ?thesis using k v1 by (simp add: receive_completed_def filed_def)
  next
    case (Inr queues)
    obtain b s2 where b: "in_a_queue ctx db i queues s1 = (b, s2)" by fastforce
    have "view s2 = view s" using in_a_queue_view [OF b] v1 by simp
    then show ?thesis using k Inr b push_unless_present_filed [of s2 s i job]
      by (simp add: receive_completed_def filed_def)
  qed
qed

text \<open>Every delivery files at most its own job, on at most one queue, where no other job has its ID.\<close>

lemma receiver_law:
  assumes ok: "receiver_endpoint lib ctx db secret queueOwner r s = Ret (code, s')"
    and plain: "plain_pattern (''anklet/jobs/github/queued/'' @ queueOwner)"
  shows "view s' = view s \<or> (\<exists>job i q. decodeReceiverWebhook lib r secret = Inr (Some job) \<and> ID (WorkflowJob job) = Some i \<and>
     q \<in> {''anklet/jobs/github/queued/'' @ queueOwner, ''anklet/jobs/github/in_progress/'' @ queueOwner,
          ''anklet/jobs/github/completed/'' @ queueOwner} \<and>
     list_all (other_job i) (view s q) \<and> view s' = (view s)(q := view s q @ [MarshalJob job]))"
proof -
  have plain': "plain_pattern (''anklet/jobs/github/queued/'' @ queueOwner @ ''/'')"
    using plain by (auto simp: plain_pattern_def backslash_def)
  consider "s' = s" | job i where "decodeReceiverWebhook lib r secret = Inr (Some job)" "ID (WorkflowJob job) = Some i"
      "receive_job ctx db queueOwner job s = Ret s'"
    using ok by (auto simp: receiver_endpoint_def receive_job_def split: sum.splits option.splits go.splits if_splits)
  then show ?thesis
  proof cases
    case 2
    have "\<exists>q \<in> {''anklet/jobs/github/queued/'' @ queueOwner, ''anklet/jobs/github/in_progress/'' @ queueOwner,
        ''anklet/jobs/github/completed/'' @ queueOwner}. filed i job q (view s) (view s')"
      using 2 receive_queued_filed [OF plain', of i job s] receive_completed_filed [OF plain, of i job s]
        push_unless_present_filed [OF refl, of i job "''anklet/jobs/github/in_progress/'' @ queueOwner" s]
      by (auto simp: receive_job_def receive_in_progress_def filed_def split: if_splits)
    then show ?thesis using 2 unfolding filed_def by blast
  qed simp
qed

lemma receiver_no_duplicates:
  assumes "receiver_endpoint lib ctx db secret queueOwner r s = Ret (code, s')"
    and "plain_pattern (''anklet/jobs/github/queued/'' @ queueOwner)"
    and "\<And>job. decodeReceiverWebhook lib r secret = Inr (Some job) \<Longrightarrow> job_ok job"
    and "no_duplicates (view s q)"
  shows "no_duplicates (view s' q)"
  using receiver_law [OF assms(1,2)] assms(3,4) no_duplicates_push [of "view s q"] by fastforce

end

end
