(* ===== verification/Redeliver.thy ===== *)
theory Redeliver
  imports Receiver
begin

text \<open>
  \<open>plugins/receivers/github/redeliver.go\<close> and \<open>internal/github/hook_deliveries.go\<close>: the walk over
  the failed deliveries of the webhook, and which of them it has GitHub deliver again. It runs
  within the budget of \<open>RateLimit\<close>. The API is a parameter; a call is made through
  \<open>ExecuteGitHubClientFunction\<close>. Listing and reserving may go on for ever, so the result is an
  option whose \<open>None\<close> is not returning.
\<close>

section \<open>Which deliveries\<close>

record HookDelivery =
  DeliveryID :: "int option"
  GUID :: "string option"
  DeliveredAt :: "int option"
  Redelivery :: "bool option"
  StatusCode :: "int option"
  HookAction :: "string option"

definition hasAnkaTemplateLabel :: "string list \<Rightarrow> bool" where
  "hasAnkaTemplateLabel labels \<longleftrightarrow> exists_in_array_partial labels [''anka-template'']"

definition failed_original :: "HookDelivery \<Rightarrow> bool" where
  "failed_original d \<longleftrightarrow> HookAction d \<noteq> None \<and> (case StatusCode d of None \<Rightarrow> False | Some c \<Rightarrow> c \<noteq> 200) \<and>
     Redelivery d \<noteq> Some True \<and> HookAction d \<noteq> Some ''in_progress''"

definition filterFailedOriginalDeliveries :: "HookDelivery option list \<Rightarrow> HookDelivery list" where
  "filterFailedOriginalDeliveries deliveries =
     List.map_filter (\<lambda>d. case d of None \<Rightarrow> None | Some h \<Rightarrow> if failed_original h then Some h else None) deliveries"

definition shouldSkipQueuedRedelivery :: "string \<Rightarrow> string \<Rightarrow> bool" where
  "shouldSkipQueuedRedelivery status conclusion \<longleftrightarrow>
     conclusion = ''cancelled'' \<or> conclusion = ''canceled'' \<or> status = ''completed'' \<or> status = ''in_progress''"

definition redeliveryCallEstimate :: "string \<Rightarrow> int" where
  "redeliveryCallEstimate act = (if act = ''queued'' then 3 else 2)"

text \<open>The loop runs from the oldest, the end of the list, on.\<close>

fun count_fitting :: "string list \<Rightarrow> int \<Rightarrow> nat" where
  "count_fitting [] remaining = 0"
| "count_fitting (act # acts) remaining =
     (let est = redeliveryCallEstimate act in if est > remaining then 0 else Suc (count_fitting acts (remaining - est)))"

definition countCandidatesFittingBudget :: "string list \<Rightarrow> int \<Rightarrow> nat" where
  "countCandidatesFittingBudget actionsNewestFirst budgetLeft = count_fitting (rev actionsNewestFirst) budgetLeft"

definition hookAction :: "HookDelivery option \<Rightarrow> string" where
  "hookAction d = (case d of None \<Rightarrow> [] | Some h \<Rightarrow> (case HookAction h of None \<Rightarrow> [] | Some a \<Rightarrow> a))"

section \<open>The jobs of the database\<close>

text \<open>The keys of the map are visited in the order of the answer; Go visits them in any order.\<close>

type_synonym job_lists = "(string \<times> string list) list"

fun load_lists :: "'s Ctx \<Rightarrow> 's Database \<Rightarrow> string list \<Rightarrow> 's \<Rightarrow> job_lists result \<times> 's" where
  "load_lists ctx db [] s = (Inr [], s)"
| "load_lists ctx db (key # keys) s = (case RetryLRange ctx db key 0 (- 1) s of
     (Inl e, s1) \<Rightarrow> (Inl (Errorf (''error getting list of jobs for key: '' @ Error e)), s1)
   | (Inr jobs, s1) \<Rightarrow> (case load_lists ctx db keys s1 of (r, s2) \<Rightarrow> (map_sum id (Cons (key, jobs)) r, s2)))"

definition loadQueueJobsByPrefix :: "'s Ctx \<Rightarrow> 's Database \<Rightarrow> string \<Rightarrow> 's \<Rightarrow> job_lists result \<times> 's" where
  "loadQueueJobsByPrefix ctx db pattern s = (case RetryKeys ctx db pattern s of
     (Inl e, s1) \<Rightarrow> (Inl (Errorf (''error getting list of keys for '' @ pattern @ '': '' @ Error e)), s1)
   | (Inr keys, s1) \<Rightarrow> load_lists ctx db keys s1)"

definition job_has_id :: "int \<Rightarrow> string \<Rightarrow> bool" where
  "job_has_id jobID json \<longleftrightarrow> (case Unwrap json of Inl e \<Rightarrow> False | Inr job \<Rightarrow> ID (WorkflowJob job) = Some jobID)"

definition jobIDInQueueMap :: "job_lists \<Rightarrow> int \<Rightarrow> bool" where
  "jobIDInQueueMap allQueuedJobs jobID \<longleftrightarrow>
     list_ex (\<lambda>(_, jobs). list_ex (\<lambda>json. json \<noteq> [] \<and> job_has_id jobID json) jobs) allQueuedJobs"

text \<open>The key of the list and the item found in it.\<close>

fun jobIDInCompletedMap :: "job_lists \<Rightarrow> int \<Rightarrow> (string \<times> string) option" where
  "jobIDInCompletedMap [] jobID = None"
| "jobIDInCompletedMap ((key, jobs) # rest) jobID = (case find (job_has_id jobID) jobs of
     Some json \<Rightarrow> Some (key, json) | None \<Rightarrow> jobIDInCompletedMap rest jobID)"

section \<open>The API of the hook\<close>

text \<open>
  The path of a request, without its query; and the calls themselves: a page of failed
  deliveries with the cursor of the next, the payload of a delivery (\<open>None\<close> if it has none), and
  the request to deliver again.
\<close>

definition deliveries_path :: "string \<Rightarrow> string \<Rightarrow> int \<Rightarrow> string" where
  "deliveries_path owner repo hookID =
     (if repo \<noteq> [] then ''repos/'' @ owner @ ''/'' @ repo @ ''/hooks/'' @ FormatInt hookID @ ''/deliveries''
      else ''orgs/'' @ owner @ ''/hooks/'' @ FormatInt hookID @ ''/deliveries'')"

record 's HookApi =
  selectWait :: "int \<Rightarrow> 's \<Rightarrow> wait_event \<times> 's"
  userGet :: "'s user_get option result"
  rateClient :: "'s rate_client"
  ListDeliveries :: "string \<Rightarrow> string \<Rightarrow> (HookDelivery option list \<times> string, 's) api_call"
  GetDelivery :: "string \<Rightarrow> int \<Rightarrow> (string option, 's) api_call"
  Redeliver :: "string \<Rightarrow> int \<Rightarrow> (unit, 's) api_call"
  JobClientFor :: "string \<Rightarrow> 's \<Rightarrow> gerror option \<times> 's"
  GetWorkflowJob :: "string \<Rightarrow> string \<Rightarrow> int \<Rightarrow> (string option \<times> string option, 's) api_call"

definition executeListFailedDeliveries ::
    "'s Ctx \<Rightarrow> 's Ctx \<Rightarrow> 's HookApi \<Rightarrow> Plugin \<Rightarrow> string \<Rightarrow> Globals \<Rightarrow> 's \<Rightarrow>
     (('s Ctx \<times> (HookDelivery option list \<times> string) option \<times> (int \<times> int) option \<times> gerror option) \<times> Globals \<times> 's) option" where
  "executeListFailedDeliveries workerCtx ctx api p cursor =
     ExecuteGitHubClientFunction workerCtx ctx (selectWait api) (userGet api) (ListDeliveries api (deliveries_path (POwner p) (PRepo p) (PHookID p)) cursor)"

definition executeGetHookDelivery ::
    "'s Ctx \<Rightarrow> 's Ctx \<Rightarrow> 's HookApi \<Rightarrow> Plugin \<Rightarrow> int \<Rightarrow> Globals \<Rightarrow> 's \<Rightarrow>
     (('s Ctx \<times> string option option \<times> (int \<times> int) option \<times> gerror option) \<times> Globals \<times> 's) option" where
  "executeGetHookDelivery workerCtx ctx api p deliveryID =
     ExecuteGitHubClientFunction workerCtx ctx (selectWait api) (userGet api) (GetDelivery api (deliveries_path (POwner p) (PRepo p) (PHookID p)) deliveryID)"

definition executeRedeliverHookDelivery ::
    "'s Ctx \<Rightarrow> 's Ctx \<Rightarrow> 's HookApi \<Rightarrow> Plugin \<Rightarrow> int \<Rightarrow> Globals \<Rightarrow> 's \<Rightarrow>
     (('s Ctx \<times> unit option \<times> (int \<times> int) option \<times> gerror option) \<times> Globals \<times> 's) option" where
  "executeRedeliverHookDelivery workerCtx ctx api p deliveryID =
     ExecuteGitHubClientFunction workerCtx ctx (selectWait api) (userGet api) (Redeliver api (deliveries_path (POwner p) (PRepo p) (PHookID p)) deliveryID)"

text \<open>The status of the job, with the client of its organization.\<close>

definition fetchWorkflowJobStatus ::
    "'s Ctx \<Rightarrow> 's Ctx \<Rightarrow> 's HookApi \<Rightarrow> QueueJob \<Rightarrow> Globals \<Rightarrow> 's \<Rightarrow> ((string \<times> string) result \<times> Globals \<times> 's) option" where
  "fetchWorkflowJobStatus workerCtx ctx api job g s = (case RepositoryOwnerAndName job of
     Inl e \<Rightarrow> Some (Inl e, g, s)
   | Inr (owner, repo) \<Rightarrow> (case ID (WorkflowJob job) of
       None \<Rightarrow> Some (Inl (Errorf ''workflow job id is nil''), g, s)
     | Some i \<Rightarrow> (case JobClientFor api owner s of
         (Some e, s1) \<Rightarrow> Some (Inl e, g, s1)
       | (None, s1) \<Rightarrow> map_option (\<lambda>((_, res, _, err), g2, s2).
           (case err of Some e \<Rightarrow> Inl e
            | None \<Rightarrow> Inr (case res of None \<Rightarrow> ([], []) | Some (st, c) \<Rightarrow> (case_option [] id st, case_option [] id c)), g2, s2))
         (ExecuteGitHubClientFunction workerCtx ctx (selectWait api) (userGet api) (GetWorkflowJob api owner repo i) g s1))))"

section \<open>Listing\<close>

text \<open>One page: the deliveries up to the limit, and whether the limit was reached.\<close>

fun take_page :: "int \<Rightarrow> HookDelivery option list \<Rightarrow> HookDelivery list \<times> bool" where
  "take_page limit [] = ([], False)"
| "take_page limit (None # ds) = take_page limit ds"
| "take_page limit (Some d # ds) =
     (if HookAction d = None then take_page limit ds
      else if (case DeliveredAt d of None \<Rightarrow> False | Some t \<Rightarrow> limit > t) then ([], True)
      else (case take_page limit ds of (out, r) \<Rightarrow> (d # out, r)))"

type_synonym 's walk_state = "'s Ctx \<times> RedeliveryBudget option \<times> Globals \<times> 's"

definition spend :: "int \<Rightarrow> (int \<times> int) option \<Rightarrow> RedeliveryBudget option \<Rightarrow> RedeliveryBudget option" where
  "spend n response b = (case response of None \<Rightarrow> Record b n | Some (_, reset) \<Rightarrow> ApplyRate (Record b n) (Some reset))"

partial_function (option) list_failed ::
    "'s Ctx \<Rightarrow> 's HookApi \<Rightarrow> Plugin \<Rightarrow> int \<Rightarrow> string \<Rightarrow> HookDelivery list \<Rightarrow> 's walk_state \<Rightarrow>
     (HookDelivery list result \<times> 's walk_state) option" where
  [code]: "list_failed workerCtx api p limit cursor found w = (case w of (ctx, b, g, s) \<Rightarrow>
     (case Reserve workerCtx ctx (selectWait api) (rateClient api) 1 b g s of
        None \<Rightarrow> None
      | Some (Some e, b1, g1, s1) \<Rightarrow> Some (Inl e, (ctx, b1, g1, s1))
      | Some (None, b1, g1, s1) \<Rightarrow>
     (case executeListFailedDeliveries workerCtx ctx api p cursor g1 s1 of
        None \<Rightarrow> None
      | Some ((ctx2, res, response, err), g2, s2) \<Rightarrow>
          (let b2 = spend 1 response b1 in
           case err of
             Some e \<Rightarrow> Some (Inl (Errorf (''error listing hooks: '' @ Error e)), (ctx2, b2, g2, s2))
           | None \<Rightarrow> (case take_page limit (case res of None \<Rightarrow> [] | Some (ds, _) \<Rightarrow> ds) of (page, reachedLimit) \<Rightarrow>
               (let next = (case (response, res) of (Some _, Some (_, c)) \<Rightarrow> c | _ \<Rightarrow> []) in
                if next = [] \<or> reachedLimit then Some (Inr (found @ page), (ctx2, b2, g2, s2))
                else list_failed workerCtx api p limit next (found @ page) (ctx2, b2, g2, s2)))))))"

section \<open>One delivery\<close>

text \<open>What the databases say of the job of a delivery.\<close>

datatype verdict = SkipBoth | RemoveCompleted string string | SkipDone | DeliverAgain

definition judge :: "job_lists \<Rightarrow> job_lists \<Rightarrow> string \<Rightarrow> int \<Rightarrow> int \<Rightarrow> verdict" where
  "judge queued completed act statusCode i =
     (let inQueued = jobIDInQueueMap queued i;
          inCompleted = (if act = ''completed'' then jobIDInCompletedMap completed i else None) in
      case inCompleted of
        Some (key, json) \<Rightarrow> if inQueued then SkipBoth else RemoveCompleted key json
      | None \<Rightarrow> if statusCode = 200 then SkipDone else DeliverAgain)"

definition job_skipped :: "'s Ctx \<Rightarrow> 's Ctx \<Rightarrow> 's HookApi \<Rightarrow> string \<Rightarrow> QueueJob \<Rightarrow> RedeliveryBudget option \<Rightarrow> Globals \<Rightarrow> 's \<Rightarrow>
    (bool \<times> RedeliveryBudget option \<times> Globals \<times> 's) option" where
  "job_skipped workerCtx ctx api act job b g s =
     (if act \<noteq> ''queued'' then Some (False, b, g, s)
      else map_option (\<lambda>(r, g1, s1). (case r of Inl _ \<Rightarrow> False | Inr (st, c) \<Rightarrow> shouldSkipQueuedRedelivery st c, Record b 1, g1, s1))
        (fetchWorkflowJobStatus workerCtx ctx api job g s))"

definition job_of_payload :: "string option option \<Rightarrow> QueueJob option" where
  "job_of_payload res = (case res of
     Some (Some raw) \<Rightarrow> (case UnmarshalJob raw of
         Inr job \<Rightarrow> if ID (WorkflowJob job) = None then None else Some job
       | Inl _ \<Rightarrow> None)
   | _ \<Rightarrow> None)"

text \<open>
  The body of the loop after its reservation; the context it derives is local to the turn. The
  fields read for the log are dereferenced. The result says whether a redelivery was asked for.
\<close>

definition redeliver_turn :: "'s Ctx \<Rightarrow> 's HookApi \<Rightarrow> 's Database \<Rightarrow> Plugin \<Rightarrow> job_lists \<Rightarrow> job_lists \<Rightarrow> HookDelivery \<Rightarrow>
    's Ctx \<Rightarrow> RedeliveryBudget option \<Rightarrow> Globals \<Rightarrow> 's \<Rightarrow> (bool go \<times> RedeliveryBudget option \<times> Globals \<times> 's) option" where
  "redeliver_turn workerCtx api db p queued completed d ctx b g s =
     (case (DeliveryID d, GUID d, HookAction d, StatusCode d) of
        (Some i, Some _, Some act, Some statusCode) \<Rightarrow>
     (case executeGetHookDelivery workerCtx ctx api p i g s of None \<Rightarrow> None
      | Some ((ctx1, res, response, err), g1, s1) \<Rightarrow>
     (let b1 = spend 1 response b in
      case (if err \<noteq> None then None else job_of_payload res) of None \<Rightarrow> Some (Ret False, b1, g1, s1)
      | Some job \<Rightarrow> (case ID (WorkflowJob job) of None \<Rightarrow> Some (Ret False, b1, g1, s1) | Some jobID \<Rightarrow>
          if \<not> hasAnkaTemplateLabel (case Labels (WorkflowJob job) of None \<Rightarrow> [] | Some ls \<Rightarrow> ls) then Some (Ret False, b1, g1, s1)
          else (case job_skipped workerCtx ctx1 api act job b1 g1 s1 of None \<Rightarrow> None
             | Some (True, b2, g2, s2) \<Rightarrow> Some (Ret False, b2, g2, s2)
             | Some (False, b2, g2, s2) \<Rightarrow>
                 (case judge queued completed act statusCode jobID of
                    SkipBoth \<Rightarrow> Some (Ret False, b2, g2, s2)
                  | SkipDone \<Rightarrow> Some (Ret False, b2, g2, s2)
                  | RemoveCompleted key json \<Rightarrow> Some (Ret False, b2, g2, snd (RetryLRem ctx1 db key 1 json s2))
                  | DeliverAgain \<Rightarrow>
                      map_option (\<lambda>((_, _, resp, _), g3, s3).
                          (if Redelivery d = None then Panic else Ret True, spend 1 resp b2, g3, s3))
                        (executeRedeliverHookDelivery workerCtx ctx1 api p i g2 s2))))))
      | _ \<Rightarrow> Some (Panic, b, g, s))"

text \<open>The loop over the deliveries, oldest first.\<close>

fun redeliver_all :: "'s Ctx \<Rightarrow> 's HookApi \<Rightarrow> 's Database \<Rightarrow> Plugin \<Rightarrow> job_lists \<Rightarrow> job_lists \<Rightarrow> 's Ctx \<Rightarrow> HookDelivery list \<Rightarrow> bool \<Rightarrow>
    RedeliveryBudget option \<Rightarrow> Globals \<Rightarrow> 's \<Rightarrow> (bool result go \<times> RedeliveryBudget option \<times> Globals \<times> 's) option" where
  "redeliver_all workerCtx api db p queued completed ctx [] requested b g s = Some (Ret (Inr requested), b, g, s)"
| "redeliver_all workerCtx api db p queued completed ctx (d # ds) requested b g s =
     (case Reserve workerCtx ctx (selectWait api) (rateClient api) (redeliveryCallEstimate (hookAction (Some d))) b g s of
        None \<Rightarrow> None
      | Some (Some e, b1, g1, s1) \<Rightarrow> Some (Ret (Inl e), b1, g1, s1)
      | Some (None, b1, g1, s1) \<Rightarrow>
          (case redeliver_turn workerCtx api db p queued completed d ctx b1 g1 s1 of
             None \<Rightarrow> None
           | Some (Panic, b2, g2, s2) \<Rightarrow> Some (Panic, b2, g2, s2)
           | Some (Ret r, b2, g2, s2) \<Rightarrow> redeliver_all workerCtx api db p queued completed ctx ds (requested \<or> r) b2 g2 s2))"

section \<open>The walk\<close>

text \<open>The final pause lets the handlers take the jobs; it ends early with its context.\<close>

definition final_pause :: "'s Ctx \<Rightarrow> 's Ctx \<Rightarrow> 's \<Rightarrow> gerror option \<times> 's" where
  "final_pause workerCtx ctx s = (let s' = Sleep ctx (60 * second) s in
     (case CtxErr workerCtx s' of Some e \<Rightarrow> Some e | None \<Rightarrow> CtxErr ctx s', s'))"

definition runRedeliveryWalk :: "'s Ctx \<Rightarrow> 's Ctx \<Rightarrow> 's HookApi \<Rightarrow> 's Database \<Rightarrow> Plugin \<Rightarrow> string \<Rightarrow> Globals \<Rightarrow> 's \<Rightarrow>
    (gerror option go \<times> Globals \<times> 's) option" where
  "runRedeliveryWalk workerCtx pluginCtx api db p queueOwner g s =
     (case RefreshFromAPI (rateClient api) \<lparr>budget = 0, spent = 0, resetAt = None\<rparr> s of (_, b0, s0) \<Rightarrow>
      (case list_failed workerCtx api p (Now pluginCtx s0 - 3600 * second * PRedeliverHours p) [] [] (pluginCtx, Some b0, g, s0) of
         None \<Rightarrow> None
       | Some (Inl e, (ctx, b1, g1, s1)) \<Rightarrow> Some (Ret (Some e), g1, s1)
       | Some (Inr found, (ctx, b1, g1, s1)) \<Rightarrow>
           (case loadQueueJobsByPrefix ctx db (''anklet/jobs/github/queued/'' @ queueOwner @ ''*'') s1 of
              (Inl e, s2) \<Rightarrow> Some (Ret (Some e), g1, s2)
            | (Inr queued, s2) \<Rightarrow> (case loadQueueJobsByPrefix ctx db (''anklet/jobs/github/completed/'' @ queueOwner @ ''*'') s2 of
                (Inl e, s3) \<Rightarrow> Some (Ret (Some e), g1, s3)
              | (Inr completed, s3) \<Rightarrow>
                  (case redeliver_all workerCtx api db p queued completed ctx
                          (rev (filterFailedOriginalDeliveries (map Some found))) False b1 g1 s3 of
                     None \<Rightarrow> None
                   | Some (Panic, _, g4, s4) \<Rightarrow> Some (Panic, g4, s4)
                   | Some (Ret (Inl e), _, g4, s4) \<Rightarrow> Some (Ret (Some e), g4, s4)
                   | Some (Ret (Inr requested), _, g4, s4) \<Rightarrow>
                       (if requested then (case final_pause workerCtx ctx s4 of (e, s5) \<Rightarrow> Some (Ret e, g4, s5))
                        else Some (Ret None, g4, s4)))))))"

section \<open>Facts\<close>

lemma filterFailed_set:
  "d \<in> set (filterFailedOriginalDeliveries ds) \<longleftrightarrow> Some d \<in> set ds \<and> failed_original d"
  by (induction ds) (auto simp: filterFailedOriginalDeliveries_def map_filter_simps split: option.splits)

definition total_cost :: "string list \<Rightarrow> int" where
  "total_cost acts = sum_list (map redeliveryCallEstimate acts)"

lemma count_fitting_spec:
  "0 \<le> remaining \<Longrightarrow> count_fitting acts remaining \<le> length acts \<and>
    total_cost (take (count_fitting acts remaining) acts) \<le> remaining \<and>
    (count_fitting acts remaining < length acts \<longrightarrow> remaining < total_cost (take (Suc (count_fitting acts remaining)) acts))"
proof (induction acts arbitrary: remaining)
  case (Cons a acts)
  show ?case
  proof (cases "redeliveryCallEstimate a > remaining")
    case False
    then show ?thesis using Cons.IH [of "remaining - redeliveryCallEstimate a"]
      by (auto simp: total_cost_def Let_def)
  qed (use Cons.prems in \<open>simp add: total_cost_def\<close>)
qed (simp add: total_cost_def)

lemma jobIDInCompletedMap_Some:
  "jobIDInCompletedMap m i = Some (key, json) \<Longrightarrow> \<exists>jobs. (key, jobs) \<in> set m \<and> json \<in> set jobs \<and> job_has_id i json"
  by (induction m i rule: jobIDInCompletedMap.induct) (auto split: option.splits simp: find_Some_iff)

lemma take_page_fits:
  "d \<in> set (fst (take_page limit ds)) \<Longrightarrow>
     Some d \<in> set ds \<and> HookAction d \<noteq> None \<and> (\<forall>t. DeliveredAt d = Some t \<longrightarrow> limit \<le> t)"
  by (induction limit ds rule: take_page.induct) (auto split: prod.splits option.splits if_splits)

end
