(* ===== verification/Receiver_Properties.thy ===== *)
theory Receiver_Properties
  imports Redeliver Samples
begin

text \<open>
  Properties of the webhook receiver and of the redelivery of failed webhooks. The witnesses
  receive a sample event on the reference server.
\<close>

definition sample_event :: "string \<Rightarrow> WorkflowJobEvent" where
  "sample_event act = \<lparr>EAction = Some act, EJob = Some (WorkflowJob (sample_job 7 act)), ERepo = None\<rparr>"

definition sample_lib :: "string \<Rightarrow> Webhooks" where
  "sample_lib act = \<lparr>ValidatePayload = (\<lambda>_ _. None), ParseWebHook = (\<lambda>_. Inr (Some (Some (sample_event act))))\<rparr>"

definition sample_received :: "string \<Rightarrow> QueueJob" where
  "sample_received act = zero_QueueJob\<lparr>Type := ''WorkflowJobPayload'', WorkflowJob := WorkflowJob (sample_job 7 act), Action := act\<rparr>"

abbreviation request :: request where
  "request \<equiv> Some (Some (Inr ''{}''))"

lemma sample_decode: "act \<noteq> [] \<Longrightarrow> decodeReceiverWebhook (sample_lib act) request secret = Inr (Some (sample_received act))"
  by (simp add: decodeReceiverWebhook_def readWebhookPayload_def sample_lib_def sample_event_def sample_received_def
      queueJobFromWorkflowJobEvent_def repositoryFromEvent_def zero_QueueJob_def)

lemma sample_received_ok: "job_ok (sample_received act)"
  by (simp add: job_ok_def sample_received_def sample_job_def zero_QueueJob_def zero_WorkflowJob_def zero_VM_def id_ok_def ts_ok_def exact64_def)

lemma sample_wanted: "wants_anka (sample_received act)"
  by (simp add: wants_anka_def sample_received_def sample_job_def go_string)

lemma sample_received_fields [simp]: "ID (WorkflowJob (sample_received act)) = Some 7" "RunID (WorkflowJob (sample_received act)) = Some 100"
    "Action (sample_received act) = act"
  by (simp_all add: sample_received_def)

lemma sample_endpoint:
  "receiver_endpoint (sample_lib ''queued'') mem_ctx (mem_db 3) ''s'' ''veertu'' request (mem_init []) =
     Ret (StatusOK, mem_put ''anklet/jobs/github/queued/veertu'' [MarshalJob (sample_received ''queued'')] (mem_init []))"
  by (simp add: receiver_endpoint_def sample_decode receive_job_def receive_queued_def sample_wanted GetJobJSONFromQueueByID_def
      CheckIfJobExistsInHandlerQueues_def Let_def mem_simps)


abbreviation queued_mem :: mem where
  "queued_mem \<equiv> mem_put ''anklet/jobs/github/queued/veertu'' [MarshalJob (sample_received ''queued'')] (mem_init [])"

lemma plain_sample: "plain_pattern (''anklet/jobs/github/queued/'' @ ''veertu'')"
  by (simp add: plain_pattern_def backslash_def char_eq_nat)




text \<open>
  C26. A queued job is lost when Redis fails: the endpoint answers 200 although the job has not been stored, and a
  delivery answered with 200 is never among those the redelivery walk repeats.
\<close>

theorem failed_store_is_acknowledged:
  assumes "redis_db db view ctx" "decodeReceiverWebhook lib r secret = Inr (Some job)" "ID (WorkflowJob job) = Some i"
    and "Action job = ''queued''" "wants_anka job"
    and "GetJobJSONFromQueueByID ctx db i (''anklet/jobs/github/queued/'' @ queueOwner) s = (Inl e, s1)"
  shows "receiver_endpoint lib ctx db secret queueOwner r s = Ret (StatusOK, s1) \<and> view s1 = view s \<and>
     (\<forall>d ds. StatusCode d = Some StatusOK \<longrightarrow> d \<notin> set (filterFailedOriginalDeliveries ds))"
  using assms redis_db.GetJobJSON_law(1) [OF assms(1,6)]
  by (auto simp: receiver_endpoint_def receive_job_def receive_queued_def filterFailed_set failed_original_def StatusOK_def Let_def
      simp del: append_Cons)

abbreviation loading :: gerror where
  "loading \<equiv> Errorf ''LOADING Redis is loading the dataset in memory''"

lemma failed_store_is_acknowledged_witness:
  "receiver_endpoint (sample_lib ''queued'') mem_ctx (mem_db 3) ''s'' ''veertu'' request ((mem_init [])\<lparr>mfaults := [Some loading]\<rparr>) =
      Ret (StatusOK, mem_init []) \<and> mem_view (mem_init []) = mem_view ((mem_init [])\<lparr>mfaults := [Some loading]\<rparr>)"
proof -
  have "RetryLRange (Background mem_ctx) (mem_db 3) (''anklet/jobs/github/queued/'' @ ''veertu'') 0 (- 1) ((mem_init [])\<lparr>mfaults := [Some loading]\<rparr>) =
      (Inl loading, mem_init [])"
    unfolding RetryLRange_def
    by (rule retryOperation_error)
      (simp_all add: mem_db_def mem_client_def faulty_def mem_init_def isRetriableError_def ToLower_def lower_char_def go_string)
  then have "GetJobJSONFromQueueByID mem_ctx (mem_db 3) 7 (''anklet/jobs/github/queued/'' @ ''veertu'') ((mem_init [])\<lparr>mfaults := [Some loading]\<rparr>) =
      (Inl loading, mem_init [])" by (simp add: GetJobJSONFromQueueByID_def)
  from failed_store_is_acknowledged [OF mem.redis_db_axioms sample_decode _ _ sample_wanted this] show ?thesis by simp
qed

text \<open>
  \<open>countCandidatesFittingBudget\<close> counts the longest run of oldest deliveries that fits: together they cost at most the
  budget, and with the next one they would exceed it.
\<close>

theorem candidates_fit_budget:
  assumes "0 \<le> remaining" "n = countCandidatesFittingBudget acts remaining"
  shows "n \<le> length acts \<and> total_cost (take n (rev acts)) \<le> remaining \<and>
     (n < length acts \<longrightarrow> remaining < total_cost (take (Suc n) (rev acts)))"
  using count_fitting_spec [OF assms(1), of "rev acts"] assms by (simp add: countCandidatesFittingBudget_def)

lemma candidates_fit_budget_witness:
  "total_cost (take 1 (rev [''completed'', ''queued''])) \<le> 4 \<and> 4 < total_cost (take (Suc 1) (rev [''completed'', ''queued'']))"
  using candidates_fit_budget [of 4 1 "[''completed'', ''queued'']"]
  by (simp add: countCandidatesFittingBudget_def redeliveryCallEstimate_def)

end
