(* ===== verification/CheckCompleted.thy ===== *)
theory CheckCompleted
  imports Handler
begin

text \<open>
  \<open>checkForCompletedJobs\<close> of the handler: the goroutine that looks for the completion of the
  active job and turns the requests on the channels into a return of the job. One turn of its
  loop is \<open>check_turn\<close>, split along the sections of the source; the case a \<open>select\<close> takes is an
  argument. The lookups of the context at the start cannot fail in the program and end the
  process otherwise.
\<close>

section \<open>The requests\<close>

text \<open>The start of a turn while all jobs are being returned.\<close>

definition return_all :: "('s, 'h) HState \<Rightarrow> ('s, 'h) HState" where
  "return_all st =
     (let st1 = (if Unreturnable st then st
            else (case ReturnToMainQueue st of
               [] \<Rightarrow> st\<lparr>ReturnToMainQueue := [''return_all_to_main_queue'']\<rparr>
             | _ # rest \<Rightarrow> st\<lparr>ReturnToMainQueue := rest\<rparr>));
          st2 = st1\<lparr>JobChannel := tl (JobChannel st1)\<rparr>
      in st2\<lparr>JobChannel := JobChannel st2 @ [finish_job]\<rparr>)"

datatype check_event = CheckPaused | CheckRetry | CheckJob | CheckDefault

text \<open>Which cases of the \<open>select\<close> are ready; the default only when no other is.\<close>

definition ready :: "check_event \<Rightarrow> ('s, 'h) HState \<Rightarrow> bool" where
  "ready ev st \<longleftrightarrow> (case ev of
     CheckPaused \<Rightarrow> PausedCancellationJobChannel st \<noteq> []
   | CheckRetry \<Rightarrow> RetryChannel st \<noteq> []
   | CheckJob \<Rightarrow> JobChannel st \<noteq> []
   | CheckDefault \<Rightarrow> PausedCancellationJobChannel st = [] \<and> RetryChannel st = [] \<and> JobChannel st = [])"

text \<open>The retry case: a reason already pending for the main queue is taken out again.\<close>

definition retry_request :: "(unit, 's, 'h) action" where
  "retry_request st = (case RetryChannel st of
     [] \<Rightarrow> (Block, st)
   | retryReason # rest \<Rightarrow>
       (let st1 = st\<lparr>RetryChannel := rest\<rparr> in
        case ReturnToMainQueue st1 of
          _ # pending \<Rightarrow> (Go (), st1\<lparr>ReturnToMainQueue := pending\<rparr>)
        | [] \<Rightarrow>
            if retryReason = ''context_canceled'' then (Stop, st1)
            else and_then (send_return retryReason) (\<lambda>_. send_job finish_job) st1))"

definition mark_timed_out :: "QueueJob \<Rightarrow> QueueJob" where
  "mark_timed_out job = job\<lparr>Action := ''timed_out'',
     WorkflowJob := (WorkflowJob job)\<lparr>Conclusion := Some ''timed_out'', Status := Some ''timed_out''\<rparr>\<rparr>"

text \<open>Saving a job whatever comes of it; the goroutine ends after it.\<close>

definition save_and_stop :: "'s Ctx \<Rightarrow> 's Database \<Rightarrow> string \<Rightarrow> QueueJob \<Rightarrow> (unit, 's, 'h) action" where
  "save_and_stop ctx db queue job st = (case on_db (UpdateJobInDB ctx db queue job) st of
     (Panic, st') \<Rightarrow> (Crash, st') | (Ret _, st') \<Rightarrow> (Stop, st'))"

definition job_request :: "'s Ctx \<Rightarrow> 's Ctx \<Rightarrow> 's Database \<Rightarrow> 's Api \<Rightarrow> Queues \<Rightarrow> (unit, 's, 'h) action" where
  "job_request workerCtx ctx db api q st = (case JobChannel st of
     [] \<Rightarrow> (Block, st)
   | job # rest \<Rightarrow>
       (let st1 = st\<lparr>JobChannel := rest\<rparr> in
        if Action job = ''finish'' then (Stop, st1)
        else if Action job = ''timed_out'' then save_and_stop ctx db (pluginQueueName q) (mark_timed_out job) st1
        else if Action job = ''cancel''
        then and_then (sendCancelWorkflowRun workerCtx ctx api job)
               (\<lambda>_. save_and_stop ctx db (pluginQueueName q) (job\<lparr>Action := ''canceled''\<rparr>)) st1
        else (Go (), st1)))"

definition check_requests :: "'s Ctx \<Rightarrow> 's Ctx \<Rightarrow> 's Database \<Rightarrow> 's Api \<Rightarrow> Queues \<Rightarrow> check_event \<Rightarrow> (unit, 's, 'h) action" where
  "check_requests workerCtx ctx db api q ev st = (case ev of
     CheckPaused \<Rightarrow> (case PausedCancellationJobChannel st of
        [] \<Rightarrow> (Block, st)
      | _ # rest \<Rightarrow> (Stop, st\<lparr>PausedCancellationJobChannel := rest @ [finish_job]\<rparr>))
   | CheckRetry \<Rightarrow> retry_request st
   | CheckJob \<Rightarrow> job_request workerCtx ctx db api q st
   | CheckDefault \<Rightarrow> (Go (), st))"

section \<open>The active job\<close>

text \<open>The head of the plugin's queue: \<open>None\<close> when there is no job or the queue cannot be read.\<close>

definition active_job :: "'s Ctx \<Rightarrow> 's Database \<Rightarrow> Queues \<Rightarrow> ((int \<times> QueueJob) option, 's, 'h) action" where
  "active_job ctx db q st = (case on_db (RetryLIndex ctx db (pluginQueueName q) 0) st of
     (Inl e, st1) \<Rightarrow> (Go None, st1\<lparr>StillInProgressPollCount := 0\<rparr>)
   | (Inr json, st1) \<Rightarrow>
       if json = [] then (Go None, st1\<lparr>StillInProgressPollCount := 0\<rparr>)
       else (case Unwrap json of
          Inl e \<Rightarrow> (Stop, st1)
        | Inr job \<Rightarrow> (case ID (WorkflowJob job) of None \<Rightarrow> (Stop, st1) | Some i \<Rightarrow> (Go (Some (i, job)), st1))))"

text \<open>
  Whether the job is in the in-progress queue: the payload found there, the job with its new
  status, and whether the database has to be updated.
\<close>

definition note_in_progress :: "'s Ctx \<Rightarrow> 's Database \<Rightarrow> Queues \<Rightarrow> int \<Rightarrow> QueueJob \<Rightarrow> (string \<times> QueueJob \<times> bool, 's, 'h) action" where
  "note_in_progress ctx db q i job =
     and_then (db_or_stop (GetJobJSONFromQueueByID ctx db i (mainInProgressQueueName q))) (\<lambda>json st.
       if json = [] then (Go (json, job, False), st\<lparr>StillInProgressPollCount := 0\<rparr>)
       else (let st1 = st\<lparr>StillInProgressPollCount := StillInProgressPollCount st + 1\<rparr> in
         case Unwrap json of
           Inl e \<Rightarrow> (Stop, st1)
         | Inr inProgress \<Rightarrow> (case (Status (WorkflowJob job), Status (WorkflowJob inProgress)) of
             (Some a, Some b) \<Rightarrow> (Go (json, set_status ''in_progress'' (job\<lparr>Action := ''in_progress''\<rparr>), a \<noteq> b), st1)
           | _ \<Rightarrow> (Crash, st1))))"

text \<open>The payloads of the completed job: in the plugin's queue, else in the main one.\<close>

definition find_completed :: "'s Ctx \<Rightarrow> 's Database \<Rightarrow> Queues \<Rightarrow> int \<Rightarrow> (string \<times> string, 's, 'h) action" where
  "find_completed ctx db q i =
     and_then (db_or_stop (GetJobJSONFromQueueByID ctx db i (pluginCompletedQueueName q))) (\<lambda>own.
       if own \<noteq> [] then (\<lambda>st. (Go (own, []), st))
       else and_then (db_or_stop (GetJobJSONFromQueueByID ctx db i (mainCompletedQueueName q))) (\<lambda>main st. (Go (own, main), st)))"

text \<open>A completion in the plugin's own queue: the job is announced if the channel has room.\<close>

definition own_completed :: "QueueJob \<Rightarrow> (QueueJob, 's, 'h) action" where
  "own_completed job st = (let job' = set_status ''completed'' (job\<lparr>Action := ''finish''\<rparr>) in
     (Go job', if JobChannel st = [] then st\<lparr>JobChannel := [job']\<rparr> else st))"

text \<open>
  A completion in the main queue: it is removed there, the job takes its status and conclusion,
  the payload moves to the plugin's completed queue, and the job is announced in place of
  whatever is on the channel. The index into the main queue is reset every other run.
\<close>

definition reset_index :: "Plugin \<Rightarrow> Globals \<Rightarrow> Globals turn" where
  "reset_index p g = (case own_global p g of None \<Rightarrow> Crash
     | Some own \<Rightarrow> Go (if PluginRunCount own mod 2 = 0 then ResetQueueTargetIndex g else g))"

definition main_completed :: "'s Ctx \<Rightarrow> 's Database \<Rightarrow> Plugin \<Rightarrow> Queues \<Rightarrow> string \<Rightarrow> QueueJob \<Rightarrow> (QueueJob, 's, 'h) action" where
  "main_completed ctx db plugin q json job =
     and_then (db_or_stop (RetryLLen ctx db (mainCompletedQueueName q))) (\<lambda>_.
     and_then (db_or_stop (RetryLRem (Background ctx) db (mainCompletedQueueName q) 1 json)) (\<lambda>success.
     if success \<noteq> 1 then (\<lambda>st. (Stop, st))
     else and_then (pure_or_stop (Unwrap json)) (\<lambda>completed.
       let job' = job\<lparr>WorkflowJob := (WorkflowJob job)\<lparr>Status := Status (WorkflowJob completed), Conclusion := Conclusion (WorkflowJob completed)\<rparr>\<rparr> in
       and_then (db_or_stop (RetryLPush (Background ctx) db (pluginCompletedQueueName q) [json])) (\<lambda>_ st.
         let st1 = st\<lparr>JobChannel := tl (JobChannel st)\<rparr> in
         case reset_index plugin (hGlobals st1) of
           Go g \<Rightarrow> and_then (send_job job') (\<lambda>_ st2. (Go job', st2)) (st1\<lparr>hGlobals := g\<rparr>)
         | _ \<Rightarrow> (Crash, st1)))))"

text \<open>The first turn of a run asks GitHub for the status of a job in progress.\<close>

definition ask_github :: "'s Ctx \<Rightarrow> 's Database \<Rightarrow> 's Api \<Rightarrow> Queues \<Rightarrow> QueueJob \<Rightarrow> (QueueJob, 's, 'h) action" where
  "ask_github ctx db api q job st = (case on_db (UpdateJobsWorkflowJobStatus (ClientFor api) (GetJob api) job) st of
     (Panic, st1) \<Rightarrow> (Crash, st1)
   | (Ret (job1, Some e), st1) \<Rightarrow> (Stop, st1)
   | (Ret (job1, None), st1) \<Rightarrow>
       (let status = Status (WorkflowJob job1);
            job2 = (if status = Some ''in_progress'' then job1\<lparr>Action := ''in_progress''\<rparr> else job1) in
        and_then (if status = Some ''completed'' \<or> status = Some ''failed'' \<or> status = Some ''cancelled''
                  then and_then (db_or_stop (RetryLPush ctx db (pluginCompletedQueueName q) [MarshalJob job1])) (\<lambda>_ st2. (Go (), st2))
                  else (\<lambda>st2. (Go (), st2)))
          (\<lambda>_. and_then (send_job job2) (\<lambda>_ st3. (Go job2, st3))) st1))"

definition save_status :: "'s Ctx \<Rightarrow> 's Database \<Rightarrow> Queues \<Rightarrow> bool \<Rightarrow> QueueJob \<Rightarrow> (unit, 's, 'h) action" where
  "save_status ctx db q updateDB job st =
     (if \<not> updateDB then (Go (), st)
      else (case on_db (UpdateJobInDB ctx db (pluginQueueName q) job) st of
         (Panic, st1) \<Rightarrow> (Crash, st1)
       | (Ret (err, completed), st1) \<Rightarrow> if completed \<noteq> None then (Stop, st1) else (Go (), st1)))"

text \<open>The part of a turn that looks at the active job; its value is the job as it is left.\<close>

definition check_active :: "'s Ctx \<Rightarrow> 's Database \<Rightarrow> 's Api \<Rightarrow> Plugin \<Rightarrow> Queues \<Rightarrow> (QueueJob option, 's, 'h) action" where
  "check_active ctx db api plugin q =
     and_then (active_job ctx db q) (\<lambda>active. case active of
       None \<Rightarrow> (\<lambda>st. (Go None, st))
     | Some (i, job) \<Rightarrow>
         and_then (note_in_progress ctx db q i job) (\<lambda>(inProgress, job1, update1).
         and_then (find_completed ctx db q i) (\<lambda>(own, main).
         and_then (if own \<noteq> [] then own_completed job1 else (\<lambda>st. (Go job1, st))) (\<lambda>job2.
         and_then (if main \<noteq> [] then main_completed ctx db plugin q main job2 else (\<lambda>st. (Go job2, st))) (\<lambda>job3 st.
           let ask = \<not> FirstCheckForCompletedJobsRan st \<and> main = [] \<and> own = [] \<and> inProgress \<noteq> [] in
           and_then (if ask then ask_github ctx db api q job3 else (\<lambda>st. (Go job3, st))) (\<lambda>job4.
           and_then (save_status ctx db q (update1 \<or> own \<noteq> [] \<or> main \<noteq> [] \<or> ask) job4) (\<lambda>_ st. (Go (Some job4), st))) st)))))"

section \<open>The turn\<close>

definition check_timeout :: int where
  "check_timeout = 6 * 60 * 60 * second"

text \<open>
  \<open>startTime\<close> is the start of the goroutine. Every return runs the deferred call, which sets
  the flag of the first check.
\<close>

definition check_body :: "'s Ctx \<Rightarrow> 's Ctx \<Rightarrow> 's Database \<Rightarrow> 's Api \<Rightarrow> Plugin \<Rightarrow> Queues \<Rightarrow> int \<Rightarrow> check_event \<Rightarrow> (unit, 's, 'h) action" where
  "check_body workerCtx ctx db api plugin q startTime ev st =
     (let st1 = st\<lparr>CheckForCompletedJobsRunCount := CheckForCompletedJobsRunCount st + 1\<rparr>;
          st2 = (if ReturnAllToMainQueue (hGlobals st1) then return_all st1 else st1) in
      and_then (check_requests workerCtx ctx db api q ev) (\<lambda>_.
      and_then (check_active ctx db api plugin q) (\<lambda>ojob st3.
      and_then (case ojob of
           None \<Rightarrow> (\<lambda>st. (Go (), st))
         | Some job \<Rightarrow> if Now ctx (hDB st3) - startTime \<ge> check_timeout then send_job (job\<lparr>Action := ''timed_out''\<rparr>)
             else (\<lambda>st. (Go (), st)))
        (\<lambda>_ st4.
           if CtxErr workerCtx (hDB st4) \<noteq> None \<or> CtxErr ctx (hDB st4) \<noteq> None then (Stop, st4)
           else (Go (), st4\<lparr>FirstCheckForCompletedJobsRan := True, hDB := Sleep ctx (3 * second) (hDB st4)\<rparr>)) st3)) st2)"

definition check_turn :: "'s Ctx \<Rightarrow> 's Ctx \<Rightarrow> 's Database \<Rightarrow> 's Api \<Rightarrow> Plugin \<Rightarrow> Queues \<Rightarrow> int \<Rightarrow> check_event \<Rightarrow> (unit, 's, 'h) action" where
  "check_turn workerCtx ctx db api plugin q startTime ev st =
     (case check_body workerCtx ctx db api plugin q startTime ev st of
        (Stop, st') \<Rightarrow> (Stop, st'\<lparr>FirstCheckForCompletedJobsRan := True\<rparr>)
      | out \<Rightarrow> out)"

section \<open>Facts\<close>

text \<open>
  A request to return all jobs, or a retry, that finds a reason already pending takes it away:
  the job would then stay on this host's queue.
\<close>

lemma return_all_pending:
  "\<not> Unreturnable st \<Longrightarrow> ReturnToMainQueue st = [r] \<Longrightarrow> ReturnToMainQueue (return_all st) = []"
  by (simp add: return_all_def Let_def)

lemma return_all_empty:
  "\<not> Unreturnable st \<Longrightarrow> ReturnToMainQueue st = [] \<Longrightarrow> ReturnToMainQueue (return_all st) = [''return_all_to_main_queue'']"
  by (simp add: return_all_def Let_def)

lemma retry_request_pending:
  "RetryChannel st = [reason] \<Longrightarrow> ReturnToMainQueue st = [r] \<Longrightarrow>
     retry_request st = (Go (), st\<lparr>RetryChannel := [], ReturnToMainQueue := []\<rparr>)"
  by (simp add: retry_request_def Let_def)

text \<open>The channels keep their capacity.\<close>

definition channels_ok :: "('s, 'h) HState \<Rightarrow> bool" where
  "channels_ok st \<longleftrightarrow> length (JobChannel st) \<le> 1 \<and> length (RetryChannel st) \<le> 1 \<and>
     length (PausedCancellationJobChannel st) \<le> 1 \<and> length (ReturnToMainQueue st) \<le> 1"

end
