(* ===== verification/Cleanup.thy ===== *)
theory Cleanup
  imports CheckCompleted
begin

text \<open>
  \<open>cleanup\<close> of the handler: what happens to the jobs and VMs on the plugin's queue when a run
  ends. It works with a context of its own and a database client without retries. The loop
  over the cleaning queue is bounded by fuel; one more than the entries of the two queues is
  enough. The facts: each entry is taken from the back, a VM entry is removed for good, and a
  job that is not over is put back on a queue with its payload, or its payload with the action
  and the number of attempts updated. The exception is a failed push to the main queue.
\<close>

section \<open>The definitions\<close>

text \<open>The deferred updates of the plugin's own globals.\<close>

definition cleanup_release :: "Plugin \<Rightarrow> bool \<Rightarrow> ('s, 'h) HState \<Rightarrow> ('s, 'h) HState" where
  "cleanup_release plugin onStartRun st = st\<lparr>hGlobals := set_own_global plugin
     (\<lambda>g. g\<lparr>Preparing := (if onStartRun then Preparing g else False), FinishedInitialRun := True, Paused := False\<rparr>) (hGlobals st)\<rparr>"

text \<open>
  Deleting by ID with the error only logged; a job without an ID, there or here, is a nil
  pointer.
\<close>

definition delete_logged :: "'s Ctx \<Rightarrow> 's Database \<Rightarrow> QueueJob \<Rightarrow> string \<Rightarrow> (unit, 's, 'h) action" where
  "delete_logged ctx db job queue st = (case ID (WorkflowJob job) of
     None \<Rightarrow> (Crash, st)
   | Some i \<Rightarrow> (case on_db (DeleteFromQueue ctx db i queue) st of
        (Panic, st') \<Rightarrow> (Crash, st') | (Ret _, st') \<Rightarrow> (Go (), st')))"

text \<open>The entry to clean: the one being cleaned already, else the last of the plugin's queue.\<close>

definition next_cleaning :: "'s Ctx \<Rightarrow> 's Database \<Rightarrow> Queues \<Rightarrow> bool \<Rightarrow> (string, 's, 'h) action" where
  "next_cleaning ctx db q onStartRun st = (case on_db (RetryLIndex ctx db (cleaningQueueName q) 0) st of
     (r, st1) \<Rightarrow>
       (if (case r of Inl e \<Rightarrow> e \<noteq> RedisNil | Inr _ \<Rightarrow> False) then (Stop, st1)
        else (case r of
          Inr (c # cs) \<Rightarrow> (Go (c # cs), st1)
        | _ \<Rightarrow> if onStartRun then (Stop, st1)
            else db_or_stop (RetryRPopLPush ctx db (pluginQueueName q) (cleaningQueueName q)) st1)))"

definition clean_vm :: "'s Ctx \<Rightarrow> 's Database \<Rightarrow> 'h Cli \<Rightarrow> bool \<Rightarrow> Queues \<Rightarrow> QueueJob \<Rightarrow> (unit, 's, 'h) action" where
  "clean_vm ctx db cli debug q job st =
     (let vm = VMName (AnkaVM job);
          h1 = (if debug then snd (AnkaCopyOutOfVM cli vm ''/Users/anka/actions-runner/_diag'' (''/tmp/'' @ vm) (hHost st)) else hHost st);
          h2 = snd (AnkaDelete cli vm h1)
      in and_then (db_or_stop (RetryDel ctx db [cleaningQueueName q])) (\<lambda>_ st'. (Go (), st')) (st\<lparr>hHost := h2\<rparr>))"

text \<open>A completed job: the leftover completion is removed, then both the records of the job.\<close>

definition clean_completed :: "'s Ctx \<Rightarrow> 's Ctx \<Rightarrow> 's Database \<Rightarrow> 's Database \<Rightarrow> Queues \<Rightarrow> QueueJob \<Rightarrow> (unit, 's, 'h) action" where
  "clean_completed pluginCtx ctx pluginDb db q job st = (case ID (WorkflowJob job) of
     None \<Rightarrow> (Crash, st)
   | Some i \<Rightarrow> (case on_db (GetJobJSONFromQueueByID pluginCtx pluginDb i (mainCompletedQueueName q)) st of
       (r, st1) \<Rightarrow>
         and_then (case r of
             Inr (c # cs) \<Rightarrow> and_then (db_or_stop (RetryLRem ctx db (mainCompletedQueueName q) 1 (c # cs)))
                (\<lambda>success st2. (if success \<noteq> 1 then Stop else Go (), st2))
           | _ \<Rightarrow> (\<lambda>st2. (Go (), st2)))
         (\<lambda>_. and_then (db_or_stop (RetryDel ctx db [pluginCompletedQueueName q]))
         (\<lambda>_. and_then (db_or_stop (RetryDel ctx db [cleaningQueueName q])) (\<lambda>_ st3. (Stop, st3)))) st1))"

definition counts_as_attempt :: "string \<Rightarrow> bool" where
  "counts_as_attempt reason \<longleftrightarrow> reason \<noteq> ''not_enough_host_resources'' \<and> reason \<noteq> ''pull_already_running_on_host''"

definition requeued :: "string \<Rightarrow> QueueJob \<Rightarrow> QueueJob" where
  "requeued reason job = job\<lparr>Action := ''queued'',
     Attempts := (if counts_as_attempt reason then Attempts job + 1 else Attempts job)\<rparr>"

text \<open>Back to the main queue: popped, changed, pushed, and forgotten elsewhere.\<close>

definition return_to_main :: "'s Ctx \<Rightarrow> 's Database \<Rightarrow> Queues \<Rightarrow> string \<Rightarrow> (unit, 's, 'h) action" where
  "return_to_main ctx db q reason =
     and_then (db_or_stop (RetryRPop ctx db (cleaningQueueName q))) (\<lambda>json.
     and_then (pure_or_stop (Unwrap json)) (\<lambda>job.
     and_then (db_or_stop (RetryLPush ctx db (mainQueueName q) [MarshalJob (requeued reason job)])) (\<lambda>_.
     and_then (delete_logged ctx db job (pausedQueueName q)) (\<lambda>_.
     and_then (db_or_stop (RetryDel ctx db [cleaningQueueName q])) (\<lambda>_ st. (Stop, st))))))"

definition put_back :: "'s Ctx \<Rightarrow> 's Database \<Rightarrow> Queues \<Rightarrow> QueueJob \<Rightarrow> (unit, 's, 'h) action" where
  "put_back ctx db q job =
     (if Status (WorkflowJob job) \<in> {Some ''completed'', Some ''failed'', Some ''timed_out''}
      then and_then (db_or_stop (RetryDel ctx db [cleaningQueueName q])) (\<lambda>_ st. (Stop, st))
      else and_then (db_or_stop (RetryRPopLPush ctx db (cleaningQueueName q) (pluginQueueName q))) (\<lambda>_.
           and_then (db_or_stop (RetryDel ctx db [cleaningQueueName q])) (\<lambda>_ st. (Stop, st))))"

text \<open>
  A job entry. Its \<open>select\<close> may find both the paused and the return channel ready: \<open>paused_first\<close>
  says which it takes.
\<close>

definition clean_job :: "'s Ctx \<Rightarrow> 's Ctx \<Rightarrow> 's Database \<Rightarrow> 's Database \<Rightarrow> Queues \<Rightarrow> bool \<Rightarrow> QueueJob \<Rightarrow> (unit, 's, 'h) action" where
  "clean_job pluginCtx ctx pluginDb db q paused_first job =
     and_then (delete_logged ctx db job (mainInProgressQueueName q)) (\<lambda>_.
     if Status (WorkflowJob job) = Some ''completed'' then clean_completed pluginCtx ctx pluginDb db q job
     else (\<lambda>st.
       (case (PausedCancellationJobChannel st, ReturnToMainQueue st) of
          ([], []) \<Rightarrow> put_back ctx db q job st
        | (paused, returns) \<Rightarrow>
            if paused \<noteq> [] \<and> (returns = [] \<or> paused_first)
            then and_then (db_or_stop (RetryDel ctx db [cleaningQueueName q])) (\<lambda>_ st'. (Stop, st'))
                   (st\<lparr>PausedCancellationJobChannel := tl paused\<rparr>)
            else return_to_main ctx db q (hd returns) (st\<lparr>ReturnToMainQueue := tl returns\<rparr>))))"

text \<open>One turn of the loop: \<open>Go\<close> takes the next entry.\<close>

definition cleanup_turn :: "'s Ctx \<Rightarrow> 's Ctx \<Rightarrow> 's Database \<Rightarrow> 's Database \<Rightarrow> 'h Cli \<Rightarrow> bool \<Rightarrow> Queues \<Rightarrow> bool \<Rightarrow> bool \<Rightarrow> (unit, 's, 'h) action" where
  "cleanup_turn pluginCtx ctx pluginDb db cli debug q onStartRun paused_first =
     and_then (next_cleaning ctx db q onStartRun) (\<lambda>json.
     and_then (pure_or_stop (Unwrap json)) (\<lambda>job.
       if Type job = ''anka.VM'' then clean_vm ctx db cli debug q job
       else if Type job = ''WorkflowJobPayload'' then clean_job pluginCtx ctx pluginDb db q paused_first job
       else (\<lambda>st. (Stop, st))))"

fun cleanup_queue :: "nat \<Rightarrow> 's Ctx \<Rightarrow> 's Ctx \<Rightarrow> 's Database \<Rightarrow> 's Database \<Rightarrow> 'h Cli \<Rightarrow> bool \<Rightarrow> Queues \<Rightarrow> bool \<Rightarrow> bool \<Rightarrow> (unit, 's, 'h) action" where
  "cleanup_queue 0 pluginCtx ctx pluginDb db cli debug q onStartRun pf = (\<lambda>st. (Go (), st))"
| "cleanup_queue (Suc fuel) pluginCtx ctx pluginDb db cli debug q onStartRun pf =
     and_then (cleanup_turn pluginCtx ctx pluginDb db cli debug q onStartRun pf)
       (\<lambda>_. cleanup_queue fuel pluginCtx ctx pluginDb db cli debug q onStartRun pf)"

text \<open>The checks before the loop: nothing to clean, picked up elsewhere, or still running.\<close>

definition cleanup_guard :: "'s Ctx \<Rightarrow> 's Ctx \<Rightarrow> 's Database \<Rightarrow> 's Database \<Rightarrow> Queues \<Rightarrow> (unit, 's, 'h) action" where
  "cleanup_guard pluginCtx ctx pluginDb db q =
     and_then (db_or_stop (RetryLIndex ctx db (pluginQueueName q) 0)) (\<lambda>json.
     and_then (pure_or_stop (Unwrap json)) (\<lambda>original st.
       if PausedCancellationJobChannel st \<noteq> []
       then and_then (delete_logged pluginCtx pluginDb original (pausedQueueName q)) (\<lambda>_ st'. (Stop, st'))
              (st\<lparr>PausedCancellationJobChannel := tl (PausedCancellationJobChannel st)\<rparr>)
       else if Status (WorkflowJob original) \<noteq> None \<and>
          (Status (WorkflowJob original) = Some ''in_progress'' \<or> (ReturnAllToMainQueue (hGlobals st) \<and> Action original = ''in_progress''))
       then (Stop, st)
       else (Go (), st)))"

definition cleanup :: "nat \<Rightarrow> 's Ctx \<Rightarrow> 's Database \<Rightarrow> 'h Cli \<Rightarrow> bool \<Rightarrow> Plugin \<Rightarrow> Queues \<Rightarrow> bool \<Rightarrow> bool \<Rightarrow> (unit, 's, 'h) action" where
  "cleanup fuel pluginCtx serviceDatabase cli debug plugin q onStartRun pf st =
     (let ctx = Background pluginCtx; db = serviceDatabase\<lparr>MaxRetries := 0\<rparr> in
      case and_then (cleanup_guard pluginCtx ctx serviceDatabase db q)
             (\<lambda>_. cleanup_queue fuel pluginCtx ctx serviceDatabase db cli debug q onStartRun pf) st of
        (Crash, st') \<Rightarrow> (Crash, st')
      | (out, st') \<Rightarrow> (out, cleanup_release plugin onStartRun st'))"

section \<open>Facts\<close>

lemma and_thenE:
  assumes "and_then m f st = (r, st')"
  obtains a s1 where "m st = (Go a, s1)" "f a s1 = (r, st')"
  | "m st = (Stop, st')" "r = Stop" | "m st = (Block, st')" "r = Block" | "m st = (Crash, st')" "r = Crash"
  using assms by (auto simp: and_then_def split: prod.splits turn.splits)

lemma db_or_stopE:
  assumes "db_or_stop op st = (r, st')"
  obtains a s' where "op (hDB st) = (Inr a, s')" "r = Go a" "st' = st\<lparr>hDB := s'\<rparr>"
  | e s' where "op (hDB st) = (Inl e, s')" "r = Stop" "st' = st\<lparr>hDB := s'\<rparr>"
  using assms by (auto simp: db_or_stop_def on_db_def split: prod.splits sum.splits)

lemma pure_or_stopE:
  assumes "pure_or_stop x st = (r, st')"
  obtains a where "x = Inr a" "r = Go a" "st' = st" | e where "x = Inl e" "r = Stop" "st' = st"
  using assms by (auto simp: pure_or_stop_def split: sum.splits)

text \<open>The loop goes round again only after a VM, whatever the database does.\<close>

lemma and_then_no_go: "(\<And>a s. fst (f a s) \<noteq> Go b) \<Longrightarrow> fst (and_then m f st) \<noteq> Go b"
  by (simp add: and_then_def split: prod.split turn.split)

lemma stop_no_go: "fst (and_then m (\<lambda>_. Pair Stop) st) \<noteq> Go b"
  by (rule and_then_no_go) simp

lemma clean_completed_returns: "fst (clean_completed pc ctx pdb db q job st) \<noteq> Go ()"
  unfolding clean_completed_def
  by (simp split: option.split prod.split, intro allI impI) (rule and_then_no_go, rule and_then_no_go, rule and_then_no_go, simp)

lemma return_to_main_returns: "fst (return_to_main ctx db q reason st) \<noteq> Go ()"
  unfolding return_to_main_def by (rule and_then_no_go)+ simp

lemma put_back_returns: "fst (put_back ctx db q job st) \<noteq> Go ()"
  unfolding put_back_def by (simp, intro conjI impI) (rule and_then_no_go, (rule and_then_no_go)?, simp)+

lemma clean_job_returns: "fst (clean_job pc ctx pdb db q pf job st) \<noteq> Go ()"
  unfolding clean_job_def
proof (rule and_then_no_go)
  fix a s
  show "fst ((if Status (WorkflowJob job) = Some ''completed'' then clean_completed pc ctx pdb db q job
     else (\<lambda>st.
       (case (PausedCancellationJobChannel st, ReturnToMainQueue st) of
          ([], []) \<Rightarrow> put_back ctx db q job st
        | (paused, returns) \<Rightarrow>
            if paused \<noteq> [] \<and> (returns = [] \<or> pf)
            then and_then (db_or_stop (RetryDel ctx db [cleaningQueueName q])) (\<lambda>_ st'. (Stop, st'))
                   (st\<lparr>PausedCancellationJobChannel := tl paused\<rparr>)
            else return_to_main ctx db q (hd returns) (st\<lparr>ReturnToMainQueue := tl returns\<rparr>)))) s) \<noteq> Go ()"
    by (simp add: clean_completed_returns return_to_main_returns put_back_returns stop_no_go split: list.split)
qed

context redis_db
begin

lemma delete_logged_view:
  assumes "delete_logged (Background ctx) db job queue st = (r, st')"
  shows "(view (hDB st') = view (hDB st) \<or> (\<exists>x. view (hDB st') = (view (hDB st))(queue := remove1 x (view (hDB st) queue))))
     \<and> (r = Go () \<or> r = Crash) \<and> st'\<lparr>hDB := hDB st\<rparr> = st"
proof (cases "ID (WorkflowJob job)")
  case (Some i)
  obtain d s1 where d: "DeleteFromQueue (Background ctx) db i queue (hDB st) = (d, s1)" by fastforce
  show ?thesis
    using assms Some d redis_db.delete_frame [OF bg d]
    by (auto simp: delete_logged_def on_db_def split: go.splits)
qed (use assms in \<open>simp add: delete_logged_def\<close>)

lemma next_cleaning_law:
  assumes "next_cleaning (Background ctx) db q b st = (Go json, st')" "pluginQueueName q \<noteq> cleaningQueueName q"
  shows "(view (hDB st) (cleaningQueueName q) \<noteq> [] \<and> json = hd (view (hDB st) (cleaningQueueName q)) \<and> view (hDB st') = view (hDB st))
     \<or> (\<not> b \<and> view (hDB st) (pluginQueueName q) \<noteq> [] \<and> json = last (view (hDB st) (pluginQueueName q)) \<and>
        view (hDB st') = (view (hDB st))(pluginQueueName q := butlast (view (hDB st) (pluginQueueName q)),
           cleaningQueueName q := json # view (hDB st) (cleaningQueueName q)))"
proof -
  let ?v = "view (hDB st)" and ?c = "cleaningQueueName q" and ?p = "pluginQueueName q"
  obtain r s1 where l: "RetryLIndex (Background ctx) db ?c 0 (hDB st) = (r, s1)" by fastforce
  have v1: "view s1 = ?v" by (rule bg_LIndex_view [OF l])
  show ?thesis
  proof (cases "\<exists>c cs. r = Inr (c # cs)")
    case True
    then obtain c cs where r: "r = Inr (c # cs)" by blast
    then show ?thesis using assms(1) l v1 bg_LIndexD(1) [OF l r]
      by (auto simp: next_cleaning_def on_db_def split: list.splits)
  next
    case False
    then have m: "\<not> b \<and> db_or_stop (RetryRPopLPush (Background ctx) db ?p ?c) (st\<lparr>hDB := s1\<rparr>) = (Go json, st')"
      using assms(1) l by (auto simp: next_cleaning_def on_db_def split: sum.splits list.splits if_splits)
    then obtain s2 where s2: "RetryRPopLPush (Background ctx) db ?p ?c s1 = (Inr json, s2)" "st' = st\<lparr>hDB := s2\<rparr>"
      by (auto elim: db_or_stopE)
    show ?thesis using bg_RPopLPushD(1) [OF s2(1) refl] v1 m s2(2) assms(2) by (simp add: Let_def)
  qed
qed

text \<open>A turn that goes round again has one entry less before it: the loop ends.\<close>

lemma cleanup_turn_decreases:
  assumes "cleanup_turn pc (Background ctx) pdb db cli debug q b pf st = (Go (), st')" "pluginQueueName q \<noteq> cleaningQueueName q"
  shows "length (view (hDB st') (pluginQueueName q)) + length (view (hDB st') (cleaningQueueName q))
       < length (view (hDB st) (pluginQueueName q)) + length (view (hDB st) (cleaningQueueName q))"
proof -
  let ?c = "cleaningQueueName q" and ?p = "pluginQueueName q"
  obtain json s1 where n: "next_cleaning (Background ctx) db q b st = (Go json, s1)"
    and rest: "and_then (pure_or_stop (Unwrap json)) (\<lambda>job.
       if Type job = ''anka.VM'' then clean_vm (Background ctx) db cli debug q job
       else if Type job = ''WorkflowJobPayload'' then clean_job pc (Background ctx) pdb db q pf job
       else (\<lambda>st. (Stop, st))) s1 = (Go (), st')"
    using assms(1) unfolding cleanup_turn_def by (auto elim: and_thenE)
  then obtain job where vm: "clean_vm (Background ctx) db cli debug q job s1 = (Go (), st')"
  proof -
    obtain job where "(if Type job = ''anka.VM'' then clean_vm (Background ctx) db cli debug q job
       else if Type job = ''WorkflowJobPayload'' then clean_job pc (Background ctx) pdb db q pf job
       else (\<lambda>st. (Stop, st))) s1 = (Go (), st')"
      using rest by (auto elim!: and_thenE pure_or_stopE)
    moreover have "clean_job pc (Background ctx) pdb db q pf job s1 \<noteq> (Go (), st')"
      using clean_job_returns [of pc "Background ctx" pdb db q pf job s1] by auto
    ultimately show ?thesis using that by (auto split: if_splits)
  qed
  then obtain a s2 where d: "RetryDel (Background ctx) db [?c] (hDB s1) = (Inr a, s2)" "hDB st' = s2"
    unfolding clean_vm_def Let_def by (auto elim!: and_thenE db_or_stopE)
  have "view (hDB st') = (view (hDB s1))(?c := [])" using bg_DelD(1) [OF d(1) refl] d(2) by auto
  moreover have "xs \<noteq> [] \<Longrightarrow> length (butlast xs) < length xs" for xs :: "string list" by simp
  note this [of "view (hDB st) ?p"]
  ultimately show ?thesis using next_cleaning_law [OF n assms(2)] assms(2)
    by (auto simp del: length_butlast)
qed

lemma cleanup_queue_ends:
  assumes "pluginQueueName q \<noteq> cleaningQueueName q"
  shows "length (view (hDB st) (pluginQueueName q)) + length (view (hDB st) (cleaningQueueName q)) < fuel \<Longrightarrow>
     fst (cleanup_queue fuel pc (Background ctx) pdb db cli debug q b pf st) \<noteq> Go ()"
proof (induction fuel arbitrary: st)
  case (Suc fuel)
  obtain r st1 where t: "cleanup_turn pc (Background ctx) pdb db cli debug q b pf st = (r, st1)" by fastforce
  show ?case
  proof (cases r)
    case (Go u)
    then have "length (view (hDB st1) (pluginQueueName q)) + length (view (hDB st1) (cleaningQueueName q)) < fuel"
      using cleanup_turn_decreases [OF _ assms] t Suc.prems by fastforce
    from Suc.IH [OF this] show ?thesis using t Go by (simp add: and_then_def)
  qed (use t in \<open>simp_all add: and_then_def\<close>)
qed simp

text \<open>
  Back to the main queue: the job ends there, with its attempts counted; or it stays where it
  was because it could not be popped; or the push failed and it is on no queue.
\<close>

lemma return_to_main_law:
  assumes "return_to_main (Background ctx) db q reason st = (out, st')"
    and c: "view (hDB st) (cleaningQueueName q) = xs @ [MarshalJob job]" "job_ok job"
    and names: "distinct [mainQueueName q, cleaningQueueName q, pausedQueueName q]"
  defines "v \<equiv> view (hDB st)" and "v' \<equiv> view (hDB st')"
    and "pushed \<equiv> MarshalJob (requeued reason job) # view (hDB st) (mainQueueName q)"
  shows "v' = v
    \<or> (v' (mainQueueName q) = pushed \<and> v' (cleaningQueueName q) \<in> {xs, []})
    \<or> (v' = v(cleaningQueueName q := xs) \<and>
        (\<exists>s e s'. RetryLPush (Background ctx) db (mainQueueName q) [MarshalJob (requeued reason job)] s = (Inl e, s')))"
proof -
  let ?c = "cleaningQueueName q" and ?m = "mainQueueName q" and ?p = "pausedQueueName q"
  obtain r1 s1 where p: "RetryRPop (Background ctx) db ?c (hDB st) = (r1, s1)" by fastforce
  show ?thesis
  proof (cases r1)
    case (Inl e)
    then have "hDB st' = s1" using assms(1) p
      by (auto simp: return_to_main_def and_then_def db_or_stop_def on_db_def)
    then show ?thesis using bg_RPopD(2) [OF p Inl] by (simp add: v_def v'_def)
  next
    case (Inr json)
    then have json: "json = MarshalJob job" and v1: "view s1 = v(?c := xs)"
      using bg_RPopD(1) [OF p Inr] c by (auto simp: v_def)
    have u: "Unwrap json = Inr job" using json Unwrap_MarshalJob [OF c(2)] by simp
    obtain r2 s2 where l: "RetryLPush (Background ctx) db ?m [MarshalJob (requeued reason job)] s1 = (r2, s2)" by fastforce
    show ?thesis
    proof (cases r2)
      case (Inl e)
      then have "hDB st' = s2" using assms(1) p \<open>r1 = Inr json\<close> u l
        by (auto simp: return_to_main_def and_then_def db_or_stop_def on_db_def pure_or_stop_def)
      then have "v' = v(?c := xs)" using bg_LPushD(2) [OF l Inl] v1 by (simp add: v'_def)
      then show ?thesis using l Inl by blast
    next
      case (Inr n)
      have v2: "view s2 = v(?c := xs, ?m := pushed)" using bg_LPushD(1) [OF l Inr] v1 names
        by (auto simp: v_def pushed_def fun_upd_twist)
      let ?st2 = "st\<lparr>hDB := s2\<rparr>"
      obtain r3 st3 where d: "delete_logged (Background ctx) db job ?p ?st2 = (r3, st3)" by fastforce
      have v3: "view (hDB st3) ?m = pushed \<and> view (hDB st3) ?c = xs" and r3: "r3 = Go () \<or> r3 = Crash"
        using delete_logged_view [OF d] v2 names by auto
      have rest: "and_then (db_or_stop (RetryDel (Background ctx) db [?c])) (\<lambda>_ st. (Stop, st)) st3 = (out, st')" if "r3 = Go ()"
        using assms(1) p \<open>r1 = Inr json\<close> u l Inr d that
        by (simp add: return_to_main_def and_then_def db_or_stop_def on_db_def pure_or_stop_def)
      have crash: "st' = st3" if "r3 = Crash"
        using assms(1) p \<open>r1 = Inr json\<close> u l Inr d that
        by (simp add: return_to_main_def and_then_def db_or_stop_def on_db_def pure_or_stop_def)
      obtain r4 s4 where x: "RetryDel (Background ctx) db [?c] (hDB st3) = (r4, s4)" by fastforce
      then have "r3 = Go () \<Longrightarrow> hDB st' = s4" using rest
        by (auto simp: and_then_def db_or_stop_def on_db_def split: sum.splits)
      moreover have "view s4 ?m = pushed \<and> view s4 ?c \<in> {xs, []}" using bg_DelD(1,2) [OF x] v3 names
        by (cases r4) auto
      ultimately show ?thesis using r3 crash v3 by (auto simp: v'_def)
    qed
  qed
qed

text \<open>Back to the plugin's queue, for a job that is not over.\<close>

lemma put_back_law:
  assumes "put_back (Background ctx) db q job st = (out, st')"
    and over: "Status (WorkflowJob job) \<notin> {Some ''completed'', Some ''failed'', Some ''timed_out''}"
    and c: "view (hDB st) (cleaningQueueName q) = xs @ [x]" and names: "pluginQueueName q \<noteq> cleaningQueueName q"
  shows "view (hDB st') = view (hDB st)
    \<or> view (hDB st') (pluginQueueName q) = x # view (hDB st) (pluginQueueName q)"
proof -
  let ?c = "cleaningQueueName q" and ?p = "pluginQueueName q"
  obtain r1 s1 where m: "RetryRPopLPush (Background ctx) db ?c ?p (hDB st) = (r1, s1)" by fastforce
  show ?thesis
  proof (cases r1)
    case (Inl e)
    then have "hDB st' = s1" using assms(1) m over by (auto simp: put_back_def and_then_def db_or_stop_def on_db_def)
    then show ?thesis using bg_RPopLPushD(2) [OF m Inl] by simp
  next
    case (Inr y)
    obtain r2 s2 where x: "RetryDel (Background ctx) db [?c] s1 = (r2, s2)" by fastforce
    have "hDB st' = s2" using assms(1) m over Inr x
      by (auto simp: put_back_def and_then_def db_or_stop_def on_db_def split: sum.splits)
    moreover have "view s1 ?p = x # view (hDB st) ?p" using bg_RPopLPushD(1) [OF m Inr] c names
      by (auto simp: Let_def)
    moreover have "view s2 ?p = view s1 ?p" using bg_DelD(1,2) [OF x] names by (cases r2) auto
    ultimately show ?thesis by simp
  qed
qed

end

end
