(* ===== verification/RunJob.thy ===== *)
theory RunJob
  imports Cleanup
begin

text \<open>
  \<open>Run\<close> of the handler, first half: the checks of the configuration, the start of a run, and the
  choice of a job: the one left on the plugin's queue, a job another host has paused, or the
  next of the main queue. Each phase is an action; \<open>Stop\<close> is a return from \<open>Run\<close>, with its error
  in \<open>RunError\<close>. Updates of the status in the metrics are left out.
\<close>

section \<open>The environment of a run\<close>

record ('s, 'h) Env =
  workerCtx :: "'s Ctx"
  pluginCtx :: "'s Ctx"
  database :: "'s Database"
  api :: "'s Api"
  plugin :: Plugin
  queues :: Queues
  queueOwner :: string
  ankaCLI :: "'h Cli"
  diskSize :: "'h \<Rightarrow> 64 word result"
  globalMounts :: "string list"
  draining :: bool
  scriptsExist :: bool
  scriptPaths :: "string list"
  newUUID :: "'h \<Rightarrow> string result"
  selectsDone :: "'s \<Rightarrow> bool"
  checkStart :: int

definition canceled :: "('s, 'h) Env \<Rightarrow> ('s, 'h) HState \<Rightarrow> bool" where
  "canceled e st \<longleftrightarrow> CtxErr (workerCtx e) (hDB st) \<noteq> None \<or> CtxErr (pluginCtx e) (hDB st) \<noteq> None"

definition return_error :: "string \<Rightarrow> ('a, 's, 'h) action" where
  "return_error t st = (Stop, st\<lparr>RunError := Some (Errorf t)\<rparr>)"

definition return_ok :: "('a, 's, 'h) action" where
  "return_ok st = (Stop, st)"

text \<open>Announcing a job, or asking for a retry, and returning.\<close>

definition announce :: "QueueJob \<Rightarrow> ('a, 's, 'h) action" where
  "announce job = and_then (send_job job) (\<lambda>_. return_ok)"

definition retry_later :: "string \<Rightarrow> ('a, 's, 'h) action" where
  "retry_later reason = and_then (send_retry reason) (\<lambda>_. return_ok)"

definition db_or_error :: "string \<Rightarrow> ('s \<Rightarrow> 'a result \<times> 's) \<Rightarrow> ('a, 's, 'h) action" where
  "db_or_error t op st = (case on_db op st of
     (Inl e, st') \<Rightarrow> return_error (t @ Error e) st' | (Inr a, st') \<Rightarrow> (Go a, st'))"

definition set_own :: "('s, 'h) Env \<Rightarrow> (PluginGlobal \<Rightarrow> PluginGlobal) \<Rightarrow> ('s, 'h) HState \<Rightarrow> ('s, 'h) HState" where
  "set_own e f st = st\<lparr>hGlobals := set_own_global (plugin e) f (hGlobals st)\<rparr>"

definition stop_preparing :: "('s, 'h) Env \<Rightarrow> ('s, 'h) HState \<Rightarrow> ('s, 'h) HState" where
  "stop_preparing e = set_own e (\<lambda>g. g\<lparr>Preparing := False\<rparr>)"

section \<open>The configuration\<close>

text \<open>The plugin as the run uses it: a private key below \<open>~\<close> is in the home directory.\<close>

definition validate_run :: "string \<Rightarrow> string result \<Rightarrow> Plugin \<Rightarrow> Plugin result" where
  "validate_run configFileName homeDir p =
     (case ValidateGitHubScope p of
        Some e \<Rightarrow> Inl (Errorf (''invalid github scope in '' @ configFileName @ '':plugins:'' @ PName p @ '': '' @ Error e))
      | None \<Rightarrow> (case ValidateEnterpriseGitHubCredentials p of
        Some e \<Rightarrow> Inl (Errorf (configFileName @ '':plugins:'' @ PName p @ '': '' @ Error e))
      | None \<Rightarrow>
          if \<not> IsEnterpriseScope p \<and> PToken p = [] \<and> PPrivateKey p = []
          then Inl (Errorf (''token or private_key are not set at global level or in '' @ configFileName @ '':plugins:'' @ PName p @ ''<token/private_key>''))
          else if PPrivateKey p \<noteq> [] \<and> PAppID p = 0
          then Inl (Errorf (''private_key and app_id must both be set in '' @ configFileName @ '':plugins:'' @ PName p))
          else if prefix ''~/'' (PPrivateKey p)
          then (case homeDir of
             Inl e \<Rightarrow> Inl (Errorf (''unable to get user home directory: '' @ Error e))
           | Inr home \<Rightarrow> Inr (p\<lparr>PPrivateKey := home @ ''/'' @ drop 2 (PPrivateKey p)\<rparr>))
          else Inr p))"

definition queue_names :: "Plugin \<Rightarrow> Queues" where
  "queue_names p = (let queueOwner = GetQueueOwner p in
     \<lparr>mainQueueName = ''anklet/jobs/github/queued/'' @ queueOwner,
      pluginQueueName = ''anklet/jobs/github/queued/'' @ queueOwner @ ''/'' @ ''{'' @ PName p @ ''}'',
      mainInProgressQueueName = ''anklet/jobs/github/in_progress/'' @ queueOwner,
      pluginCompletedQueueName = ''anklet/jobs/github/completed/'' @ queueOwner @ ''/'' @ PName p,
      mainCompletedQueueName = ''anklet/jobs/github/completed/'' @ queueOwner,
      pausedQueueName = ''anklet/jobs/github/paused/'' @ queueOwner\<rparr>)"

definition host_queue :: "('s, 'h) Env \<Rightarrow> string \<Rightarrow> string" where
  "host_queue e name = ''anklet/jobs/github/queued/'' @ queueOwner e @ ''/{'' @ name @ ''}''"

section \<open>The start of a run\<close>

definition over :: "QueueJob \<Rightarrow> bool" where
  "over job \<longleftrightarrow> Status (WorkflowJob job) = Some ''completed'' \<or> Status (WorkflowJob job) = Some ''failed''"

text \<open>Watching inside \<open>Run\<close>, along the events of the watch; it returns what the watch returns.\<close>

definition run_watch :: "('s, 'h) Env \<Rightarrow> watch_event list \<Rightarrow> ('a, 's, 'h) action" where
  "run_watch e evs st = (case watchJobStatus (workerCtx e) (pluginCtx e) (database e) (plugin e) (queues e) evs 0 st of
     (Go (Inl err), st') \<Rightarrow> (Stop, st'\<lparr>RunError := err\<rparr>)
   | (Crash, st') \<Rightarrow> (Crash, st')
   | (_, st') \<Rightarrow> (Block, st'))"

text \<open>After the first check: a job that is over or in progress is dealt with at once.\<close>

definition start_channel :: "('s, 'h) Env \<Rightarrow> watch_event list \<Rightarrow> (unit, 's, 'h) action" where
  "start_channel e evs st = (case JobChannel st of
     job # rest \<Rightarrow>
       (let st1 = st\<lparr>JobChannel := rest\<rparr> in
        if over job then announce job st1
        else (case Status (WorkflowJob job) of
           None \<Rightarrow> (Crash, st1)
         | Some status \<Rightarrow> if status = ''in_progress'' then run_watch e evs (stop_preparing e st1) else (Go (), st1)))
   | [] \<Rightarrow> (case own_global (plugin e) (hGlobals st) of
        None \<Rightarrow> (Crash, st)
      | Some own \<Rightarrow> if \<not> FinishedInitialRun own then announce finish_job st else (Go (), st)))"

text \<open>
  A \<open>select\<close> on \<open>JobChannel\<close> and the end of the plugin's context, with a default. When both
  are ready Go picks either: \<open>selectsDone\<close> says which.
\<close>

definition channel_check :: "('s, 'h) Env \<Rightarrow> (QueueJob \<Rightarrow> (unit, 's, 'h) action) \<Rightarrow> (unit, 's, 'h) action" where
  "channel_check e onJob st =
     (if CtxErr (pluginCtx e) (hDB st) \<noteq> None \<and> (JobChannel st = [] \<or> selectsDone e (hDB st)) then (Stop, st)
      else (case JobChannel st of
         [] \<Rightarrow> (Go (), st)
       | job # rest \<Rightarrow> onJob job (st\<lparr>JobChannel := rest\<rparr>)))"

text \<open>
  Waiting until \<open>checkForCompletedJobs\<close> has run once: its turns are those of the events, and the
  wait goes on for ever (\<open>Block\<close>) when they do not set the flag.
\<close>

fun await_check :: "('s, 'h) Env \<Rightarrow> (unit, 's, 'h) action \<Rightarrow> check_event list \<Rightarrow> (unit, 's, 'h) action" where
  "await_check e onCancel [] st =
     (if FirstCheckForCompletedJobsRan st then (Go (), st) else if canceled e st then onCancel st else (Block, st))"
| "await_check e onCancel (ev # evs) st =
     (if FirstCheckForCompletedJobsRan st then (Go (), st)
      else if canceled e st then onCancel st
      else (case check_turn (workerCtx e) (pluginCtx e) (database e) (api e) (plugin e) (queues e) (checkStart e) ev st of
         (Crash, st') \<Rightarrow> (Crash, st') | (_, st') \<Rightarrow> await_check e onCancel evs st'))"

text \<open>After the clean-up of an interrupted clean-up; then draining and capacity.\<close>

definition after_first_cleanup :: "('s, 'h) Env \<Rightarrow> (unit, 's, 'h) action" where
  "after_first_cleanup e = channel_check e (\<lambda>job st. case Status (WorkflowJob job) of
     None \<Rightarrow> (Crash, st)
   | Some _ \<Rightarrow> if over job then announce job st else (Go (), st))"

definition may_take_jobs :: "('s, 'h) Env \<Rightarrow> (unit, 's, 'h) action" where
  "may_take_jobs e st =
     (if draining e then announce finish_job st
      else (case HostHasVmCapacity (ankaCLI e) (hHost st) of (capacity, h) \<Rightarrow>
        if capacity then (Go (), st\<lparr>hHost := h\<rparr>) else announce finish_job (st\<lparr>hHost := h\<rparr>)))"

definition run_start :: "nat \<Rightarrow> ('s, 'h) Env \<Rightarrow> bool \<Rightarrow> check_event list \<Rightarrow> watch_event list \<Rightarrow> (unit, 's, 'h) action" where
  "run_start fuel e debug checks evs =
     and_then (await_check e (return_error ''context canceled while waiting for first checkForCompletedJobs to run'') checks) (\<lambda>_.
     and_then (start_channel e evs) (\<lambda>_ st.
       case cleanup fuel (pluginCtx e) (database e) (ankaCLI e) debug (plugin e) (queues e) True False st of
         (Crash, st') \<Rightarrow> (Crash, st')
       | (_, st') \<Rightarrow> and_then (after_first_cleanup e) (\<lambda>_. may_take_jobs e) st'))"

section \<open>A job on the plugin's own queue\<close>

definition own_job :: "('s, 'h) Env \<Rightarrow> (QueueJob option, 's, 'h) action" where
  "own_job e st = (case on_db (RetryLIndex (pluginCtx e) (database e) (pluginQueueName (queues e)) (- 1)) st of
     (Inl err, st1) \<Rightarrow>
       if err \<noteq> RedisNil then return_error (''error getting last object from '' @ pluginQueueName (queues e)) st1
       else (Go None, st1)
   | (Inr json, st1) \<Rightarrow>
       if json = [] then (Go None, st1)
       else (case Unwrap json of
          Inl err \<Rightarrow> return_error (''error unmarshalling job: '' @ Error err) st1
        | Inr job \<Rightarrow> if Action job = ''anka.VM'' then announce (set_status ''completed'' (job\<lparr>Action := ''cancel''\<rparr>)) st1
            else (Go (Some job), st1)))"

section \<open>Jobs paused by other hosts\<close>

text \<open>Whether a paused job is over by now, in the queue of the host that paused it.\<close>

definition paused_is_over :: "('s, 'h) Env \<Rightarrow> string \<Rightarrow> ('s, 'h) HState \<Rightarrow> bool \<times> ('s, 'h) HState" where
  "paused_is_over e json st = (case Unwrap json of
     Inl _ \<Rightarrow> (False, st)
   | Inr paused \<Rightarrow> (case ID (WorkflowJob paused) of
        None \<Rightarrow> (False, st)
      | Some i \<Rightarrow> (case on_db (GetJobJSONFromQueueByID (pluginCtx e) (database e) i (host_queue e (PausedOn paused))) st of
           (Inr current, st') \<Rightarrow> (current \<noteq> [] \<and> (case Unwrap current of Inl _ \<Rightarrow> False | Inr job \<Rightarrow> over job), st')
         | (Inl _, st') \<Rightarrow> (False, st'))))"

text \<open>
  The put-back every turn defers: it runs when \<open>Run\<close> returns, once for each turn there was, on
  the value \<open>pausedQueuedJobString\<close>, a variable all of them share, has then.
\<close>

definition deferred_put_back :: "('s, 'h) Env \<Rightarrow> string \<Rightarrow> ('s, 'h) HState \<Rightarrow> ('s, 'h) HState" where
  "deferred_put_back e json st =
     (if json = [] then st
      else (case paused_is_over e json st of (isOver, st1) \<Rightarrow>
        if isOver then st1 else snd (on_db (RetryLPush (pluginCtx e) (database e) (pausedQueueName (queues e)) [json]) st1)))"

definition with_put_back :: "('s, 'h) Env \<Rightarrow> nat \<Rightarrow> string \<Rightarrow> ('a, 's, 'h) action \<Rightarrow> ('a, 's, 'h) action" where
  "with_put_back e n json m st = (case m st of
     (Stop, st1) \<Rightarrow> (Stop, (deferred_put_back e json ^^ n) st1) | out \<Rightarrow> out)"

text \<open>
  The result of a turn of the search: \<open>Inr\<close> goes round again with the entry still held and the
  next index, \<open>Inl\<close> leaves the loop, with the entry still held and the job that was taken over,
  if any.
\<close>

type_synonym paused_result = "(string \<times> (QueueJob \<times> string) option) + (string \<times> int)"

definition skip_paused :: "int \<Rightarrow> string \<Rightarrow> int \<Rightarrow> paused_result" where
  "skip_paused len json i = (if len = 1 then Inl (json, None) else Inr (json, i + 1))"

definition enough_resources :: "('s, 'h) Env \<Rightarrow> VM \<Rightarrow> (bool, 's, 'h) action" where
  "enough_resources e vm st =
     (if PSkipCPUAndMemoryResourceChecks (plugin e) then (Go True, st)
      else if VmHasEnoughHostResources (hGlobals st) vm \<noteq> None then (Go False, st)
      else (case VmHasEnoughResources (ankaCLI e) (hGlobals st) vm (hHost st) of
         (Panic, h) \<Rightarrow> (Crash, st\<lparr>hHost := h\<rparr>)
       | (Ret err, h) \<Rightarrow> (Go (err = None), st\<lparr>hHost := h\<rparr>)))"

text \<open>Taking a paused job over from the queue of its host.\<close>

definition take_over :: "('s, 'h) Env \<Rightarrow> int \<Rightarrow> string \<Rightarrow> int \<Rightarrow> QueueJob \<Rightarrow> (paused_result, 's, 'h) action" where
  "take_over e len json i paused = (case ID (WorkflowJob paused) of None \<Rightarrow> (\<lambda>st. (Crash, st)) | Some pid \<Rightarrow>
     and_then (db_or_error ''error getting job from paused host's queue: ''
         (GetJobFromQueueByKeyAndValue (pluginCtx e) (database e) (host_queue e (PausedOn paused)) ''workflow_job.id'' (FormatInt pid))) (\<lambda>original.
     if original = [] then
       and_then (db_or_error ''error removing job from paused queue: '' (RetryLRem (pluginCtx e) (database e) (pausedQueueName (queues e)) 1 json)) (\<lambda>_.
       and_then (send_job finish_job) (\<lambda>_ st. (Go (skip_paused len json i), st)))
     else (case Unwrap original of
        Inl err \<Rightarrow> return_error (''error unmarshalling job: '' @ Error err)
      | Inr job \<Rightarrow>
          if Action job \<noteq> ''paused'' then announce finish_job
          else and_then (db_or_error ''error removing job from old host's queue: ''
                   (RetryLRem (pluginCtx e) (database e) (host_queue e (PausedOn paused)) 1 original)) (\<lambda>_ st.
                 (Go (Inl ([], Some (job, original))), st)))))"

text \<open>The part of a turn on the entry it popped.\<close>

definition consider_paused :: "('s, 'h) Env \<Rightarrow> int \<Rightarrow> string \<Rightarrow> int \<Rightarrow> (paused_result, 's, 'h) action" where
  "consider_paused e len json i = (case Unwrap json of
     Inl err \<Rightarrow> return_error (''error unmarshalling job: '' @ Error err)
   | Inr paused \<Rightarrow> (\<lambda>st.
       if own_global ((plugin e)\<lparr>PName := PausedOn paused\<rparr>) (hGlobals st) \<noteq> None
       then (Go (skip_paused len json i), st)
       else and_then (enough_resources e (AnkaVM paused)) (\<lambda>enough.
          if enough then take_over e len json i paused else (\<lambda>st. (Go (skip_paused len json i), st))) st))"

text \<open>
  The turn after \<open>n\<close> deferred calls, with the entry \<open>held\<close> from the turn before; the number of
  deferred calls is part of the result.
\<close>

definition paused_turn :: "('s, 'h) Env \<Rightarrow> nat \<Rightarrow> string \<Rightarrow> int \<Rightarrow> (nat \<times> paused_result, 's, 'h) action" where
  "paused_turn e n held i st =
     (if canceled e st then with_put_back e n held (announce finish_job) st
      else and_then (with_put_back e n held
             (db_or_error ''error getting paused queue length: '' (RetryLLen (pluginCtx e) (database e) (pausedQueueName (queues e))))) (\<lambda>len.
        if len = 0 then (\<lambda>st. (Go (n, Inl (held, None)), st))
        else and_then (db_or_error ''error getting paused jobs: '' (PopJobOffQueue (pluginCtx e) (database e) (pausedQueueName (queues e)) i)) (\<lambda>json.
          if json = [] then (\<lambda>st. (Go (Suc n, Inl ([], None)), st))
          else and_then (with_put_back e (Suc n) json (consider_paused e len json i)) (\<lambda>r st. (Go (Suc n, r), st)))) st)"

fun paused_search :: "nat \<Rightarrow> ('s, 'h) Env \<Rightarrow> nat \<Rightarrow> string \<Rightarrow> int \<Rightarrow> (nat \<times> string \<times> (QueueJob \<times> string) option, 's, 'h) action" where
  "paused_search 0 e n held i = (\<lambda>st. (Block, st))"
| "paused_search (Suc fuel) e n held i =
     and_then (paused_turn e n held i) (\<lambda>(n', r). case r of
       Inl (held', taken) \<Rightarrow> (\<lambda>st. (Go (n', held', taken), st))
     | Inr (held', i') \<Rightarrow> paused_search fuel e n' held' i')"

text \<open>After the search: an entry still held goes back unless its job is over.\<close>

definition release_held :: "('s, 'h) Env \<Rightarrow> nat \<Rightarrow> string \<Rightarrow> (unit, 's, 'h) action" where
  "release_held e n held st =
     (if held = [] then (Go (), st)
      else (case paused_is_over e held st of (isOver, st1) \<Rightarrow>
        if isOver then (Go (), st1)
        else and_then (with_put_back e n held (db_or_error ''error pushing job to paused queue: ''
               (RetryLPush (pluginCtx e) (database e) (pausedQueueName (queues e)) [held]))) (\<lambda>_ st2. (Go (), st2)) st1))"

section \<open>The main queue\<close>

definition main_job :: "('s, 'h) Env \<Rightarrow> (QueueJob \<times> string, 's, 'h) action" where
  "main_job e =
     and_then (db_or_error ''error getting main queue length: '' (RetryLLen (pluginCtx e) (database e) (mainQueueName (queues e)))) (\<lambda>len st.
       let g = (if sint (QueueTargetIndex (hGlobals st)) > len then ResetQueueTargetIndex (hGlobals st) else hGlobals st);
           st1 = st\<lparr>hGlobals := g\<rparr>
       in (case on_db (PopJobOffQueue (pluginCtx e) (database e) (mainQueueName (queues e)) (sint (QueueTargetIndex g))) st1 of
          (Inl err, st2) \<Rightarrow> return_error (''error getting queued jobs: '' @ Error err) (st2\<lparr>TotalFailed := TotalFailed st2 + 1\<rparr>)
        | (Inr json, st2) \<Rightarrow>
            if json = [] then
              and_then (send_job finish_job) (\<lambda>_ st3. return_ok (st3\<lparr>hGlobals := ResetQueueTargetIndex (hGlobals st3)\<rparr>)) (stop_preparing e st2)
            else (case Unwrap json of
               Inl err \<Rightarrow> return_error (''error unmarshalling job: '' @ Error err) st2
             | Inr job \<Rightarrow>
                 if \<not> IsEnterpriseScope (plugin e) \<and> (case RepoOwner (Repo job) of None \<Rightarrow> False | Some owner \<Rightarrow> owner \<noteq> POwner (plugin e))
                 then (let st3 = snd (on_db (RetryRPush (pluginCtx e) (database e) (mainQueueName (queues e)) [json]) st2)
                   in announce finish_job (stop_preparing e (st3\<lparr>hGlobals := IncrementQueueTargetIndex (hGlobals st3)\<rparr>)))
                 else (Go (job, json), st2))))"

text \<open>The choice of the job; it ends up on the plugin's queue.\<close>

definition pick_job :: "nat \<Rightarrow> ('s, 'h) Env \<Rightarrow> (QueueJob, 's, 'h) action" where
  "pick_job fuel e =
     and_then (own_job e) (\<lambda>own. case own of
       Some job \<Rightarrow> (\<lambda>st. (Go job, st))
     | None \<Rightarrow>
         and_then (paused_search fuel e 0 [] 0) (\<lambda>(n, held, taken).
         and_then (release_held e n held) (\<lambda>_.
         and_then (case taken of Some job \<Rightarrow> (\<lambda>st. (Go job, st)) | None \<Rightarrow> main_job e) (\<lambda>(job, json).
         and_then (db_or_error ''error pushing job to plugin queue: '' (RetryRPush (pluginCtx e) (database e) (pluginQueueName (queues e)) [json]))
           (\<lambda>_ st. (Go job, st))))))"

section \<open>How an action goes on\<close>

lemma db_or_errorE:
  assumes "db_or_error t op st = (Go a, st')"
  obtains s' where "op (hDB st) = (Inr a, s')" "st' = st\<lparr>hDB := s'\<rparr>"
  using assms by (auto simp: db_or_error_def on_db_def return_error_def split: prod.splits sum.splits)

lemma no_go: "return_error t st \<noteq> (Go a, st')" "announce j st \<noteq> (Go a, st')" "and_then m (\<lambda>_. return_ok) st \<noteq> (Go a, st')"
  by (auto simp: return_error_def announce_def return_ok_def and_then_def split: prod.splits turn.splits)

lemma with_put_back_go: "with_put_back e n json m st = (Go a, st') \<Longrightarrow> m st = (Go a, st')"
  by (auto simp: with_put_back_def split: prod.splits turn.splits)

end
