(* ===== verification/RunVM.thy ===== *)
theory RunVM
  imports RunJob
begin

text \<open>
  \<open>Run\<close> of the handler, second half: the checks of the job that was picked, the resources of the
  host and the wait for them, the template, the registration token, the VM, and the runner inside
  of it; and \<open>removeSelfHostedRunner\<close>, which is deferred. The attributes the program adds to its
  log are left out; the dereference of the job's ID among them is kept.
\<close>

section \<open>Pieces\<close>

definition save :: "('s, 'h) Env \<Rightarrow> QueueJob \<Rightarrow> (gerror option \<times> gerror option, 's, 'h) action" where
  "save e job st = (case on_db (UpdateJobInDB (pluginCtx e) (database e) (pluginQueueName (queues e)) job) st of
     (Panic, st') \<Rightarrow> (Crash, st') | (Ret r, st') \<Rightarrow> (Go r, st'))"

text \<open>Saving, where a job that is completed already finishes the run; other failures are logged.\<close>

definition save_or_finish :: "('s, 'h) Env \<Rightarrow> QueueJob \<Rightarrow> (QueueJob, 's, 'h) action" where
  "save_or_finish e job = and_then (save e job) (\<lambda>(err, completed).
     if completed \<noteq> None then announce finish_job else (\<lambda>st. (Go job, st)))"

text \<open>Saving a job the run gives up, whatever comes of it, and announcing it.\<close>

definition give_up :: "('s, 'h) Env \<Rightarrow> QueueJob \<Rightarrow> ('a, 's, 'h) action" where
  "give_up e job = and_then (save e job) (\<lambda>_. announce job)"

definition retry_error :: "string \<Rightarrow> string \<Rightarrow> ('a, 's, 'h) action" where
  "retry_error reason t = and_then (send_retry reason) (\<lambda>_. return_error t)"

text \<open>Not taking this job again at once: the next one of the main queue is the target.\<close>

definition skip_target :: "('s, 'h) HState \<Rightarrow> ('s, 'h) HState" where
  "skip_target st = st\<lparr>hGlobals := IncrementQueueTargetIndex (hGlobals st)\<rparr>"

definition skip_and_retry :: "string \<Rightarrow> ('a, 's, 'h) action" where
  "skip_and_retry reason st = retry_later reason (skip_target st)"

definition set_paused :: "('s, 'h) Env \<Rightarrow> bool \<Rightarrow> ('s, 'h) HState \<Rightarrow> ('s, 'h) HState" where
  "set_paused e b = set_own e (\<lambda>g. g\<lparr>Paused := b\<rparr>)"

definition on_host :: "('h Host \<Rightarrow> 'a \<times> 'h Host) \<Rightarrow> ('a, 's, 'h) action" where
  "on_host op st = (case op (hHost st) of (a, h) \<Rightarrow> (Go a, st\<lparr>hHost := h\<rparr>))"

definition on_host_go :: "('h Host \<Rightarrow> 'a go \<times> 'h Host) \<Rightarrow> ('a, 's, 'h) action" where
  "on_host_go op st = (case op (hHost st) of
     (Panic, h) \<Rightarrow> (Crash, st\<lparr>hHost := h\<rparr>) | (Ret a, h) \<Rightarrow> (Go a, st\<lparr>hHost := h\<rparr>))"

text \<open>A point where a canceled context returns the job with an error.\<close>

definition check_canceled :: "('s, 'h) Env \<Rightarrow> string \<Rightarrow> (unit, 's, 'h) action" where
  "check_canceled e t st = (if canceled e st then retry_error ''context_canceled'' t st else (Go (), st))"

section \<open>The job is still wanted\<close>

definition first_check :: "('s, 'h) Env \<Rightarrow> check_event list \<Rightarrow> QueueJob \<Rightarrow> (unit, 's, 'h) action" where
  "first_check e checks job st =
     (if ID (WorkflowJob job) = None then (Crash, st)
      else (let st1 = st\<lparr>FirstCheckForCompletedJobsRan := False\<rparr> in
        if canceled e st1 then (Stop, st1)
        else and_then (await_check e return_ok checks)
          (\<lambda>_. channel_check e (\<lambda>chJob st2. case Status (WorkflowJob chJob) of
             None \<Rightarrow> (Crash, st2) | Some _ \<Rightarrow> if over chJob then announce chJob st2 else return_ok st2)) st1))"

definition max_attempts :: "Plugin \<Rightarrow> int" where
  "max_attempts p = (if PJobRetryAttempts p = 0 then 5 else PJobRetryAttempts p)"

text \<open>A job tried before: too often, or over by now, or running by now.\<close>

definition check_attempts :: "('s, 'h) Env \<Rightarrow> watch_event list \<Rightarrow> QueueJob \<Rightarrow> (QueueJob, 's, 'h) action" where
  "check_attempts e evs job st =
     (if Attempts job \<le> 0 then (Go job, st)
      else if Attempts job > max_attempts (plugin e)
      then give_up e (set_status ''completed'' (job\<lparr>Action := ''cancel''\<rparr>)) st
      else (case on_db (UpdateJobsWorkflowJobStatus (ClientFor (api e)) (GetJob (api e)) job) st of
         (Panic, st1) \<Rightarrow> (Crash, st1)
       | (Ret (_, Some err), st1) \<Rightarrow> retry_later ''error_updating_job_workflow_job_status'' st1
       | (Ret (job1, None), st1) \<Rightarrow>
           if Status (WorkflowJob job1) = Some ''completed'' then give_up e (job1\<lparr>Action := ''finish''\<rparr>) st1
           else if Status (WorkflowJob job1) = Some ''in_progress'' then run_watch e evs (stop_preparing e st1)
           else (Go job1, st1)))"

text \<open>The template and its tag are labels of the job.\<close>

definition job_labels :: "QueueJob \<Rightarrow> string list" where
  "job_labels job = (case Labels (WorkflowJob job) of None \<Rightarrow> [] | Some ls \<Rightarrow> ls)"

definition job_template :: "QueueJob \<Rightarrow> string" where
  "job_template job = extractLabelValue (job_labels job) ''anka-template:''"

definition job_tag :: "QueueJob \<Rightarrow> string" where
  "job_tag job = (let t = extractLabelValue (job_labels job) ''anka-template-tag:'' in if t = [] then using_latest else t)"

definition start_preparing :: "('s, 'h) Env \<Rightarrow> QueueJob \<Rightarrow> (QueueJob, 's, 'h) action" where
  "start_preparing e job =
     (if job_template job = [] then give_up e (job\<lparr>Action := ''cancel''\<rparr>)
      else (let job1 = job\<lparr>Action := ''preparing''\<rparr> in
        and_then (save e job1) (\<lambda>(err, completed).
          if completed \<noteq> None then announce finish_job
          else if err \<noteq> None then retry_later ''error_updating_job_in_db''
          else (\<lambda>st. (Go job1, st)))))"

section \<open>The size of the VM\<close>

definition registry_info :: "('s, 'h) Env \<Rightarrow> QueueJob \<Rightarrow> (QueueJob, 's, 'h) action" where
  "registry_info e job =
     and_then (on_host_go (GetAnkaRegistryVmInfo (ankaCLI e) (job_template job) (job_tag job))) (\<lambda>r. case r of
       Inr vm \<Rightarrow> (\<lambda>st. (Go (job\<lparr>AnkaVM := vm\<rparr>), st))
     | Inl err \<Rightarrow>
         if contains (Error err) ''not found''
         then (let job1 = set_status ''completed'' (set_conclusion ''failure'' (job\<lparr>Action := ''cancel''\<rparr>)) in
           and_then (save e job1) (\<lambda>_. and_then (send_job job1) (\<lambda>_ st. return_ok (stop_preparing e st))))
         else retry_later ''anka_registry_not_running'')"

definition local_info :: "('s, 'h) Env \<Rightarrow> QueueJob \<Rightarrow> (QueueJob, 's, 'h) action" where
  "local_info e job =
     and_then (on_host_go (AnkaShow (ankaCLI e) (job_template job))) (\<lambda>r. case r of
       Inl _ \<Rightarrow> skip_and_retry ''anka_template_does_not_exist_locally''
     | Inr sh \<Rightarrow>
         if ShowTag sh \<noteq> job_tag job then skip_and_retry ''anka_template_tag_does_not_match''
         else and_then (on_host_go (GetAnkaVmInfo (ankaCLI e) (job_template job))) (\<lambda>r. case r of
           Inl err \<Rightarrow> retry_error ''anka_template_info_error'' (''error getting vm info: '' @ Error err)
         | Inr vm \<Rightarrow> (\<lambda>st. (Go (job\<lparr>AnkaVM := vm\<rparr>), st))))"

definition vm_info :: "('s, 'h) Env \<Rightarrow> QueueJob \<Rightarrow> (QueueJob, 's, 'h) action" where
  "vm_info e job =
     (if CPUCount (AnkaVM job) = 0 \<or> MEMBytes (AnkaVM job) = 0
      then and_then (on_host (AnkaRegistryRunning (ankaCLI e))) (\<lambda>isRegistryRunning.
             and_then (if isRegistryRunning then registry_info e job else local_info e job) (save_or_finish e))
      else (\<lambda>st. (Go job, st)))"

section \<open>The resources of the host\<close>

definition delete_paused :: "('s, 'h) Env \<Rightarrow> int \<Rightarrow> (unit, 's, 'h) action" where
  "delete_paused e i st = (case on_db (DeleteFromQueue (pluginCtx e) (database e) i (pausedQueueName (queues e))) st of
     (Panic, st') \<Rightarrow> (Crash, st') | (Ret _, st') \<Rightarrow> (Go (), st'))"

text \<open>The head of a turn: a job that is over ends the wait, any other goes back on the channel.\<close>

definition pause_channel :: "('s, 'h) Env \<Rightarrow> int \<Rightarrow> (unit, 's, 'h) action" where
  "pause_channel e i st = (case JobChannel st of
     [] \<Rightarrow> (Go (), st)
   | chJob # rest \<Rightarrow>
       (let st1 = st\<lparr>JobChannel := rest\<rparr> in
        if over chJob then and_then (delete_paused e i) (\<lambda>_ st2. announce chJob (set_paused e False st2)) st1
        else send_job chJob st1))"

text \<open>
  The end of a turn, when the host has found the job still on its queue; and the whole turn: \<open>None\<close> to wait on, the
  job to go on with it.
\<close>

definition resume_paused :: "('s, 'h) Env \<Rightarrow> int \<Rightarrow> QueueJob \<Rightarrow> (QueueJob option, 's, 'h) action" where
  "resume_paused e i job st =
     and_then (on_host_go (VmHasEnoughResources (ankaCLI e) (hGlobals st) (AnkaVM job))) (\<lambda>err.
       if err \<noteq> None then (\<lambda>st1. (Go None, st1))
       else and_then (delete_paused e i) (\<lambda>_.
            and_then (save_or_finish e (job\<lparr>Action := ''in_progress''\<rparr>)) (\<lambda>job1 st1. (Go (Some job1), st1)))) st"

definition pause_turn :: "('s, 'h) Env \<Rightarrow> int \<Rightarrow> QueueJob \<Rightarrow> (QueueJob option, 's, 'h) action" where
  "pause_turn e i job =
     and_then (pause_channel e i) (\<lambda>_ st.
       if canceled e st
       then retry_error ''context_canceled'' ''context canceled while waiting for resources'' (set_paused e False st)
       else (let st1 = st\<lparr>hDB := Sleep (pluginCtx e) second (hDB st)\<rparr> in
         case on_db (GetJobJSONFromQueueByID (pluginCtx e) (database e) i (pluginQueueName (queues e))) st1 of
           (Inl _, st2) \<Rightarrow>
             and_then (send_retry ''error_checking_if_queue_has_job'') (\<lambda>_.
             and_then (delete_paused e i) (\<lambda>_ st3. return_ok (set_paused e False st3))) st2
         | (Inr existingJobJSON, st2) \<Rightarrow>
             if existingJobJSON = []
             then (let st3 = set_paused e False st2 in
               if PausedCancellationJobChannel st3 = [] then (Stop, st3\<lparr>PausedCancellationJobChannel := [job]\<rparr>) else (Block, st3))
             else resume_paused e i job st2))"

text \<open>
  The wait, along what the other goroutines and hosts do between its turns; when that list ends
  it is still waiting.
\<close>

fun pause_loop :: "('s, 'h) Env \<Rightarrow> int \<Rightarrow> (('s, 'h) HState \<Rightarrow> ('s, 'h) HState) list \<Rightarrow> QueueJob \<Rightarrow> (QueueJob, 's, 'h) action" where
  "pause_loop e i [] job = (\<lambda>st. (Block, st))"
| "pause_loop e i (others # rest) job =
     and_then (pause_turn e i job) (\<lambda>r st. case r of Some job1 \<Rightarrow> (Go job1, st) | None \<Rightarrow> pause_loop e i rest job (others st))"

text \<open>Pausing: the job stays on the plugin's queue and is offered to other hosts as well.\<close>

definition pause_job :: "('s, 'h) Env \<Rightarrow> (('s, 'h) HState \<Rightarrow> ('s, 'h) HState) list \<Rightarrow> QueueJob \<Rightarrow> (QueueJob, 's, 'h) action" where
  "pause_job e others job st =
     (let job1 = job\<lparr>PausedOn := PName (plugin e), Action := ''paused''\<rparr> in
      and_then (save_or_finish e job1) (\<lambda>_ st1. case ID (WorkflowJob job1) of
        None \<Rightarrow> (Crash, st1)
      | Some i \<Rightarrow> (case on_db (GetJobJSONFromQueueByID (pluginCtx e) (database e) i (pausedQueueName (queues e))) st1 of
          (Inl _, st2) \<Rightarrow> retry_later ''error_checking_if_job_is_in_paused_queue'' st2
        | (Inr pausedJSON, st2) \<Rightarrow>
            if pausedJSON \<noteq> [] then pause_loop e i others job1 st2
            else (case on_db (RetryRPush (pluginCtx e) (database e) (pausedQueueName (queues e)) [MarshalJob job1]) st2 of
               (Inl _, st3) \<Rightarrow> retry_later ''error_pushing_job_to_paused_queue'' st3
             | (Inr success, st3) \<Rightarrow>
                 if success = 0 then retry_later ''error_pushing_job_to_paused_queue'' st3
                 else pause_loop e i others job1 st3))) (set_paused e True st))"

definition host_resources :: "('s, 'h) Env \<Rightarrow> (('s, 'h) HState \<Rightarrow> ('s, 'h) HState) list \<Rightarrow> QueueJob \<Rightarrow> (QueueJob, 's, 'h) action" where
  "host_resources e others job st =
     (if Action job = ''paused'' \<or> PSkipCPUAndMemoryResourceChecks (plugin e) then (Go job, st)
      else if VmHasEnoughHostResources (hGlobals st) (AnkaVM job) \<noteq> None then skip_and_retry ''not_enough_host_resources'' st
      else and_then (on_host_go (VmHasEnoughResources (ankaCLI e) (hGlobals st) (AnkaVM job))) (\<lambda>err.
             if err = None then (\<lambda>st. (Go job, st)) else pause_job e others job) st)"

section \<open>The template\<close>

definition check_scripts :: "('s, 'h) Env \<Rightarrow> string \<Rightarrow> QueueJob \<Rightarrow> (unit, 's, 'h) action" where
  "check_scripts e pluginsPath job =
     (if scriptsExist e then (\<lambda>st. (Go (), st))
      else and_then (send_retry ''cancel'') (\<lambda>_. and_then (save e job) (\<lambda>_.
        return_error (''must include install-runner.bash, register-runner.bash, and start-runner.bash in '' @ pluginsPath @ ''/handlers/github/''))))"

definition ensure_template :: "('s, 'h) Env \<Rightarrow> QueueJob \<Rightarrow> (unit, 's, 'h) action" where
  "ensure_template e job =
     (if PSkipPull (plugin e) then (\<lambda>st. (Go (), st))
      else and_then (on_host_go (EnsureVMTemplateExists (ankaCLI e) (diskSize e) (job_template job) (job_tag job))) (\<lambda>r st.
        if canceled e st then retry_later ''context_canceled'' st
        else (case genericError r of
          Some err \<Rightarrow> skip_and_retry
            (if contains (Error err) ''a pull is already running on this host'' then ''pull_already_running_on_host''
             else ''problem_ensuring_vm_template_exists_on_host'') st
        | None \<Rightarrow>
            if noTemplateTagExistsInRegistryError r \<noteq> None then give_up e (job\<lparr>Action := ''cancel''\<rparr>) st
            else if ensureSpaceError r \<noteq> None then skip_and_retry ''error_no_space_on_host_for_template'' st
            else (Go (), st))))"

definition template_ready :: "('s, 'h) Env \<Rightarrow> string \<Rightarrow> QueueJob \<Rightarrow> (unit, 's, 'h) action" where
  "template_ready e pluginsPath job =
     and_then (check_scripts e pluginsPath job) (\<lambda>_.
     and_then (ensure_template e job) (\<lambda>_.
     check_canceled e ''context canceled during vm template check''))"

end
