(* ===== verification/Runner.thy ===== *)
theory Runner
  imports RunVM
begin

text \<open>
  The end of \<open>Run\<close>: the registration token, the VM, the runner inside of it and the watch for
  its end; the removal of a runner that was left registered; and \<open>Run\<close> as a whole with its
  deferred clean-up.
\<close>

section \<open>Removing a registered runner\<close>

definition removeRunnerByScope :: "('s, 'h) Env \<Rightarrow> int \<Rightarrow> ('s, 'h) HState \<Rightarrow> gerror option \<times> ('s, 'h) HState" where
  "removeRunnerByScope e i = on_db (RemoveRunner (api e) (GitHubScope_of (plugin e)) i)"

text \<open>The first runner with the VM's name is removed, after a cancellation if it is busy.\<close>

definition remove_busy :: "('s, 'h) Env \<Rightarrow> QueueJob \<Rightarrow> int \<Rightarrow> (unit, 's, 'h) action" where
  "remove_busy e job i st = (case removeRunnerByScope e i st of (removeErr, st1) \<Rightarrow>
     (case removeErr of
        None \<Rightarrow> (Go (), st1)
      | Some err \<Rightarrow>
          if \<not> contains (Error err) ''is currently running a job and cannot be deleted'' then (Go (), st1)
          else (case sendCancelWorkflowRun (workerCtx e) (pluginCtx e) (api e) job st1 of
             (Crash, st2) \<Rightarrow> (Crash, st2)
           | (Block, st2) \<Rightarrow> (Block, st2)
           | (_, st2) \<Rightarrow> (Go (), snd (removeRunnerByScope e i st2)))))"

fun remove_named :: "('s, 'h) Env \<Rightarrow> QueueJob \<Rightarrow> (string option \<times> int option) list \<Rightarrow> (unit, 's, 'h) action" where
  "remove_named e job [] = (\<lambda>st. (Go (), st))"
| "remove_named e job ((name, rid) # runners) = (case name of
     None \<Rightarrow> (\<lambda>st. (Crash, st))
   | Some n \<Rightarrow>
       if n \<noteq> VMName (AnkaVM job) then remove_named e job runners
       else (case rid of None \<Rightarrow> (\<lambda>st. (Crash, st)) | Some i \<Rightarrow> remove_busy e job i))"

definition removeSelfHostedRunner :: "('s, 'h) Env \<Rightarrow> (unit, 's, 'h) action" where
  "removeSelfHostedRunner e st = (case on_db (GetJobFromQueue (pluginCtx e) (database e) (pluginQueueName (queues e))) st of
     (Inl _, st1) \<Rightarrow> (Go (), st1)
   | (Inr job, st1) \<Rightarrow>
       if Conclusion (WorkflowJob job) = Some ''failure'' \<or> Action job = ''remove_self_hosted_runner''
       then (case on_db (ListRunners (api e) (GitHubScope_of (plugin e))) st1 of
          (Inl _, st2) \<Rightarrow> (Go (), st2)
        | (Inr runners, st2) \<Rightarrow> remove_named e job runners st2)
       else (Go (), st1))"

section \<open>The VM\<close>

text \<open>The answer to the request for a token; a nil token is dereferenced.\<close>

definition registration_token :: "('s, 'h) Env \<Rightarrow> string option result \<Rightarrow> (string, 's, 'h) action" where
  "registration_token e r = (case r of
     Inl err \<Rightarrow> (\<lambda>st. retry_later ''error_creating_registration_token'' (st\<lparr>TotalFailed := TotalFailed st + 1\<rparr>))
   | Inr None \<Rightarrow> (\<lambda>st. (Crash, st))
   | Inr (Some token) \<Rightarrow>
       if token = [] then retry_later ''registration_token_empty''
       else and_then (check_canceled e ''context canceled before ObtainAnkaVM'') (\<lambda>_ st. (Go token, st)))"

text \<open>The entry for the clean-up of the VM: it goes on the plugin's queue behind the job.\<close>

definition vm_entry :: "QueueJob \<Rightarrow> QueueJob" where
  "vm_entry job = zero_QueueJob\<lparr>Type := ''anka.VM'', AnkaVM := AnkaVM job, WorkflowJob := WorkflowJob job\<rparr>"

definition named :: "VM option \<Rightarrow> QueueJob \<Rightarrow> QueueJob" where
  "named vm job = (case vm of None \<Rightarrow> job | Some v \<Rightarrow> job\<lparr>AnkaVM := (AnkaVM job)\<lparr>VMName := VMName v\<rparr>\<rparr>)"

definition keep_vm :: "('s, 'h) Env \<Rightarrow> QueueJob \<Rightarrow> VM option \<Rightarrow> gerror option \<Rightarrow> (QueueJob, 's, 'h) action" where
  "keep_vm e job vm err st =
     (let job1 = named vm job;
          wrappedVmJSON = (case vm of None \<Rightarrow> [] | Some _ \<Rightarrow> MarshalJob (vm_entry job1)) in
      if canceled e st
      then (case vm of
         None \<Rightarrow> (Crash, st)
       | Some v \<Rightarrow> and_then (on_host (AnkaDelete (ankaCLI e) (VMName v))) (\<lambda>_. return_error ''context canceled after ObtainAnkaVM'') st)
      else (case on_db (RetryRPush (pluginCtx e) (database e) (pluginQueueName (queues e)) [wrappedVmJSON])
                   (set_paused e False (stop_preparing e st)) of
         (Inl dbErr, st1) \<Rightarrow> retry_error ''error_pushing_vm_data_to_database'' (''error pushing vm data to database: '' @ Error dbErr) st1
       | (Inr _, st1) \<Rightarrow>
           if err \<noteq> None then retry_later ''error_obtaining_anka_vm'' st1
           else and_then (check_canceled e ''context canceled after ObtainAnkaVM'') (\<lambda>_ st2. (Go job1, st2)) st1))"

definition obtain_vm :: "('s, 'h) Env \<Rightarrow> QueueJob \<Rightarrow> (QueueJob, 's, 'h) action" where
  "obtain_vm e job st =
     and_then (on_host (ObtainAnkaVM (ankaCLI e) (globalMounts e) (newUUID e (hWorld (hHost st))) (job_template job)))
       (\<lambda>(vm, err). keep_vm e job vm err) st"

section \<open>The runner\<close>

text \<open>Between two steps: any job on the channel finishes the run.\<close>

definition unless_over :: "('s, 'h) Env \<Rightarrow> (unit, 's, 'h) action" where
  "unless_over e = channel_check e (\<lambda>_. announce finish_job)"

definition copy_scripts :: "('s, 'h) Env \<Rightarrow> QueueJob \<Rightarrow> (unit, 's, 'h) action" where
  "copy_scripts e job =
     and_then (on_host (AnkaCopyIntoVM (ankaCLI e) (VMName (AnkaVM job)) (scriptPaths e))) (\<lambda>err. case err of
       Some er \<Rightarrow> (\<lambda>st. retry_error ''error_executing_anka_copy'' (''error executing anka copy: '' @ Error er)
                     (st\<lparr>TotalFailed := TotalFailed st + 1\<rparr>))
     | None \<Rightarrow> unless_over e)"

definition install_runner :: "('s, 'h) Env \<Rightarrow> QueueJob \<Rightarrow> (unit, 's, 'h) action" where
  "install_runner e job =
     and_then (on_host (AnkaRun (ankaCLI e) (VMName (AnkaVM job)) [''./install-runner.bash''])) (\<lambda>err.
       if err \<noteq> None then retry_later ''error_executing_install_runner_bash'' else unless_over e)"

definition register_args :: "('s, 'h) Env \<Rightarrow> QueueJob \<Rightarrow> string \<Rightarrow> string list" where
  "register_args e job token =
     [''./register-runner.bash'', VMName (AnkaVM job), token, GitHubRegistrationURL (plugin e), Join '','' (job_labels job), PRunnerGroup (plugin e)]"

definition register_runner :: "('s, 'h) Env \<Rightarrow> QueueJob \<Rightarrow> string \<Rightarrow> (unit, 's, 'h) action" where
  "register_runner e job token =
     and_then (on_host (AnkaRunWithTimeout (ankaCLI e) 60 (VMName (AnkaVM job)) (register_args e job token))) (\<lambda>(err, timedOut).
       if timedOut \<noteq> None then retry_later ''timeout_executing_register_runner_bash''
       else (case err of
          Some er \<Rightarrow> retry_error ''error_executing_register_runner_bash'' (''error executing register-runner.bash: '' @ Error er)
        | None \<Rightarrow> (\<lambda>st. (Go (), st))))"

definition start_runner :: "('s, 'h) Env \<Rightarrow> QueueJob \<Rightarrow> (unit, 's, 'h) action" where
  "start_runner e job =
     and_then (save_or_finish e (job\<lparr>Action := ''registered''\<rparr>)) (\<lambda>_.
     and_then (unless_over e) (\<lambda>_.
     and_then (on_host (AnkaRun (ankaCLI e) (VMName (AnkaVM job)) [''./start-runner.bash''])) (\<lambda>err. case err of
       Some er \<Rightarrow> retry_error ''error_executing_start_runner_bash'' (''error executing start-runner.bash: '' @ Error er)
     | None \<Rightarrow> unless_over e)))"

definition watch_runner :: "('s, 'h) Env \<Rightarrow> watch_event list \<Rightarrow> QueueJob \<Rightarrow> (unit, 's, 'h) action" where
  "watch_runner e evs job =
     and_then (save_or_finish e (job\<lparr>Action := ''in_progress''\<rparr>)) (\<lambda>_. run_watch e evs)"

text \<open>Once it is registered the removal of the runner is deferred to the return.\<close>

definition with_removal :: "('s, 'h) Env \<Rightarrow> (unit, 's, 'h) action \<Rightarrow> (unit, 's, 'h) action" where
  "with_removal e m st = (case m st of
     (Go _, st1) \<Rightarrow> removeSelfHostedRunner e st1
   | (Stop, st1) \<Rightarrow> and_then (removeSelfHostedRunner e) (\<lambda>_ st2. (Stop, st2)) st1
   | out \<Rightarrow> out)"

definition run_runner :: "('s, 'h) Env \<Rightarrow> watch_event list \<Rightarrow> string option result \<Rightarrow> QueueJob \<Rightarrow> (unit, 's, 'h) action" where
  "run_runner e evs r job =
     and_then (registration_token e r) (\<lambda>token.
     and_then (obtain_vm e job) (\<lambda>job1.
     and_then (copy_scripts e job1) (\<lambda>_.
     and_then (install_runner e job1) (\<lambda>_.
     and_then (register_runner e job1 token) (\<lambda>_.
     with_removal e (and_then (start_runner e job1) (\<lambda>_. watch_runner e evs job1)))))))"

section \<open>Run\<close>

text \<open>
  What the other goroutines do meanwhile: the turns of \<open>checkForCompletedJobs\<close> at the two waits
  and after the run, the events of a watch, and anything between the turns of a pause.
\<close>

record ('s, 'h) Schedule =
  startChecks :: "check_event list"
  pickChecks :: "check_event list"
  endChecks :: "check_event list option"
  watchEvents :: "watch_event list"
  pauseOthers :: "(('s, 'h) HState \<Rightarrow> ('s, 'h) HState) list"

definition run_prepare :: "nat \<Rightarrow> ('s, 'h) Env \<Rightarrow> bool \<Rightarrow> string \<Rightarrow> ('s, 'h) Schedule \<Rightarrow> (QueueJob, 's, 'h) action" where
  "run_prepare fuel e debug pluginsPath sch =
     and_then (run_start fuel e debug (startChecks sch) (watchEvents sch)) (\<lambda>_.
     and_then (pick_job fuel e) (\<lambda>job.
     and_then (first_check e (pickChecks sch) job) (\<lambda>_.
     and_then (check_attempts e (watchEvents sch) job) (\<lambda>job1.
     and_then (start_preparing e job1) (\<lambda>job2.
     and_then (vm_info e job2) (\<lambda>job3.
     and_then (host_resources e (pauseOthers sch) job3) (\<lambda>job4.
     and_then (template_ready e pluginsPath job4) (\<lambda>_ st. (Go job4, st)))))))))"

text \<open>The deferred call: it waits for \<open>checkForCompletedJobs\<close> to end, then cleans up.\<close>

fun await_end :: "('s, 'h) Env \<Rightarrow> check_event list \<Rightarrow> (unit, 's, 'h) action" where
  "await_end e [] st = (Block, st)"
| "await_end e (ev # evs) st =
     (case check_turn (workerCtx e) (pluginCtx e) (database e) (api e) (plugin e) (queues e) (checkStart e) ev st of
        (Stop, st') \<Rightarrow> (Go (), st') | (Go _, st') \<Rightarrow> await_end e evs st' | out \<Rightarrow> out)"

definition run_deferred :: "nat \<Rightarrow> ('s, 'h) Env \<Rightarrow> bool \<Rightarrow> check_event list option \<Rightarrow> (unit, 's, 'h) action" where
  "run_deferred fuel e debug checks =
     and_then (case checks of None \<Rightarrow> (\<lambda>st. (Go (), st)) | Some evs \<Rightarrow> await_end e evs)
       (\<lambda>_. cleanup fuel (pluginCtx e) (database e) (ankaCLI e) debug (plugin e) (queues e) False False)"

text \<open>
  \<open>Run\<close>, from the point where the configuration is checked and its queues are named. The context
  it goes on with after the request for the token is the one the request returns.
\<close>

definition Run :: "nat \<Rightarrow> ('s, 'h) Env \<Rightarrow> bool \<Rightarrow> string \<Rightarrow> ('s, 'h) Schedule \<Rightarrow> (unit, 's, 'h) action" where
  "Run fuel e debug pluginsPath sch st =
     (if canceled e st then announce finish_job st
      else (case run_prepare fuel e debug pluginsPath sch st of
        (Crash, st1) \<Rightarrow> (Crash, st1)
      | (Block, st1) \<Rightarrow> (Block, st1)
      | (Stop, st1) \<Rightarrow> run_deferred fuel e debug (endChecks sch) st1
      | (Go job, st1) \<Rightarrow> (case on_db (CreateToken (api e) (GitHubScope_of (plugin e)) (pluginCtx e)) st1 of ((ctx, r), st2) \<Rightarrow>
          (let e' = e\<lparr>pluginCtx := ctx\<rparr> in
           case run_runner e' (watchEvents sch) r job st2 of
             (Crash, st3) \<Rightarrow> (Crash, st3)
           | (Block, st3) \<Rightarrow> (Block, st3)
           | (_, st3) \<Rightarrow> run_deferred fuel e' debug (endChecks sch) st3))))"

end
