(* ===== verification/HostSafety.thy ===== *)
theory HostSafety
  imports AnkaSpace
begin

text \<open>
  What the layer of the Anka command line keeps of the host, whatever the commands answer: the
  template tracker stays well-formed and the number of running VMs does not become negative.
\<close>

definition host_ok :: "'h Host \<Rightarrow> bool" where
  "host_ok h \<longleftrightarrow> tracker_ok (hTracker h) \<and> 0 \<le> hRunningVMs h"

definition host_op :: "('h Host \<Rightarrow> 'a \<times> 'h Host) \<Rightarrow> bool" where
  "host_op op \<longleftrightarrow> (\<forall>h a h'. op h = (a, h') \<longrightarrow> host_ok h \<longrightarrow> host_ok h')"

lemma host_opD: "host_op op \<Longrightarrow> op h = (a, h') \<Longrightarrow> host_ok h \<Longrightarrow> host_ok h'"
  by (simp add: host_op_def)

lemma host_okI: "hTracker h' = hTracker h \<and> hRunningVMs h' = hRunningVMs h \<Longrightarrow> host_ok h \<Longrightarrow> host_ok h'"
  by (simp add: host_ok_def)

lemma Execute_state: "Execute cli args h = (r, h') \<Longrightarrow> hTracker h' = hTracker h \<and> hRunningVMs h' = hRunningVMs h"
  by (auto simp: Execute_def split: prod.splits)

lemma json_host: "host_op (ExecuteParseJson cli args)"
  unfolding host_op_def by (blast dest: ExecuteParseJson_state intro: host_okI)

lemma registry_host: "host_op (AnkaExecuteRegistryCommand cli args)"
  unfolding host_op_def by (blast dest: AnkaExecuteRegistryCommand_state intro: host_okI)

lemma checked_host: "host_op (checked cli args f)"
  unfolding host_op_def by (blast dest: checked_state intro: host_okI)

lemma show_host: "host_op (AnkaShow cli n)"
  unfolding host_op_def by (blast dest: AnkaShow_state intro: host_okI)

lemma size_host: "host_op (AnkaGetTemplateSize cli n)"
  unfolding host_op_def by (blast dest: AnkaGetTemplateSize_state intro: host_okI)

lemma execute_host: "host_op (Execute cli args)"
  unfolding host_op_def by (blast dest: Execute_state intro: host_okI)

lemmas command_hosts = json_host [THEN host_opD] registry_host [THEN host_opD] checked_host [THEN host_opD]
  show_host [THEN host_opD] size_host [THEN host_opD] execute_host [THEN host_opD]

lemmas host_splits = prod.splits sum.splits option.splits go.splits if_splits json.splits list.splits

lemma simple_hosts:
  "host_op (AnkaList cli args)" "host_op (AnkaRegistryRunning cli)" "host_op (HostHasVmCapacity cli)"
  "host_op (AnkaMount cli v m)" "host_op (AnkaCopyOutOfVM cli v a b)" "host_op (AnkaClone cli v t)"
  "host_op (AnkaStart cli v)" "host_op (delete_again cli v)" "host_op (AnkaRun cli v as)"
  by (auto simp: host_op_def AnkaList_def AnkaRegistryRunning_def HostHasVmCapacity_def AnkaMount_def AnkaCopyOutOfVM_def
      AnkaClone_def AnkaStart_def delete_again_def AnkaRun_def split: host_splits dest: command_hosts)

lemma timeout_host: "host_op (AnkaRunWithTimeout cli n v as)"
  by (auto simp: host_op_def AnkaRunWithTimeout_def host_ok_def split: prod.splits)

lemma registry_show_host: "host_op (AnkaRegistryShowTemplate cli t g)"
  by (auto simp: host_op_def AnkaRegistryShowTemplate_def split: host_splits dest: command_hosts)

lemma info_hosts: "host_op (GetAnkaRegistryVmInfo cli t g)" "host_op (GetAnkaVmInfo cli t)"
  by (auto simp: host_op_def GetAnkaRegistryVmInfo_def GetAnkaVmInfo_def split: host_splits
      dest: command_hosts registry_show_host [THEN host_opD])

lemma delete_host: "host_op (AnkaDelete cli v)"
  using json_host [of cli "[''anka'', ''-j'', ''delete'', ''--yes'', v]"] simple_hosts(8) [of cli v]
  by (auto simp: host_op_def AnkaDelete_def split: prod.splits sum.splits) (auto simp: host_ok_def)

lemma delete_only_host: "host_op (AnkaDeleteVMOnly cli v)"
  by (auto simp: host_op_def AnkaDeleteVMOnly_def split: host_splits dest: command_hosts simple_hosts(8) [THEN host_opD])

lemma copy_files_host: "host_op (copy_files cli v fs)"
proof (induction fs)
  case (Cons f fs)
  then show ?case
    by (auto simp: host_op_def split: host_splits dest: command_hosts)
qed (simp add: host_op_def)

lemma copy_into_host: "host_op (AnkaCopyIntoVM cli v fs)"
  using copy_files_host [of cli v fs] by (simp add: host_op_def AnkaCopyIntoVM_def)

lemma sum_running_host: "host_op (sum_running cli vs c m)"
  unfolding host_op_def
proof (induction vs arbitrary: c m)
  case (Cons v vs)
  then show ?case by (auto split: host_splits dest: command_hosts)
qed simp

lemma resources_host: "host_op (VmHasEnoughResources cli g vm)"
  by (auto simp: host_op_def VmHasEnoughResources_def split: host_splits
      dest: simple_hosts(1) [THEN host_opD] sum_running_host [THEN host_opD])

lemma checkSpace_host: "host_op (checkSpace cli b u t)"
  unfolding host_op_def by (blast dest: checkSpace_state intro: host_okI)

lemma delete_template_host: "host_op (AnkaDeleteTemplate cli u)"
  by (auto simp: host_op_def AnkaDeleteTemplate_def split: host_splits dest!: command_hosts(3))
    (simp add: host_ok_def tracker_ok_ops)

lemma cleanup_loop_host: "host_ok h \<Longrightarrow> host_ok (cleanup_loop cli b uuid tag us h)"
proof (induction us arbitrary: h)
  case (Cons u us)
  obtain r1 h1 where d: "AnkaDeleteTemplate cli (UUID u) h = (r1, h1)" by fastforce
  obtain r2 h2 where c: "checkSpace cli b uuid tag h1 = (r2, h2)" by fastforce
  have "host_ok h1" by (rule host_opD [OF delete_template_host d Cons.prems])
  then have "host_ok h2" by (rule host_opD [OF checkSpace_host c])
  then show ?case using Cons \<open>host_ok h1\<close> d c by (simp split: option.split sum.split prod.split)
qed simp

lemma ensure_space_host: "host_op (EnsureSpaceForTemplate cli disk u t)"
  by (auto simp: host_op_def EnsureSpaceForTemplate_def Let_def split: host_splits
      dest!: checkSpace_host [THEN host_opD] dest: cleanup_loop_host)

lemma set_pulling_host: "host_ok h \<Longrightarrow> host_ok (set_pulling cli k n t b h)"
  by (simp add: host_ok_def set_pulling_def tracker_ok_ops)

lemma registry_pull_host: "host_op (registry_pull cli k n t)"
  by (auto simp: host_op_def registry_pull_def split: host_splits dest: command_hosts)
    (auto simp: host_ok_def tracker_ok_ops dest!: AnkaGetTemplateSize_state AnkaExecuteRegistryCommand_state)

lemma pull_host: "host_op (AnkaRegistryPull cli k n t)"
  by (auto simp: host_op_def AnkaRegistryPull_def split: host_splits
      intro!: set_pulling_host elim!: registry_pull_host [THEN host_opD])

lemma find_template_host: "host_op (find_template cli u t)"
  by (auto simp: host_op_def find_template_def split: host_splits
      dest: simple_hosts(1) [THEN host_opD] registry_show_host [THEN host_opD])

lemma use_existing_host: "host_op (use_existing cli u n t)"
  by (auto simp: host_op_def use_existing_def host_ok_def tracker_ok_ops split: host_splits
      dest!: AnkaGetTemplateSize_state AnkaShow_state)

lemma ensure_template_host: "host_op (EnsureVMTemplateExists cli disk u t)"
  unfolding host_op_def
proof (intro allI impI)
  fix h a h'
  assume en: "EnsureVMTemplateExists cli disk u t h = (a, h')" and ok: "host_ok h"
  obtain r1 h1 where f: "find_template cli u t h = (r1, h1)" by fastforce
  have h1: "host_ok h1" by (rule host_opD [OF find_template_host f ok])
  obtain r2 h2 where ex: "EnsureSpaceForTemplate cli disk u t h1 = (r2, h2)" by fastforce
  have h2: "host_ok h2" by (rule host_opD [OF ensure_space_host ex h1])
  show "host_ok h'"
  proof (cases "\<exists>pull name. r1 = Ret (Inr (pull, name))")
    case False
    then show ?thesis using en f h1 by (auto simp: EnsureVMTemplateExists_def split: go.splits sum.splits)
  next
    case True
    then obtain pull name where r1: "r1 = Ret (Inr (pull, name))" by blast
    obtain r3 h3 where us: "use_existing cli u name t h1 = (r3, h3)" by fastforce
    have h3: "host_ok h3" by (rule host_opD [OF use_existing_host us h1])
    obtain r4 h4 where pu: "AnkaRegistryPull cli u name t h2 = (r4, h4)" by fastforce
    have h4: "host_ok h4" by (rule host_opD [OF pull_host pu h2])
    show ?thesis using en f r1 ex us pu h1 h2 h3 h4
      by (cases pull; cases r2; cases r3; cases r4)
        (auto simp: EnsureVMTemplateExists_def split: option.splits if_splits)
  qed
qed

lemma mounts_host: "host_op (mountHostToGuestFolders cli v ms)"
proof (induction ms)
  case (Cons m ms)
  then show ?case
    by (auto simp: host_op_def Let_def split: host_splits dest: simple_hosts(4) [THEN host_opD])
qed (simp add: host_op_def)

lemma obtain_host: "host_op (ObtainAnkaVM cli gm u t)"
  unfolding host_op_def
proof (intro allI impI)
  fix h a h'
  assume o: "ObtainAnkaVM cli gm u t h = (a, h')" and ok: "host_ok h"
  have inc: "host_ok k \<Longrightarrow> host_ok (k\<lparr>hRunningVMs := hRunningVMs k + 1\<rparr>)" for k :: "'a Host" by (simp add: host_ok_def)
  show "host_ok h'" using o ok
    by (auto simp: ObtainAnkaVM_def Let_def split: host_splits intro!: inc
        dest!: simple_hosts(6,7) [THEN host_opD] mounts_host [THEN host_opD] delete_only_host [THEN host_opD])
qed

end
