(* ===== verification/HandlerSafety.thy ===== *)
theory HandlerSafety
  imports Runner HostSafety
begin

text \<open>
  What every part of the handler keeps, whatever it returns: the lists of other owners are left
  alone, no channel ever holds more than its capacity of one, the template tracker stays
  well-formed and the number of running VMs does not become negative. \<open>safe\<close> relates a state to
  a later one; each operation has a lemma that it leads from safe states to safe states, and the
  collection \<open>safe_intros\<close> composes them along the code. The contract with the API and with
  Redis is the locale \<open>handler_world\<close>, which extends \<open>redis_db\<close>.
\<close>

named_theorems safe_intros \<open>the operations of the handler lead from safe states to safe states\<close>

definition safe :: "('s \<Rightarrow> lists) \<Rightarrow> string set \<Rightarrow> ('s, 'h) HState \<Rightarrow> ('s, 'h) HState \<Rightarrow> bool" where
  "safe view K st0 st \<longleftrightarrow> (\<forall>k. k \<notin> K \<longrightarrow> view (hDB st) k = view (hDB st0) k) \<and>
     (channels_ok st0 \<longrightarrow> channels_ok st) \<and> (host_ok (hHost st0) \<longrightarrow> host_ok (hHost st))"

definition local_op :: "('s \<Rightarrow> lists) \<Rightarrow> string set \<Rightarrow> ('s \<Rightarrow> 'a \<times> 's) \<Rightarrow> bool" where
  "local_op view K op \<longleftrightarrow> (\<forall>s r s'. op s = (r, s') \<longrightarrow> (\<forall>k. k \<notin> K \<longrightarrow> view s' k = view s k))"

section \<open>Composition\<close>

lemma safe_refl [simp, safe_intros]: "safe view K st st"
  by (simp add: safe_def)

lemma safe_fields [simp]:
  "safe view K st0 (st\<lparr>Unreturnable := u\<rparr>) = safe view K st0 st"
  "safe view K st0 (st\<lparr>FirstCheckForCompletedJobsRan := b\<rparr>) = safe view K st0 st"
  "safe view K st0 (st\<lparr>CheckForCompletedJobsRunCount := n\<rparr>) = safe view K st0 st"
  "safe view K st0 (st\<lparr>StillInProgressPollCount := n\<rparr>) = safe view K st0 st"
  "safe view K st0 (st\<lparr>TotalSuccessful := i\<rparr>) = safe view K st0 st"
  "safe view K st0 (st\<lparr>TotalFailed := i\<rparr>) = safe view K st0 st"
  "safe view K st0 (st\<lparr>TotalCanceled := i\<rparr>) = safe view K st0 st"
  "safe view K st0 (st\<lparr>RunError := e\<rparr>) = safe view K st0 st"
  "safe view K st0 (st\<lparr>hGlobals := g\<rparr>) = safe view K st0 st"
  by (simp_all add: safe_def channels_ok_def)

lemma safe_hDB: "safe view K st0 st \<Longrightarrow> (\<And>k. k \<notin> K \<Longrightarrow> view s' k = view (hDB st) k) \<Longrightarrow> safe view K st0 (st\<lparr>hDB := s'\<rparr>)"
  by (simp add: safe_def channels_ok_def)

lemma safe_hHost: "safe view K st0 st \<Longrightarrow> (host_ok (hHost st) \<Longrightarrow> host_ok h) \<Longrightarrow> safe view K st0 (st\<lparr>hHost := h\<rparr>)"
  by (auto simp: safe_def channels_ok_def)

lemma safe_channels [safe_intros]:
  "safe view K st0 st \<Longrightarrow> JobChannel st = j # xs \<Longrightarrow> safe view K st0 (st\<lparr>JobChannel := xs\<rparr>)"
  "safe view K st0 st \<Longrightarrow> RetryChannel st = r # rs \<Longrightarrow> safe view K st0 (st\<lparr>RetryChannel := rs\<rparr>)"
  "safe view K st0 st \<Longrightarrow> safe view K st0 (st\<lparr>JobChannel := tl (JobChannel st)\<rparr>)"
  "safe view K st0 st \<Longrightarrow> safe view K st0 (st\<lparr>JobChannel := [j]\<rparr>)"
  "safe view K st0 st \<Longrightarrow> safe view K st0 (st\<lparr>RetryChannel := [r]\<rparr>)"
  "safe view K st0 st \<Longrightarrow> safe view K st0 (st\<lparr>ReturnToMainQueue := [r]\<rparr>)"
  "safe view K st0 st \<Longrightarrow> ReturnToMainQueue st = r # rs \<Longrightarrow> safe view K st0 (st\<lparr>ReturnToMainQueue := rs\<rparr>)"
  "safe view K st0 st \<Longrightarrow> safe view K st0 (st\<lparr>ReturnToMainQueue := tl (ReturnToMainQueue st)\<rparr>)"
  "safe view K st0 st \<Longrightarrow> safe view K st0 (st\<lparr>PausedCancellationJobChannel := [j]\<rparr>)"
  "safe view K st0 st \<Longrightarrow> PausedCancellationJobChannel st = j # js \<Longrightarrow> safe view K st0 (st\<lparr>PausedCancellationJobChannel := js @ [i]\<rparr>)"
  "safe view K st0 st \<Longrightarrow> PausedCancellationJobChannel st = j # js \<Longrightarrow> safe view K st0 (st\<lparr>PausedCancellationJobChannel := js\<rparr>)"
  "safe view K st0 st \<Longrightarrow> safe view K st0 (st\<lparr>PausedCancellationJobChannel := tl (PausedCancellationJobChannel st)\<rparr>)"
  by (auto simp: safe_def channels_ok_def)

text \<open>The shapes the code is composed of.\<close>

lemma safe_shapes [safe_intros]:
  "safe view K st0 st \<Longrightarrow> safe view K st0 (snd (r, st))"
  "safe view K st0 (snd (m st)) \<Longrightarrow> (\<And>a st1. safe view K st0 st1 \<Longrightarrow> safe view K st0 (snd (f a st1))) \<Longrightarrow> safe view K st0 (snd (and_then m f st))"
  "safe view K st0 (snd p) \<Longrightarrow> (\<And>r st1. safe view K st0 st1 \<Longrightarrow> safe view K st0 (snd (f1 r st1))) \<Longrightarrow> safe view K st0 (snd (case_prod f1 p))"
  by (auto simp: and_then_def split: prod.splits turn.splits)

lemma safe_cases [safe_intros]:
  "(b \<Longrightarrow> safe view K st0 (snd x)) \<Longrightarrow> (\<not> b \<Longrightarrow> safe view K st0 (snd y)) \<Longrightarrow> safe view K st0 (snd (if b then x else y))"
  "(b \<Longrightarrow> safe view K st0 (snd (x1 st))) \<Longrightarrow> (\<not> b \<Longrightarrow> safe view K st0 (snd (y1 st))) \<Longrightarrow> safe view K st0 (snd ((if b then x1 else y1) st))"
  "(v = None \<Longrightarrow> safe view K st0 (snd x)) \<Longrightarrow> (\<And>a. v = Some a \<Longrightarrow> safe view K st0 (snd (f a))) \<Longrightarrow> safe view K st0 (snd (case_option x f v))"
  "(v = None \<Longrightarrow> safe view K st0 (snd (x1 st))) \<Longrightarrow> (\<And>a. v = Some a \<Longrightarrow> safe view K st0 (snd (f1 a st))) \<Longrightarrow> safe view K st0 (snd (case_option x1 f1 v st))"
  "(\<And>e. w = Inl e \<Longrightarrow> safe view K st0 (snd (g e))) \<Longrightarrow> (\<And>a. w = Inr a \<Longrightarrow> safe view K st0 (snd (h a))) \<Longrightarrow> safe view K st0 (snd (case_sum g h w))"
  "(\<And>e. w = Inl e \<Longrightarrow> safe view K st0 (snd (g1 e st))) \<Longrightarrow> (\<And>a. w = Inr a \<Longrightarrow> safe view K st0 (snd (h1 a st))) \<Longrightarrow> safe view K st0 (snd (case_sum g1 h1 w st))"
  "(l = [] \<Longrightarrow> safe view K st0 (snd x)) \<Longrightarrow> (\<And>a as. l = a # as \<Longrightarrow> safe view K st0 (snd (c a as))) \<Longrightarrow> safe view K st0 (snd (case_list x c l))"
  "(l = [] \<Longrightarrow> safe view K st0 (snd (x1 st))) \<Longrightarrow> (\<And>a as. l = a # as \<Longrightarrow> safe view K st0 (snd (c1 a as st))) \<Longrightarrow> safe view K st0 (snd (case_list x1 c1 l st))"
  "(\<And>a. q = Ret a \<Longrightarrow> safe view K st0 (snd (d a))) \<Longrightarrow> (q = Panic \<Longrightarrow> safe view K st0 (snd x)) \<Longrightarrow> safe view K st0 (snd (case_go d x q))"
  "(\<And>a b. safe view K st0 (snd (k a b st))) \<Longrightarrow> safe view K st0 (snd (case_prod k p st))"
  "(\<And>a. t = Go a \<Longrightarrow> safe view K st0 (snd (u a))) \<Longrightarrow> (t = Stop \<Longrightarrow> safe view K st0 (snd x)) \<Longrightarrow> (t = Block \<Longrightarrow> safe view K st0 (snd y)) \<Longrightarrow>
     (t = Crash \<Longrightarrow> safe view K st0 (snd z)) \<Longrightarrow> safe view K st0 (snd (case_turn u x y z t))"
  by (auto split: option.split sum.split list.split go.split prod.split turn.split)

lemma safe_events [safe_intros]:
  "(ev = WatchDone \<Longrightarrow> safe view K st0 (snd x)) \<Longrightarrow> (ev = WatchJob \<Longrightarrow> safe view K st0 (snd y)) \<Longrightarrow>
     (ev = WatchPoll \<Longrightarrow> safe view K st0 (snd z)) \<Longrightarrow> safe view K st0 (snd (case_watch_event x y z ev))"
  "(ce = CheckPaused \<Longrightarrow> safe view K st0 (snd x)) \<Longrightarrow> (ce = CheckRetry \<Longrightarrow> safe view K st0 (snd y)) \<Longrightarrow>
     (ce = CheckJob \<Longrightarrow> safe view K st0 (snd z)) \<Longrightarrow> (ce = CheckDefault \<Longrightarrow> safe view K st0 (snd u)) \<Longrightarrow>
     safe view K st0 (snd (case_check_event x y z u ce))"
  "(b \<Longrightarrow> safe view K st0 st1) \<Longrightarrow> (\<not> b \<Longrightarrow> safe view K st0 st2) \<Longrightarrow> safe view K st0 (if b then st1 else st2)"
  by (auto split: watch_event.split check_event.split)

lemma safe_pair: "(\<And>a b. p = (a, b) \<Longrightarrow> safe view K st0 (snd (f a b))) \<Longrightarrow> safe view K st0 (snd (case_prod f p))"
  by (simp split: prod.split)

lemma on_db_safe [safe_intros]: "safe view K st0 st \<Longrightarrow> local_op view K op \<Longrightarrow> safe view K st0 (snd (on_db op st))"
  by (auto simp: on_db_def local_op_def split: prod.splits intro!: safe_hDB)

lemma basics_safe [safe_intros]:
  "safe view K st0 st \<Longrightarrow> safe view K st0 (snd (pure_or_stop x st))"
  "safe view K st0 st \<Longrightarrow> safe view K st0 (snd (send_job j st))"
  "safe view K st0 st \<Longrightarrow> safe view K st0 (snd (send_return r st))"
  "safe view K st0 st \<Longrightarrow> safe view K st0 (snd (send_retry r st))"
  "safe view K st0 st \<Longrightarrow> local_op view K op \<Longrightarrow> safe view K st0 (snd (db_or_stop op st))"
  by (auto simp: pure_or_stop_def send_job_def send_return_def send_retry_def db_or_stop_def split: sum.split
      intro!: safe_intros)

lemma handle_safe [safe_intros]: "safe view K st0 st \<Longrightarrow> safe view K st0 (handleWatchJobCompleted j st)"
  by (simp add: handleWatchJobCompleted_def split: option.split)

section \<open>The lists of the server\<close>

lemma local_mono: "local_op view {} op \<Longrightarrow> local_op view K op"
  by (auto simp: local_op_def)

lemma local_retryI:
  assumes "lawful_retry Q N view op" and "\<And>v a v' k. Q v a v' \<Longrightarrow> k \<notin> K \<Longrightarrow> v' k = v k"
  shows "local_op view K op"
  unfolding local_op_def
proof (intro allI impI)
  fix s r s' k
  assume "op s = (r, s')" "k \<notin> K"
  then show "view s' k = view s k"
    using lawful_retryD(1,2) [OF assms(1)] assms(2) by (cases r) metis+
qed

lemma local_bindI:
  assumes "local_op view K op" and "\<And>a. local_op view K (f a)"
  shows "local_op view K (\<lambda>s. case op s of (a, s') \<Rightarrow> f a s')"
  using assms unfolding local_op_def by (auto split: prod.splits)

context redis_db
begin

lemma local_retries [safe_intros]:
  "local_op view K (RetryLRange ctx db k a b)" "local_op view K (RetryLIndex ctx db k i)" "local_op view K (RetryLLen ctx db k)"
  "k \<in> K \<Longrightarrow> local_op view K (RetryLRem ctx db k 1 x)" "k \<in> K \<Longrightarrow> local_op view K (RetryRPush ctx db k xs)"
  "k \<in> K \<Longrightarrow> local_op view K (RetryLPush ctx db k xs)" "k \<in> K \<Longrightarrow> local_op view K (RetryRPop ctx db k)"
  "k \<in> K \<Longrightarrow> l \<in> K \<Longrightarrow> local_op view K (RetryRPopLPush ctx db k l)" "k \<in> K \<Longrightarrow> local_op view K (RetryLSet ctx db k i x)"
  "k \<in> K \<Longrightarrow> local_op view K (RetryDel ctx db [k])"
  by (rule local_retryI [OF RetryLRange_law] local_retryI [OF RetryLIndex_law] local_retryI [OF RetryLLen_law]
      local_retryI [OF RetryLRem_law] local_retryI [OF RetryRPush_law] local_retryI [OF RetryLPush_law] local_retryI [OF RetryRPop_law]
      local_retryI [OF RetryRPopLPush_law] local_retryI [OF RetryLSet_law] local_retryI [OF RetryDel_law],
      auto simp: command_specs Let_def)+

lemma local_lookups [safe_intros]:
  "local_op view K (GetJobJSONFromQueueByID ctx db i queue)" "local_op view K (CheckIfJobIsCompleted ctx db queue)"
  using get_job_law(1) check_completed_law(1) by (auto simp: local_op_def)

lemma local_get [safe_intros]: "local_op view K (GetJobFromQueue ctx db queue)"
  by (auto simp: local_op_def GetJobFromQueue_def dest: bg_LIndex_view split: prod.splits sum.splits)

lemma local_get_by_key [safe_intros]: "local_op view K (GetJobFromQueueByKeyAndValue ctx db queue k v)"
  by (auto simp: local_op_def GetJobFromQueueByKeyAndValue_def dest: LRange_view split: prod.splits sum.splits)

lemma local_delete [safe_intros]: "queue \<in> K \<Longrightarrow> local_op view K (DeleteFromQueue ctx db i queue)"
  unfolding local_op_def using delete_frame by fastforce

lemma local_update [safe_intros]: "queue \<in> K \<Longrightarrow> local_op view K (UpdateJobInDB ctx db queue job)"
  unfolding local_op_def using update_law(1) by fastforce

lemma local_take_target: "queue \<in> K \<Longrightarrow> local_op view K (take_target ctx db queue xs)"
  using local_retries(4) [of queue K] by (cases xs)
    (auto simp: local_op_def take_target_def split: prod.splits sum.splits if_splits)

lemma local_pop [safe_intros]: "queue \<in> K \<Longrightarrow> local_op view K (PopJobOffQueue ctx db queue i)"
  unfolding PopJobOffQueue_def
  using local_retries(1) [of K queue i "- 1"] local_take_target [of queue K]
  by (auto simp: local_op_def split: prod.splits sum.splits if_splits)

end

section \<open>The world of a handler\<close>

text \<open>
  The lists a handler may change: those of its owner, its own queue with the cleaning list, and
  the plugin queues of the same owner on other hosts, from which it takes over paused jobs.
\<close>

definition own_lists :: "('s, 'h) Env \<Rightarrow> string set" where
  "own_lists e = {mainQueueName (queues e), pluginQueueName (queues e), mainInProgressQueueName (queues e),
     pluginCompletedQueueName (queues e), mainCompletedQueueName (queues e), pausedQueueName (queues e),
     cleaningQueueName (queues e)} \<union> range (host_queue e)"

lemma own_lists_simps [simp, safe_intros]:
  "mainQueueName (queues e) \<in> own_lists e" "pluginQueueName (queues e) \<in> own_lists e"
  "mainInProgressQueueName (queues e) \<in> own_lists e" "pluginCompletedQueueName (queues e) \<in> own_lists e"
  "mainCompletedQueueName (queues e) \<in> own_lists e" "pausedQueueName (queues e) \<in> own_lists e"
  "cleaningQueueName (queues e) \<in> own_lists e" "host_queue e n \<in> own_lists e"
  by (simp_all add: own_lists_def)

lemma own_lists_token [simp]: "own_lists (e\<lparr>pluginCtx := c\<rparr>) = own_lists e"
  by (simp add: own_lists_def host_queue_def [abs_def])

text \<open>
  The contract: Redis keeps its laws, the calls of the GitHub API change no list, and waiting on
  the context that comes back with a registration token changes none either, if that held of the
  context the request was made with. \<open>K\<close> is any set of lists with those of the handler: the
  others in it may change at the hands of other hosts while a run waits.
\<close>

definition quiet_ctx :: "('s \<Rightarrow> lists) \<Rightarrow> 's Ctx \<Rightarrow> bool" where
  "quiet_ctx view c \<longleftrightarrow> (\<forall>d w. view (Sleep c d w) = view w)"

locale handler_world = redis_db "database e" view "pluginCtx e" for e :: "('s, 'h) Env" and view :: "'s \<Rightarrow> lists" +
  fixes K :: "string set"
  assumes own: "own_lists e \<subseteq> K"
    and ClientFor_local: "local_op view {} (ClientFor (api e) owner)"
    and GetJob_local: "local_op view {} (GetJob (api e) owner repo i)"
    and GetRun_local: "local_op view {} (GetRun (api e) owner repo i)"
    and CancelRun_local: "local_op view {} (CancelRun (api e) owner repo i)"
    and ListRunners_local: "local_op view {} (ListRunners (api e) scope)"
    and RemoveRunner_local: "local_op view {} (RemoveRunner (api e) scope i)"
    and CreateToken_local: "quiet_ctx view c \<Longrightarrow> local_op view {} (CreateToken (api e) scope c)"
    and CreateToken_ctx: "quiet_ctx view c \<Longrightarrow> CreateToken (api e) scope c s = ((c', r), s') \<Longrightarrow> quiet_ctx view c'"
begin

lemmas own_in_K [simp, safe_intros] = own_lists_simps [THEN subsetD [OF own]]

lemma quiet [simp]: "quiet_ctx view (pluginCtx e)"
  by (simp add: quiet_ctx_def Sleep_view)

sublocale background: redis_db "database e" view "Background (pluginCtx e)"
  by (rule bg)

sublocale cleanup: redis_db "(database e)\<lparr>MaxRetries := 0\<rparr>" view "Background (pluginCtx e)"
  by (rule redis_db_MaxRetries [OF bg])

lemmas api_local [safe_intros] = ClientFor_local [THEN local_mono] GetJob_local [THEN local_mono] GetRun_local [THEN local_mono]
  CancelRun_local [THEN local_mono] ListRunners_local [THEN local_mono] RemoveRunner_local [THEN local_mono]
  CreateToken_local [OF quiet, THEN local_mono]

text \<open>The world stays one when the run goes on with the context that came with a token.\<close>

lemma handler_world_token:
  "CreateToken (api e) scope (pluginCtx e) s = ((c, r), s') \<Longrightarrow> handler_world (e\<lparr>pluginCtx := c\<rparr>) view K"
proof -
  assume t: "CreateToken (api e) scope (pluginCtx e) s = ((c, r), s')"
  have r: "redis_db (database e) view c"
    using redis_lists_axioms CreateToken_ctx [OF quiet t] by (simp add: redis_db_def redis_db_axioms_def quiet_ctx_def)
  have a: "handler_world_axioms e view K"
    using handler_world_axioms unfolding handler_world_def by blast
  show ?thesis using r a by (simp add: handler_world_def handler_world_axioms_def)
qed

abbreviation ok :: "('s, 'h) HState \<Rightarrow> ('s, 'h) HState \<Rightarrow> bool" where
  "ok \<equiv> safe view K"

lemma sleep_safe [safe_intros]:
  "safe view K st0 st \<Longrightarrow> hDB st1 = hDB st \<Longrightarrow> safe view K st0 (st\<lparr>hDB := Sleep (pluginCtx e) d (hDB st1)\<rparr>)"
  by (simp add: safe_def channels_ok_def Sleep_view)

lemma local_status [safe_intros]: "local_op view K (UpdateJobsWorkflowJobStatus (ClientFor (api e)) (GetJob (api e)) job)"
  using ClientFor_local [THEN local_mono, of K] GetJob_local [THEN local_mono, of K]
  unfolding local_op_def UpdateJobsWorkflowJobStatus_def by (auto simp: Let_def split: prod.splits sum.splits option.splits)

subsection \<open>Watching and checking\<close>

lemma sync_safe [safe_intros]:
  "ok st0 st \<Longrightarrow> queue \<in> K \<Longrightarrow> ok st0 (snd (syncJobInDBBeforeWatchComplete (pluginCtx e) (database e) queue job st))"
  unfolding syncJobInDBBeforeWatchComplete_def by (intro safe_intros | assumption | rule safe_pair | simp)+

lemma watch_poll_safe [safe_intros]:
  "ok st0 st \<Longrightarrow> ok st0 (snd (watch_poll (pluginCtx e) (database e) p (queues e) n st))"
  unfolding watch_poll_def by (intro safe_intros | assumption | rule safe_pair | simp)+

lemma watch_finish_safe [safe_intros]:
  "ok st0 st \<Longrightarrow> queue \<in> K \<Longrightarrow> ok st0 (snd (watch_finish (pluginCtx e) (database e) queue job st))"
  unfolding watch_finish_def by (intro safe_intros | assumption | rule safe_pair | simp)+

lemma watch_turn_safe [safe_intros]:
  "ok st0 st \<Longrightarrow> ok st0 (snd (watch_turn w (pluginCtx e) (database e) p (queues e) ev n st))"
  unfolding watch_turn_def Let_def by (intro safe_intros | assumption | rule safe_pair | simp)+

lemma watchJobStatus_safe [safe_intros]:
  "ok st0 st \<Longrightarrow> ok st0 (snd (watchJobStatus w (pluginCtx e) (database e) p (queues e) evs n st))"
proof (induction evs arbitrary: n st)
  case (Cons ev evs)
  have "ok st0 (snd (watch_turn w (pluginCtx e) (database e) p (queues e) ev n st))"
    by (rule watch_turn_safe [OF Cons.prems])
  then show ?case using Cons.IH
    by (auto split: prod.splits turn.splits sum.splits)
qed simp

lemma cancel_loop_safe [safe_intros]:
  "ok st0 st \<Longrightarrow> ok st0 (snd (cancel_loop fuel w (pluginCtx e) (api e) owner repo job sent st))"
proof (induction fuel arbitrary: sent st)
  case (Suc fuel)
  show ?case unfolding cancel_loop.simps
    by (intro safe_intros Suc.IH | assumption | rule safe_pair | simp add: Suc.prems)+
qed simp

lemma sendCancel_safe [safe_intros]:
  "ok st0 st \<Longrightarrow> ok st0 (snd (sendCancelWorkflowRun w (pluginCtx e) (api e) job st))"
  unfolding sendCancelWorkflowRun_def by (intro safe_intros | assumption | rule safe_pair | simp)+

end

lemma return_all_safe [safe_intros]: "safe view K st0 st \<Longrightarrow> safe view K st0 (return_all st)"
  by (auto simp: safe_def channels_ok_def return_all_def Let_def split: list.splits)

lemma retry_request_safe [safe_intros]: "safe view K st0 st \<Longrightarrow> safe view K st0 (snd (retry_request st))"
  unfolding retry_request_def Let_def by (intro safe_intros | assumption | rule safe_pair | simp)+

context handler_world
begin

lemma save_and_stop_safe [safe_intros]:
  "ok st0 st \<Longrightarrow> queue \<in> K \<Longrightarrow> ok st0 (snd (save_and_stop (pluginCtx e) (database e) queue job st))"
  unfolding save_and_stop_def by (intro safe_intros | assumption | rule safe_pair | simp)+

lemma job_request_safe [safe_intros]:
  "ok st0 st \<Longrightarrow> ok st0 (snd (job_request w (pluginCtx e) (database e) (api e) (queues e) st))"
  unfolding job_request_def Let_def by (intro safe_intros | assumption | rule safe_pair | simp)+

lemma check_requests_safe [safe_intros]:
  "ok st0 st \<Longrightarrow> ok st0 (snd (check_requests w (pluginCtx e) (database e) (api e) (queues e) ev st))"
  unfolding check_requests_def by (intro safe_intros | assumption | rule safe_pair | simp)+

lemma active_job_safe [safe_intros]: "ok st0 st \<Longrightarrow> ok st0 (snd (active_job (pluginCtx e) (database e) (queues e) st))"
  unfolding active_job_def by (intro safe_intros | assumption | rule safe_pair | simp)+

lemma note_in_progress_safe [safe_intros]:
  "ok st0 st \<Longrightarrow> ok st0 (snd (note_in_progress (pluginCtx e) (database e) (queues e) i job st))"
  unfolding note_in_progress_def Let_def by (intro safe_intros | assumption | rule safe_pair | simp)+

lemma find_completed_safe [safe_intros]:
  "ok st0 st \<Longrightarrow> ok st0 (snd (find_completed (pluginCtx e) (database e) (queues e) i st))"
  unfolding find_completed_def by (intro safe_intros | assumption | rule safe_pair | simp)+

lemma own_completed_safe [safe_intros]: "ok st0 st \<Longrightarrow> ok st0 (snd (own_completed job st))"
  unfolding own_completed_def Let_def by (intro safe_intros | assumption | rule safe_pair | simp)+

lemma main_completed_safe [safe_intros]:
  "ok st0 st \<Longrightarrow> ok st0 (snd (main_completed (pluginCtx e) (database e) p (queues e) json job st))"
  unfolding main_completed_def Let_def by (intro safe_intros | assumption | rule safe_pair | simp)+

lemma ask_github_safe [safe_intros]:
  "ok st0 st \<Longrightarrow> ok st0 (snd (ask_github (pluginCtx e) (database e) (api e) (queues e) job st))"
  unfolding ask_github_def Let_def by (intro safe_intros | assumption | rule safe_pair | simp)+

lemma save_status_safe [safe_intros]:
  "ok st0 st \<Longrightarrow> ok st0 (snd (save_status (pluginCtx e) (database e) (queues e) b job st))"
  unfolding save_status_def by (intro safe_intros | assumption | rule safe_pair | simp)+

lemma check_active_safe [safe_intros]:
  "ok st0 st \<Longrightarrow> ok st0 (snd (check_active (pluginCtx e) (database e) (api e) p (queues e) st))"
  unfolding check_active_def Let_def by (intro safe_intros | assumption | rule safe_pair | simp)+

lemma check_body_safe [safe_intros]:
  "ok st0 st \<Longrightarrow> ok st0 (snd (check_body w (pluginCtx e) (database e) (api e) p (queues e) t ev st))"
  unfolding check_body_def Let_def by (intro safe_intros | assumption | rule safe_pair | simp)+

lemma check_turn_safe [safe_intros]:
  "ok st0 st \<Longrightarrow> ok st0 (snd (check_turn w (pluginCtx e) (database e) (api e) p (queues e) t ev st))"
  unfolding check_turn_def by (intro safe_intros | assumption | rule safe_pair | simp)+

end

text \<open>Steps on the host, with the lemmas of \<open>HostSafety\<close>.\<close>

lemmas host_ops = simple_hosts timeout_host info_hosts delete_host copy_into_host resources_host ensure_template_host
  obtain_host show_host

lemma on_host_safe [safe_intros]: "safe view K st0 st \<Longrightarrow> host_op op \<Longrightarrow> safe view K st0 (snd (on_host op st))"
  by (auto simp: on_host_def split: prod.splits intro!: safe_hHost elim: host_opD)

lemma on_host_go_safe [safe_intros]: "safe view K st0 st \<Longrightarrow> host_op op \<Longrightarrow> safe view K st0 (snd (on_host_go op st))"
  by (auto simp: on_host_go_def split: prod.splits go.splits intro!: safe_hHost elim: host_opD)

lemma host_call_safe [safe_intros]:
  "safe view K st0 st \<Longrightarrow> host_op op \<Longrightarrow> (\<And>a h. safe view K st0 (st\<lparr>hHost := h\<rparr>) \<Longrightarrow> safe view K st0 (snd (f a h))) \<Longrightarrow>
     safe view K st0 (snd (case_prod f (op (hHost st))))"
proof -
  assume s: "safe view K st0 st" and h: "host_op op"
    and f: "\<And>a h. safe view K st0 (st\<lparr>hHost := h\<rparr>) \<Longrightarrow> safe view K st0 (snd (f a h))"
  obtain a h' where eq: "op (hHost st) = (a, h')" by fastforce
  have "safe view K st0 (st\<lparr>hHost := h'\<rparr>)" by (rule safe_hHost [OF s host_opD [OF h eq]])
  then show ?thesis using f eq by simp
qed

declare host_ops [safe_intros]

lemma release_safe [safe_intros]: "safe view K st0 st \<Longrightarrow> safe view K st0 (cleanup_release p b st)"
  by (simp add: cleanup_release_def)

context handler_world
begin

subsection \<open>Cleanup\<close>

abbreviation (input) cleanup_db :: "'s Database" where
  "cleanup_db \<equiv> (database e)\<lparr>MaxRetries := 0\<rparr>"

abbreviation (input) cleanup_ctx :: "'s Ctx" where
  "cleanup_ctx \<equiv> Background (pluginCtx e)"

lemma delete_logged_safe [safe_intros]:
  "ok st0 st \<Longrightarrow> queue \<in> K \<Longrightarrow> ok st0 (snd (delete_logged (pluginCtx e) (database e) job queue st))"
  "ok st0 st \<Longrightarrow> queue \<in> K \<Longrightarrow> ok st0 (snd (delete_logged cleanup_ctx cleanup_db job queue st))"
  unfolding delete_logged_def by (intro safe_intros | assumption | rule safe_pair | simp)+

lemma next_cleaning_safe [safe_intros]: "ok st0 st \<Longrightarrow> ok st0 (snd (next_cleaning cleanup_ctx cleanup_db (queues e) b st))"
  unfolding next_cleaning_def by (intro safe_intros | assumption | rule safe_pair | simp)+

lemma clean_vm_safe [safe_intros]: "ok st0 st \<Longrightarrow> ok st0 (snd (clean_vm cleanup_ctx cleanup_db cli b (queues e) job st))"
proof -
  assume s: "ok st0 st"
  let ?v = "VMName (AnkaVM job)"
  let ?h = "if b then snd (AnkaCopyOutOfVM cli ?v ''/Users/anka/actions-runner/_diag'' (''/tmp/'' @ ?v) (hHost st)) else hHost st"
  have 1: "host_ok (hHost st) \<Longrightarrow> host_ok ?h"
    using host_opD [OF simple_hosts(5) surjective_pairing] by (cases b) (simp_all del: append_Cons append.simps)
  have 2: "host_ok ?h \<Longrightarrow> host_ok (snd (AnkaDelete cli ?v ?h))"
    by (rule host_opD [OF delete_host surjective_pairing])
  have "ok st0 (st\<lparr>hHost := snd (AnkaDelete cli ?v ?h)\<rparr>)" by (rule safe_hHost [OF s]) (use 1 2 in blast)
  then show ?thesis unfolding clean_vm_def Let_def by (intro safe_intros | assumption | rule safe_pair | simp)+
qed

lemma clean_completed_safe [safe_intros]:
  "ok st0 st \<Longrightarrow> ok st0 (snd (clean_completed (pluginCtx e) cleanup_ctx (database e) cleanup_db (queues e) job st))"
  unfolding clean_completed_def by (intro safe_intros | assumption | rule safe_pair | simp)+

lemma return_to_main_safe [safe_intros]:
  "ok st0 st \<Longrightarrow> ok st0 (snd (return_to_main cleanup_ctx cleanup_db (queues e) reason st))"
  unfolding return_to_main_def by (intro safe_intros | assumption | rule safe_pair | simp)+

lemma put_back_safe [safe_intros]: "ok st0 st \<Longrightarrow> ok st0 (snd (put_back cleanup_ctx cleanup_db (queues e) job st))"
  unfolding put_back_def by (intro safe_intros | assumption | rule safe_pair | simp)+

lemma clean_job_safe [safe_intros]:
  "ok st0 st \<Longrightarrow> ok st0 (snd (clean_job (pluginCtx e) cleanup_ctx (database e) cleanup_db (queues e) pf job st))"
proof -
  assume s: "ok st0 st"
  have "ok st0 (snd (case (PausedCancellationJobChannel st1, ReturnToMainQueue st1) of
          ([], []) \<Rightarrow> put_back cleanup_ctx cleanup_db (queues e) job st1
        | (paused, returns) \<Rightarrow>
            if paused \<noteq> [] \<and> (returns = [] \<or> pf)
            then and_then (db_or_stop (RetryDel cleanup_ctx cleanup_db [cleaningQueueName (queues e)])) (\<lambda>_ st'. (Stop, st'))
                   (st1\<lparr>PausedCancellationJobChannel := tl paused\<rparr>)
            else return_to_main cleanup_ctx cleanup_db (queues e) (hd returns) (st1\<lparr>ReturnToMainQueue := tl returns\<rparr>)))"
    if "ok st0 st1" for st1
    using that
    by (cases "PausedCancellationJobChannel st1"; cases "ReturnToMainQueue st1"; simp)
      (intro conjI impI safe_intros | assumption | simp)+
  then show ?thesis unfolding clean_job_def using s by (intro safe_intros | assumption | rule safe_pair | simp)+
qed

lemma cleanup_turn_safe [safe_intros]:
  "ok st0 st \<Longrightarrow> ok st0 (snd (cleanup_turn (pluginCtx e) cleanup_ctx (database e) cleanup_db cli b (queues e) s pf st))"
  unfolding cleanup_turn_def by (intro safe_intros | assumption | rule safe_pair | simp)+

lemma cleanup_queue_safe [safe_intros]:
  "ok st0 st \<Longrightarrow> ok st0 (snd (cleanup_queue n (pluginCtx e) cleanup_ctx (database e) cleanup_db cli b (queues e) s pf st))"
proof (induction n arbitrary: st)
  case (Suc n)
  show ?case unfolding cleanup_queue.simps by (intro safe_intros Suc | assumption)+
qed simp

lemma cleanup_guard_safe [safe_intros]:
  "ok st0 st \<Longrightarrow> ok st0 (snd (cleanup_guard (pluginCtx e) cleanup_ctx (database e) cleanup_db (queues e) st))"
  unfolding cleanup_guard_def by (intro safe_intros | assumption | rule safe_pair | simp)+

lemma cleanup_safe [safe_intros]:
  "ok st0 st \<Longrightarrow> ok st0 (snd (cleanup n (pluginCtx e) (database e) cli b p (queues e) s pf st))"
  unfolding cleanup_def Let_def by (intro safe_intros | assumption | rule safe_pair | simp)+

end

end
