(* ===== verification/RunSafety.thy ===== *)
theory RunSafety
  imports HandlerSafety
begin

text \<open>
  \<open>Run\<close> is safe in the sense of \<open>HandlerSafety\<close>: the lemmas follow its phases, from the choice of
  the job to the deferred cleanup, with the turns of the concurrent check and the steps of other
  hosts at the places where the code waits for them.
\<close>

lemma safe_trans: "safe view K st0 st1 \<Longrightarrow> safe view K st1 st2 \<Longrightarrow> safe view K st0 st2"
  by (simp add: safe_def)

lemma run_basics_safe [safe_intros]:
  "safe view K st0 st \<Longrightarrow> safe view K st0 (snd (return_error t st))"
  "safe view K st0 st \<Longrightarrow> safe view K st0 (snd (return_ok st))"
  "safe view K st0 st \<Longrightarrow> safe view K st0 (snd (announce j st))"
  "safe view K st0 st \<Longrightarrow> safe view K st0 (snd (retry_later r st))"
  "safe view K st0 st \<Longrightarrow> safe view K st0 (snd (retry_error r t st))"
  "safe view K st0 st \<Longrightarrow> safe view K st0 (snd (skip_and_retry r st))"
  "safe view K st0 st \<Longrightarrow> safe view K st0 (set_own e f st)"
  "safe view K st0 st \<Longrightarrow> safe view K st0 (stop_preparing e st)"
  "safe view K st0 st \<Longrightarrow> safe view K st0 (set_paused e b st)"
  "safe view K st0 st \<Longrightarrow> safe view K st0 (snd (check_canceled e t st))"
  unfolding return_error_def return_ok_def announce_def retry_later_def retry_error_def skip_and_retry_def skip_target_def
    set_own_def stop_preparing_def set_paused_def check_canceled_def
  by (intro safe_intros | assumption | simp)+

lemma db_or_error_safe [safe_intros]:
  "safe view K st0 st \<Longrightarrow> local_op view K op \<Longrightarrow> safe view K st0 (snd (db_or_error t op st))"
  unfolding db_or_error_def by (intro safe_intros | assumption)+

lemma channel_check_safe [safe_intros]:
  "safe view K st0 st \<Longrightarrow> (\<And>j st1. safe view K st0 st1 \<Longrightarrow> safe view K st0 (snd (f j st1))) \<Longrightarrow> safe view K st0 (snd (channel_check e f st))"
proof -
  assume s: "safe view K st0 st" and f: "\<And>j st1. safe view K st0 st1 \<Longrightarrow> safe view K st0 (snd (f j st1))"
  show ?thesis unfolding channel_check_def by (intro safe_intros f s | assumption | simp)+
qed

lemma after_first_cleanup_safe [safe_intros]: "safe view K st0 st \<Longrightarrow> safe view K st0 (snd (after_first_cleanup e st))"
  unfolding after_first_cleanup_def by (intro safe_intros | assumption | simp)+

lemma unless_over_safe [safe_intros]: "safe view K st0 st \<Longrightarrow> safe view K st0 (snd (unless_over e st))"
  unfolding unless_over_def by (intro safe_intros | assumption | simp)+

lemma may_take_jobs_safe [safe_intros]: "safe view K st0 st \<Longrightarrow> safe view K st0 (snd (may_take_jobs e st))"
  unfolding may_take_jobs_def by (intro safe_intros | assumption | rule safe_pair | simp)+

lemma enough_resources_safe [safe_intros]: "safe view K st0 st \<Longrightarrow> safe view K st0 (snd (enough_resources e vm st))"
  unfolding enough_resources_def by (intro safe_intros | assumption | rule safe_pair | simp)+

context handler_world
begin

subsection \<open>Start of a run and choice of the job\<close>

lemma run_watch_safe [safe_intros]: "ok st0 st \<Longrightarrow> ok st0 (snd (run_watch e evs st))"
proof -
  assume s: "ok st0 st"
  have "ok st0 (snd (watchJobStatus (workerCtx e) (pluginCtx e) (database e) (plugin e) (queues e) evs 0 st))"
    by (rule watchJobStatus_safe [OF s])
  then show ?thesis unfolding run_watch_def by (auto split: prod.splits turn.splits sum.splits)
qed

lemma start_channel_safe [safe_intros]: "ok st0 st \<Longrightarrow> ok st0 (snd (start_channel e evs st))"
  unfolding start_channel_def Let_def by (intro safe_intros | assumption | simp)+

lemma await_check_safe [safe_intros]:
  "ok st0 st \<Longrightarrow> (\<And>st1. ok st0 st1 \<Longrightarrow> ok st0 (snd (f st1))) \<Longrightarrow> ok st0 (snd (await_check e f evs st))"
proof (induction evs arbitrary: st)
  case (Cons ev evs)
  show ?case unfolding await_check.simps
    by (intro safe_intros Cons.IH Cons.prems(2) | assumption | simp add: Cons.prems(1))+
qed simp

lemma run_start_safe [safe_intros]: "ok st0 st \<Longrightarrow> ok st0 (snd (run_start n e b checks evs st))"
  unfolding run_start_def by (intro safe_intros | assumption | simp)+

lemma own_job_safe [safe_intros]: "ok st0 st \<Longrightarrow> ok st0 (snd (own_job e st))"
  unfolding own_job_def by (intro safe_intros | assumption | simp)+

lemma paused_is_over_safe [safe_intros]: "ok st0 st \<Longrightarrow> ok st0 (snd (paused_is_over e json st))"
  unfolding paused_is_over_def by (intro safe_intros | assumption | simp)+

lemma deferred_put_back_safe [safe_intros]: "ok st0 st \<Longrightarrow> ok st0 (deferred_put_back e json st)"
proof -
  assume s: "ok st0 st"
  obtain b st1 where p: "paused_is_over e json st = (b, st1)" by fastforce
  then have s1: "ok st0 st1" using paused_is_over_safe [OF s, of json] by simp
  have "ok st0 (snd (on_db (RetryLPush (pluginCtx e) (database e) (pausedQueueName (queues e)) [json]) st1))"
    by (intro safe_intros s1)
  then show ?thesis using s s1 p by (simp add: deferred_put_back_def)
qed

lemma put_backs_safe [safe_intros]: "ok st0 st \<Longrightarrow> ok st0 ((deferred_put_back e json ^^ n) st)"
  by (induction n) (simp_all add: deferred_put_back_safe)

lemma with_put_back_safe [safe_intros]: "ok st0 (snd (m st)) \<Longrightarrow> ok st0 (snd (with_put_back e n json m st))"
  unfolding with_put_back_def by (auto split: prod.splits turn.splits intro: put_backs_safe)

lemma take_over_safe [safe_intros]: "ok st0 st \<Longrightarrow> ok st0 (snd (take_over e len json i job st))"
  unfolding take_over_def by (intro safe_intros | assumption | simp)+

lemma consider_paused_safe [safe_intros]: "ok st0 st \<Longrightarrow> ok st0 (snd (consider_paused e len json i st))"
  unfolding consider_paused_def by (intro safe_intros | assumption | simp)+

lemma paused_turn_safe [safe_intros]: "ok st0 st \<Longrightarrow> ok st0 (snd (paused_turn e n held i st))"
  unfolding paused_turn_def by (intro safe_intros | assumption | simp)+

lemma paused_search_safe [safe_intros]: "ok st0 st \<Longrightarrow> ok st0 (snd (paused_search fuel e n held i st))"
proof (induction fuel arbitrary: n held i st)
  case (Suc fuel)
  show ?case unfolding paused_search.simps by (intro safe_intros Suc | assumption)+
qed simp

lemma release_held_safe [safe_intros]: "ok st0 st \<Longrightarrow> ok st0 (snd (release_held e n held st))"
  unfolding release_held_def by (intro safe_intros | assumption | simp)+

lemma main_job_safe [safe_intros]: "ok st0 st \<Longrightarrow> ok st0 (snd (main_job e st))"
  unfolding main_job_def Let_def by (intro safe_intros | assumption | simp)+

lemma pick_job_safe [safe_intros]: "ok st0 st \<Longrightarrow> ok st0 (snd (pick_job fuel e st))"
  unfolding pick_job_def by (intro safe_intros | assumption | simp)+

subsection \<open>The job is still wanted\<close>

lemma save_safe [safe_intros]: "ok st0 st \<Longrightarrow> ok st0 (snd (save e job st))"
  unfolding save_def by (intro safe_intros | assumption | simp)+

lemma save_or_finish_safe [safe_intros]: "ok st0 st \<Longrightarrow> ok st0 (snd (save_or_finish e job st))"
  unfolding save_or_finish_def by (intro safe_intros | assumption | simp)+

lemma give_up_safe [safe_intros]: "ok st0 st \<Longrightarrow> ok st0 (snd (give_up e job st))"
  unfolding give_up_def by (intro safe_intros | assumption | simp)+

lemma first_check_safe [safe_intros]: "ok st0 st \<Longrightarrow> ok st0 (snd (first_check e checks job st))"
  unfolding first_check_def Let_def by (intro safe_intros | assumption | simp)+

lemma check_attempts_safe [safe_intros]: "ok st0 st \<Longrightarrow> ok st0 (snd (check_attempts e evs job st))"
  unfolding check_attempts_def by (intro safe_intros | assumption | rule safe_pair | simp)+

lemma start_preparing_safe [safe_intros]: "ok st0 st \<Longrightarrow> ok st0 (snd (start_preparing e job st))"
  unfolding start_preparing_def Let_def by (intro safe_intros | assumption | simp)+

subsection \<open>Size, resources and template\<close>

lemma registry_info_safe [safe_intros]: "ok st0 st \<Longrightarrow> ok st0 (snd (registry_info e job st))"
  unfolding registry_info_def Let_def by (intro safe_intros | assumption | simp)+

lemma local_info_safe [safe_intros]: "ok st0 st \<Longrightarrow> ok st0 (snd (local_info e job st))"
  unfolding local_info_def by (intro safe_intros | assumption | simp)+

lemma vm_info_safe [safe_intros]: "ok st0 st \<Longrightarrow> ok st0 (snd (vm_info e job st))"
  unfolding vm_info_def by (intro safe_intros | assumption | simp)+

lemma delete_paused_safe [safe_intros]: "ok st0 st \<Longrightarrow> ok st0 (snd (delete_paused e i st))"
  unfolding delete_paused_def by (intro safe_intros | assumption | simp)+

lemma pause_channel_safe [safe_intros]: "ok st0 st \<Longrightarrow> ok st0 (snd (pause_channel e i st))"
  unfolding pause_channel_def Let_def by (intro safe_intros | assumption | simp)+

lemma pause_turn_safe [safe_intros]: "ok st0 st \<Longrightarrow> ok st0 (snd (pause_turn e i job st))"
  unfolding pause_turn_def resume_paused_def Let_def by (intro safe_intros | assumption | simp)+

lemma check_scripts_safe [safe_intros]: "ok st0 st \<Longrightarrow> ok st0 (snd (check_scripts e pluginsPath job st))"
  unfolding check_scripts_def by (intro safe_intros | assumption | simp)+

lemma ensure_template_safe [safe_intros]: "ok st0 st \<Longrightarrow> ok st0 (snd (ensure_template e job st))"
  unfolding ensure_template_def by (intro safe_intros | assumption | simp)+

lemma template_ready_safe [safe_intros]: "ok st0 st \<Longrightarrow> ok st0 (snd (template_ready e pluginsPath job st))"
  unfolding template_ready_def by (intro safe_intros | assumption | simp)+

subsection \<open>VM and runner\<close>

lemma remove_busy_safe [safe_intros]: "ok st0 st \<Longrightarrow> ok st0 (snd (remove_busy e job i st))"
  unfolding remove_busy_def removeRunnerByScope_def by (intro safe_intros | assumption | simp)+

lemma remove_named_safe [safe_intros]: "ok st0 st \<Longrightarrow> ok st0 (snd (remove_named e job runners st))"
proof (induction runners)
  case (Cons r runners)
  obtain name i where "r = (name, i)" by fastforce
  with Cons show ?case by (auto split: option.split intro: remove_busy_safe)
qed simp

lemma removeSelfHostedRunner_safe [safe_intros]: "ok st0 st \<Longrightarrow> ok st0 (snd (removeSelfHostedRunner e st))"
  unfolding removeSelfHostedRunner_def by (intro safe_intros | assumption | simp)+

lemma registration_token_safe [safe_intros]: "ok st0 st \<Longrightarrow> ok st0 (snd (registration_token e r st))"
  unfolding registration_token_def by (intro safe_intros | assumption | simp)+

lemma keep_vm_safe [safe_intros]: "ok st0 st \<Longrightarrow> ok st0 (snd (keep_vm e job vm err st))"
  unfolding keep_vm_def Let_def by (intro safe_intros | assumption | simp)+

lemma obtain_vm_safe [safe_intros]: "ok st0 st \<Longrightarrow> ok st0 (snd (obtain_vm e job st))"
  unfolding obtain_vm_def by (intro safe_intros | assumption | simp)+

lemma runner_steps_safe [safe_intros]:
  "ok st0 st \<Longrightarrow> ok st0 (snd (copy_scripts e job st))"
  "ok st0 st \<Longrightarrow> ok st0 (snd (install_runner e job st))"
  "ok st0 st \<Longrightarrow> ok st0 (snd (register_runner e job token st))"
  "ok st0 st \<Longrightarrow> ok st0 (snd (start_runner e job st))"
  "ok st0 st \<Longrightarrow> ok st0 (snd (watch_runner e evs job st))"
  unfolding copy_scripts_def install_runner_def register_runner_def start_runner_def watch_runner_def
  by (intro safe_intros | assumption | simp)+

lemma with_removal_safe [safe_intros]: "ok st0 (snd (m st)) \<Longrightarrow> ok st0 (snd (with_removal e m st))"
  unfolding with_removal_def
  by (auto split: prod.splits turn.splits intro!: removeSelfHostedRunner_safe safe_shapes(2))

lemma run_runner_safe [safe_intros]: "ok st0 st \<Longrightarrow> ok st0 (snd (run_runner e evs r job st))"
  unfolding run_runner_def by (intro safe_intros | assumption | simp)+

subsection \<open>Waiting with a paused job\<close>

text \<open>
  Between the turns of the wait the other goroutines and hosts take steps. All that is asked of
  them is what is proved of the handler's own steps.
\<close>

abbreviation (input) others_ok :: "(('s, 'h) HState \<Rightarrow> ('s, 'h) HState) list \<Rightarrow> bool" where
  "others_ok others \<equiv> \<forall>f\<in>set others. \<forall>st. ok st (f st)"

lemma pause_loop_safe [safe_intros]: "others_ok others \<Longrightarrow> ok st0 st \<Longrightarrow> ok st0 (snd (pause_loop e i others job st))"
proof (induction others arbitrary: st)
  case (Cons f others)
  have IH: "\<And>st1. ok st0 st1 \<Longrightarrow> ok st0 (snd (pause_loop e i others job (f st1)))"
    using Cons.prems(1) by (intro Cons.IH) (auto intro: safe_trans)
  show ?case unfolding pause_loop.simps by (intro safe_intros IH Cons.prems(2) | assumption | simp)+
qed simp

lemma pause_job_safe [safe_intros]: "others_ok others \<Longrightarrow> ok st0 st \<Longrightarrow> ok st0 (snd (pause_job e others job st))"
  unfolding pause_job_def Let_def by (intro safe_intros | assumption | simp)+

lemma host_resources_safe [safe_intros]: "others_ok others \<Longrightarrow> ok st0 st \<Longrightarrow> ok st0 (snd (host_resources e others job st))"
  unfolding host_resources_def by (intro safe_intros | assumption | simp)+

subsection \<open>The whole run\<close>

lemma run_prepare_safe [safe_intros]:
  "others_ok (pauseOthers sch) \<Longrightarrow> ok st0 st \<Longrightarrow> ok st0 (snd (run_prepare fuel e debug pluginsPath sch st))"
  unfolding run_prepare_def by (intro safe_intros | assumption | simp)+

lemma await_end_safe [safe_intros]: "ok st0 st \<Longrightarrow> ok st0 (snd (await_end e evs st))"
proof (induction evs arbitrary: st)
  case (Cons ev evs)
  show ?case unfolding await_end.simps by (intro safe_intros Cons.IH Cons.prems | assumption | simp)+
qed simp

lemma run_deferred_safe [safe_intros]: "ok st0 st \<Longrightarrow> ok st0 (snd (run_deferred fuel e debug checks st))"
  unfolding run_deferred_def by (intro safe_intros | assumption | simp)+

end

lemma Run_safe:
  assumes w: "handler_world e view K"
    and others: "\<And>f st1. f \<in> set (pauseOthers sch) \<Longrightarrow> safe view K st1 (f st1)"
    and s: "safe view K st0 st"
  shows "safe view K st0 (snd (Run fuel e debug pluginsPath sch st))"
proof -
  note here = handler_world.run_prepare_safe [OF w _ s] handler_world.run_deferred_safe [OF w]
  obtain out st1 where p: "run_prepare fuel e debug pluginsPath sch st = (out, st1)" by fastforce
  have s1: "safe view K st0 st1" using here(1) [of sch fuel debug pluginsPath] others p by fastforce
  obtain c r st2 where t: "on_db (CreateToken (api e) (GitHubScope_of (plugin e)) (pluginCtx e)) st1 = ((c, r), st2)"
    by (metis surj_pair)
  then have t': "CreateToken (api e) (GitHubScope_of (plugin e)) (pluginCtx e) (hDB st1) = ((c, r), hDB st2)"
    by (auto simp: on_db_def split: prod.splits)
  note w' = handler_world.handler_world_token [OF w t']
  have "safe view K st0 (snd (on_db (CreateToken (api e) (GitHubScope_of (plugin e)) (pluginCtx e)) st1))"
    by (intro on_db_safe s1 handler_world.api_local [OF w])
  then have s2: "safe view K st0 st2" using t by simp
  let ?e = "e\<lparr>pluginCtx := c\<rparr>"
  note there = handler_world.run_runner_safe [OF w', simplified] handler_world.run_deferred_safe [OF w', simplified]
  have go: "safe view K st0 (snd (case run_runner ?e (watchEvents sch) r job st2 of
      (Crash, st3) \<Rightarrow> (Crash, st3) | (Block, st3) \<Rightarrow> (Block, st3) | (_, st3) \<Rightarrow> run_deferred fuel ?e debug (endChecks sch) st3))" for job
    using there(1) [OF s2] there(2) by (auto split: prod.split turn.split) (metis snd_conv)+
  show ?thesis
  proof (cases out)
    case (Go job)
    then show ?thesis using go [of job] by (simp add: Run_def p t Let_def run_basics_safe s)
  qed (use s1 here(2) in \<open>simp_all add: Run_def p run_basics_safe s\<close>)
qed

end
