(* ===== verification/HandlerSteps.thy ===== *)
theory HandlerSteps
  imports RunSafety
begin

text \<open>
  A handler and several handlers as transition systems. A step of a handler is a turn of one of
  its goroutines: of \<open>checkForCompletedJobs\<close>, of the watch of a job, of the wait with a paused
  job, or a phase of \<open>Run\<close>; a system interleaves the steps of its handlers, which share nothing
  but the database. Every reachable state is safe.
\<close>

section \<open>One handler\<close>

inductive handler_step :: "('s, 'h) Env \<Rightarrow> ('s, 'h) HState \<Rightarrow> ('s, 'h) HState \<Rightarrow> bool" for e where
  check: "check_turn (workerCtx e) (pluginCtx e) (database e) (api e) (plugin e) (queues e) (checkStart e) ev st = (out, st') \<Longrightarrow> handler_step e st st'"
| watch: "watch_turn (workerCtx e) (pluginCtx e) (database e) (plugin e) (queues e) wev n st = (wout, st') \<Longrightarrow> handler_step e st st'"
| start: "run_start fuel e debug [] [] st = (out, st') \<Longrightarrow> handler_step e st st'"
| pick: "pick_job fuel e st = (jout, st') \<Longrightarrow> handler_step e st st'"
| first: "first_check e [] job st = (out, st') \<Longrightarrow> handler_step e st st'"
| attempts: "check_attempts e [] job st = (jout, st') \<Longrightarrow> handler_step e st st'"
| prepare: "start_preparing e job st = (jout, st') \<Longrightarrow> handler_step e st st'"
| size: "vm_info e job st = (jout, st') \<Longrightarrow> handler_step e st st'"
| resources: "host_resources e [] job st = (jout, st') \<Longrightarrow> handler_step e st st'"
| pause: "pause_turn e i job st = (pout, st') \<Longrightarrow> handler_step e st st'"
| template: "template_ready e pluginsPath job st = (out, st') \<Longrightarrow> handler_step e st st'"
| runner: "run_runner e [] r job st = (out, st') \<Longrightarrow> handler_step e st st'"
| clean: "cleanup fuel (pluginCtx e) (database e) (ankaCLI e) debug (plugin e) (queues e) onStart pf st = (out, st') \<Longrightarrow> handler_step e st st'"

inductive_cases handler_stepE: "handler_step e st st'"

context handler_world
begin

lemma handler_step_safe: "handler_step e st st' \<Longrightarrow> ok st st'"
proof (induction rule: handler_step.induct)
  case (check ev st out st')
  then show ?case using check_turn_safe [OF safe_refl] by (metis snd_conv)
next
  case (watch wev n st wout st')
  then show ?case using watch_turn_safe [OF safe_refl] by (metis snd_conv)
next
  case (start fuel debug st out st')
  then show ?case using run_start_safe [OF safe_refl] by (metis snd_conv)
next
  case (pick fuel st jout st')
  then show ?case using pick_job_safe [OF safe_refl] by (metis snd_conv)
next
  case (first job st out st')
  then show ?case using first_check_safe [OF safe_refl] by (metis snd_conv)
next
  case (attempts job st jout st')
  then show ?case using check_attempts_safe [OF safe_refl] by (metis snd_conv)
next
  case (prepare job st jout st')
  then show ?case using start_preparing_safe [OF safe_refl] by (metis snd_conv)
next
  case (size job st jout st')
  then show ?case using vm_info_safe [OF safe_refl] by (metis snd_conv)
next
  case (resources job st jout st')
  then show ?case using host_resources_safe [OF _ safe_refl, of "[]"] by (metis empty_iff list.set(1) snd_conv)
next
  case (pause i job st pout st')
  then show ?case using pause_turn_safe [OF safe_refl] by (metis snd_conv)
next
  case (template pluginsPath job st out st')
  then show ?case using template_ready_safe [OF safe_refl] by (metis snd_conv)
next
  case (runner r job st out st')
  then show ?case using run_runner_safe [OF safe_refl] by (metis snd_conv)
next
  case (clean fuel debug onStart pf st out st')
  then show ?case using cleanup_safe [OF safe_refl] by (metis snd_conv)
qed

lemma handler_steps_safe: "(handler_step e)\<^sup>*\<^sup>* st st' \<Longrightarrow> ok st st'"
  by (induction rule: rtranclp_induct) (auto intro: safe_trans handler_step_safe)

end

section \<open>Handlers on one database\<close>

text \<open>
  The handlers are numbered; each has a state of its own, of which the world of the database is
  replaced by the shared one when it takes a step.
\<close>

inductive system_step :: "('i \<Rightarrow> ('s, 'h) Env) \<Rightarrow> ('i \<Rightarrow> ('s, 'h) HState) \<times> 's \<Rightarrow> ('i \<Rightarrow> ('s, 'h) HState) \<times> 's \<Rightarrow> bool" for E where
  "handler_step (E i) ((L i)\<lparr>hDB := s\<rparr>) st' \<Longrightarrow> system_step E (L, s) (L(i := st'), hDB st')"

inductive_cases system_stepE: "system_step E (L, s) (L', s')"

lemma safe_world:
  "safe view K (st\<lparr>hDB := s\<rparr>) st' \<Longrightarrow> (channels_ok st \<longrightarrow> channels_ok st') \<and> (host_ok (hHost st) \<longrightarrow> host_ok (hHost st')) \<and>
     (\<forall>k. k \<notin> K \<longrightarrow> view (hDB st') k = view s k)"
  by (simp add: safe_def channels_ok_def)

lemma system_step_safe:
  assumes step: "system_step E (L, s) (L', s')"
    and worlds: "\<And>i. handler_world (E i) view (own_lists (E i))"
  shows "(\<forall>i. channels_ok (L i) \<and> host_ok (hHost (L i))) \<longrightarrow> (\<forall>i. channels_ok (L' i) \<and> host_ok (hHost (L' i)))"
    and "k \<notin> (\<Union>i. own_lists (E i)) \<Longrightarrow> view s' k = view s k"
proof -
  from step obtain i st' where st: "handler_step (E i) ((L i)\<lparr>hDB := s\<rparr>) st'" "L' = L(i := st')" "s' = hDB st'"
    by (rule system_stepE)
  note safe = safe_world [OF handler_world.handler_step_safe [OF worlds st(1)]]
  show "(\<forall>i. channels_ok (L i) \<and> host_ok (hHost (L i))) \<longrightarrow> (\<forall>i. channels_ok (L' i) \<and> host_ok (hHost (L' i)))"
    using safe st(2) by auto
  show "k \<notin> (\<Union>i. own_lists (E i)) \<Longrightarrow> view s' k = view s k" using safe st(3) by auto
qed

end
