(* ===== verification/Handler_Samples.thy ===== *)
theory Handler_Samples
  imports RunSafety Samples Anka_Samples
begin

text \<open>
  A handler of the plugin \<open>name\<close> on the reference server of \<open>Redis\<close>, on a host whose command line fails, with an API
  that knows no job; the contract \<open>handler_world\<close> holds of it. The instances of the next
  sections run on it.
\<close>

definition quiet_api :: "mem Api" where
  "quiet_api = \<lparr>ClientFor = (\<lambda>_ s. (None, s)), GetJob = (\<lambda>_ _ _ s. (Inr (Some ''queued'', None), s)),
     GetRun = (\<lambda>_ _ _ s. (Inr (Some ''in_progress'', None), s)), CancelRun = (\<lambda>_ _ _ s. (None, s)),
     CreateToken = (\<lambda>_ c s. ((c, Inr (Some ''token'')), s)), ListRunners = (\<lambda>_ s. (Inr [], s)),
     RemoveRunner = (\<lambda>_ _ s. (None, s))\<rparr>"

definition sample_plugin :: "string \<Rightarrow> Plugin" where
  "sample_plugin name = zero_Plugin\<lparr>PName := name, PPlugin := ''github'', POwner := ''veertu'', PToken := ''t''\<rparr>"

definition sample_env :: "string \<Rightarrow> (mem, nat) Env" where
  "sample_env name = \<lparr>workerCtx = mem_ctx, pluginCtx = mem_ctx, database = mem_db 3, api = quiet_api,
     plugin = sample_plugin name, queues = queue_names (sample_plugin name), queueOwner = ''veertu'', ankaCLI = failing_cli,
     diskSize = (\<lambda>_. Inr 200), globalMounts = [], draining = False, scriptsExist = True, scriptPaths = [],
     newUUID = (\<lambda>_. Inr ''u''), selectsDone = (\<lambda>_. True), checkStart = 0\<rparr>"

definition sample_globals :: Globals where
  "sample_globals = small_host\<lparr>GPlugins := [(''github'', [(''one'',
     \<lparr>PluginRunCount = 1, Preparing = False, FinishedInitialRun = True, Paused = False\<rparr>)])]\<rparr>"

definition sample_state :: "mem \<Rightarrow> (mem, nat) HState" where
  "sample_state m = \<lparr>JobChannel = [], RetryChannel = [], PausedCancellationJobChannel = [], ReturnToMainQueue = [],
     Unreturnable = False, FirstCheckForCompletedJobsRan = False, CheckForCompletedJobsRunCount = 0,
     StillInProgressPollCount = 0, TotalSuccessful = 0, TotalFailed = 0, TotalCanceled = 0, RunError = None,
     hGlobals = sample_globals, hHost = host [], hDB = m\<rparr>"

lemma quiet_api_local: "(\<And>s. snd (op s) = s) \<Longrightarrow> local_op view K op"
  unfolding local_op_def by (metis snd_conv)

interpretation sample: handler_world "sample_env name" mem_view "own_lists (sample_env name)" for name
proof -
  have "redis_db (database (sample_env name)) mem_view (pluginCtx (sample_env name))"
    using mem.redis_db_axioms by (simp add: sample_env_def)
  then show "handler_world (sample_env name) mem_view (own_lists (sample_env name))"
    unfolding handler_world_def handler_world_axioms_def
    by (auto simp: sample_env_def quiet_api_def intro!: quiet_api_local)
qed

lemma sample_env_simps [simp]:
  "workerCtx (sample_env n) = mem_ctx" "pluginCtx (sample_env n) = mem_ctx" "database (sample_env n) = mem_db 3"
  "api (sample_env n) = quiet_api" "plugin (sample_env n) = sample_plugin n" "queues (sample_env n) = queue_names (sample_plugin n)"
  "ankaCLI (sample_env n) = failing_cli" "checkStart (sample_env n) = 0" "draining (sample_env n) = False"
  by (simp_all add: sample_env_def)

lemma sample_state_simps [simp]:
  "hDB (sample_state m) = m" "JobChannel (sample_state m) = []" "RetryChannel (sample_state m) = []"
  "PausedCancellationJobChannel (sample_state m) = []" "ReturnToMainQueue (sample_state m) = []"
  "hGlobals (sample_state m) = sample_globals" "hHost (sample_state m) = host []" "(sample_state m)\<lparr>hDB := m'\<rparr> = sample_state m'"
  by (simp_all add: sample_state_def)

lemma sample_state_ok [simp]: "channels_ok (sample_state m)" "host_ok (hHost (sample_state m))" "host_ok (host [])"
  by (simp_all add: channels_ok_def sample_state_def host_ok_def tracker_ok_def)

end
