(* ===== verification/Handler_Properties.thy ===== *)
theory Handler_Properties
  imports HandlerSteps Handler_Samples
begin

text \<open>
  The properties of the handler: a run and any interleaving of handlers keep to their lists and
  to the capacity of their channels; the end of a run returns jobs and removes VMs.
\<close>

section \<open>Safety of runs\<close>

text \<open>
  C13. A run of the handler, wherever it ends, changes only the lists of its own owner and
  plugin, leaves at most one entry on each of its channels, keeps the template tracker well-formed
  and the number of running VMs non-negative. While it waits with a paused job the steps of
  others are only assumed to keep the same.
\<close>
theorem run_is_safe:
  assumes "handler_world e view K"
    and "\<And>f st1. f \<in> set (pauseOthers sch) \<Longrightarrow> safe view K st1 (f st1)"
    and "channels_ok st" "host_ok (hHost st)"
    and "Run fuel e debug pluginsPath sch st = (out, st')"
  shows "channels_ok st' \<and> host_ok (hHost st') \<and> (k \<notin> K \<longrightarrow> view (hDB st') k = view (hDB st) k)"
proof -
  have "safe view K st (snd (Run fuel e debug pluginsPath sch st))"
    by (rule Run_safe [OF assms(1) _ safe_refl]) (rule assms(2))
  then show ?thesis using assms(3-5) by (simp add: safe_def)
qed

abbreviation no_events :: "('s, 'h) Schedule" where
  "no_events \<equiv> \<lparr>startChecks = [], pickChecks = [], endChecks = None, watchEvents = [], pauseOthers = []\<rparr>"

abbreviation foreign_mem :: mem where
  "foreign_mem \<equiv> mem_init [(''anklet/jobs/github/queued/other'', [''{}''])]"

lemma foreign_list: "''anklet/jobs/github/queued/other'' \<notin> own_lists (sample_env name)"
  by (auto simp: own_lists_def sample_env_def queue_names_def sample_plugin_def GetQueueOwner_def zero_Plugin_def
      cleaningQueueName_def host_queue_def Let_def)

lemma run_is_safe_witness:
  "mem_view (hDB (snd (Run 3 (sample_env ''one'') False [] no_events (sample_state foreign_mem)))) ''anklet/jobs/github/queued/other'' = [''{}'']
     \<and> channels_ok (snd (Run 3 (sample_env ''one'') False [] no_events (sample_state foreign_mem)))"
proof -
  from run_is_safe [OF sample.handler_world_axioms _ sample_state_ok(1,2) surjective_pairing, where sch = no_events] foreign_list
  show ?thesis by (simp add: mem_simps)
qed

section \<open>Several handlers\<close>

text \<open>
  C14. Handlers on any number of hosts that share one database: however their steps interleave,
  no channel of any of them ever holds more than one entry, no tracker is corrupted, and no list
  changes that belongs to none of them; in particular the jobs of other owners are left alone.
\<close>
theorem system_is_safe:
  assumes "(system_step E)\<^sup>*\<^sup>* (L, s) (L', s')"
    and "\<And>i. handler_world (E i) view (own_lists (E i))"
    and "\<And>i. channels_ok (L i) \<and> host_ok (hHost (L i))"
  shows "channels_ok (L' j) \<and> host_ok (hHost (L' j)) \<and> (k \<notin> (\<Union>i. own_lists (E i)) \<longrightarrow> view s' k = view s k)"
proof -
  have "(\<forall>i. channels_ok (L' i) \<and> host_ok (hHost (L' i))) \<and> (k \<notin> (\<Union>i. own_lists (E i)) \<longrightarrow> view s' k = view s k)"
    using assms(1)
  proof (induction rule: rtranclp_induct2)
    case (step L1 s1 L2 s2)
    then show ?case using system_step_safe [OF step(2) assms(2)] by auto
  qed (use assms(3) in auto)
  then show ?thesis by simp
qed

lemma system_is_safe_witness:
  "let st = snd (cleanup 3 mem_ctx (mem_db 3) failing_cli False (sample_plugin ''one'') (queue_names (sample_plugin ''one'')) False False
       (sample_state foreign_mem))
   in channels_ok st \<and> mem_view (hDB st) ''anklet/jobs/github/queued/other'' = [''{}'']"
proof -
  let ?st = "snd (cleanup 3 mem_ctx (mem_db 3) failing_cli False (sample_plugin ''one'') (queue_names (sample_plugin ''one'')) False False
       (sample_state foreign_mem))"
  let ?L = "\<lambda>_::string. sample_state foreign_mem"
  have "handler_step (sample_env ''one'') ((?L ''one'')\<lparr>hDB := foreign_mem\<rparr>) ?st"
    using handler_step.clean [where e = "sample_env ''one''" and fuel = 3 and debug = False and onStart = False and pf = False
        and st = "sample_state foreign_mem", OF surjective_pairing] by simp
  then have "(system_step sample_env)\<^sup>*\<^sup>* (?L, foreign_mem) (?L(''one'' := ?st), hDB ?st)"
    by (blast intro: system_step.intros)
  from system_is_safe [OF this sample.handler_world_axioms, of "''one''" "''anklet/jobs/github/queued/other''"] foreign_list
  show ?thesis by (simp add: Let_def mem_simps)
qed

end
