(* ===== verification/Cleanup_Properties.thy ===== *)
theory Cleanup_Properties
  imports Handler_Samples
begin

text \<open>
  The properties of the end of a run: \<open>cleanup\<close> ends, a job that is not over goes back to a queue,
  the VM of a run is removed before its job is looked at; and where the code falls short of this.
\<close>

section \<open>The cleaning loop ends\<close>

lemma cleaning_name [simp]: "pluginQueueName q \<noteq> cleaningQueueName q" "cleaningQueueName q \<noteq> pluginQueueName q"
  by (simp_all add: cleaningQueueName_def)

lemma cleanup_queue_more:
  "fst (cleanup_queue fuel pc ctx pdb db cli debug q b pf st) \<noteq> Go () \<Longrightarrow>
     cleanup_queue (fuel + n) pc ctx pdb db cli debug q b pf st = cleanup_queue fuel pc ctx pdb db cli debug q b pf st"
proof (induction fuel arbitrary: st)
  case (Suc fuel)
  then show ?case by (auto simp: and_then_def split: prod.splits turn.splits)
qed simp

context redis_db
begin

lemma guard_view:
  assumes "cleanup_guard ctx (Background ctx) db (db\<lparr>MaxRetries := n\<rparr>) q st = (Go (), st')"
  shows "view (hDB st') = view (hDB st)"
proof -
  obtain json s1 where l: "RetryLIndex (Background ctx) (db\<lparr>MaxRetries := n\<rparr>) (pluginQueueName q) 0 (hDB st) = (Inr json, s1)" "hDB st' = s1"
    using assms unfolding cleanup_guard_def
    by (auto elim!: and_thenE db_or_stopE pure_or_stopE split: if_splits)
  show ?thesis using redis_db.bg_LIndex_view [OF redis_db_MaxRetries [OF redis_db_axioms] l(1)] l(2) by simp
qed

lemma cleanup_fuel:
  assumes "length (view (hDB st) (pluginQueueName q)) + length (view (hDB st) (cleaningQueueName q)) < fuel"
  shows "cleanup (fuel + n) ctx db cli debug p q b pf st = cleanup fuel ctx db cli debug p q b pf st"
    and "fst (cleanup fuel ctx db cli debug p q b pf st) \<noteq> Go ()"
proof -
  let ?db = "db\<lparr>MaxRetries := 0\<rparr>"
  have ends: "fst (cleanup_queue fuel ctx (Background ctx) db ?db cli debug q b pf st1) \<noteq> Go ()"
    if "cleanup_guard ctx (Background ctx) db ?db q st = (Go (), st1)" for st1
    by (rule redis_db.cleanup_queue_ends [OF redis_db_MaxRetries [OF redis_db_axioms] cleaning_name(1)])
      (simp add: guard_view [OF that] assms)
  obtain r st1 where g: "cleanup_guard ctx (Background ctx) db ?db q st = (r, st1)" by fastforce
  show "cleanup (fuel + n) ctx db cli debug p q b pf st = cleanup fuel ctx db cli debug p q b pf st"
    using cleanup_queue_more [OF ends] g by (cases r) (simp_all add: cleanup_def and_then_def)
  show "fst (cleanup fuel ctx db cli debug p q b pf st) \<noteq> Go ()"
    using ends g by (cases r) (auto simp: cleanup_def Let_def and_then_def split: prod.splits turn.splits)
qed

end

text \<open>
  C24. The cleaning loop, which has no exit condition of its own, ends: it goes round at most
  once for each entry of the plugin's queue and of the cleaning list, because it goes round again
  only after it removed the entry of a VM. With more fuel than there are entries the model of it
  never runs out, and more fuel changes nothing.
\<close>
theorem cleanup_terminates:
  assumes "redis_db db view ctx"
    and "length (view (hDB st) (pluginQueueName q)) + length (view (hDB st) (cleaningQueueName q)) < fuel"
  shows "fst (cleanup fuel ctx db cli debug p q b pf st) \<noteq> Go () \<and>
    cleanup (fuel + n) ctx db cli debug p q b pf st = cleanup fuel ctx db cli debug p q b pf st"
  using redis_db.cleanup_fuel [OF assms] by blast

abbreviation sample_queues :: Queues where
  "sample_queues \<equiv> queue_names (sample_plugin ''one'')"

lemma cleanup_terminates_witness:
  "fst (cleanup 3 mem_ctx (mem_db 3) failing_cli False (sample_plugin ''one'') sample_queues False False
     (sample_state (mem_init [(pluginQueueName sample_queues, [''a'', ''b''])]))) \<noteq> Go ()"
  using cleanup_terminates [OF mem.redis_db_axioms [of 3], where q = sample_queues and fuel = 3
      and st = "sample_state (mem_init [(pluginQueueName sample_queues, [''a'', ''b''])])"]
  by (simp add: mem_simps)

section \<open>A crash\<close>

text \<open>
  C25. A cleanup that was interrupted by a crash is not finished by the next start: when the entry
  being cleaned was the last one of the plugin's queue, that queue is empty, and \<open>cleanup\<close> returns
  before it looks at the cleaning list. Whatever that list holds, a VM to delete or a job to give
  back, stays there, and no command is sent to the host.
\<close>
theorem crashed_cleanup_is_not_resumed:
  assumes "redis_db db view ctx"
    and "view (hDB st) (pluginQueueName q) = []"
    and "cleanup fuel ctx db cli debug p q onStartRun pf st = (out, st')"
  shows "out = Stop \<and> view (hDB st') = view (hDB st) \<and> hHost st' = hHost st"
proof -
  let ?db = "db\<lparr>MaxRetries := 0\<rparr>"
  note laws = redis_db_MaxRetries [OF assms(1), of 0]
  obtain r s1 where l: "RetryLIndex (Background ctx) ?db (pluginQueueName q) 0 (hDB st) = (r, s1)" by fastforce
  have v: "view s1 = view (hDB st)" by (rule redis_db.bg_LIndex_view [OF laws l])
  show ?thesis
  proof (cases r)
    case (Inr json)
    then have False using redis_db.bg_LIndexD(1) [OF laws l Inr] assms(2) by (simp add: list_index_def)
    then show ?thesis ..
  next
    case (Inl e)
    then have "cleanup_guard ctx (Background ctx) db ?db q st = (Stop, st\<lparr>hDB := s1\<rparr>)"
      using l by (simp add: cleanup_guard_def and_then_def db_or_stop_def on_db_def)
    then show ?thesis using assms(3) v by (auto simp: cleanup_def and_then_def cleanup_release_def)
  qed
qed

lemma crashed_cleanup_is_not_resumed_witness:
  "mem_view (hDB (snd (cleanup 3 mem_ctx (mem_db 3) failing_cli False (sample_plugin ''one'') sample_queues True False
     (sample_state (mem_init [(cleaningQueueName sample_queues, [MarshalJob (sample_job 7 ''queued'')])]))))) (cleaningQueueName sample_queues)
   = [MarshalJob (sample_job 7 ''queued'')]"
  using crashed_cleanup_is_not_resumed [OF mem.redis_db_axioms [of 3] _ surjective_pairing, where q = sample_queues
      and st = "sample_state (mem_init [(cleaningQueueName sample_queues, [MarshalJob (sample_job 7 ''queued'')])])"]
  by (simp add: mem_simps)

section \<open>The job of a run\<close>

lemma queue_names_distinct:
  "distinct [mainQueueName (queue_names p), pluginQueueName (queue_names p), mainInProgressQueueName (queue_names p),
     pluginCompletedQueueName (queue_names p), mainCompletedQueueName (queue_names p), pausedQueueName (queue_names p),
     cleaningQueueName (queue_names p)]"
  by (auto simp: queue_names_def cleaningQueueName_def Let_def)

context redis_db
begin

lemma clean_job_law:
  assumes "clean_job pc (Background ctx) pdb db q pf job st = (out, st')"
    and c: "view (hDB st) (cleaningQueueName q) = [MarshalJob job]" "job_ok job"
    and over: "Status (WorkflowJob job) \<notin> {Some ''completed'', Some ''failed'', Some ''timed_out''}"
    and p: "PausedCancellationJobChannel st = []"
    and names: "distinct [mainQueueName q, pluginQueueName q, mainInProgressQueueName q, pausedQueueName q, cleaningQueueName q]"
  defines "v \<equiv> view (hDB st)" and "v' \<equiv> view (hDB st')"
  shows "(v' (cleaningQueueName q) = [MarshalJob job])
    \<or> (ReturnToMainQueue st = [] \<and> v' (pluginQueueName q) = MarshalJob job # v (pluginQueueName q))
    \<or> (\<exists>reason rs. ReturnToMainQueue st = reason # rs \<and>
         (v' (mainQueueName q) = MarshalJob (requeued reason job) # v (mainQueueName q)
          \<or> (\<exists>s e s'. RetryLPush (Background ctx) db (mainQueueName q) [MarshalJob (requeued reason job)] s = (Inl e, s'))))"
proof -
  obtain r st1 where d: "delete_logged (Background ctx) db job (mainInProgressQueueName q) st = (r, st1)" by fastforce
  note dl = delete_logged_view [OF d]
  have v1: "k \<noteq> mainInProgressQueueName q \<Longrightarrow> view (hDB st1) k = v k" for k using dl by (auto simp: v_def)
  have ch: "ReturnToMainQueue st1 = ReturnToMainQueue st" "PausedCancellationJobChannel st1 = []"
  proof -
    have "st1\<lparr>hDB := hDB st\<rparr> = st" using dl by blast
    then have "ReturnToMainQueue (st1\<lparr>hDB := hDB st\<rparr>) = ReturnToMainQueue st"
      "PausedCancellationJobChannel (st1\<lparr>hDB := hDB st\<rparr>) = PausedCancellationJobChannel st" by simp_all
    then show "ReturnToMainQueue st1 = ReturnToMainQueue st" "PausedCancellationJobChannel st1 = []" using p by simp_all
  qed
  have c1: "view (hDB st1) (cleaningQueueName q) = [] @ [MarshalJob job]" using v1 [of "cleaningQueueName q"] names c(1) by (auto simp: v_def)
  show ?thesis
  proof (cases "r = Go ()")
    case False
    then have "st' = st1" using assms(1) dl d by (auto simp: clean_job_def and_then_def)
    then show ?thesis using c1 by (simp add: v'_def)
  next
    case go: True
    show ?thesis
    proof (cases "ReturnToMainQueue st")
      case Nil
      then have "put_back (Background ctx) db q job st1 = (out, st')"
        using assms(1) d go ch over by (simp add: clean_job_def and_then_def)
      from put_back_law [OF this over c1] show ?thesis using Nil c1 v1 [of "pluginQueueName q"] names by (auto simp: v'_def)
    next
      case (Cons reason rs)
      then have r: "return_to_main (Background ctx) db q reason (st1\<lparr>ReturnToMainQueue := rs\<rparr>) = (out, st')"
        using assms(1) d go ch over by (simp add: clean_job_def and_then_def)
      have "view (hDB (st1\<lparr>ReturnToMainQueue := rs\<rparr>)) (cleaningQueueName q) = [] @ [MarshalJob job]" using c1 by simp
      from return_to_main_law [OF r this c(2)] names show ?thesis using Cons c1 v1 [of "mainQueueName q"]
        by (fastforce simp: v'_def)
    qed
  qed
qed

end



text \<open>
  The exception is real: when the push to the main queue fails after the pop, the run ends
  and the job is on no list any more.
\<close>
theorem failed_push_loses_job:
  assumes "redis_db db view ctx"
    and "view (hDB st) (cleaningQueueName q) = [MarshalJob job]" and "job_ok job"
    and "RetryRPop (Background ctx) db (cleaningQueueName q) (hDB st) = (Inr json, s1)"
    and "RetryLPush (Background ctx) db (mainQueueName q) [MarshalJob (requeued reason job)] s1 = (Inl e, s2)"
  shows "return_to_main (Background ctx) db q reason st = (Stop, st\<lparr>hDB := s2\<rparr>) \<and>
    view s2 = (view (hDB st))(cleaningQueueName q := [])"
proof -
  have v1: "json = MarshalJob job" "view s1 = (view (hDB st))(cleaningQueueName q := [])"
    using redis_db.bg_RPopD(1) [OF assms(1,4) refl] assms(2) by auto
  then have "return_to_main (Background ctx) db q reason st = (Stop, st\<lparr>hDB := s2\<rparr>)"
    using assms(4,5) Unwrap_MarshalJob [OF assms(3)]
    by (simp add: return_to_main_def and_then_def db_or_stop_def on_db_def pure_or_stop_def)
  then show ?thesis using redis_db.bg_LPushD(2) [OF assms(1,5) refl] v1(2) by simp
qed

text \<open>A server that goes away between the pop and the push.\<close>

abbreviation going_away :: mem where
  "going_away \<equiv> (mem_init [(cleaningQueueName sample_queues, [MarshalJob (sample_job 7 ''queued'')])])\<lparr>
     mfaults := [None, Some (Errorf ''LOADING'')]\<rparr>"

lemma failed_push_loses_job_witness:
  "fst (return_to_main (Background mem_ctx) (mem_db 0) sample_queues ''r'' (sample_state going_away)) = Stop \<and>
   mem_view (hDB (snd (return_to_main (Background mem_ctx) (mem_db 0) sample_queues ''r'' (sample_state going_away)))) = (\<lambda>_. [])"
proof -
  let ?c = "cleaningQueueName sample_queues"
  let ?s1 = "(mem_put ?c [] going_away)\<lparr>mfaults := [Some (Errorf ''LOADING'')]\<rparr>"
  have v: "mem_view going_away ?c = [MarshalJob (sample_job 7 ''queued'')]" by (simp add: mem_view_def mem_init_def)
  have pop: "RetryRPop (Background mem_ctx) (mem_db 0) ?c going_away = (Inr (MarshalJob (sample_job 7 ''queued'')), ?s1)"
    unfolding RetryRPop_def using v
    by (intro retryOperation_ok) (simp_all add: mem_db_def mem_client_def faulty_def effective_retries_def mem_ctx_def mem_view_def mem_init_def mem_put_def)
  have push: "RetryLPush (Background mem_ctx) (mem_db 0) (mainQueueName sample_queues) [x] ?s1 =
      (Inl (Errorf ''LOADING''), ?s1\<lparr>mfaults := []\<rparr>)" for x
    unfolding RetryLPush_def
    by (intro retryOperation_error)
      (simp_all add: mem_db_def mem_client_def faulty_def effective_retries_def mem_ctx_def isRetriableError_def ToLower_def lower_char_def go_string)
  have e: "(mem_view going_away)(?c := []) = (\<lambda>_. [])" by (auto simp: mem_view_def mem_init_def)
  from failed_push_loses_job [OF mem.redis_db_axioms [of 0], where st = "sample_state going_away", unfolded sample_state_simps(1), OF v _ pop push] e
  show ?thesis by simp
qed

end
