(* ===== verification/Run_Properties.thy ===== *)
theory Run_Properties
  imports Handler_Samples
begin

text \<open>
  Properties of a run between the choice of its job and the end: the job it goes on with is on
  the plugin's queue, its VM is the first thing the cleanup takes, a canceled context starts
  nothing, and two requests to give the job back cancel each other.
\<close>

section \<open>The VM\<close>

lemma vm_entry_ok: "job_ok job \<Longrightarrow> job_ok (vm_entry (named vm job))"
  by (simp add: job_ok_def vm_entry_def named_def zero_QueueJob_def exact64_def split: option.split)

lemma vm_entry_fields [simp]: "Type (vm_entry job) = ''anka.VM''" "AnkaVM (vm_entry job) = AnkaVM job"
  by (simp_all add: vm_entry_def)

lemma keep_vm_queue:
  assumes "redis_db (database e) view (pluginCtx e)" "keep_vm e job (Some vm) None st = (Go job1, st1)"
  shows "view (hDB st1) (pluginQueueName (queues e)) = view (hDB st) (pluginQueueName (queues e)) @ [MarshalJob (vm_entry job1)] \<and>
    job1 = named (Some vm) job"
proof -
  let ?q = "pluginQueueName (queues e)" and ?st0 = "set_paused e False (stop_preparing e st)"
  have h: "hDB ?st0 = hDB st" by (simp add: set_paused_def stop_preparing_def set_own_def)
  obtain r s1 where p: "RetryRPush (pluginCtx e) (database e) ?q [MarshalJob (vm_entry (named (Some vm) job))] (hDB st) = (r, s1)"
    by fastforce
  have "\<exists>n. r = Inr n \<and> job1 = named (Some vm) job \<and> hDB st1 = s1"
    using assms(2) p h unfolding keep_vm_def check_canceled_def retry_error_def return_error_def
    by (auto simp: Let_def on_db_def split: if_splits sum.splits elim!: and_thenE)
  then show ?thesis using redis_db.RPushD(1) [OF assms(1) p] by auto
qed



section \<open>A canceled context\<close>

text \<open>
  A run whose context is canceled when it comes back with a registration token starts no VM
  and writes nothing: it asks for a retry with the reason \<open>context_canceled\<close> and returns an error.
  Such a context is what a call near the rate limit hands back after it succeeded.
\<close>
theorem canceled_run_starts_nothing:
  assumes "CtxErr (pluginCtx e) (hDB st) \<noteq> None" and "token \<noteq> []" and "RetryChannel st = []"
  shows "run_runner e evs (Inr (Some token)) job st =
    (Stop, st\<lparr>RetryChannel := [''context_canceled''], RunError := Some (Errorf ''context canceled before ObtainAnkaVM'')\<rparr>)"
  using assms by (simp add: run_runner_def registration_token_def check_canceled_def canceled_def retry_error_def send_retry_def
      return_error_def and_then_def)

lemma canceled_run_starts_nothing_witness:
  "hHost (snd (run_runner (sample_env ''one'') [] (Inr (Some ''token'')) (sample_job 7 ''queued'')
     (sample_state ((mem_init [])\<lparr>mcancelled := True\<rparr>)))) = host []"
proof -
  have c: "CtxErr (pluginCtx (sample_env ''one'')) (hDB (sample_state ((mem_init [])\<lparr>mcancelled := True\<rparr>))) \<noteq> None"
    by (simp add: mem_ctx_def)
  show ?thesis by (subst canceled_run_starts_nothing [OF c]) (simp_all add: sample_state_def)
qed

section \<open>Giving the job back\<close>

lemma return_all_channels:
  "Unreturnable (return_all st) = Unreturnable st" "RetryChannel (return_all st) = RetryChannel st"
  by (simp_all add: return_all_def Let_def split: list.split)

lemma return_all_iterated:
  assumes "\<not> Unreturnable st" "ReturnToMainQueue st = []"
  shows "Unreturnable ((return_all ^^ n) st) = Unreturnable st \<and> RetryChannel ((return_all ^^ n) st) = RetryChannel st \<and>
    ReturnToMainQueue ((return_all ^^ n) st) = (if even n then [] else [''return_all_to_main_queue''])"
proof (induction n)
  case (Suc n)
  then show ?case using assms return_all_channels [of "(return_all ^^ n) st"]
    by (cases "even n") (simp_all add: return_all_empty return_all_pending)
qed (simp add: assms)



section \<open>The choice of the job\<close>

lemma main_job_payload: "main_job e st = (Go (job, json), st') \<Longrightarrow> Unwrap json = Inr job"
  unfolding main_job_def Let_def
  by (auto elim!: and_thenE split: prod.splits sum.splits if_splits simp: no_go return_ok_def send_job_def)

lemma own_job_payload:
  assumes "redis_db (database e) view (pluginCtx e)" "own_job e st = (Go (Some job), st')"
  shows "view (hDB st') (pluginQueueName (queues e)) \<noteq> [] \<and> Unwrap (last (view (hDB st') (pluginQueueName (queues e)))) = Inr job"
proof -
  let ?q = "pluginQueueName (queues e)"
  obtain r s1 where l: "RetryLIndex (pluginCtx e) (database e) ?q (- 1) (hDB st) = (r, s1)" by fastforce
  have v: "view s1 = view (hDB st)" by (rule redis_db.LIndex_view [OF assms(1) l])
  obtain json where json: "r = Inr json" "Unwrap json = Inr job" "hDB st' = s1"
    using assms(2) l unfolding own_job_def
    by (auto simp: on_db_def no_go return_error_def split: sum.splits if_splits)
  show ?thesis using redis_db.LIndexD(1) [OF assms(1) l json(1)] json v by (auto simp: list_index_last split: if_splits)
qed

lemma take_over_payload: "take_over e len json i paused st = (Go (Inl (h, Some (job, original))), st') \<Longrightarrow> Unwrap original = Inr job"
  unfolding take_over_def
  by (auto elim!: and_thenE db_or_errorE split: option.splits if_splits sum.splits simp: no_go skip_paused_def)

lemma paused_turn_payload: "paused_turn e n held i st = (Go (n', Inl (h, Some (job, json))), st') \<Longrightarrow> Unwrap json = Inr job"
  unfolding paused_turn_def consider_paused_def
  by (auto elim!: and_thenE db_or_errorE dest!: with_put_back_go dest: take_over_payload
      split: if_splits sum.splits simp: no_go skip_paused_def) (blast intro: take_over_payload)

lemma taken_payload:
  "paused_search fuel e n held i st = (Go (m, h, Some (job, json)), st') \<Longrightarrow> Unwrap json = Inr job"
proof (induction fuel arbitrary: n held i st)
  case (Suc fuel)
  then show ?case by (auto elim!: and_thenE dest: paused_turn_payload split: sum.splits)
qed simp

text \<open>
  C17. The job \<open>Run\<close> goes on with, whether it was left there, taken over from a host that paused it
  or popped off the main queue, is the last entry of the plugin's own queue when the choice is
  made: from then on the cleanup finds it.
\<close>
theorem picked_job_is_queued:
  assumes "redis_db (database e) view (pluginCtx e)" and "pick_job fuel e st = (Go job, st')"
  shows "view (hDB st') (pluginQueueName (queues e)) \<noteq> [] \<and>
    Unwrap (last (view (hDB st') (pluginQueueName (queues e)))) = Inr job"
proof -
  obtain own st1 where own: "own_job e st = (Go own, st1)"
    using assms(2) unfolding pick_job_def by (auto elim: and_thenE)
  show ?thesis
  proof (cases own)
    case (Some j)
    then have "j = job" "st1 = st'" using assms(2) own by (auto simp: pick_job_def and_then_def)
    then show ?thesis using own_job_payload [OF assms(1)] own Some by blast
  next
    case None
    then obtain n held taken st2 st3 json st4 z where
      search: "paused_search fuel e 0 [] 0 st1 = (Go (n, held, taken), st2)" and "release_held e n held st2 = (Go (), st3)"
      and main: "(case taken of Some job \<Rightarrow> (\<lambda>st. (Go job, st)) | None \<Rightarrow> main_job e) st3 = (Go (job, json), st4)"
      and push: "db_or_error ''error pushing job to plugin queue: '' (RetryRPush (pluginCtx e) (database e) (pluginQueueName (queues e)) [json]) st4 = (Go z, st')"
      using assms(2) own unfolding pick_job_def by (auto simp: and_then_def split: prod.splits turn.splits)
    have "Unwrap json = Inr job" using main taken_payload search main_job_payload by (cases taken) (auto split: prod.splits)
    then show ?thesis using push redis_db.RPushD(1) [OF assms(1)] by (auto elim!: db_or_errorE)
  qed
qed

lemma picked_job_is_queued_witness:
  "fst (pick_job 1 (sample_env ''one'') (sample_state (mem_init [(pluginQueueName (queue_names (sample_plugin ''one'')), [MarshalJob (sample_job 7 ''queued'')])])))
     = Go (sample_job 7 ''queued'')
   \<and> Unwrap (last (mem_view (mem_init [(pluginQueueName (queue_names (sample_plugin ''one'')), [MarshalJob (sample_job 7 ''queued'')])])
        (pluginQueueName (queue_names (sample_plugin ''one''))))) = Inr (sample_job 7 ''queued'')"
proof -
  let ?m = "mem_init [(pluginQueueName (queue_names (sample_plugin ''one'')), [MarshalJob (sample_job 7 ''queued'')])]"
  have p: "pick_job 1 (sample_env ''one'') (sample_state ?m) = (Go (sample_job 7 ''queued''), sample_state ?m)"
    by (simp add: pick_job_def own_job_def on_db_def and_then_def mem_simps list_index_def)
  have w: "redis_db (database (sample_env ''one'')) mem_view (pluginCtx (sample_env ''one''))" using mem.redis_db_axioms by simp
  show ?thesis unfolding p fst_conv using picked_job_is_queued [OF w p] by simp
qed

text \<open>
  C40. Two jobs that plugins of this very host have paused: the search pops the first and puts it
  aside, then looks for the second at the index 1 of a list that has only one entry left, and the
  variable that held the first is overwritten with the empty answer. The first job is gone from
  the paused queue, so no other host can take it over.
\<close>
theorem skipped_paused_job_is_lost:
  assumes "mem_live m" and "database e = mem_db n" "0 \<le> n" and "pluginCtx e = mem_ctx" "workerCtx e = mem_ctx"
    and "hDB st = m" and "mem_view m (pausedQueueName (queues e)) = [a, b]" and "a \<noteq> []" "a \<noteq> b"
    and "Unwrap a = Inr job" and "own_global ((plugin e)\<lparr>PName := PausedOn job\<rparr>) (hGlobals st) \<noteq> None"
  shows "\<exists>st'. paused_search 2 e 0 [] 0 st = (Go (2, [], None), st') \<and> mem_view (hDB st') (pausedQueueName (queues e)) = [b]"
proof -
  let ?q = "pausedQueueName (queues e)"
  let ?m1 = "mem_put ?q [b] m"
  have pop1: "PopJobOffQueue mem_ctx (mem_db n) ?q 0 m = (Inr a, ?m1)"
    using assms by (simp add: PopJobOffQueue_def take_target_def mem_simps)
  have pop2: "PopJobOffQueue mem_ctx (mem_db n) ?q 1 ?m1 = (Inr [], ?m1)"
    using assms by (simp add: PopJobOffQueue_def take_target_def mem_simps)
  have one: "paused_turn e 0 [] 0 st = (Go (1, Inr (a, 1)), st\<lparr>hDB := ?m1\<rparr>)"
    using assms pop1 by (simp add: paused_turn_def canceled_def mem_simps with_put_back_def db_or_error_def on_db_def and_then_def
        consider_paused_def skip_paused_def)
  have two: "paused_turn e 1 a 1 (st\<lparr>hDB := ?m1\<rparr>) = (Go (2, Inl ([], None)), st\<lparr>hDB := ?m1\<rparr>)"
    using assms pop2 by (simp add: paused_turn_def canceled_def mem_simps with_put_back_def db_or_error_def on_db_def and_then_def)
  have "paused_search 2 e 0 [] 0 st = (Go (2, [], None), st\<lparr>hDB := ?m1\<rparr>)"
    using one two by (simp add: numeral_2_eq_2 and_then_def)
  then show ?thesis by simp
qed

lemma skipped_paused_job_is_lost_witness:
  "\<exists>st'. paused_search 2 (sample_env ''one'') 0 [] 0
      (sample_state (mem_init [(pausedQueueName (queue_names (sample_plugin ''one'')),
         [MarshalJob (sample_job 7 ''queued'' \<lparr>PausedOn := ''one''\<rparr>), MarshalJob (sample_job 8 ''queued'')])])) = (Go (2, [], None), st') \<and>
    mem_view (hDB st') (pausedQueueName (queue_names (sample_plugin ''one''))) = [MarshalJob (sample_job 8 ''queued'')]"
proof -
  let ?a = "sample_job 7 ''queued'' \<lparr>PausedOn := ''one''\<rparr>" and ?b = "sample_job 8 ''queued''"
  have a: "Unwrap (MarshalJob ?a) = Inr ?a" using sample_job_ok [of 7 "''queued''"] by (intro Unwrap_MarshalJob) (simp add: job_ok_def)
  have "MarshalJob ?a \<noteq> MarshalJob ?b"
  proof
    assume eq: "MarshalJob ?a = MarshalJob ?b"
    have "Unwrap (MarshalJob ?b) = Inr ?b" by (rule Unwrap_sample) simp
    then have "?a = ?b" by (rule sum.inject(2) [THEN iffD1, OF trans [OF sym [OF a [unfolded eq]]]])
    then have "PausedOn ?a = PausedOn ?b" by (rule arg_cong)
    then show False by simp
  qed
  from skipped_paused_job_is_lost [OF _ _ _ _ _ refl _ _ this a, where e = "sample_env ''one''" and n = 3
      and st = "sample_state (mem_init [(pausedQueueName (queue_names (sample_plugin ''one'')), [MarshalJob ?a, MarshalJob ?b])])"]
  show ?thesis by (simp add: mem_simps own_global_def sample_plugin_def sample_globals_def)
qed

section \<open>Failed pulls and cancellations\<close>

text \<open>
  A pull that fails for any reason ends the run of the job for good: the job is saved and
  announced with the action \<open>cancel\<close>, on which the check cancels the workflow run, and no retry is
  requested.
\<close>
theorem failed_pull_cancels_job:
  assumes "\<not> PSkipPull (plugin e)" and "\<not> canceled e (st\<lparr>hHost := h3\<rparr>)"
    and "find_template (ankaCLI e) (job_template job) (job_tag job) (hHost st) = (Ret (Inr (True, name)), h1)"
    and "\<not> HasPullingTemplates (hTracker h1)"
    and "EnsureSpaceForTemplate (ankaCLI e) (diskSize e) (job_template job) (job_tag job) h1 = ((None, None), h2)" "\<not> cancelled (ankaCLI e) h2"
    and "AnkaRegistryPull (ankaCLI e) (job_template job) name (job_tag job) h2 = (Ret (j, Some err), h3)" "\<not> cancelled (ankaCLI e) h3"
  shows "ensure_template e job st = give_up e (job\<lparr>Action := ''cancel''\<rparr>) (st\<lparr>hHost := h3\<rparr>)"
proof -
  have "EnsureVMTemplateExists (ankaCLI e) (diskSize e) (job_template job) (job_tag job) (hHost st) =
     (Ret (no_error\<lparr>noTemplateTagExistsInRegistryError := Some (Errorf ''no template tag exists in registry'')\<rparr>), h3)"
    using assms(3-8) AnkaRegistryPull_facts(3) [OF assms(7,6)] by (simp add: EnsureVMTemplateExists_def)
  then show ?thesis using assms(1,2) by (simp add: ensure_template_def and_then_def on_host_go_def no_error_def)
qed

definition pull_env :: "(mem, nat) Env" where
  "pull_env = (sample_env ''one'')\<lparr>ankaCLI := answering_cli broken_pull\<rparr>"

definition pull_job :: QueueJob where
  "pull_job = (sample_job 7 ''queued'')\<lparr>WorkflowJob := (WorkflowJob (sample_job 7 ''queued''))\<lparr>Labels := Some [''anka-template:a'']\<rparr>\<rparr>"

lemma pull_job_labels [simp]: "job_template pull_job = ''a''" "job_tag pull_job = using_latest"
  by (simp_all add: job_template_def job_tag_def job_labels_def pull_job_def CutPrefix_def)

lemma pull_env_simps [simp]: "ankaCLI pull_env = answering_cli broken_pull" "diskSize pull_env = (\<lambda>_. Inr 200)"
    "plugin pull_env = sample_plugin ''one''" "workerCtx pull_env = mem_ctx" "pluginCtx pull_env = mem_ctx"
  by (simp_all add: pull_env_def sample_env_def)

lemma failed_pull_cancels_job_witness:
  "ensure_template pull_env pull_job (sample_state (mem_init [])) = give_up pull_env (pull_job\<lparr>Action := ''cancel''\<rparr>)
     ((sample_state (mem_init []))\<lparr>hHost := \<lparr>hTracker = [(''a'', \<lparr>UUID = ''a'', TName = [], TTag = using_latest, ImageSize = 0, LastAccessed = 2,
         UsageCount = 0, InUse = False, Pulling = False\<rparr>)], hRunningVMs = 0, hWorld = 3\<rparr>\<rparr>)"
  apply (rule failed_pull_cancels_job [where name = "[]" and j = None
        and err = "Errorf (''error pulling template from registry: '' @ ''connection reset by peer'')"])
   apply (simp add: sample_plugin_def zero_Plugin_def)
  apply (simp add: canceled_def mem_ctx_def mem_init_def)
  apply (simp add: find_template_def AnkaList_def broken_pull_answers answer_def local_template_def)
  apply (simp add: HasPullingTemplates_def)
  apply (simp add: broken_pull_ensure)
  apply simp
  apply (simp add: AnkaRegistryPull_def registry_pull_def set_pulling_def AnkaExecuteRegistryCommand_def zero_Plugin_def SetTemplatePulling_def broken_pull_answers answer_def)
  apply simp
  done

lemma cancel_loop_sent:
  "cancel_loop (Suc n) w c a owner repo job True st = cancel_loop (Suc 0) w c a owner repo job True st"
  by (simp split: option.split prod.split sum.split)

lemma cancel_loop_more:
  "cancel_loop (Suc (Suc n)) w c a owner repo job sent st = cancel_loop (Suc (Suc 0)) w c a owner repo job sent st"
  unfolding cancel_loop.simps(2) [of "Suc n"] cancel_loop.simps(2) [of "Suc 0"] cancel_loop_sent [of n] ..

text \<open>
  Cancelling a workflow run takes at most two rounds, whatever the API answers: the loop sends
  one cancellation and the answer after it ends the loop, so more rounds never happen.
\<close>
theorem cancellation_ends:
  "fst (cancel_loop 2 w c a owner repo job False st) \<noteq> Block \<and>
    cancel_loop (2 + n) w c a owner repo job False st = cancel_loop 2 w c a owner repo job False st"
  using cancel_loop_returns [of 0 w c a owner repo job False st] cancel_loop_more [of n w c a owner repo job False st]
  by (simp add: numeral_2_eq_2 del: cancel_loop.simps(2))

end
