(* ===== verification/Metrics.thy ===== *)
theory Metrics
  imports Config Queue
begin

text \<open>
  \<open>internal/metrics/metrics.go\<close>: the counters of a worker and of its plugins, their updates, and
  the export to the database. The worker and its plugins share one \<open>MetricsDataLock\<close>, which is
  also the one of the context; its lock makes each method one step. The pointer to the embedded
  base of a plugin is \<open>None\<close> when it is nil; each entry has a base of its own, so updating it in
  place and storing the entry again are the same. Times are nanoseconds, \<open>None\<close> the zero time.
  Counters are unbounded; their Go type has 64 bits.
\<close>

section \<open>The data\<close>

type_synonym time = "int option"

record PluginBase =
  BName :: string
  BPluginName :: string
  BRepoName :: string
  BOwnerName :: string
  BStatus :: string
  BStatusSince :: time

record MetricsPlugin =
  Base :: "PluginBase option"
  LastSuccessfulRunJobUrl :: string
  LastFailedRunJobUrl :: string
  LastCanceledRunJobUrl :: string
  LastSuccessfulRun :: time
  LastFailedRun :: time
  LastCanceledRun :: time
  PTotalRanVMs :: int
  PTotalSuccessful :: int
  PTotalFailed :: int
  PTotalCanceled :: int

text \<open>An element of the list of plugins, whose type is \<open>any\<close>.\<close>

datatype MetricsEntry = FullEntry MetricsPlugin | BaseEntry PluginBase | OtherEntry

record HostUsage =
  UCPUCount :: int
  UCPUUsedCount :: int
  UCPUUsage :: rat
  UMemoryTotal :: "64 word"
  UMemoryUsed :: "64 word"
  UMemoryAvailable :: "64 word"
  UMemoryUsage :: rat
  UDiskTotal :: "64 word"
  UDiskUsed :: "64 word"
  UDiskAvailable :: "64 word"
  UDiskUsage :: rat

record MetricsData =
  TotalRunningVMs :: int
  TotalSuccessfulRuns :: int
  TotalFailedRuns :: int
  TotalCanceledRuns :: int
  Usage :: HostUsage
  MetricsPlugins :: "MetricsEntry list"

definition zero_PluginBase :: PluginBase where
  "zero_PluginBase = \<lparr>BName = [], BPluginName = [], BRepoName = [], BOwnerName = [], BStatus = [], BStatusSince = None\<rparr>"

definition zero_MetricsPlugin :: MetricsPlugin where
  "zero_MetricsPlugin = \<lparr>Base = None, LastSuccessfulRunJobUrl = [], LastFailedRunJobUrl = [], LastCanceledRunJobUrl = [],
     LastSuccessfulRun = None, LastFailedRun = None, LastCanceledRun = None,
     PTotalRanVMs = 0, PTotalSuccessful = 0, PTotalFailed = 0, PTotalCanceled = 0\<rparr>"

section \<open>Adding a plugin\<close>

text \<open>The name of an entry; a nil base is dereferenced.\<close>

fun entry_name :: "MetricsEntry \<Rightarrow> string result go" where
  "entry_name (FullEntry p) = (case Base p of None \<Rightarrow> Panic | Some b \<Rightarrow> Ret (Inr (BName b)))"
| "entry_name (BaseEntry b) = Ret (Inr (BName b))"
| "entry_name OtherEntry = Ret (Inl (Errorf ''unable to get plugin name''))"

fun named_entry :: "string \<Rightarrow> MetricsEntry list \<Rightarrow> bool result go" where
  "named_entry name [] = Ret (Inr False)"
| "named_entry name (x # xs) = (case entry_name x of
     Panic \<Rightarrow> Panic
   | Ret (Inl e) \<Rightarrow> Ret (Inl e)
   | Ret (Inr n) \<Rightarrow> if n = name then Ret (Inr True) else named_entry name xs)"

definition AddPlugin :: "MetricsEntry \<Rightarrow> MetricsData \<Rightarrow> (gerror option \<times> MetricsData) go" where
  "AddPlugin plugin m = (case entry_name plugin of
     Panic \<Rightarrow> Panic
   | Ret (Inl e) \<Rightarrow> Ret (Some e, m)
   | Ret (Inr name) \<Rightarrow> (case named_entry name (MetricsPlugins m) of
        Panic \<Rightarrow> Panic
      | Ret (Inl e) \<Rightarrow> Ret (Some e, m)
      | Ret (Inr True) \<Rightarrow> Ret (None, m)
      | Ret (Inr False) \<Rightarrow> Ret (None, m\<lparr>MetricsPlugins := MetricsPlugins m @ [plugin]\<rparr>)))"

section \<open>Updating an entry\<close>

definition newer :: "time \<Rightarrow> time \<Rightarrow> time" where
  "newer old new = (if new = None then old else new)"

definition nonempty :: "string \<Rightarrow> string \<Rightarrow> string" where
  "nonempty old new = (if new = [] then old else new)"

definition update_base :: "int \<Rightarrow> PluginBase \<Rightarrow> PluginBase \<Rightarrow> PluginBase" where
  "update_base now current updated = current\<lparr>BPluginName := nonempty (BPluginName current) (BPluginName updated),
     BStatusSince := (if BStatus updated \<noteq> [] \<and> BStatus current \<noteq> BStatus updated then Some now else BStatusSince current),
     BStatus := nonempty (BStatus current) (BStatus updated)\<rparr>"

definition update_runs :: "MetricsPlugin \<Rightarrow> MetricsPlugin \<Rightarrow> MetricsPlugin" where
  "update_runs current updated = current\<lparr>
     LastSuccessfulRun := newer (LastSuccessfulRun current) (LastSuccessfulRun updated),
     LastFailedRun := newer (LastFailedRun current) (LastFailedRun updated),
     LastCanceledRun := newer (LastCanceledRun current) (LastCanceledRun updated),
     LastSuccessfulRunJobUrl := nonempty (LastSuccessfulRunJobUrl current) (LastSuccessfulRunJobUrl updated),
     LastFailedRunJobUrl := nonempty (LastFailedRunJobUrl current) (LastFailedRunJobUrl updated),
     LastCanceledRunJobUrl := nonempty (LastCanceledRunJobUrl current) (LastCanceledRunJobUrl updated),
     PTotalCanceled := max (PTotalCanceled current) (PTotalCanceled updated),
     PTotalFailed := max (PTotalFailed current) (PTotalFailed updated),
     PTotalSuccessful := max (PTotalSuccessful current) (PTotalSuccessful updated),
     PTotalRanVMs := max (PTotalRanVMs current) (PTotalRanVMs updated)\<rparr>"

definition CompareAndUpdateMetrics :: "int \<Rightarrow> MetricsEntry \<Rightarrow> MetricsEntry \<Rightarrow> MetricsEntry result go" where
  "CompareAndUpdateMetrics now current updated = (case current of
     FullEntry c \<Rightarrow> (case updated of
        FullEntry u \<Rightarrow> (case (Base c, Base u) of
           (_, None) \<Rightarrow> Panic
         | (None, Some ub) \<Rightarrow> if BPluginName ub \<noteq> [] \<or> BStatus ub \<noteq> [] then Panic else Ret (Inr (FullEntry (update_runs c u)))
         | (Some cb, Some ub) \<Rightarrow> Ret (Inr (FullEntry ((update_runs c u)\<lparr>Base := Some (update_base now cb ub)\<rparr>))))
      | _ \<Rightarrow> Ret (Inl (Errorf ''unable to convert updatedPlugin to Plugin'')))
   | BaseEntry c \<Rightarrow> (case updated of
        BaseEntry u \<Rightarrow> Ret (Inr (BaseEntry (update_base now c u)))
      | _ \<Rightarrow> Ret (Inl (Errorf ''unable to convert updatedPlugin to PluginBase'')))
   | OtherEntry \<Rightarrow> Ret (Inl (Errorf ''unable to convert currentService to Plugin or PluginBase'')))"

text \<open>The loop of both update functions: the entries of the same type and with the name are updated.\<close>

fun same_type :: "MetricsEntry \<Rightarrow> MetricsEntry \<Rightarrow> bool" where
  "same_type (FullEntry _) (FullEntry _) = True"
| "same_type (BaseEntry _) (BaseEntry _) = True"
| "same_type _ _ = False"

fun update_entries :: "int \<Rightarrow> string \<Rightarrow> MetricsEntry \<Rightarrow> MetricsEntry list \<Rightarrow> (gerror option \<times> MetricsEntry list) go" where
  "update_entries now name updated [] = Ret (None, [])"
| "update_entries now name updated (x # xs) =
     (if \<not> same_type x updated
      then (case update_entries now name updated xs of Panic \<Rightarrow> Panic | Ret (e, ys) \<Rightarrow> Ret (e, x # ys))
      else (case entry_name x of
         Ret (Inr n) \<Rightarrow>
           if n \<noteq> name
           then (case update_entries now name updated xs of Panic \<Rightarrow> Panic | Ret (e, ys) \<Rightarrow> Ret (e, x # ys))
           else (case CompareAndUpdateMetrics now x updated of
              Panic \<Rightarrow> Panic
            | Ret (Inl e) \<Rightarrow> Ret (Some e, x # xs)
            | Ret (Inr y) \<Rightarrow> (case update_entries now name updated xs of Panic \<Rightarrow> Panic | Ret (e, ys) \<Rightarrow> Ret (e, y # ys)))
       | _ \<Rightarrow> Panic))"

definition with_entries :: "(gerror option \<times> MetricsEntry list) go \<Rightarrow> MetricsData \<Rightarrow> (gerror option \<times> MetricsData) go" where
  "with_entries r m = (case r of Panic \<Rightarrow> Panic | Ret (e, xs) \<Rightarrow> Ret (e, m\<lparr>MetricsPlugins := xs\<rparr>))"

text \<open>The function updates the entry of the plugin of the context, the method the one it is given.\<close>

definition update_plugin_of :: "int \<Rightarrow> string result \<Rightarrow> MetricsEntry \<Rightarrow> MetricsData \<Rightarrow> (gerror option \<times> MetricsData) go" where
  "update_plugin_of now ctxPlugin updated m = (case ctxPlugin of
     Inl e \<Rightarrow> Ret (Some e, m)
   | Inr name \<Rightarrow> with_entries (update_entries now name updated (MetricsPlugins m)) m)"

definition UpdatePlugin :: "int \<Rightarrow> MetricsEntry \<Rightarrow> MetricsData \<Rightarrow> (gerror option \<times> MetricsData) go" where
  "UpdatePlugin now updated m = (case updated of
     FullEntry u \<Rightarrow> (case Base u of
        None \<Rightarrow> Panic
      | Some b \<Rightarrow> if BName b = [] then Ret (Some (Errorf ''updatePlugin.Name is required''), m)
          else with_entries (update_entries now (BName b) updated (MetricsPlugins m)) m)
   | BaseEntry b \<Rightarrow> with_entries (update_entries now (BName b) updated (MetricsPlugins m)) m
   | OtherEntry \<Rightarrow> Ret (None, m))"

section \<open>Counting\<close>

text \<open>
  The counters of a plugin: the update it is given has the counter one up, and the update
  functions take the larger value.
\<close>

fun increment_from :: "int \<Rightarrow> string \<Rightarrow> (MetricsPlugin \<Rightarrow> MetricsPlugin \<Rightarrow> MetricsPlugin) \<Rightarrow> nat list \<Rightarrow> MetricsData \<Rightarrow> MetricsData go" where
  "increment_from now name count [] m = Ret m"
| "increment_from now name count (i # is) m = (case MetricsPlugins m ! i of
     FullEntry p \<Rightarrow> (case Base p of
        None \<Rightarrow> Panic
      | Some b \<Rightarrow>
          if BName b \<noteq> name then increment_from now name count is m
          else (case update_plugin_of now (Inr name)
                  (FullEntry (count p (zero_MetricsPlugin\<lparr>Base := Some (zero_PluginBase\<lparr>BName := name\<rparr>)\<rparr>))) m of
             Panic \<Rightarrow> Panic | Ret (_, m') \<Rightarrow> increment_from now name count is m'))
   | _ \<Rightarrow> increment_from now name count is m)"

definition increment_plugin :: "int \<Rightarrow> string result \<Rightarrow> (MetricsPlugin \<Rightarrow> MetricsPlugin \<Rightarrow> MetricsPlugin) \<Rightarrow> MetricsData \<Rightarrow> MetricsData go" where
  "increment_plugin now ctxPlugin count m = (case ctxPlugin of
     Inl _ \<Rightarrow> Ret m
   | Inr name \<Rightarrow> increment_from now name count [0..<length (MetricsPlugins m)] m)"

definition IncrementPluginTotalRanVMs :: "int \<Rightarrow> string result \<Rightarrow> MetricsData \<Rightarrow> MetricsData go" where
  "IncrementPluginTotalRanVMs now ctxPlugin = increment_plugin now ctxPlugin (\<lambda>p u. u\<lparr>PTotalRanVMs := PTotalRanVMs p + 1\<rparr>)"

definition IncrementPluginTotalSuccessfulRunsSinceStart :: "int \<Rightarrow> string result \<Rightarrow> MetricsData \<Rightarrow> MetricsData go" where
  "IncrementPluginTotalSuccessfulRunsSinceStart now ctxPlugin =
     increment_plugin now ctxPlugin (\<lambda>p u. u\<lparr>PTotalSuccessful := PTotalSuccessful p + 1\<rparr>)"

definition IncrementPluginTotalFailedRunsSinceStart :: "int \<Rightarrow> string result \<Rightarrow> MetricsData \<Rightarrow> MetricsData go" where
  "IncrementPluginTotalFailedRunsSinceStart now ctxPlugin =
     increment_plugin now ctxPlugin (\<lambda>p u. u\<lparr>PTotalFailed := PTotalFailed p + 1\<rparr>)"

definition IncrementPluginTotalCanceledRunsSinceStart :: "int \<Rightarrow> string result \<Rightarrow> MetricsData \<Rightarrow> MetricsData go" where
  "IncrementPluginTotalCanceledRunsSinceStart now ctxPlugin =
     increment_plugin now ctxPlugin (\<lambda>p u. u\<lparr>PTotalCanceled := PTotalCanceled p + 1\<rparr>)"

definition IncrementTotalRunningVMs :: "int \<Rightarrow> string result \<Rightarrow> MetricsData \<Rightarrow> MetricsData go" where
  "IncrementTotalRunningVMs now ctxPlugin m = IncrementPluginTotalRanVMs now ctxPlugin (m\<lparr>TotalRunningVMs := TotalRunningVMs m + 1\<rparr>)"

definition DecrementTotalRunningVMs :: "MetricsData \<Rightarrow> MetricsData" where
  "DecrementTotalRunningVMs m = (if TotalRunningVMs m > 0 then m\<lparr>TotalRunningVMs := TotalRunningVMs m - 1\<rparr> else m)"

definition IncrementTotalSuccessfulRunsSinceStart :: "int \<Rightarrow> string result \<Rightarrow> MetricsData \<Rightarrow> MetricsData go" where
  "IncrementTotalSuccessfulRunsSinceStart now ctxPlugin m =
     IncrementPluginTotalSuccessfulRunsSinceStart now ctxPlugin (m\<lparr>TotalSuccessfulRuns := TotalSuccessfulRuns m + 1\<rparr>)"

definition IncrementTotalFailedRunsSinceStart :: "int \<Rightarrow> string result \<Rightarrow> MetricsData \<Rightarrow> MetricsData go" where
  "IncrementTotalFailedRunsSinceStart now ctxPlugin m =
     IncrementPluginTotalFailedRunsSinceStart now ctxPlugin (m\<lparr>TotalFailedRuns := TotalFailedRuns m + 1\<rparr>)"

definition IncrementTotalCanceledRunsSinceStart :: "int \<Rightarrow> string result \<Rightarrow> MetricsData \<Rightarrow> MetricsData go" where
  "IncrementTotalCanceledRunsSinceStart now ctxPlugin m =
     IncrementPluginTotalCanceledRunsSinceStart now ctxPlugin (m\<lparr>TotalCanceledRuns := TotalCanceledRuns m + 1\<rparr>)"

section \<open>The status\<close>

text \<open>
  The time is set after the entry was stored: that reaches the shared base of a full entry, but
  for a base on its own it changes only the copy.
\<close>

definition set_entry_status :: "int \<Rightarrow> string \<Rightarrow> string \<Rightarrow> MetricsEntry \<Rightarrow> MetricsEntry go" where
  "set_entry_status now name status x = (case x of
     FullEntry p \<Rightarrow> (case Base p of
        None \<Rightarrow> Panic
      | Some b \<Rightarrow> Ret (if BName b = name \<and> BStatus b \<noteq> status
          then FullEntry (p\<lparr>Base := Some (b\<lparr>BStatus := status, BStatusSince := Some now\<rparr>)\<rparr>) else x))
   | BaseEntry b \<Rightarrow> Ret (if BName b = name \<and> BStatus b \<noteq> status then BaseEntry (b\<lparr>BStatus := status\<rparr>) else x)
   | OtherEntry \<Rightarrow> Ret x)"

fun set_statuses :: "int \<Rightarrow> string \<Rightarrow> string \<Rightarrow> MetricsEntry list \<Rightarrow> MetricsEntry list go" where
  "set_statuses now name status [] = Ret []"
| "set_statuses now name status (x # xs) = (case set_entry_status now name status x of
     Panic \<Rightarrow> Panic
   | Ret y \<Rightarrow> (case set_statuses now name status xs of Panic \<Rightarrow> Panic | Ret ys \<Rightarrow> Ret (y # ys)))"

definition SetStatus :: "int \<Rightarrow> string result \<Rightarrow> string \<Rightarrow> MetricsData \<Rightarrow> (gerror option \<times> MetricsData) go" where
  "SetStatus now ctxPlugin status m = (case ctxPlugin of
     Inl e \<Rightarrow> Ret (Some e, m)
   | Inr name \<Rightarrow> (case set_statuses now name status (MetricsPlugins m) of
        Panic \<Rightarrow> Panic | Ret xs \<Rightarrow> Ret (None, m\<lparr>MetricsPlugins := xs\<rparr>)))"

end
