(* ===== verification/MetricsExport.thy ===== *)
theory MetricsExport
  imports Metrics AnkaTemplates Redis
begin

text \<open>
  The rest of \<open>internal/metrics/metrics.go\<close>: the readings of the host, the key and the goroutine
  of the export, its removal, and the text of the Prometheus endpoint. What \<open>gopsutil\<close> answers,
  the JSON text of the metrics and the formats of times and floats are parameters.
\<close>

section \<open>Readings of the host\<close>

text \<open>Each answer is an error and a value; the pointers are nil when there is an error.\<close>

record MemStat =
  MTotal :: "64 word"
  MAvailable :: "64 word"
  MUsed :: "64 word"
  MUsedPercent :: rat

record DiskStat =
  DTotal :: "64 word"
  DFree :: "64 word"
  DUsed :: "64 word"
  DUsedPercent :: rat

record Probe =
  Counts :: "gerror option \<times> int"
  Percent :: "rat list result"
  VirtualMemory :: "MemStat option"
  DiskUsage :: "DiskStat option"

definition UpdateSystemMetrics :: "Probe \<Rightarrow> MetricsData \<Rightarrow> MetricsData go" where
  "UpdateSystemMetrics probe m =
     (let cpuCount = snd (Counts probe); u = (Usage m)\<lparr>UCPUCount := cpuCount\<rparr> in
      case Percent probe of
        Inl _ \<Rightarrow> Ret (m\<lparr>Usage := u\<lparr>UCPUUsage := 0, UCPUUsedCount := 0\<rparr>\<rparr>)
      | Inr [] \<Rightarrow> Panic
      | Inr (pct # _) \<Rightarrow> (case (VirtualMemory probe, DiskUsage probe) of
          (Some mem, Some disk) \<Rightarrow> Ret (m\<lparr>Usage := u\<lparr>
             UCPUUsage := pct, UCPUUsedCount := trunc_rat (of_int cpuCount * (pct / 100)),
             UMemoryTotal := MTotal mem, UMemoryAvailable := MAvailable mem, UMemoryUsage := MUsedPercent mem, UMemoryUsed := MUsed mem,
             UDiskUsage := DUsedPercent disk, UDiskTotal := DTotal disk, UDiskAvailable := DFree disk, UDiskUsed := DUsed disk\<rparr>\<rparr>)
        | _ \<Rightarrow> Panic))"

section \<open>The key in the database\<close>

definition redisMetricsKey :: "string \<Rightarrow> string \<Rightarrow> string" where
  "redisMetricsKey owner name = (if owner = [] then ''anklet/metrics/'' @ name else ''anklet/metrics/'' @ owner @ ''/'' @ name)"

definition metricsKey :: "string \<Rightarrow> string" where
  "metricsKey keyEnding = ''anklet/metrics/'' @ TrimPrefix keyEnding ''/''"

definition metrics_Cleanup :: "'s Ctx \<Rightarrow> 's Database \<Rightarrow> string \<Rightarrow> string \<Rightarrow> 's \<Rightarrow> 's" where
  "metrics_Cleanup ctx db owner name s = snd (RetryDel ctx db [redisMetricsKey owner name] s)"

section \<open>The export\<close>

text \<open>
  One turn of the goroutine. It ends with a context, ends the process when no more errors are
  allowed, goes round again at once after an error, and waits for the ticker after a success.
\<close>

datatype export_turn = Ended | ExitProcess | AgainAtOnce int | AfterTick int

definition export_failed :: "int \<Rightarrow> export_turn" where
  "export_failed allowed = (if allowed - 1 = 0 then ExitProcess else AgainAtOnce (allowed - 1))"

definition one_week :: int where
  "one_week = 7 * 24 * 60 * 60 * second"

definition export_turn :: "'s Ctx \<Rightarrow> 's Ctx \<Rightarrow> 's Database \<Rightarrow> (MetricsData \<Rightarrow> string result) \<Rightarrow> Probe \<Rightarrow> string \<Rightarrow> int \<Rightarrow>
    MetricsData \<Rightarrow> 's \<Rightarrow> (export_turn \<times> MetricsData) go \<times> 's" where
  "export_turn workerCtx pluginCtx db encode probe keyEnding allowed m s =
     (if CtxErr workerCtx s \<noteq> None \<or> CtxErr pluginCtx s \<noteq> None then (Ret (Ended, m), s)
      else (case UpdateSystemMetrics probe m of
        Panic \<Rightarrow> (Panic, s)
      | Ret m1 \<Rightarrow> (case encode m1 of
          Inl _ \<Rightarrow> (Ret (export_failed allowed, m1), s)
        | Inr json \<Rightarrow> (case RetrySet pluginCtx db (metricsKey keyEnding) json one_week s of
            (Inl _, s1) \<Rightarrow> (Ret (export_failed allowed, m1), s1)
          | (Inr _, s1) \<Rightarrow> (case RetryExists pluginCtx db [metricsKey keyEnding] s1 of
              (Inl _, s2) \<Rightarrow> (Ret (export_failed allowed, m1), s2)
            | (Inr _, s2) \<Rightarrow> (Ret (AfterTick (if allowed < 60 then 60 else allowed), m1), s2))))))"

section \<open>The Prometheus text\<close>

text \<open>The label set of a plugin, with the labels the line adds.\<close>

definition labels :: "string \<Rightarrow> PluginBase \<Rightarrow> bool \<Rightarrow> string \<Rightarrow> string" where
  "labels metric b with_repo extra =
     metric @ ''{name='' @ BName b @ '',plugin='' @ BPluginName b @ '',owner='' @ BOwnerName b @
     (if with_repo \<and> BRepoName b \<noteq> [] then '',repo='' @ BRepoName b else []) @ extra @ ''} ''"

definition run_line :: "(time \<Rightarrow> string) \<Rightarrow> string \<Rightarrow> PluginBase \<Rightarrow> string \<Rightarrow> time \<Rightarrow> string" where
  "run_line rfc3339 metric b url t = labels metric b True ('',job_url='' @ url) @ rfc3339 t"

definition plugin_lines :: "(time \<Rightarrow> string) \<Rightarrow> PluginBase \<Rightarrow> MetricsPlugin \<Rightarrow> string list" where
  "plugin_lines rfc3339 b p =
     (let handler = \<not> contains (BPluginName b) ''_receiver'' in
      [labels ''plugin_status'' b True [] @ BStatus b] @
      (if handler then
        [run_line rfc3339 ''plugin_last_successful_run'' b (LastSuccessfulRunJobUrl p) (LastSuccessfulRun p),
         run_line rfc3339 ''plugin_last_failed_run'' b (LastFailedRunJobUrl p) (LastFailedRun p),
         run_line rfc3339 ''plugin_last_canceled_run'' b (LastCanceledRunJobUrl p) (LastCanceledRun p)]
       else []) @
      [labels ''plugin_status_since'' b True [] @ rfc3339 (BStatusSince b)] @
      (if handler then
        [labels ''plugin_total_ran_vms'' b False [] @ FormatInt (PTotalRanVMs p),
         labels ''plugin_total_successful_runs_since_start'' b False [] @ FormatInt (PTotalSuccessful p),
         labels ''plugin_total_failed_runs_since_start'' b False [] @ FormatInt (PTotalFailed p),
         labels ''plugin_total_canceled_runs_since_start'' b False [] @ FormatInt (PTotalCanceled p)]
       else []))"

fun entries_lines :: "(time \<Rightarrow> string) \<Rightarrow> MetricsEntry list \<Rightarrow> string list go" where
  "entries_lines rfc3339 [] = Ret []"
| "entries_lines rfc3339 (x # xs) =
     (case (case x of FullEntry p \<Rightarrow> (case Base p of None \<Rightarrow> Panic | Some b \<Rightarrow> Ret (plugin_lines rfc3339 b p))
              | BaseEntry b \<Rightarrow> Ret (plugin_lines rfc3339 b zero_MetricsPlugin) | OtherEntry \<Rightarrow> Panic) of
        Panic \<Rightarrow> Panic
      | Ret ls \<Rightarrow> (case entries_lines rfc3339 xs of Panic \<Rightarrow> Panic | Ret rest \<Rightarrow> Ret (ls @ rest)))"

definition uint_line :: "string \<Rightarrow> 64 word \<Rightarrow> string" where
  "uint_line metric w = metric @ '' '' @ FormatInt (uint w)"

definition host_lines :: "(rat \<Rightarrow> string) \<Rightarrow> HostUsage \<Rightarrow> string list" where
  "host_lines fmt u =
     [''host_cpu_count '' @ FormatInt (UCPUCount u), ''host_cpu_used_count '' @ FormatInt (UCPUUsedCount u),
      ''host_cpu_usage_percentage '' @ fmt (UCPUUsage u),
      uint_line ''host_memory_total_bytes'' (UMemoryTotal u), uint_line ''host_memory_used_bytes'' (UMemoryUsed u),
      uint_line ''host_memory_available_bytes'' (UMemoryAvailable u), ''host_memory_usage_percentage '' @ fmt (UMemoryUsage u),
      uint_line ''host_disk_total_bytes'' (UDiskTotal u), uint_line ''host_disk_used_bytes'' (UDiskUsed u),
      uint_line ''host_disk_available_bytes'' (UDiskAvailable u), ''host_disk_usage_percentage '' @ fmt (UDiskUsage u)]"

text \<open>The answer, line by line.\<close>

definition handlePrometheusMetrics :: "(time \<Rightarrow> string) \<Rightarrow> (rat \<Rightarrow> string) \<Rightarrow> bool \<Rightarrow> MetricsData \<Rightarrow> string list go" where
  "handlePrometheusMetrics rfc3339 fmt soloReceiver m =
     (case entries_lines rfc3339 (MetricsPlugins m) of
        Panic \<Rightarrow> Panic
      | Ret ls \<Rightarrow> Ret ((if soloReceiver then [] else
          [''total_running_vms '' @ FormatInt (TotalRunningVMs m),
           ''total_successful_runs_since_start '' @ FormatInt (TotalSuccessfulRuns m),
           ''total_failed_runs_since_start '' @ FormatInt (TotalFailedRuns m),
           ''total_canceled_runs_since_start '' @ FormatInt (TotalCanceledRuns m)]) @ ls @ host_lines fmt (Usage m)))"

end
