(* ===== verification/MetricsSteps.thy ===== *)
theory MetricsSteps
  imports MetricsExport
begin

text \<open>
  What the operations of \<open>Metrics\<close> do to well-formed metrics, where every entry is full, has a
  base, a name of its own and counters that are not negative: each is a map over the entries.
  \<open>metrics_step\<close> is the worker as it uses them, and \<open>totals_ok\<close> its invariant.
\<close>

named_theorems metrics_ops \<open>the operations on well-formed metrics\<close>

section \<open>Well-formed metrics\<close>

definition pname :: "MetricsPlugin \<Rightarrow> string" where
  "pname p = BName (the (Base p))"

definition counters_ok :: "MetricsPlugin \<Rightarrow> bool" where
  "counters_ok p \<longleftrightarrow> 0 \<le> PTotalRanVMs p \<and> 0 \<le> PTotalSuccessful p \<and> 0 \<le> PTotalFailed p \<and> 0 \<le> PTotalCanceled p"

definition plugins_ok :: "MetricsPlugin list \<Rightarrow> bool" where
  "plugins_ok ps \<longleftrightarrow> (\<forall>p\<in>set ps. Base p \<noteq> None \<and> counters_ok p) \<and> distinct (map pname ps)"

definition change :: "string \<Rightarrow> (MetricsPlugin \<Rightarrow> MetricsPlugin) \<Rightarrow> MetricsPlugin list \<Rightarrow> MetricsPlugin list" where
  "change name f = map (\<lambda>p. if pname p = name then f p else p)"

lemma change_simps [simp]:
  "change name f [] = []"
  "change name f (p # ps) = (if pname p = name then f p else p) # change name f ps"
  "length (change name f ps) = length ps"
  "name \<notin> pname ` set ps \<Longrightarrow> change name f ps = ps"
  unfolding change_def by (simp_all, induction ps) auto

lemma change_names [simp]: "(\<And>p. pname (f p) = pname p) \<Longrightarrow> map pname (change name f ps) = map pname ps"
  by (simp add: change_def)

lemma change_ok:
  assumes "plugins_ok ps" and "\<And>p. Base p \<noteq> None \<Longrightarrow> counters_ok p \<Longrightarrow> Base (f p) \<noteq> None \<and> counters_ok (f p) \<and> pname (f p) = pname p"
  shows "plugins_ok (change name f ps)"
proof -
  have "map pname (change name f ps) = map pname ps"
    using assms unfolding change_def plugins_ok_def by (auto simp: comp_def)
  moreover have "\<forall>p\<in>set (change name f ps). Base p \<noteq> None \<and> counters_ok p"
    using assms unfolding plugins_ok_def change_def by auto
  ultimately show ?thesis using assms(1) by (simp add: plugins_ok_def)
qed

text \<open>Changing one entry changes a sum over the entries by the difference.\<close>

lemma change_sum:
  fixes g :: "MetricsPlugin \<Rightarrow> int"
  assumes "distinct (map pname ps)" "p \<in> set ps" "pname p = name" "g (f p) = g p + d"
  shows "(\<Sum>q\<leftarrow>change name f ps. g q) = (\<Sum>q\<leftarrow>ps. g q) + d"
  using assms
proof (induction ps)
  case (Cons q qs)
  show ?case
  proof (cases "pname q = name")
    case True
    then have "q = p" "name \<notin> pname ` set qs" using Cons.prems by (auto simp: image_iff)
    then show ?thesis using True Cons.prems(4) by simp
  next
    case False
    then show ?thesis using Cons by auto
  qed
qed simp

lemma change_sum_same:
  fixes g :: "MetricsPlugin \<Rightarrow> int"
  assumes "\<And>p. p \<in> set ps \<Longrightarrow> g (f p) = g p"
  shows "(\<Sum>q\<leftarrow>change name f ps. g q) = (\<Sum>q\<leftarrow>ps. g q)"
  using assms by (induction ps) auto

section \<open>The operations\<close>

definition updated :: "int \<Rightarrow> MetricsPlugin \<Rightarrow> MetricsPlugin \<Rightarrow> MetricsPlugin" where
  "updated now u p = (update_runs p u)\<lparr>Base := Some (update_base now (the (Base p)) (the (Base u)))\<rparr>"

lemma update_entries_full:
  assumes "Base u \<noteq> None" "\<forall>p\<in>set ps. Base p \<noteq> None"
  shows "update_entries now name (FullEntry u) (map FullEntry ps) = Ret (None, map FullEntry (change name (updated now u) ps))"
  using assms
proof (induction ps)
  case (Cons p ps)
  obtain b ub where b: "Base p = Some b" "Base u = Some ub" using Cons.prems by auto
  show ?case using Cons b by (simp add: pname_def CompareAndUpdateMetrics_def updated_def)
qed simp

lemma update_entries_base: "update_entries now name (BaseEntry b) (map FullEntry ps) = Ret (None, map FullEntry ps)"
  by (induction ps) simp_all

lemma updated_pname [simp]: "pname (updated now u p) = pname p"
  by (simp add: updated_def pname_def update_base_def)

lemma updated_Base [simp]: "\<exists>b. Base (updated now u p) = Some b"
  by (simp add: updated_def)

lemma updated_ok: "counters_ok p \<Longrightarrow> counters_ok (updated now u p)"
  by (auto simp: updated_def counters_ok_def update_runs_def)

text \<open>An update that carries only one counter leaves everything else as it is.\<close>

lemma update_runs_zero: "counters_ok p \<Longrightarrow> update_runs p zero_MetricsPlugin = p"
  by (simp add: update_runs_def zero_MetricsPlugin_def newer_def nonempty_def counters_ok_def max_def)

lemma update_base_zero: "update_base now b (zero_PluginBase\<lparr>BName := n\<rparr>) = b"
  by (simp add: update_base_def zero_PluginBase_def nonempty_def)

definition bump :: "(MetricsPlugin \<Rightarrow> MetricsPlugin \<Rightarrow> MetricsPlugin) \<Rightarrow> (MetricsPlugin \<Rightarrow> MetricsPlugin) \<Rightarrow> bool" where
  "bump cnt f \<longleftrightarrow> (\<forall>now n p. Base p \<noteq> None \<longrightarrow> counters_ok p \<longrightarrow>
     Base (cnt p (zero_MetricsPlugin\<lparr>Base := Some (zero_PluginBase\<lparr>BName := n\<rparr>)\<rparr>)) \<noteq> None \<and>
     updated now (cnt p (zero_MetricsPlugin\<lparr>Base := Some (zero_PluginBase\<lparr>BName := n\<rparr>)\<rparr>)) p = f p)"

lemma bump_counters:
  "bump (\<lambda>p u. u\<lparr>PTotalRanVMs := PTotalRanVMs p + 1\<rparr>) (\<lambda>p. p\<lparr>PTotalRanVMs := PTotalRanVMs p + 1\<rparr>)"
  "bump (\<lambda>p u. u\<lparr>PTotalSuccessful := PTotalSuccessful p + 1\<rparr>) (\<lambda>p. p\<lparr>PTotalSuccessful := PTotalSuccessful p + 1\<rparr>)"
  "bump (\<lambda>p u. u\<lparr>PTotalFailed := PTotalFailed p + 1\<rparr>) (\<lambda>p. p\<lparr>PTotalFailed := PTotalFailed p + 1\<rparr>)"
  "bump (\<lambda>p u. u\<lparr>PTotalCanceled := PTotalCanceled p + 1\<rparr>) (\<lambda>p. p\<lparr>PTotalCanceled := PTotalCanceled p + 1\<rparr>)"
  unfolding bump_def updated_def
  by (auto simp: update_base_zero update_runs_def zero_MetricsPlugin_def newer_def nonempty_def counters_ok_def max_def)

text \<open>The loop over the entries meets the name once.\<close>

lemma pname_inj: "plugins_ok ps \<Longrightarrow> p \<in> set ps \<Longrightarrow> q \<in> set ps \<Longrightarrow> pname p = pname q \<Longrightarrow> p = q"
  by (auto simp: plugins_ok_def distinct_map dest: inj_onD)

lemma change_cong:
  assumes "plugins_ok ps" "q \<in> set ps" "pname q = name" "f q = g q"
  shows "change name f ps = change name g ps"
  unfolding change_def
proof (rule map_cong [OF refl])
  fix p assume "p \<in> set ps"
  then show "(if pname p = name then f p else p) = (if pname p = name then g p else p)"
    using pname_inj [OF assms(1) _ assms(2)] assms(3,4) by auto
qed

lemma change_nth: "i < length ps \<Longrightarrow> change name f ps ! i = (if pname (ps ! i) = name then f (ps ! i) else ps ! i)"
  by (simp add: change_def)

lemma increment_from_full:
  assumes "bump cnt f"
    and f: "\<And>p. Base p \<noteq> None \<Longrightarrow> counters_ok p \<Longrightarrow> Base (f p) \<noteq> None \<and> counters_ok (f p) \<and> pname (f p) = pname p"
  shows "plugins_ok ps \<Longrightarrow> MetricsPlugins m = map FullEntry ps \<Longrightarrow> set is \<subseteq> {..<length ps} \<Longrightarrow> distinct is \<Longrightarrow>
    increment_from now name cnt is m =
      Ret (if \<exists>i\<in>set is. pname (ps ! i) = name then m\<lparr>MetricsPlugins := map FullEntry (change name f ps)\<rparr> else m)"
proof (induction "is" arbitrary: ps m)
  case (Cons i "is")
  have i: "i < length ps" using Cons.prems(3) by simp
  then have mem: "ps ! i \<in> set ps" by simp
  obtain b where b: "Base (ps ! i) = Some b" using Cons.prems(1) mem by (auto simp: plugins_ok_def)
  note IH = Cons.IH [OF _ _ _ distinct.simps(2) [THEN iffD1, OF Cons.prems(4), THEN conjunct2]]
  show ?case
  proof (cases "pname (ps ! i) = name")
    case False
    then show ?thesis using IH [OF Cons.prems(1,2)] Cons.prems(2,3) b i by (simp add: pname_def)
  next
    case True
    let ?u = "cnt (ps ! i) (zero_MetricsPlugin\<lparr>Base := Some (zero_PluginBase\<lparr>BName := name\<rparr>)\<rparr>)"
    let ?qs = "change name f ps"
    let ?m = "m\<lparr>MetricsPlugins := map FullEntry ?qs\<rparr>"
    have u: "Base ?u \<noteq> None" "updated now ?u (ps ! i) = f (ps ! i)"
      using assms(1) b Cons.prems(1) mem by (auto simp: bump_def plugins_ok_def)
    have bases: "\<forall>p\<in>set ps. Base p \<noteq> None" using Cons.prems(1) by (simp add: plugins_ok_def)
    have step: "update_plugin_of now (Inr name) (FullEntry ?u) m = Ret (None, ?m)"
      using update_entries_full [OF u(1) bases, of now name] change_cong [where f = "updated now ?u" and g = f, OF Cons.prems(1) mem True u(2)] Cons.prems(2)
      by (simp add: update_plugin_of_def with_entries_def)
    have others: "pname (?qs ! j) \<noteq> name" if "j \<in> set is" for j
    proof -
      have j: "j < length ps" "j \<noteq> i" using that Cons.prems(3,4) by auto
      then have "pname (ps ! j) \<noteq> name"
        using True i Cons.prems(1) nth_eq_iff_index_eq [of "map pname ps" i j] by (simp add: plugins_ok_def)
      then show ?thesis using j by (simp add: change_nth)
    qed
    have "increment_from now name cnt is ?m = Ret ?m"
      using IH [of ?qs ?m] change_ok [where f = f, OF Cons.prems(1) f] others Cons.prems(3) by auto
    then show ?thesis using step True b i Cons.prems(2) by (simp add: pname_def)
  qed
qed simp

lemma increment_plugin_full:
  assumes "bump cnt f"
    and f: "\<And>p. Base p \<noteq> None \<Longrightarrow> counters_ok p \<Longrightarrow> Base (f p) \<noteq> None \<and> counters_ok (f p) \<and> pname (f p) = pname p"
    and ps: "plugins_ok ps" "MetricsPlugins m = map FullEntry ps"
  shows "increment_plugin now (Inr name) cnt m = Ret (m\<lparr>MetricsPlugins := map FullEntry (change name f ps)\<rparr>)"
proof -
  have "(\<exists>i\<in>set [0..<length ps]. pname (ps ! i) = name) \<longleftrightarrow> name \<in> pname ` set ps"
    by (fastforce simp: in_set_conv_nth image_iff)
  moreover have "m\<lparr>MetricsPlugins := map FullEntry ps\<rparr> = m" using ps(2) by (metis MetricsData.surjective MetricsData.update_convs(6))
  moreover have "set [0..<length ps] \<subseteq> {..<length ps}" by auto
  ultimately show ?thesis using increment_from_full [OF assms(1) f ps, of "[0..<length ps]" now name] ps(2)
    by (cases "name \<in> pname ` set ps") (simp_all add: increment_plugin_def)
qed

lemma named_entry_full: "\<forall>p\<in>set ps. Base p \<noteq> None \<Longrightarrow> named_entry name (map FullEntry ps) = Ret (Inr (name \<in> pname ` set ps))"
  by (induction ps) (auto simp: pname_def)

lemma set_statuses_full:
  "\<forall>p\<in>set ps. Base p \<noteq> None \<Longrightarrow> set_statuses now name status (map FullEntry ps) =
     Ret (map FullEntry (change name (\<lambda>p. if BStatus (the (Base p)) \<noteq> status
        then p\<lparr>Base := Some ((the (Base p))\<lparr>BStatus := status, BStatusSince := Some now\<rparr>)\<rparr> else p) ps))"
  by (induction ps) (auto simp: set_entry_status_def pname_def)

section \<open>The invariant\<close>

definition totals_ok :: "MetricsData \<Rightarrow> bool" where
  "totals_ok m \<longleftrightarrow> (\<exists>ps. MetricsPlugins m = map FullEntry ps \<and> plugins_ok ps \<and>
     TotalSuccessfulRuns m = (\<Sum>p\<leftarrow>ps. PTotalSuccessful p) \<and> TotalFailedRuns m = (\<Sum>p\<leftarrow>ps. PTotalFailed p) \<and>
     TotalCanceledRuns m = (\<Sum>p\<leftarrow>ps. PTotalCanceled p) \<and>
     0 \<le> TotalRunningVMs m \<and> TotalRunningVMs m \<le> (\<Sum>p\<leftarrow>ps. PTotalRanVMs p))"

definition registered :: "string \<Rightarrow> MetricsData \<Rightarrow> bool" where
  "registered name m \<longleftrightarrow> (\<exists>p. FullEntry p \<in> set (MetricsPlugins m) \<and> pname p = name)"

text \<open>The plugins are added with all counters zero, and updates of the handler carry none.\<close>

definition no_counts :: "MetricsPlugin \<Rightarrow> bool" where
  "no_counts p \<longleftrightarrow> Base p \<noteq> None \<and> PTotalRanVMs p = 0 \<and> PTotalSuccessful p = 0 \<and> PTotalFailed p = 0 \<and> PTotalCanceled p = 0"

inductive metrics_step :: "MetricsData \<Rightarrow> MetricsData \<Rightarrow> bool" where
  add: "no_counts p \<Longrightarrow> AddPlugin (FullEntry p) m = Ret (r, m') \<Longrightarrow> metrics_step m m'"
| vm: "registered name m \<Longrightarrow> IncrementTotalRunningVMs now (Inr name) m = Ret m' \<Longrightarrow> metrics_step m m'"
| vm_gone: "metrics_step m (DecrementTotalRunningVMs m)"
| success: "registered name m \<Longrightarrow> IncrementTotalSuccessfulRunsSinceStart now (Inr name) m = Ret m' \<Longrightarrow> metrics_step m m'"
| failure: "registered name m \<Longrightarrow> IncrementTotalFailedRunsSinceStart now (Inr name) m = Ret m' \<Longrightarrow> metrics_step m m'"
| cancel: "registered name m \<Longrightarrow> IncrementTotalCanceledRunsSinceStart now (Inr name) m = Ret m' \<Longrightarrow> metrics_step m m'"
| status: "SetStatus now c status m = Ret (r, m') \<Longrightarrow> metrics_step m m'"
| runs: "no_counts u \<Longrightarrow> UpdatePlugin now (FullEntry u) m = Ret (r, m') \<Longrightarrow> metrics_step m m'"
| base: "UpdatePlugin now (BaseEntry b) m = Ret (r, m') \<Longrightarrow> metrics_step m m'"
| system: "UpdateSystemMetrics probe m = Ret m' \<Longrightarrow> metrics_step m m'"

inductive_cases metrics_stepE: "metrics_step m m'"

text \<open>A counter and the total it belongs to go up together.\<close>

lemma count_up:
  assumes "totals_ok m" "registered name m"
  shows "\<exists>m'. IncrementTotalRunningVMs now (Inr name) m = Ret m' \<and> totals_ok m'"
    and "\<exists>m'. IncrementTotalSuccessfulRunsSinceStart now (Inr name) m = Ret m' \<and> totals_ok m'"
    and "\<exists>m'. IncrementTotalFailedRunsSinceStart now (Inr name) m = Ret m' \<and> totals_ok m'"
    and "\<exists>m'. IncrementTotalCanceledRunsSinceStart now (Inr name) m = Ret m' \<and> totals_ok m'"
proof -
  obtain ps where ps: "MetricsPlugins m = map FullEntry ps" "plugins_ok ps"
     "TotalSuccessfulRuns m = (\<Sum>p\<leftarrow>ps. PTotalSuccessful p)" "TotalFailedRuns m = (\<Sum>p\<leftarrow>ps. PTotalFailed p)"
     "TotalCanceledRuns m = (\<Sum>p\<leftarrow>ps. PTotalCanceled p)"
     "0 \<le> TotalRunningVMs m" "TotalRunningVMs m \<le> (\<Sum>p\<leftarrow>ps. PTotalRanVMs p)"
    using assms(1) by (auto simp: totals_ok_def)
  obtain p where p: "p \<in> set ps" "pname p = name" using assms(2) ps(1) by (auto simp: registered_def)
  have d: "distinct (map pname ps)" using ps(2) by (simp add: plugins_ok_def)
  note sums = ps(3-7) change_sum [OF d p, where d = 1] change_sum_same
  have inc: "increment_plugin now (Inr name) cnt m1 = Ret (m1\<lparr>MetricsPlugins := map FullEntry (change name f ps)\<rparr>)"
    and ok: "plugins_ok (change name f ps)"
    if "bump cnt f" "\<And>p. counters_ok p \<Longrightarrow> counters_ok (f p)" "\<And>p. Base (f p) = Base p" "MetricsPlugins m1 = MetricsPlugins m" for cnt f m1
  proof -
    have f: "\<And>p. Base p \<noteq> None \<Longrightarrow> counters_ok p \<Longrightarrow> Base (f p) \<noteq> None \<and> counters_ok (f p) \<and> pname (f p) = pname p"
      using that(2,3) by (simp add: pname_def)
    show "increment_plugin now (Inr name) cnt m1 = Ret (m1\<lparr>MetricsPlugins := map FullEntry (change name f ps)\<rparr>)"
      by (rule increment_plugin_full [OF that(1) f ps(2)]) (simp_all add: that(4) ps(1))
    show "plugins_ok (change name f ps)" by (rule change_ok [OF ps(2) f])
  qed
  note up = inc [OF bump_counters(1)] inc [OF bump_counters(2)] inc [OF bump_counters(3)] inc [OF bump_counters(4)]
  note oks = ok [OF bump_counters(1)] ok [OF bump_counters(2)] ok [OF bump_counters(3)] ok [OF bump_counters(4)]
  show "\<exists>m'. IncrementTotalRunningVMs now (Inr name) m = Ret m' \<and> totals_ok m'"
    unfolding IncrementTotalRunningVMs_def IncrementPluginTotalRanVMs_def
    by (subst up(1)) (use oks(1) [of m] sums in \<open>auto simp: counters_ok_def totals_ok_def intro!: exI [of _ "change _ _ ps"]\<close>)
  show "\<exists>m'. IncrementTotalSuccessfulRunsSinceStart now (Inr name) m = Ret m' \<and> totals_ok m'"
    unfolding IncrementTotalSuccessfulRunsSinceStart_def IncrementPluginTotalSuccessfulRunsSinceStart_def
    by (subst up(2)) (use oks(2) [of m] sums in \<open>auto simp: counters_ok_def totals_ok_def intro!: exI [of _ "change _ _ ps"]\<close>)
  show "\<exists>m'. IncrementTotalFailedRunsSinceStart now (Inr name) m = Ret m' \<and> totals_ok m'"
    unfolding IncrementTotalFailedRunsSinceStart_def IncrementPluginTotalFailedRunsSinceStart_def
    by (subst up(3)) (use oks(3) [of m] sums in \<open>auto simp: counters_ok_def totals_ok_def intro!: exI [of _ "change _ _ ps"]\<close>)
  show "\<exists>m'. IncrementTotalCanceledRunsSinceStart now (Inr name) m = Ret m' \<and> totals_ok m'"
    unfolding IncrementTotalCanceledRunsSinceStart_def IncrementPluginTotalCanceledRunsSinceStart_def
    by (subst up(4)) (use oks(4) [of m] sums in \<open>auto simp: counters_ok_def totals_ok_def intro!: exI [of _ "change _ _ ps"]\<close>)
qed

lemma totalsI:
  assumes "totals_ok m" "MetricsPlugins m = map FullEntry ps" "plugins_ok ps'"
    and "(\<Sum>p\<leftarrow>ps'. PTotalRanVMs p) = (\<Sum>p\<leftarrow>ps. PTotalRanVMs p)" "(\<Sum>p\<leftarrow>ps'. PTotalSuccessful p) = (\<Sum>p\<leftarrow>ps. PTotalSuccessful p)"
    "(\<Sum>p\<leftarrow>ps'. PTotalFailed p) = (\<Sum>p\<leftarrow>ps. PTotalFailed p)" "(\<Sum>p\<leftarrow>ps'. PTotalCanceled p) = (\<Sum>p\<leftarrow>ps. PTotalCanceled p)"
  shows "totals_ok (m\<lparr>MetricsPlugins := map FullEntry ps'\<rparr>)"
proof -
  have "inj (map FullEntry)" by (simp add: inj_on_def)
  then have "qs = ps" if "MetricsPlugins m = map FullEntry qs" for qs using that assms(2) by (simp add: inj_on_def)
  then show ?thesis using assms unfolding totals_ok_def by (auto intro!: exI [of _ ps'])
qed

lemma totals_full: "totals_ok m \<Longrightarrow> \<exists>ps. MetricsPlugins m = map FullEntry ps \<and> plugins_ok ps"
  by (auto simp: totals_ok_def)

lemma totals_same: "totals_ok m \<Longrightarrow> totals_ok (m\<lparr>MetricsPlugins := MetricsPlugins m\<rparr>)"
  by (simp add: totals_ok_def)

lemma add_totals:
  assumes "totals_ok m" "no_counts p"
  shows "\<exists>m'. AddPlugin (FullEntry p) m = Ret (None, m') \<and> totals_ok m'"
proof -
  obtain ps where ps: "MetricsPlugins m = map FullEntry ps" "plugins_ok ps" using totals_full [OF assms(1)] by blast
  have b: "\<forall>p\<in>set ps. Base p \<noteq> None" using ps(2) by (simp add: plugins_ok_def)
  obtain base where base: "Base p = Some base" using assms(2) by (auto simp: no_counts_def)
  show ?thesis
  proof (cases "pname p \<in> pname ` set ps")
    case True
    then show ?thesis using assms(1) ps base by (simp add: AddPlugin_def named_entry_full [OF b] pname_def)
  next
    case False
    have "totals_ok (m\<lparr>MetricsPlugins := map FullEntry (ps @ [p])\<rparr>)"
      using False ps assms by (intro totalsI [OF assms(1) ps(1)]) (auto simp: plugins_ok_def no_counts_def counters_ok_def)
    then show ?thesis using False ps base by (simp add: AddPlugin_def named_entry_full [OF b] pname_def)
  qed
qed

lemma status_totals:
  assumes "totals_ok m"
  shows "\<exists>r m'. SetStatus now c status m = Ret (r, m') \<and> totals_ok m'"
proof (cases c)
  case (Inr name)
  obtain ps where ps: "MetricsPlugins m = map FullEntry ps" "plugins_ok ps" using totals_full [OF assms] by blast
  have b: "\<forall>p\<in>set ps. Base p \<noteq> None" using ps(2) by (simp add: plugins_ok_def)
  let ?f = "\<lambda>p. if BStatus (the (Base p)) \<noteq> status then p\<lparr>Base := Some ((the (Base p))\<lparr>BStatus := status, BStatusSince := Some now\<rparr>)\<rparr> else p"
  have "totals_ok (m\<lparr>MetricsPlugins := map FullEntry (change name ?f ps)\<rparr>)"
    by (rule totalsI [OF assms ps(1) change_ok [OF ps(2)]]) (auto simp: pname_def counters_ok_def intro!: change_sum_same)
  then show ?thesis using set_statuses_full [OF b, of now name status] ps(1) Inr by (simp add: SetStatus_def)
qed (simp add: SetStatus_def assms)

lemma update_totals:
  assumes "totals_ok m"
  shows "no_counts u \<Longrightarrow> \<exists>r m'. UpdatePlugin now (FullEntry u) m = Ret (r, m') \<and> totals_ok m'"
    and "UpdatePlugin now (BaseEntry b) m = Ret (None, m)"
proof -
  obtain ps where ps: "MetricsPlugins m = map FullEntry ps" "plugins_ok ps" using totals_full [OF assms] by blast
  have b: "\<forall>p\<in>set ps. Base p \<noteq> None" using ps(2) by (simp add: plugins_ok_def)
  show "UpdatePlugin now (BaseEntry b) m = Ret (None, m)"
    using ps(1) by (simp add: UpdatePlugin_def with_entries_def update_entries_base)
  assume u: "no_counts u"
  then obtain ub where ub: "Base u = Some ub" by (auto simp: no_counts_def)
  have cnt: "\<And>p. p \<in> set ps \<Longrightarrow> PTotalRanVMs (updated now u p) = PTotalRanVMs p \<and> PTotalSuccessful (updated now u p) = PTotalSuccessful p \<and>
      PTotalFailed (updated now u p) = PTotalFailed p \<and> PTotalCanceled (updated now u p) = PTotalCanceled p"
    using ps(2) u by (auto simp: updated_def update_runs_def no_counts_def plugins_ok_def counters_ok_def max_def)
  have "totals_ok (m\<lparr>MetricsPlugins := map FullEntry (change (BName ub) (updated now u) ps)\<rparr>)"
    by (rule totalsI [OF assms ps(1) change_ok [OF ps(2)]]) (simp_all add: updated_ok cnt change_sum_same)
  then show "\<exists>r m'. UpdatePlugin now (FullEntry u) m = Ret (r, m') \<and> totals_ok m'"
    using update_entries_full [OF _ b, of u now "BName ub"] ub ps(1) assms by (simp add: UpdatePlugin_def with_entries_def)
qed

lemma gone_totals: "totals_ok m \<Longrightarrow> totals_ok (DecrementTotalRunningVMs m)"
  by (auto simp: totals_ok_def DecrementTotalRunningVMs_def)

lemma system_totals: "UpdateSystemMetrics probe m = Ret m' \<Longrightarrow> totals_ok m \<Longrightarrow> totals_ok m'"
  by (auto simp: UpdateSystemMetrics_def Let_def totals_ok_def split: sum.splits list.splits option.splits)

lemma metrics_step_totals: "metrics_step m m' \<Longrightarrow> totals_ok m \<Longrightarrow> totals_ok m'"
proof (induction rule: metrics_step.induct)
  case (add p m r m')
  then show ?case using add_totals [of m p] by auto
next
  case (vm name m now m')
  then show ?case using count_up(1) [of m name now] by auto
next
  case (vm_gone m)
  then show ?case by (rule gone_totals)
next
  case (success name m now m')
  then show ?case using count_up(2) [of m name now] by auto
next
  case (failure name m now m')
  then show ?case using count_up(3) [of m name now] by auto
next
  case (cancel name m now m')
  then show ?case using count_up(4) [of m name now] by auto
next
  case (status now c status m r m')
  then show ?case using status_totals [of m now c status] by auto
next
  case (runs u now m r m')
  then show ?case using update_totals(1) [of m u now] by auto
next
  case (base now b m r m')
  then show ?case using update_totals(2) [of m now b] by auto
next
  case (system probe m m')
  then show ?case by (rule system_totals)
qed

end
