(* ===== verification/Aggregator.thy ===== *)
theory Aggregator
  imports MetricsExport
begin

text \<open>
  The JSON text a worker exports and \<open>internal/metrics/aggregator.go\<close>: the endpoints that scan
  the database for the exports of all workers and answer with one document. \<open>Times\<close> are the
  formats of package \<open>time\<close>: the JSON text of a time, with all its digits, its \<open>RFC3339\<close> text to the
  second, and the reading of either; \<open>num\<close> gives the JSON number of a float. A missing or mistyped field is
  a failed type assertion, which is a panic. The turns of the scan are bounded by fuel.
\<close>

section \<open>The exported text\<close>

record Times =
  json_time :: "time \<Rightarrow> string"
  rfc3339 :: "time \<Rightarrow> string"
  parse_time :: "string \<Rightarrow> time result"

definition enc_base :: "Times \<Rightarrow> PluginBase \<Rightarrow> (string \<times> json) list" where
  "enc_base t b = [(''Name'', JStr (BName b)), (''PluginName'', JStr (BPluginName b)), (''RepoName'', JStr (BRepoName b)),
     (''OwnerName'', JStr (BOwnerName b)), (''Status'', JStr (BStatus b)), (''StatusSince'', JStr (json_time t (BStatusSince b)))]"

definition enc_runs :: "Times \<Rightarrow> MetricsPlugin \<Rightarrow> (string \<times> json) list" where
  "enc_runs t p = [(''LastSuccessfulRunJobUrl'', JStr (LastSuccessfulRunJobUrl p)), (''LastFailedRunJobUrl'', JStr (LastFailedRunJobUrl p)),
     (''LastCanceledRunJobUrl'', JStr (LastCanceledRunJobUrl p)), (''LastSuccessfulRun'', JStr (json_time t (LastSuccessfulRun p))),
     (''LastFailedRun'', JStr (json_time t (LastFailedRun p))), (''LastCanceledRun'', JStr (json_time t (LastCanceledRun p))),
     (''TotalRanVMs'', JNum (PTotalRanVMs p)), (''TotalSuccessfulRunsSinceStart'', JNum (PTotalSuccessful p)),
     (''TotalFailedRunsSinceStart'', JNum (PTotalFailed p)), (''TotalCanceledRunsSinceStart'', JNum (PTotalCanceled p))]"

fun enc_entry :: "Times \<Rightarrow> MetricsEntry \<Rightarrow> json" where
  "enc_entry t (FullEntry p) = JObj ((case Base p of None \<Rightarrow> [] | Some b \<Rightarrow> enc_base t b) @ enc_runs t p)"
| "enc_entry t (BaseEntry b) = JObj (enc_base t b)"
| "enc_entry t OtherEntry = JNull"

definition enc_usage :: "(rat \<Rightarrow> json) \<Rightarrow> HostUsage \<Rightarrow> (string \<times> json) list" where
  "enc_usage num u = [(''host_cpu_count'', JNum (UCPUCount u)), (''host_cpu_used_count'', JNum (UCPUUsedCount u)),
     (''host_cpu_usage_percentage'', num (UCPUUsage u)),
     (''host_memory_total_bytes'', JNum (uint (UMemoryTotal u))), (''host_memory_used_bytes'', JNum (uint (UMemoryUsed u))),
     (''host_memory_available_bytes'', JNum (uint (UMemoryAvailable u))), (''host_memory_usage_percentage'', num (UMemoryUsage u)),
     (''host_disk_total_bytes'', JNum (uint (UDiskTotal u))), (''host_disk_used_bytes'', JNum (uint (UDiskUsed u))),
     (''host_disk_available_bytes'', JNum (uint (UDiskAvailable u))), (''host_disk_usage_percentage'', num (UDiskUsage u))]"

definition enc_MetricsData :: "Times \<Rightarrow> (rat \<Rightarrow> json) \<Rightarrow> time \<Rightarrow> MetricsData \<Rightarrow> json" where
  "enc_MetricsData t num now m = JObj ([(''last_update'', JStr (json_time t now)), (''total_running_vms'', JNum (TotalRunningVMs m)),
     (''total_successful_runs_since_start'', JNum (TotalSuccessfulRuns m)), (''total_failed_runs_since_start'', JNum (TotalFailedRuns m)),
     (''total_canceled_runs_since_start'', JNum (TotalCanceledRuns m))] @ enc_usage num (Usage m) @
     [(''plugins'', JArr (map (enc_entry t) (MetricsPlugins m)))])"

text \<open>Through a map, in which the time of the export replaces the one of the record.\<close>

definition exported :: "Times \<Rightarrow> (rat \<Rightarrow> json) \<Rightarrow> time \<Rightarrow> MetricsData \<Rightarrow> string" where
  "exported t num now m = jprint (any_value (enc_MetricsData t num now m))"

section \<open>Reading an export\<close>

record Export =
  ELastUpdate :: time
  ERunning :: int
  ESuccessful :: int
  EFailed :: int
  ECanceled :: int
  EUsage :: HostUsage
  EPlugins :: "json list"

definition zero_usage :: HostUsage where
  "zero_usage = \<lparr>UCPUCount = 0, UCPUUsedCount = 0, UCPUUsage = 0, UMemoryTotal = 0, UMemoryUsed = 0, UMemoryAvailable = 0,
     UMemoryUsage = 0, UDiskTotal = 0, UDiskUsed = 0, UDiskAvailable = 0, UDiskUsage = 0\<rparr>"

definition dec_float :: "rat \<Rightarrow> json \<Rightarrow> rat result" where
  "dec_float cur v = (if v = JNull then Inr cur else (case json_float v of None \<Rightarrow> Inl mismatch | Some q \<Rightarrow> Inr q))"

fun dec_time :: "Times \<Rightarrow> time \<Rightarrow> json \<Rightarrow> time result" where
  "dec_time t cur (JStr s) = parse_time t s"
| "dec_time t cur JNull = Inr cur"
| "dec_time t cur _ = Inl mismatch"

fun dec_anys :: "json list \<Rightarrow> json \<Rightarrow> json list result" where
  "dec_anys cur (JArr vs) = Inr (map any_value vs)"
| "dec_anys cur JNull = Inr []"
| "dec_anys cur _ = Inl mismatch"

definition set_usage :: "string \<Rightarrow> json \<Rightarrow> HostUsage \<Rightarrow> HostUsage result" where
  "set_usage k v u =
     (if k = ''host_cpu_count'' then map_sum id (\<lambda>i. u\<lparr>UCPUCount := i\<rparr>) (dec_int (UCPUCount u) v)
      else if k = ''host_cpu_used_count'' then map_sum id (\<lambda>i. u\<lparr>UCPUUsedCount := i\<rparr>) (dec_int (UCPUUsedCount u) v)
      else if k = ''host_cpu_usage_percentage'' then map_sum id (\<lambda>q. u\<lparr>UCPUUsage := q\<rparr>) (dec_float (UCPUUsage u) v)
      else if k = ''host_memory_total_bytes'' then map_sum id (\<lambda>w. u\<lparr>UMemoryTotal := w\<rparr>) (dec_uint64 (UMemoryTotal u) v)
      else if k = ''host_memory_used_bytes'' then map_sum id (\<lambda>w. u\<lparr>UMemoryUsed := w\<rparr>) (dec_uint64 (UMemoryUsed u) v)
      else if k = ''host_memory_available_bytes'' then map_sum id (\<lambda>w. u\<lparr>UMemoryAvailable := w\<rparr>) (dec_uint64 (UMemoryAvailable u) v)
      else if k = ''host_memory_usage_percentage'' then map_sum id (\<lambda>q. u\<lparr>UMemoryUsage := q\<rparr>) (dec_float (UMemoryUsage u) v)
      else if k = ''host_disk_total_bytes'' then map_sum id (\<lambda>w. u\<lparr>UDiskTotal := w\<rparr>) (dec_uint64 (UDiskTotal u) v)
      else if k = ''host_disk_used_bytes'' then map_sum id (\<lambda>w. u\<lparr>UDiskUsed := w\<rparr>) (dec_uint64 (UDiskUsed u) v)
      else if k = ''host_disk_available_bytes'' then map_sum id (\<lambda>w. u\<lparr>UDiskAvailable := w\<rparr>) (dec_uint64 (UDiskAvailable u) v)
      else if k = ''host_disk_usage_percentage'' then map_sum id (\<lambda>q. u\<lparr>UDiskUsage := q\<rparr>) (dec_float (UDiskUsage u) v)
      else Inr u)"

definition set_export :: "Times \<Rightarrow> string \<Rightarrow> json \<Rightarrow> Export \<Rightarrow> Export result" where
  "set_export t k v e =
     (if k = ''last_update'' then map_sum id (\<lambda>x. e\<lparr>ELastUpdate := x\<rparr>) (dec_time t (ELastUpdate e) v)
      else if k = ''total_running_vms'' then map_sum id (\<lambda>i. e\<lparr>ERunning := i\<rparr>) (dec_int (ERunning e) v)
      else if k = ''total_successful_runs_since_start'' then map_sum id (\<lambda>i. e\<lparr>ESuccessful := i\<rparr>) (dec_int (ESuccessful e) v)
      else if k = ''total_failed_runs_since_start'' then map_sum id (\<lambda>i. e\<lparr>EFailed := i\<rparr>) (dec_int (EFailed e) v)
      else if k = ''total_canceled_runs_since_start'' then map_sum id (\<lambda>i. e\<lparr>ECanceled := i\<rparr>) (dec_int (ECanceled e) v)
      else if k = ''plugins'' then map_sum id (\<lambda>vs. e\<lparr>EPlugins := vs\<rparr>) (dec_anys (EPlugins e) v)
      else map_sum id (\<lambda>u. e\<lparr>EUsage := u\<rparr>) (set_usage k v (EUsage e)))"

definition dec_export :: "Times \<Rightarrow> string \<Rightarrow> Export result" where
  "dec_export t text = (case json_parse text of
     None \<Rightarrow> Inl mismatch
   | Some v \<Rightarrow> dec_struct (set_export t) \<lparr>ELastUpdate = None, ERunning = 0, ESuccessful = 0, EFailed = 0, ECanceled = 0,
        EUsage = zero_usage, EPlugins = []\<rparr> v)"

section \<open>Reading a plugin of an export\<close>

definition ask :: "'a result go \<Rightarrow> ('a \<Rightarrow> 'b result go) \<Rightarrow> 'b result go" where
  "ask r f = (case r of Panic \<Rightarrow> Panic | Ret (Inl e) \<Rightarrow> Ret (Inl e) | Ret (Inr a) \<Rightarrow> f a)"

definition str_field :: "(string \<times> json) list \<Rightarrow> string \<Rightarrow> string result go" where
  "str_field ms k = (case map_of ms k of Some (JStr s) \<Rightarrow> Ret (Inr s) | _ \<Rightarrow> Panic)"

definition repo_field :: "(string \<times> json) list \<Rightarrow> string result go" where
  "repo_field ms = (case map_of ms ''RepoName'' of None \<Rightarrow> Ret (Inr []) | Some JNull \<Rightarrow> Ret (Inr []) | Some (JStr s) \<Rightarrow> Ret (Inr s) | _ \<Rightarrow> Panic)"

definition time_field :: "Times \<Rightarrow> (string \<times> json) list \<Rightarrow> string \<Rightarrow> time result go" where
  "time_field t ms k = ask (str_field ms k) (\<lambda>s. Ret (parse_time t s))"

definition int_field :: "(string \<times> json) list \<Rightarrow> string \<Rightarrow> int result go" where
  "int_field ms k = (case Option.bind (map_of ms k) json_float of None \<Rightarrow> Panic | Some q \<Rightarrow> Ret (Inr (trunc_rat q)))"

text \<open>The runs of a handler; a receiver has none.\<close>

definition read_runs :: "Times \<Rightarrow> (string \<times> json) list \<Rightarrow> MetricsPlugin result go" where
  "read_runs t ms =
     ask (str_field ms ''LastSuccessfulRunJobUrl'') (\<lambda>successUrl.
     ask (str_field ms ''LastFailedRunJobUrl'') (\<lambda>failedUrl.
     ask (time_field t ms ''LastSuccessfulRun'') (\<lambda>success.
     ask (time_field t ms ''LastFailedRun'') (\<lambda>failed.
     ask (str_field ms ''LastCanceledRunJobUrl'') (\<lambda>canceledUrl.
     ask (time_field t ms ''LastCanceledRun'') (\<lambda>canceled.
     ask (int_field ms ''TotalRanVMs'') (\<lambda>ran.
     ask (int_field ms ''TotalSuccessfulRunsSinceStart'') (\<lambda>successes.
     ask (int_field ms ''TotalFailedRunsSinceStart'') (\<lambda>failures.
     ask (int_field ms ''TotalCanceledRunsSinceStart'') (\<lambda>cancels.
     Ret (Inr \<lparr>Base = None, LastSuccessfulRunJobUrl = successUrl, LastFailedRunJobUrl = failedUrl, LastCanceledRunJobUrl = canceledUrl,
       LastSuccessfulRun = success, LastFailedRun = failed, LastCanceledRun = canceled, PTotalRanVMs = ran,
       PTotalSuccessful = successes, PTotalFailed = failures, PTotalCanceled = cancels\<rparr>)))))))))))"

definition is_receiver :: "string \<Rightarrow> bool" where
  "is_receiver pluginName \<longleftrightarrow> contains pluginName ''_receiver''"

definition read_plugin :: "Times \<Rightarrow> json \<Rightarrow> (PluginBase \<times> MetricsPlugin) result go" where
  "read_plugin t v = (case v of
     JObj ms \<Rightarrow>
       ask (str_field ms ''PluginName'') (\<lambda>pluginName.
       ask (str_field ms ''Name'') (\<lambda>name.
       ask (str_field ms ''OwnerName'') (\<lambda>owner.
       ask (repo_field ms) (\<lambda>repo.
       ask (str_field ms ''Status'') (\<lambda>status.
       ask (time_field t ms ''StatusSince'') (\<lambda>since.
       ask (if is_receiver pluginName then Ret (Inr zero_MetricsPlugin) else read_runs t ms) (\<lambda>runs.
       Ret (Inr (\<lparr>BName = name, BPluginName = pluginName, BRepoName = repo, BOwnerName = owner, BStatus = status, BStatusSince = since\<rparr>, runs)))))))))
   | _ \<Rightarrow> Ret (Inl (Errorf ''error asserting plugin to map'')))"

section \<open>The responses\<close>

text \<open>The times of the response are texts; sizes are signed there.\<close>

record Response =
  RRepoName :: string
  RPluginName :: string
  RCustomName :: string
  ROwnerName :: string
  RLastUpdate :: string
  RStatus :: string
  RLastSuccessfulRun :: string
  RLastFailedRun :: string
  RLastCanceledRun :: string
  RStatusSince :: string
  RTotalRanVMs :: int
  RTotalSuccessful :: int
  RTotalFailed :: int
  RTotalCanceled :: int
  RSuccessfulJobUrl :: string
  RFailedJobUrl :: string
  RCanceledJobUrl :: string
  RCPUCount :: int
  RCPUUsedCount :: int
  RCPUUsage :: rat
  RMemoryTotal :: int
  RMemoryUsed :: int
  RMemoryAvailable :: int
  RMemoryUsage :: rat
  RDiskTotal :: int
  RDiskUsed :: int
  RDiskAvailable :: int
  RDiskUsage :: rat

definition response :: "Times \<Rightarrow> Export \<Rightarrow> PluginBase \<Rightarrow> MetricsPlugin \<Rightarrow> Response" where
  "response t e b p = (let u = EUsage e in
     \<lparr>RRepoName = BRepoName b, RPluginName = BPluginName b, RCustomName = BName b, ROwnerName = BOwnerName b,
      RLastUpdate = rfc3339 t (ELastUpdate e), RStatus = BStatus b,
      RLastSuccessfulRun = rfc3339 t (LastSuccessfulRun p), RLastFailedRun = rfc3339 t (LastFailedRun p),
      RLastCanceledRun = rfc3339 t (LastCanceledRun p), RStatusSince = rfc3339 t (BStatusSince b),
      RTotalRanVMs = PTotalRanVMs p, RTotalSuccessful = PTotalSuccessful p, RTotalFailed = PTotalFailed p, RTotalCanceled = PTotalCanceled p,
      RSuccessfulJobUrl = LastSuccessfulRunJobUrl p, RFailedJobUrl = LastFailedRunJobUrl p, RCanceledJobUrl = LastCanceledRunJobUrl p,
      RCPUCount = UCPUCount u, RCPUUsedCount = UCPUUsedCount u, RCPUUsage = UCPUUsage u,
      RMemoryTotal = sint (UMemoryTotal u), RMemoryUsed = sint (UMemoryUsed u), RMemoryAvailable = sint (UMemoryAvailable u),
      RMemoryUsage = UMemoryUsage u,
      RDiskTotal = sint (UDiskTotal u), RDiskUsed = sint (UDiskUsed u), RDiskAvailable = sint (UDiskAvailable u), RDiskUsage = UDiskUsage u\<rparr>)"

section \<open>The scan\<close>

text \<open>
  What a handler has collected when it leaves the scan: at its end or at an error of the scan
  itself, or at any other error, after which it returns at once, or at a panic.
\<close>

datatype 'a collected = Complete 'a | Returned 'a | Panicked | OutOfFuel

fun collect_plugins :: "Times \<Rightarrow> (PluginBase \<Rightarrow> MetricsPlugin \<Rightarrow> 'a \<Rightarrow> 'a) \<Rightarrow> json list \<Rightarrow> 'a \<Rightarrow> 'a collected" where
  "collect_plugins t add [] acc = Complete acc"
| "collect_plugins t add (v # vs) acc = (case read_plugin t v of
     Panic \<Rightarrow> Panicked
   | Ret (Inl _) \<Rightarrow> Returned acc
   | Ret (Inr (b, p)) \<Rightarrow> collect_plugins t add vs (add b p acc))"

fun collect_keys :: "'s Ctx \<Rightarrow> 's Database \<Rightarrow> Times \<Rightarrow> (Export \<Rightarrow> PluginBase \<Rightarrow> MetricsPlugin \<Rightarrow> 'a \<Rightarrow> 'a) \<Rightarrow> string list \<Rightarrow> 'a \<Rightarrow> 's \<Rightarrow> 'a collected \<times> 's" where
  "collect_keys ctx db t add [] acc s = (Complete acc, s)"
| "collect_keys ctx db t add (key # keys) acc s = (case RetryGet ctx db key s of
     (Inl _, s1) \<Rightarrow> (Returned acc, s1)
   | (Inr text, s1) \<Rightarrow> (case dec_export t text of
        Inl _ \<Rightarrow> (Returned acc, s1)
      | Inr e \<Rightarrow> (case collect_plugins t (add e) (EPlugins e) acc of
           Complete acc' \<Rightarrow> collect_keys ctx db t add keys acc' s1
         | out \<Rightarrow> (out, s1))))"

fun collect :: "nat \<Rightarrow> 's Ctx \<Rightarrow> 's Database \<Rightarrow> Times \<Rightarrow> (Export \<Rightarrow> PluginBase \<Rightarrow> MetricsPlugin \<Rightarrow> 'a \<Rightarrow> 'a) \<Rightarrow> int \<Rightarrow> 'a \<Rightarrow> 's \<Rightarrow> 'a collected \<times> 's" where
  "collect 0 ctx db t add cursor acc s = (OutOfFuel, s)"
| "collect (Suc fuel) ctx db t add cursor acc s = (case RetryScan ctx db cursor ''anklet/metrics/*'' 10 s of
     (Inl _, s1) \<Rightarrow> (Complete acc, s1)
   | (Inr (keys, nextCursor), s1) \<Rightarrow> (case collect_keys ctx db t add keys acc s1 of
        (Complete acc', s2) \<Rightarrow> if nextCursor = 0 then (Complete acc', s2) else collect fuel ctx db t add nextCursor acc' s2
      | out \<Rightarrow> out))"

section \<open>The endpoints\<close>

text \<open>By name, by list, and as text. The JSON documents are only written at the end of the scan.\<close>

definition handleAggregatorJsonMetricsV1 :: "nat \<Rightarrow> 's Ctx \<Rightarrow> 's Database \<Rightarrow> Times \<Rightarrow> 's \<Rightarrow> (string \<rightharpoonup> Response) collected \<times> 's" where
  "handleAggregatorJsonMetricsV1 fuel ctx db t = collect fuel ctx db t (\<lambda>e b p acc. acc(BName b \<mapsto> response t e b p)) 0 Map.empty"

definition handleAggregatorJsonMetricsV2 :: "nat \<Rightarrow> 's Ctx \<Rightarrow> 's Database \<Rightarrow> Times \<Rightarrow> 's \<Rightarrow> Response list collected \<times> 's" where
  "handleAggregatorJsonMetricsV2 fuel ctx db t = collect fuel ctx db t (\<lambda>e b p acc. acc @ [response t e b p]) 0 []"

definition plugin_label :: "string \<Rightarrow> PluginBase \<Rightarrow> bool \<Rightarrow> string \<Rightarrow> string" where
  "plugin_label metric b with_repo extra = metric @ ''{name='' @ BName b @ '',owner='' @ BOwnerName b @
     (if with_repo \<and> BRepoName b \<noteq> [] then '',repo='' @ BRepoName b else []) @ extra @ ''} ''"

definition total_label :: "string \<Rightarrow> PluginBase \<Rightarrow> string" where
  "total_label metric b = metric @ ''{name='' @ BName b @ '',plugin='' @ BPluginName b @ '',owner='' @ BOwnerName b @ ''} ''"

definition aggregated_lines :: "Times \<Rightarrow> (rat \<Rightarrow> string) \<Rightarrow> Export \<Rightarrow> PluginBase \<Rightarrow> MetricsPlugin \<Rightarrow> string list" where
  "aggregated_lines t fmt e b p =
     (let handler = \<not> is_receiver (BPluginName b); u = EUsage e; host = (\<lambda>metric. plugin_label metric b False []);
          run = (\<lambda>metric url x. plugin_label metric b True ('',job_url='' @ url) @ rfc3339 t x) in
      [plugin_label ''plugin_status'' b True [] @ BStatus b] @
      (if handler then
        [run ''plugin_last_successful_run'' (LastSuccessfulRunJobUrl p) (LastSuccessfulRun p),
         run ''plugin_last_failed_run'' (LastFailedRunJobUrl p) (LastFailedRun p),
         run ''plugin_last_canceled_run'' (LastCanceledRunJobUrl p) (LastCanceledRun p)] else []) @
      [plugin_label ''plugin_status_since'' b True ('',status='' @ BStatus b) @ rfc3339 t (BStatusSince b)] @
      (if handler then
        [total_label ''plugin_total_ran_vms'' b @ FormatInt (PTotalRanVMs p),
         total_label ''plugin_total_successful_runs_since_start'' b @ FormatInt (PTotalSuccessful p),
         total_label ''plugin_total_failed_runs_since_start'' b @ FormatInt (PTotalFailed p),
         total_label ''plugin_total_canceled_runs_since_start'' b @ FormatInt (PTotalCanceled p)] else []) @
      [host ''host_cpu_count'' @ FormatInt (UCPUCount u), host ''host_cpu_used_count'' @ FormatInt (UCPUUsedCount u),
       host ''host_cpu_usage_percentage'' @ fmt (UCPUUsage u),
       host ''host_memory_total_bytes'' @ FormatInt (uint (UMemoryTotal u)), host ''host_memory_used_bytes'' @ FormatInt (uint (UMemoryUsed u)),
       host ''host_memory_available_bytes'' @ FormatInt (uint (UMemoryAvailable u)), host ''host_memory_usage_percentage'' @ fmt (UMemoryUsage u),
       host ''host_disk_total_bytes'' @ FormatInt (uint (UDiskTotal u)), host ''host_disk_used_bytes'' @ FormatInt (uint (UDiskUsed u)),
       host ''host_disk_available_bytes'' @ FormatInt (uint (UDiskAvailable u)), host ''host_disk_usage_percentage'' @ fmt (UDiskUsage u),
       host ''last_update'' @ rfc3339 t (ELastUpdate e)])"

definition handleAggregatorPrometheusMetrics :: "nat \<Rightarrow> 's Ctx \<Rightarrow> 's Database \<Rightarrow> Times \<Rightarrow> (rat \<Rightarrow> string) \<Rightarrow> 's \<Rightarrow> string list collected \<times> 's" where
  "handleAggregatorPrometheusMetrics fuel ctx db t fmt = collect fuel ctx db t (\<lambda>e b p acc. acc @ aggregated_lines t fmt e b p) 0 []"

text \<open>The routes of the two servers, by path and \<open>format\<close>.\<close>

datatype endpoint = Healthcheck | JsonV1 | JsonV2 | AggregatedText | WorkerText | UnsupportedFormat | UseV1 | NotFound

definition aggregator_route :: "string \<Rightarrow> string \<Rightarrow> endpoint" where
  "aggregator_route path format =
     (if path = ''/healthcheck'' then Healthcheck
      else if path = ''/metrics/v1'' \<or> path = ''/metrics/v2''
      then if format = ''json'' then (if path = ''/metrics/v1'' then JsonV1 else JsonV2)
        else if format = ''prometheus'' then AggregatedText else UnsupportedFormat
      else if path = ''/metrics'' then UseV1 else NotFound)"

definition worker_route :: "string \<Rightarrow> string \<Rightarrow> endpoint" where
  "worker_route path format =
     (if path = ''/metrics/v1'' then if format = ''prometheus'' then WorkerText else UnsupportedFormat
      else if path = ''/metrics'' then UseV1 else NotFound)"

section \<open>Facts\<close>

text \<open>Two ways of collecting, related by a function that commutes with adding a plugin.\<close>

fun map_collected :: "('a \<Rightarrow> 'b) \<Rightarrow> 'a collected \<Rightarrow> 'b collected" where
  "map_collected h (Complete a) = Complete (h a)"
| "map_collected h (Returned a) = Returned (h a)"
| "map_collected h Panicked = Panicked"
| "map_collected h OutOfFuel = OutOfFuel"

lemma collect_plugins_map:
  assumes "\<And>b p acc. h (add b p acc) = add' b p (h acc)"
  shows "collect_plugins t add' vs (h acc) = map_collected h (collect_plugins t add vs acc)"
  by (induction vs arbitrary: acc) (auto simp: assms [symmetric] split: go.split sum.split)

lemma collect_keys_map:
  assumes "\<And>e b p acc. h (add e b p acc) = add' e b p (h acc)"
  shows "collect_keys ctx db t add' keys (h acc) s = map_prod (map_collected h) id (collect_keys ctx db t add keys acc s)"
proof (induction keys arbitrary: acc s)
  case (Cons key keys)
  have "collect_plugins t (add' e) vs (h acc) = map_collected h (collect_plugins t (add e) vs acc)" for e vs acc
    by (rule collect_plugins_map) (rule assms)
  then show ?case
    by (auto simp: Cons.IH split: prod.split sum.split collected.split)
qed simp

lemma collect_map:
  assumes "\<And>e b p acc. h (add e b p acc) = add' e b p (h acc)"
  shows "collect fuel ctx db t add' cursor (h acc) s = map_prod (map_collected h) id (collect fuel ctx db t add cursor acc s)"
proof (induction fuel arbitrary: cursor acc s)
  case (Suc fuel)
  have "collect_keys ctx db t add' keys (h acc) s = map_prod (map_collected h) id (collect_keys ctx db t add keys acc s)" for keys acc s
    by (rule collect_keys_map) (rule assms)
  then show ?case
    by (auto simp: Suc.IH split: prod.split sum.split collected.split)
qed simp

end
