(* ===== verification/RedisStrings.thy ===== *)
theory RedisStrings
  imports Redis
begin

text \<open>
  The contract for the commands on strings, as \<open>Redis\<close> has it for lists: \<open>strings\<close> is the map of
  the keys that hold a string. The expiration of a key and other writers are left out.
\<close>

definition get_spec :: "string \<Rightarrow> (string \<rightharpoonup> string) \<Rightarrow> string \<Rightarrow> (string \<rightharpoonup> string) \<Rightarrow> bool" where
  "get_spec k v x v' \<longleftrightarrow> v k = Some x \<and> v' = v"

definition put_spec :: "string \<Rightarrow> string \<Rightarrow> (string \<rightharpoonup> string) \<Rightarrow> unit \<Rightarrow> (string \<rightharpoonup> string) \<Rightarrow> bool" where
  "put_spec k x v u v' \<longleftrightarrow> v' = v(k \<mapsto> x)"

definition drop_spec :: "string list \<Rightarrow> (string \<rightharpoonup> string) \<Rightarrow> int \<Rightarrow> (string \<rightharpoonup> string) \<Rightarrow> bool" where
  "drop_spec ks v n v' \<longleftrightarrow> v' = v |` (- set ks)"

definition same_spec :: "(string \<rightharpoonup> string) \<Rightarrow> 'a \<Rightarrow> (string \<rightharpoonup> string) \<Rightarrow> bool" where
  "same_spec v n v' \<longleftrightarrow> v' = v"

lemmas string_specs = get_spec_def put_spec_def drop_spec_def same_spec_def

locale redis_strings =
  fixes C :: "'s Cmdable" and strings :: "'s \<Rightarrow> string \<rightharpoonup> string"
  assumes Get_law: "lawful (get_spec k) (\<lambda>v. v k = None) strings (Get C k)"
    and SetKey_law: "lawful (put_spec k x) (\<lambda>_. False) strings (SetKey C k x expiration)"
    and DelKeys_law: "lawful (drop_spec ks) (\<lambda>_. False) strings (Del C ks)"
    and Exists_law: "lawful same_spec (\<lambda>_. False) strings (Exists C ks)"
    and Scan_law: "lawful same_spec (\<lambda>_. False) strings (Scan C cursor pat n)"

locale redis_string_db = redis_strings "Client db" strings for db :: "'s Database" and strings :: "'s \<Rightarrow> string \<rightharpoonup> string" +
  fixes ctx :: "'s Ctx"
  assumes Sleep_strings: "strings (Sleep ctx d s) = strings s"
begin

lemma RetryGet_law: "lawful_retry (get_spec k) (\<lambda>v. v k = None) strings (RetryGet ctx db k)"
  unfolding RetryGet_def by (rule lawful_retryI [OF Get_law Sleep_strings])

lemma RetrySet_law: "lawful_retry (put_spec k x) (\<lambda>_. False) strings (RetrySet ctx db k x e)"
  unfolding RetrySet_def by (rule lawful_retryI [OF SetKey_law Sleep_strings])

lemma RetryDelKeys_law: "lawful_retry (drop_spec ks) (\<lambda>_. False) strings (RetryDel ctx db ks)"
  unfolding RetryDel_def by (rule lawful_retryI [OF DelKeys_law Sleep_strings])

lemma RetryExists_law: "lawful_retry same_spec (\<lambda>_. False) strings (RetryExists ctx db ks)"
  unfolding RetryExists_def by (rule lawful_retryI [OF Exists_law Sleep_strings])

lemma RetryScan_law: "lawful_retry same_spec (\<lambda>_. False) strings (RetryScan ctx db cursor pat n)"
  unfolding RetryScan_def by (rule lawful_retryI [OF Scan_law Sleep_strings])

lemmas GetD = lawful_retryD [OF RetryGet_law, unfolded string_specs]
lemmas SetD = lawful_retryD [OF RetrySet_law, unfolded string_specs]
lemmas DelKeysD = lawful_retryD [OF RetryDelKeys_law, unfolded string_specs]

lemma Get_strings: "RetryGet ctx db k s = (r, s') \<Longrightarrow> strings s' = strings s"
  using GetD [of k s r s'] by (cases r) auto

lemma Exists_strings: "RetryExists ctx db ks s = (r, s') \<Longrightarrow> strings s' = strings s"
  using lawful_retryD [OF RetryExists_law, of ks s r s'] by (cases r) (auto simp: same_spec_def)

lemma Scan_strings: "RetryScan ctx db c p n s = (r, s') \<Longrightarrow> strings s' = strings s"
  using lawful_retryD [OF RetryScan_law, of c p n s r s'] by (cases r) (auto simp: same_spec_def)

end

lemma redis_string_db_other:
  "redis_string_db db strings ctx \<Longrightarrow> Client db' = Client db \<Longrightarrow> Sleep ctx' = Sleep ctx \<Longrightarrow> redis_string_db db' strings ctx'"
  by (simp add: redis_string_db_def redis_string_db_axioms_def)

section \<open>The reference server\<close>

definition mem_strings :: "mem \<Rightarrow> string \<rightharpoonup> string" where
  "mem_strings m k = (case mem_view m k of [x] \<Rightarrow> Some x | _ \<Rightarrow> None)"

lemma mem_strings_simps [simp]:
  "mem_strings (mem_put k [x] m) = (mem_strings m)(k \<mapsto> x)" "mem_strings (m\<lparr>mfaults := fs\<rparr>) = mem_strings m"
  "mem_strings (m\<lparr>mnow := t\<rparr>) = mem_strings m"
  by (simp_all add: mem_strings_def fun_eq_iff)

interpretation mems: redis_string_db "mem_db n" mem_strings mem_ctx for n
proof unfold_locales
  fix d s
  show "mem_strings (Sleep mem_ctx d s) = mem_strings s" by (simp add: mem_ctx_def)
qed (simp add: mem_db_def mem_client_def, rule lawful_faulty, simp,
   (auto simp: string_specs mem_strings_def mem_view_del restrict_map_def fun_eq_iff split: list.splits)[1])+

end
