(* ===== verification/MetricsTrip.thy ===== *)
theory MetricsTrip
  imports Aggregator RedisStrings
begin

text \<open>
  The way of the metrics from a worker to the aggregator: decoding an export gives back what was
  exported, the export stores it under the key of the worker, and the scan of that key collects
  its plugins. Numbers are within the 53 bits a float keeps.
\<close>

section \<open>Decoding an export\<close>

definition float_ok :: "(rat \<Rightarrow> json) \<Rightarrow> rat \<Rightarrow> bool" where
  "float_ok num q \<longleftrightarrow> json_ok (num q) \<and> any_value (num q) = num q \<and> num q \<noteq> JNull \<and> json_float (num q) = Some q"

definition usage_ok :: "(rat \<Rightarrow> json) \<Rightarrow> HostUsage \<Rightarrow> bool" where
  "usage_ok num u \<longleftrightarrow> exact64 (UCPUCount u) \<and> exact64 (UCPUUsedCount u) \<and>
     exact64 (uint (UMemoryTotal u)) \<and> exact64 (uint (UMemoryUsed u)) \<and> exact64 (uint (UMemoryAvailable u)) \<and>
     exact64 (uint (UDiskTotal u)) \<and> exact64 (uint (UDiskUsed u)) \<and> exact64 (uint (UDiskAvailable u)) \<and>
     float_ok num (UCPUUsage u) \<and> float_ok num (UMemoryUsage u) \<and> float_ok num (UDiskUsage u)"

text \<open>Times of 64 bits, as \<open>UnixNano\<close> gives them: from the year 1678 to 2262.\<close>

definition time_ok :: "time \<Rightarrow> bool" where
  "time_ok x \<longleftrightarrow> (case x of None \<Rightarrow> True | Some i \<Rightarrow> int64_ok i)"

definition record_ok :: "MetricsPlugin \<Rightarrow> bool" where
  "record_ok p \<longleftrightarrow> exact64 (PTotalRanVMs p) \<and> exact64 (PTotalSuccessful p) \<and> exact64 (PTotalFailed p) \<and> exact64 (PTotalCanceled p) \<and>
     time_ok (LastSuccessfulRun p) \<and> time_ok (LastFailedRun p) \<and> time_ok (LastCanceledRun p) \<and>
     (case Base p of None \<Rightarrow> False | Some b \<Rightarrow> time_ok (BStatusSince b))"

definition exportable :: "(rat \<Rightarrow> json) \<Rightarrow> MetricsData \<Rightarrow> bool" where
  "exportable num m \<longleftrightarrow> usage_ok num (Usage m) \<and> exact64 (TotalRunningVMs m) \<and> exact64 (TotalSuccessfulRuns m) \<and>
     exact64 (TotalFailedRuns m) \<and> exact64 (TotalCanceledRuns m) \<and>
     (\<forall>x\<in>set (MetricsPlugins m). \<exists>p b. x = FullEntry p \<and> Base p = Some b \<and> record_ok p)"

lemma json_ok_entry: "json_ok (enc_entry t x)"
  by (cases x) (auto simp: enc_base_def enc_runs_def split: option.split)

lemma json_ok_export: "usage_ok num (Usage m) \<Longrightarrow> json_ok (enc_MetricsData t num now m)"
  by (simp add: enc_MetricsData_def enc_usage_def usage_ok_def float_ok_def list_all_iff json_ok_entry)

lemma uint64_bound: "uint (w :: 64 word) < 18446744073709551616" "0 \<le> uint (w :: 64 word)"
  using uint_lt2p [of w] by simp_all

lemma export_trip:
  assumes "exportable num m"
  shows "dec_export t (exported t num now m) = (case parse_time t (json_time t now) of
     Inl e \<Rightarrow> Inl e
   | Inr now' \<Rightarrow> Inr \<lparr>ELastUpdate = now', ERunning = TotalRunningVMs m, ESuccessful = TotalSuccessfulRuns m, EFailed = TotalFailedRuns m,
       ECanceled = TotalCanceledRuns m, EUsage = Usage m, EPlugins = map (\<lambda>x. any_value (any_value (enc_entry t x))) (MetricsPlugins m)\<rparr>)"
proof -
  let ?u = "Usage m"
  have u: "usage_ok num ?u" using assms by (simp add: exportable_def)
  note floats = u [unfolded usage_ok_def float_ok_def]
  have "any_value (enc_MetricsData t num now m) = JObj [
     (''host_cpu_count'', JNum (UCPUCount ?u)), (''host_cpu_usage_percentage'', num (UCPUUsage ?u)),
     (''host_cpu_used_count'', JNum (UCPUUsedCount ?u)), (''host_disk_available_bytes'', JNum (uint (UDiskAvailable ?u))),
     (''host_disk_total_bytes'', JNum (uint (UDiskTotal ?u))), (''host_disk_usage_percentage'', num (UDiskUsage ?u)),
     (''host_disk_used_bytes'', JNum (uint (UDiskUsed ?u))), (''host_memory_available_bytes'', JNum (uint (UMemoryAvailable ?u))),
     (''host_memory_total_bytes'', JNum (uint (UMemoryTotal ?u))), (''host_memory_usage_percentage'', num (UMemoryUsage ?u)),
     (''host_memory_used_bytes'', JNum (uint (UMemoryUsed ?u))), (''last_update'', JStr (json_time t now)),
     (''plugins'', JArr (map (\<lambda>x. any_value (enc_entry t x)) (MetricsPlugins m))),
     (''total_canceled_runs_since_start'', JNum (TotalCanceledRuns m)), (''total_failed_runs_since_start'', JNum (TotalFailedRuns m)),
     (''total_running_vms'', JNum (TotalRunningVMs m)), (''total_successful_runs_since_start'', JNum (TotalSuccessfulRuns m))]"
    (is "_ = ?v")
    using assms floats by (simp add: enc_MetricsData_def enc_usage_def exportable_def f64_exact less_char_def Let_def)
  moreover have "json_parse (exported t num now m) = Some (any_value (enc_MetricsData t num now m))"
    unfolding exported_def by (rule json_parse_jprint [OF any_value_json_ok [OF json_ok_export [OF u]]])
  ultimately have "json_parse (exported t num now m) = Some ?v" by simp
  then show ?thesis using assms floats uint64_bound
    by (simp add: dec_export_def set_export_def set_usage_def exportable_def exact64_ok ToLower_def lower_char_def Let_def dec_float_def zero_usage_def split: sum.split)
qed

section \<open>Reading its plugins\<close>

definition reported :: "MetricsPlugin \<Rightarrow> PluginBase \<times> MetricsPlugin" where
  "reported p = (let b = the (Base p) in (b, if is_receiver (BPluginName b) then zero_MetricsPlugin else p\<lparr>Base := None\<rparr>))"

definition times_ok :: "Times \<Rightarrow> bool" where
  "times_ok t \<longleftrightarrow> (\<forall>x. time_ok x \<longrightarrow> parse_time t (json_time t x) = Inr x)"

lemma any_entry:
  assumes "Base p = Some b" "record_ok p"
  shows "any_value (enc_entry t (FullEntry p)) = JObj [
     (''LastCanceledRun'', JStr (json_time t (LastCanceledRun p))), (''LastCanceledRunJobUrl'', JStr (LastCanceledRunJobUrl p)),
     (''LastFailedRun'', JStr (json_time t (LastFailedRun p))), (''LastFailedRunJobUrl'', JStr (LastFailedRunJobUrl p)),
     (''LastSuccessfulRun'', JStr (json_time t (LastSuccessfulRun p))), (''LastSuccessfulRunJobUrl'', JStr (LastSuccessfulRunJobUrl p)),
     (''Name'', JStr (BName b)), (''OwnerName'', JStr (BOwnerName b)), (''PluginName'', JStr (BPluginName b)),
     (''RepoName'', JStr (BRepoName b)), (''Status'', JStr (BStatus b)), (''StatusSince'', JStr (json_time t (BStatusSince b))),
     (''TotalCanceledRunsSinceStart'', JNum (PTotalCanceled p)), (''TotalFailedRunsSinceStart'', JNum (PTotalFailed p)),
     (''TotalRanVMs'', JNum (PTotalRanVMs p)), (''TotalSuccessfulRunsSinceStart'', JNum (PTotalSuccessful p))]"
  using assms by (simp add: enc_base_def enc_runs_def record_ok_def f64_exact less_char_def Let_def)

lemma any_entry_again:
  assumes "Base p = Some b" "record_ok p"
  shows "any_value (any_value (enc_entry t (FullEntry p))) = any_value (enc_entry t (FullEntry p))"
  using assms unfolding any_entry [OF assms] by (simp add: record_ok_def f64_exact less_char_def)

lemma ask_simps [simp]: "ask (Ret (Inr a)) f = f a" "ask (Ret (Inl e)) f = Ret (Inl e)" "ask Panic f = Panic"
  by (simp_all add: ask_def)

lemma read_trip:
  assumes "times_ok t" "Base p = Some b" "record_ok p"
  shows "read_plugin t (any_value (enc_entry t (FullEntry p))) = Ret (Inr (reported p))"
  using assms(1,3) unfolding any_entry [OF assms(2,3)]
  by (auto simp: read_plugin_def read_runs_def str_field_def repo_field_def time_field_def int_field_def times_ok_def record_ok_def
      f64_exact trunc_rat_def reported_def assms(2) Let_def)

lemma collect_reported:
  assumes "times_ok t" "\<forall>p\<in>set ps. Base p \<noteq> None \<and> record_ok p"
  shows "collect_plugins t (\<lambda>b p acc. acc @ [f b p]) (map (\<lambda>x. any_value (any_value (enc_entry t x))) (map FullEntry ps)) acc =
     Complete (acc @ map (\<lambda>p. case reported p of (b, q) \<Rightarrow> f b q) ps)"
  using assms(2)
proof (induction ps arbitrary: acc)
  case (Cons p ps)
  then obtain b where b: "Base p = Some b" "record_ok p" by auto
  then show ?case using Cons read_trip [OF assms(1) b] any_entry_again [OF b]
    by (simp split: prod.split del: enc_entry.simps any_value.simps)
qed simp

lemma exportable_full: "exportable num m \<Longrightarrow> \<exists>ps. MetricsPlugins m = map FullEntry ps \<and> (\<forall>p\<in>set ps. Base p \<noteq> None \<and> record_ok p)"
proof -
  assume "exportable num m"
  then have "\<forall>x\<in>set (MetricsPlugins m). \<exists>p b. x = FullEntry p \<and> Base p = Some b \<and> record_ok p" by (simp add: exportable_def)
  then show ?thesis
  proof (induction "MetricsPlugins m" arbitrary: m)
    case Nil
    then show ?case by (intro exI [of _ "[]"]) simp
  next
    case (Cons x xs)
    from Cons(1) [of "m\<lparr>MetricsPlugins := xs\<rparr>"] Cons(2,3) obtain ps
      where "xs = map FullEntry ps" "\<forall>p\<in>set ps. Base p \<noteq> None \<and> record_ok p" by (auto simp flip: Cons(2))
    moreover obtain p b where "x = FullEntry p" "Base p = Some b" "record_ok p" using Cons(2,3) by (metis list.set_intros(1))
    ultimately show ?case using Cons(2) by (intro exI [of _ "p # ps"]) auto
  qed
qed

section \<open>Storing and removing an export\<close>

context redis_string_db begin

lemma export_stores:
  assumes "export_turn workerCtx ctx db encode probe ending allowed m s = (Ret (AfterTick n, m1), s')"
  shows "\<exists>text. encode m1 = Inr text \<and> strings s' = (strings s)(metricsKey ending \<mapsto> text)"
  using assms by (auto simp: export_turn_def export_failed_def split: if_splits go.splits sum.splits prod.splits
      dest!: SetD(1) [OF _ refl] Exists_strings)

lemma export_only:
  assumes "export_turn workerCtx ctx db encode probe ending allowed m s = (r, s')" "k \<noteq> metricsKey ending"
  shows "strings s' k = strings s k"
proof -
  have "strings s1 k = strings s k" if "RetrySet ctx db (metricsKey ending) v d s = (q, s1)" for v d q s1
    using SetD(1,2) [OF that] assms(2) by (cases q) auto
  then show ?thesis using assms(1)
    by (auto simp: export_turn_def split: if_splits go.splits sum.splits prod.splits dest!: Exists_strings)
qed

lemma cleanup_removes:
  "strings (metrics_Cleanup ctx db owner name s) = strings s \<or>
   strings (metrics_Cleanup ctx db owner name s) = strings s |` (- {redisMetricsKey owner name})"
proof -
  obtain r s' where r: "RetryDel ctx db [redisMetricsKey owner name] s = (r, s')" by fastforce
  then show ?thesis using DelKeysD(1,2) [OF r] by (cases r) (auto simp: metrics_Cleanup_def)
qed

end

text \<open>The key of the export and the key that is cleaned up agree for a name without a leading slash.\<close>

lemma TrimPrefix_other: "\<not> prefix p s \<Longrightarrow> TrimPrefix s p = s"
  by (auto simp: TrimPrefix_def CutPrefix_def)

lemma metrics_keys:
  "\<not> prefix ''/'' (MetricsKeyEnding p) \<Longrightarrow> metricsKey (MetricsKeyEnding p) = redisMetricsKey (MetricsOwner p) (PName p)"
  by (simp add: metricsKey_def redisMetricsKey_def TrimPrefix_other MetricsKeyEnding_def)

end
