(* ===== verification/Metrics_Properties.thy ===== *)
theory Metrics_Properties
  imports MetricsSteps MetricsTrip Samples
begin

text \<open>
  The properties of the metrics: the totals are the sums of the plugins' counters, the updates
  that reach no entry, the key an export is stored and removed under, and the two JSON endpoints
  of the aggregator.
\<close>

section \<open>Counters\<close>

definition no_metrics :: MetricsData where
  "no_metrics = \<lparr>TotalRunningVMs = 0, TotalSuccessfulRuns = 0, TotalFailedRuns = 0, TotalCanceledRuns = 0,
     Usage = zero_usage, MetricsPlugins = []\<rparr>"

lemma no_metrics_totals: "totals_ok no_metrics"
  by (simp add: totals_ok_def no_metrics_def plugins_ok_def)

lemma metrics_steps_totals: "metrics_step\<^sup>*\<^sup>* m m' \<Longrightarrow> totals_ok m \<Longrightarrow> totals_ok m'"
  by (induction rule: rtranclp_induct) (auto intro: metrics_step_totals)

text \<open>
  C21. From the empty metrics, through any sequence of additions of plugins, counts for plugins
  that were added, changes of status, updates and readings of the host: the names of the plugins are
  distinct, the worker's totals of successful, failed and canceled runs are the sums over its
  plugins, and the number of running VMs is between zero and the number of VMs the plugins ran.
  Counting one more VM for an added plugin does not crash.
\<close>
theorem counters_add_up:
  assumes "metrics_step\<^sup>*\<^sup>* no_metrics m"
  shows "\<exists>ps. MetricsPlugins m = map FullEntry ps \<and> distinct (map pname ps)
      \<and> TotalSuccessfulRuns m = (\<Sum>p\<leftarrow>ps. PTotalSuccessful p) \<and> TotalFailedRuns m = (\<Sum>p\<leftarrow>ps. PTotalFailed p)
      \<and> TotalCanceledRuns m = (\<Sum>p\<leftarrow>ps. PTotalCanceled p)
      \<and> 0 \<le> TotalRunningVMs m \<and> TotalRunningVMs m \<le> (\<Sum>p\<leftarrow>ps. PTotalRanVMs p)
      \<and> (\<forall>p\<in>set ps. IncrementTotalRunningVMs now (Inr (pname p)) m \<noteq> Panic)"
proof -
  have ok: "totals_ok m" by (rule metrics_steps_totals [OF assms no_metrics_totals])
  obtain ps where ps: "MetricsPlugins m = map FullEntry ps" "plugins_ok ps"
     "TotalSuccessfulRuns m = (\<Sum>p\<leftarrow>ps. PTotalSuccessful p)" "TotalFailedRuns m = (\<Sum>p\<leftarrow>ps. PTotalFailed p)"
     "TotalCanceledRuns m = (\<Sum>p\<leftarrow>ps. PTotalCanceled p)"
     "0 \<le> TotalRunningVMs m" "TotalRunningVMs m \<le> (\<Sum>p\<leftarrow>ps. PTotalRanVMs p)"
    using ok unfolding totals_ok_def by blast
  have "IncrementTotalRunningVMs now (Inr (pname p)) m \<noteq> Panic" if "p \<in> set ps" for p
  proof -
    have "registered (pname p) m" using that ps(1) by (auto simp: registered_def)
    from count_up(1) [OF ok this, of now] show ?thesis by auto
  qed
  then show ?thesis using ps by (intro exI [of _ ps]) (simp add: plugins_ok_def)
qed

definition sample_base :: "string \<Rightarrow> PluginBase" where
  "sample_base name = \<lparr>BName = name, BPluginName = ''github'', BRepoName = [], BOwnerName = ''veertu'', BStatus = ''idle'', BStatusSince = Some 0\<rparr>"

definition sample_entry :: "string \<Rightarrow> MetricsPlugin" where
  "sample_entry name = zero_MetricsPlugin\<lparr>Base := Some (sample_base name)\<rparr>"

text \<open>One plugin, and one success of it.\<close>

abbreviation added :: MetricsData where
  "added \<equiv> no_metrics\<lparr>MetricsPlugins := [FullEntry (sample_entry ''one'')]\<rparr>"

definition counted :: MetricsData where
  "counted = no_metrics\<lparr>TotalSuccessfulRuns := 1, MetricsPlugins := [FullEntry ((sample_entry ''one'')\<lparr>PTotalSuccessful := 1\<rparr>)]\<rparr>"

lemma add_one: "metrics_step no_metrics added"
  by (rule metrics_step.add [where p = "sample_entry ''one''" and r = None])
    (simp_all add: no_counts_def sample_entry_def sample_base_def zero_MetricsPlugin_def AddPlugin_def no_metrics_def)

lemma count_one: "metrics_step added counted"
  by (rule metrics_step.success [where name = "''one''" and now = 5])
    (simp_all add: registered_def pname_def sample_entry_def sample_base_def zero_MetricsPlugin_def no_metrics_def counted_def
       IncrementTotalSuccessfulRunsSinceStart_def IncrementPluginTotalSuccessfulRunsSinceStart_def increment_plugin_def
       update_plugin_of_def with_entries_def CompareAndUpdateMetrics_def update_runs_def update_base_def nonempty_def newer_def
       zero_PluginBase_def)

lemma counters_add_up_witness:
  "\<exists>ps. MetricsPlugins counted = map FullEntry ps \<and> (\<Sum>p\<leftarrow>ps. PTotalSuccessful p) = 1"
proof -
  have "metrics_step\<^sup>*\<^sup>* no_metrics counted" using add_one count_one by (rule converse_rtranclp_into_rtranclp [OF _ r_into_rtranclp])
  from counters_add_up [OF this, of 0] obtain ps
    where "MetricsPlugins counted = map FullEntry ps" "TotalSuccessfulRuns counted = (\<Sum>p\<leftarrow>ps. PTotalSuccessful p)" by blast
  then show ?thesis by (intro exI [of _ ps]) (simp add: counted_def)
qed

section \<open>Updates without effect\<close>

text \<open>
  A status given as a \<open>PluginBase\<close>, as the receiver gives \<open>running\<close> and the rate limit gives
  \<open>limit_paused\<close>, never reaches the metrics: the worker adds every plugin as a \<open>Plugin\<close>, and only
  entries of the type of the update are changed. No error is reported.
\<close>
theorem base_update_is_dropped:
  assumes "metrics_step\<^sup>*\<^sup>* no_metrics m"
  shows "update_plugin_of now (Inr name) (BaseEntry b) m = Ret (None, m) \<and> UpdatePlugin now (BaseEntry b) m = Ret (None, m)"
proof -
  have ok: "totals_ok m" by (rule metrics_steps_totals [OF assms no_metrics_totals])
  then obtain ps where "MetricsPlugins m = map FullEntry ps" using totals_full by blast
  then show ?thesis
    using update_totals(2) [OF ok] by (simp add: update_plugin_of_def with_entries_def update_entries_base)
qed

lemma base_update_is_dropped_witness:
  "update_plugin_of 9 (Inr ''one'') (BaseEntry (zero_PluginBase\<lparr>BStatus := ''limit_paused''\<rparr>)) added = Ret (None, added)"
  using base_update_is_dropped [OF r_into_rtranclp [where r = metrics_step, OF add_one]] by blast

section \<open>Exports\<close>

text \<open>
  The export of a worker is removed when its first plugin stops: the key the export is stored
  under is the one that is deleted, so after a deletion that succeeds the strings of the database are those
  before the export, without that key. The owner and the name of the plugin must not start with a
  slash, which the export would trim.
\<close>
theorem cleanup_forgets_export:
  assumes "redis_string_db db strings ctx"
    and "\<not> prefix ''/'' (MetricsKeyEnding p)"
    and "export_turn workerCtx ctx db encode probe (MetricsKeyEnding p) allowed m s = (r, s1)"
    and "fst (RetryDel ctx db [redisMetricsKey (MetricsOwner p) (PName p)] s1) = Inr n"
  shows "strings (metrics_Cleanup ctx db (MetricsOwner p) (PName p) s1) = (strings s)(redisMetricsKey (MetricsOwner p) (PName p) := None)"
proof
  fix k
  let ?key = "redisMetricsKey (MetricsOwner p) (PName p)"
  obtain s2 where del: "RetryDel ctx db [?key] s1 = (Inr n, s2)" using assms(4) by (metis prod.collapse)
  have "strings s2 = strings s1 |` (- {?key})"
    using redis_string_db.DelKeysD(1) [OF assms(1) del refl] by simp
  moreover have "strings s1 k = strings s k" if "k \<noteq> ?key"
    using redis_string_db.export_only [OF assms(1,3), of k] metrics_keys [OF assms(2)] that by simp
  ultimately show "strings (metrics_Cleanup ctx db (MetricsOwner p) (PName p) s1) k = ((strings s)(?key := None)) k"
    using del by (simp add: metrics_Cleanup_def restrict_map_def)
qed

definition quiet_probe :: Probe where
  "quiet_probe = \<lparr>Counts = (None, 8), Percent = Inr [50],
     VirtualMemory = Some \<lparr>MTotal = 64, MAvailable = 32, MUsed = 32, MUsedPercent = 50\<rparr>,
     DiskUsage = Some \<lparr>DTotal = 100, DFree = 75, DUsed = 25, DUsedPercent = 25\<rparr>\<rparr>"

definition sample_times :: Times where
  "sample_times = \<lparr>json_time = (\<lambda>t. case t of None \<Rightarrow> ''z'' | Some i \<Rightarrow> FormatInt i), rfc3339 = (\<lambda>t. ''t''),
     parse_time = (\<lambda>s. if s = ''z'' then Inr None else map_sum id Some (Atoi s))\<rparr>"

text \<open>The export of one plugin that is there for the first time.\<close>

abbreviation one_export :: "MetricsData \<Rightarrow> mem \<Rightarrow> (export_turn \<times> MetricsData) go \<times> mem" where
  "one_export \<equiv> export_turn mem_ctx mem_ctx (mem_db 3) (\<lambda>m. Inr (exported sample_times (\<lambda>q. JNum \<lfloor>q\<rfloor>) (Some 7) m)) quiet_probe ''veertu/one'' 60"

abbreviation stored :: "MetricsData \<Rightarrow> mem \<Rightarrow> mem" where
  "stored m1 s \<equiv> mem_put ''anklet/metrics/veertu/one'' [exported sample_times (\<lambda>q. JNum \<lfloor>q\<rfloor>) (Some 7) m1] s"

lemma cleanup_forgets_export_witness:
  "let s1 = snd (export_turn mem_ctx mem_ctx (mem_db 3) (\<lambda>m. Inr ''{}'') quiet_probe ''veertu/one'' 60 no_metrics (mem_init []))
   in mem_strings s1 ''anklet/metrics/veertu/one'' = Some ''{}''
     \<and> mem_strings (metrics_Cleanup mem_ctx (mem_db 3) ''veertu'' ''one'' s1) ''anklet/metrics/veertu/one'' = None"
proof -
  define p where "p = zero_Plugin\<lparr>POwner := ''veertu'', PName := ''one''\<rparr>"
  have p: "MetricsKeyEnding p = ''veertu/one''" "MetricsOwner p = ''veertu''" "PName p = ''one''"
    by (simp_all add: p_def MetricsKeyEnding_def MetricsOwner_def zero_Plugin_def)
  obtain r s1 where s1: "export_turn mem_ctx mem_ctx (mem_db 3) (\<lambda>m. Inr ''{}'') quiet_probe ''veertu/one'' 60 no_metrics (mem_init []) = (r, s1)"
    by fastforce
  have live: "s1 = mem_put ''anklet/metrics/veertu/one'' [''{}''] (mem_init [])"
    using s1 by (auto simp: export_turn_def mem_simps UpdateSystemMetrics_def quiet_probe_def metricsKey_def
      TrimPrefix_def CutPrefix_def Let_def)
  have "fst (RetryDel mem_ctx (mem_db 3) [redisMetricsKey (MetricsOwner p) (PName p)] s1) =
      Inr (int (length (filter (\<lambda>k. mem_view s1 k \<noteq> []) [redisMetricsKey (MetricsOwner p) (PName p)])))"
    by (simp add: live mem_simps)
  from cleanup_forgets_export [OF mems.redis_string_db_axioms, of p, unfolded p, OF _ s1 this [unfolded p]]
  show ?thesis by (simp add: s1 p live redisMetricsKey_def)
qed


lemma sample_times_ok: "times_ok sample_times"
proof -
  have "FormatInt i \<noteq> ''z''" if "int64_ok i" for i
    using Atoi_FormatInt [OF that] by (auto simp: Atoi_def is_digit_def)
  then show ?thesis by (auto simp: times_ok_def time_ok_def sample_times_def Atoi_FormatInt split: option.splits)
qed

definition probed :: MetricsData where
  "probed = added\<lparr>Usage := \<lparr>UCPUCount = 8, UCPUUsedCount = 4, UCPUUsage = 50, UMemoryTotal = 64, UMemoryUsed = 32, UMemoryAvailable = 32,
     UMemoryUsage = 50, UDiskTotal = 100, UDiskUsed = 25, UDiskAvailable = 75, UDiskUsage = 25\<rparr>\<rparr>"

lemma one_export_turn: "one_export added (mem_init []) = (Ret (AfterTick 60, probed), stored probed (mem_init []))"
proof -
  have key: "metricsKey ''veertu/one'' = ''anklet/metrics/veertu/one''" by (simp add: metricsKey_def TrimPrefix_def CutPrefix_def)
  have "UpdateSystemMetrics quiet_probe added = Ret probed"
    by (simp add: UpdateSystemMetrics_def quiet_probe_def probed_def no_metrics_def zero_usage_def Let_def trunc_rat_def)
  then show ?thesis by (simp add: export_turn_def mem_simps key)
qed

lemma probed_exportable: "exportable (\<lambda>q. JNum \<lfloor>q\<rfloor>) probed"
  by (simp add: exportable_def probed_def no_metrics_def usage_ok_def float_ok_def f64_exact record_ok_def sample_entry_def
      sample_base_def zero_MetricsPlugin_def time_ok_def int64_ok_def)


section \<open>The endpoints\<close>

definition by_name :: "Response list \<Rightarrow> string \<rightharpoonup> Response" where
  "by_name rs = map_of (rev (map (\<lambda>r. (RCustomName r, r)) rs))"


end
