(* ===== verification/Worker.thy ===== *)
theory Worker
  imports Runner Receiver Metrics
begin

text \<open>
  \<open>main.go\<close>, \<open>internal/run/run.go\<close>, \<open>internal/drain/drain.go\<close> and \<open>NewCLI\<close> of \<open>internal/anka/cli.go\<close>: the
  configuration a worker starts from, its globals, the signals, the databases of its plugins, the
  checks before a plugin starts, and the loops of the aggregator and of a plugin. The file system,
  free ports, the log files and the machine are parameters; what runs inside a plugin is an
  argument of its loop.
\<close>

section \<open>Draining\<close>

definition DrainFilePath :: "string result \<Rightarrow> string result" where
  "DrainFilePath homeDir = map_sum id (\<lambda>h. h @ ''/.config/anklet/.drain'') homeDir"

definition IsDraining :: "string result \<Rightarrow> (string \<Rightarrow> bool) \<Rightarrow> bool" where
  "IsDraining homeDir present = (case DrainFilePath homeDir of Inl _ \<Rightarrow> False | Inr path \<Rightarrow> present path)"

definition steadyStatus :: "bool \<Rightarrow> Plugin \<Rightarrow> string" where
  "steadyStatus drain p = (if \<not> contains (PPlugin p) ''_receiver'' \<and> drain then ''draining'' else ''idle'')"

section \<open>Configuration\<close>

text \<open>The path and the name of the configuration file; the name is empty when the path is given.\<close>

definition config_path :: "string \<Rightarrow> string \<Rightarrow> string \<Rightarrow> string \<times> string" where
  "config_path homeDir flag envName =
     (if flag \<noteq> [] then (flag, [])
      else let name = (if envName \<noteq> [] then envName else ''config.yml'') in (homeDir @ ''/.config/anklet/'' @ name, name))"

definition default_plugin :: "Config \<Rightarrow> Plugin \<Rightarrow> Plugin" where
  "default_plugin cfg p =
     (if contains (PPlugin p) ''_receiver''
      then let p1 = (if PRedeliverHours p = 0 then p\<lparr>PRedeliverHours := 24\<rparr> else p)
           in if GlobalReceiverSecret cfg \<noteq> [] then p1\<lparr>PSecret := GlobalReceiverSecret cfg\<rparr> else p1
      else let p1 = (if PTemplateDiskBuffer p = 0 then p\<lparr>PTemplateDiskBuffer := 10\<rparr> else p)
           in if GlobalSkipCPUAndMemoryResourceChecks cfg then p1\<lparr>PSkipCPUAndMemoryResourceChecks := True\<rparr> else p1)"

definition worker_config :: "(string \<Rightarrow> bool) \<Rightarrow> Config \<Rightarrow> Config result" where
  "worker_config present cfg =
     (let dir = (if LogFileDir cfg \<noteq> [] \<and> \<not> suffix ''/'' (LogFileDir cfg) then LogFileDir cfg @ ''/'' else LogFileDir cfg) in
      if dir \<noteq> [] \<and> \<not> present dir then Inl (Errorf ''log directory does not exist'')
      else Inr (cfg\<lparr>LogFileDir := dir, WorkDir := (if WorkDir cfg = [] then ''./'' else WorkDir cfg),
             Plugins := map (default_plugin cfg) (Plugins cfg)\<rparr>))"

text \<open>The globals: the two-level map is filled in the order of the configuration, and every plugin begins paused.\<close>

definition fresh_global :: PluginGlobal where
  "fresh_global = \<lparr>PluginRunCount = 0, Preparing = False, FinishedInitialRun = False, Paused = False\<rparr>"

definition add_global :: "Plugin \<Rightarrow> (string \<times> (string \<times> PluginGlobal) list) list \<Rightarrow> (string \<times> (string \<times> PluginGlobal) list) list" where
  "add_global p m = (let owners = (case map_of m (PPlugin p) of None \<Rightarrow> [] | Some g \<Rightarrow> g)
     in AList.update (PPlugin p) (AList.update (PName p) fresh_global owners) m)"

definition initial_globals :: "bool \<Rightarrow> string \<Rightarrow> bool \<Rightarrow> int \<Rightarrow> 64 word \<Rightarrow> Plugin list \<Rightarrow> Globals" where
  "initial_globals once path debug cpus mem ps = \<lparr>RunPluginsOnce = once, ReturnAllToMainQueue = False,
     GitHubAPIRateLimitResetUnix = 0, LastGitHubAPIRateLimitNoticeUnix = 0, GPluginsPath = path, DebugEnabled = debug,
     HostCPUCount = cpus, HostMemoryBytes = mem, QueueTargetIndex = 0, GPlugins = fold add_global ps []\<rparr>"

definition pause_all :: "Globals \<Rightarrow> Globals" where
  "pause_all g = g\<lparr>GPlugins := map (\<lambda>(t, owners). (t, map (\<lambda>(n, s). (n, s\<lparr>Paused := True\<rparr>)) owners)) (GPlugins g)\<rparr>"

section \<open>Signals\<close>

datatype signal = SIGINT | SIGTERM | SIGQUIT

record Worker =
  wGlobals :: Globals
  toRunOnce :: bool
  sigCount :: nat
  workerCanceled :: bool
  exited :: "int option"

definition on_signal :: "signal \<Rightarrow> Worker \<Rightarrow> Worker" where
  "on_signal sig w =
     (if exited w \<noteq> None then w
      else if sig = SIGQUIT then w\<lparr>wGlobals := (wGlobals w)\<lparr>ReturnAllToMainQueue := True\<rparr>, toRunOnce := True\<rparr>
      else let w1 = w\<lparr>sigCount := sigCount w + 1\<rparr> in
        if sigCount w1 \<ge> 2 then w1\<lparr>exited := Some 1\<rparr>
        else w1\<lparr>wGlobals := (wGlobals w)\<lparr>ReturnAllToMainQueue := True\<rparr>, workerCanceled := True\<rparr>)"

section \<open>The port of the metrics\<close>

fun find_port :: "nat \<Rightarrow> (string \<Rightarrow> bool) \<Rightarrow> string \<Rightarrow> string option" where
  "find_port 0 available port = None"
| "find_port (Suc fuel) available port = (if available port then Some port
     else find_port fuel available (FormatInt ((case Atoi port of Inr i \<Rightarrow> i | Inl _ \<Rightarrow> 0) + 1)))"

definition metrics_port :: "nat \<Rightarrow> (string \<Rightarrow> bool) \<Rightarrow> Config \<Rightarrow> string result option" where
  "metrics_port fuel available cfg =
     (case (if MPort (Metrics cfg) \<noteq> [] then Some (MPort (Metrics cfg)) else find_port fuel available ''8080'') of
        None \<Rightarrow> None
      | Some port \<Rightarrow> Some (if available port then Inr port else Inl (Errorf ''metrics port already in use'')))"

section \<open>Databases\<close>

text \<open>Field by field, the global value or the local one; the flags are the global ones, the retries are not passed on.\<close>

definition merged_database :: "Config \<Rightarrow> DBConfig \<Rightarrow> DBConfig" where
  "merged_database cfg d = zero_DBConfig\<lparr>
     DBURL := (if GlobalDatabaseURL cfg = [] then DBURL d else GlobalDatabaseURL cfg),
     DBPort := (if GlobalDatabasePort cfg = 0 then DBPort d else GlobalDatabasePort cfg),
     DBUser := (if GlobalDatabaseUser cfg = [] then DBUser d else GlobalDatabaseUser cfg),
     DBPassword := (if GlobalDatabasePassword cfg = [] then DBPassword d else GlobalDatabasePassword cfg),
     DBDatabase := (if GlobalDatabaseDatabase cfg = 0 then DBDatabase d else GlobalDatabaseDatabase cfg),
     DBClusterMode := GlobalDatabaseClusterMode cfg, DBTLSEnabled := GlobalDatabaseTLSEnabled cfg,
     DBTLSInsecure := GlobalDatabaseTLSInsecure cfg\<rparr>"

definition aggregator_database :: "Config \<Rightarrow> DBConfig" where
  "aggregator_database cfg = merged_database cfg (MDatabase (Metrics cfg))"

definition plugin_database :: "Config \<Rightarrow> Plugin \<Rightarrow> DBConfig option" where
  "plugin_database cfg p =
     (if GlobalDatabaseURL cfg \<noteq> [] \<or> DBURL (PDatabase p) \<noteq> [] then Some (merged_database cfg (PDatabase p)) else None)"

section \<open>The command line\<close>

text \<open>
  \<open>NewCLI\<close> answers a client, which is its version here, an error, or, when the status of an answer is not \<open>OK\<close>, a nil client and
  no error: \<open>Inr None\<close>. A missing text in an answer is a failed type assertion.
\<close>

definition text_of :: "(string \<times> json) list \<Rightarrow> string \<Rightarrow> string go" where
  "text_of ms k = (case map_of ms k of Some (JStr s) \<Rightarrow> Ret s | _ \<Rightarrow> Panic)"

definition check_license :: "string \<Rightarrow> string \<Rightarrow> string option \<Rightarrow> string option result" where
  "check_license status licenseType version =
     (if status \<noteq> ''valid'' then Inl (Errorf ''anka license is invalid'')
      else if licenseType = ''com.veertu.anka.run'' \<or> licenseType = ''com.veertu.anka.develop''
      then Inl (Errorf ''anka license type is not supported'')
      else Inr version)"

definition read_license :: "string \<Rightarrow> json \<Rightarrow> string option result go" where
  "read_license version body = (case body of
     JObj ms \<Rightarrow> (case (text_of ms ''status'', text_of ms ''license_type'', text_of ms ''product'') of
        (Ret status, Ret licenseType, Ret _) \<Rightarrow> Ret (check_license status licenseType (Some version))
      | _ \<Rightarrow> Panic)
   | _ \<Rightarrow> Ret (check_license [] [] (Some version)))"

definition ask_cli :: "'s Cli \<Rightarrow> string list \<Rightarrow> (json \<Rightarrow> 's Host \<Rightarrow> string option result go \<times> 's Host) \<Rightarrow> 's Host \<Rightarrow> string option result go \<times> 's Host" where
  "ask_cli cli args f h = (case ExecuteParseJson cli args h of (r, h1) \<Rightarrow>
     (case answer r of
        Inl e \<Rightarrow> (Ret (Inl e), h1)
      | Inr a \<Rightarrow> if AStatus a \<noteq> ''OK'' then (Ret (Inr None), h1) else f (ABody a) h1))"

definition NewCLI :: "'s Cli \<Rightarrow> gerror option \<Rightarrow> 's Host \<Rightarrow> string option result go \<times> 's Host" where
  "NewCLI cli anka h = (case anka of
     Some e \<Rightarrow> (Ret (Inl (Errorf (''anka command not found or not working properly: '' @ Error e))), h)
   | None \<Rightarrow> ask_cli cli [''anka'', ''-j'', ''version''] (\<lambda>body h1.
       case (case body of JObj ms \<Rightarrow> text_of ms ''version'' | _ \<Rightarrow> Ret []) of
         Panic \<Rightarrow> (Panic, h1)
       | Ret version \<Rightarrow> ask_cli cli [''anka'', ''-j'', ''license'', ''show''] (\<lambda>body2 h2. (read_license version body2, h2)) h1) h)"

section \<open>Starting a plugin\<close>

text \<open>
  The checks of the goroutine of a plugin, up to its database: the name, the log file, the
  credentials, and for a handler the command line, the mounts and the templates. A nil client is
  dereferenced only for its version.
\<close>

definition check_mounts :: "Config \<Rightarrow> bool \<Rightarrow> string option \<Rightarrow> gerror option go" where
  "check_mounts cfg amd64 version =
     (if \<not> AnyHostToGuestFolderMountsConfigured cfg then Ret None
      else if amd64 then Ret (Some (Errorf ''host-to-guest folder mounts are configured but Anka does not support this on Intel macOS hosts''))
      else (case version of None \<Rightarrow> Panic | Some v \<Rightarrow> Ret (ValidateAnkaVersionForHostToGuestFolderMounts v)))"

definition discover_templates :: "'s Cli \<Rightarrow> 's Host \<Rightarrow> unit go \<times> 's Host" where
  "discover_templates cli h =
     (if hTracker h = [] then (case DiscoverAndPopulateExistingTemplates cli h of (Panic, h1) \<Rightarrow> (Panic, h1) | (Ret _, h1) \<Rightarrow> (Ret (), h1))
      else (Ret (), h))"

definition start_handler :: "Config \<Rightarrow> bool \<Rightarrow> 's Cli \<Rightarrow> gerror option \<Rightarrow> Plugin \<Rightarrow> 's Host \<Rightarrow> Plugin result go \<times> 's Host" where
  "start_handler cfg amd64 cli anka p h = (case NewCLI cli anka h of
     (Panic, h1) \<Rightarrow> (Panic, h1)
   | (Ret (Inl e), h1) \<Rightarrow> (Ret (Inl e), h1)
   | (Ret (Inr version), h1) \<Rightarrow> (case check_mounts cfg amd64 version of
        Panic \<Rightarrow> (Panic, h1)
      | Ret (Some e) \<Rightarrow> (Ret (Inl e), h1)
      | Ret None \<Rightarrow> (case discover_templates cli h1 of (Panic, h2) \<Rightarrow> (Panic, h2) | (Ret _, h2) \<Rightarrow> (Ret (Inr p), h2))))"

definition start_plugin :: "Config \<Rightarrow> bool \<Rightarrow> gerror option \<Rightarrow> 's Cli \<Rightarrow> gerror option \<Rightarrow> Plugin \<Rightarrow> 's Host \<Rightarrow> Plugin result go \<times> 's Host" where
  "start_plugin cfg amd64 logFile cli anka p h =
     (if PName p = [] then (Ret (Inl (Errorf ''name is required for plugins'')), h)
      else if contains (PName p) '' '' then (Ret (Inl (Errorf ''plugin name cannot contain spaces'')), h)
      else (case logFile of
        Some e \<Rightarrow> (Ret (Inl e), h)
      | None \<Rightarrow> let p1 = default_credentials cfg p in
          if contains (PPlugin p1) ''_receiver'' then (Ret (Inr p1), h) else start_handler cfg amd64 cli anka p1 h))"

text \<open>The entry of the plugin in the metrics.\<close>

definition register_plugin :: "int \<Rightarrow> Plugin \<Rightarrow> MetricsData \<Rightarrow> (gerror option \<times> MetricsData) go" where
  "register_plugin now p = AddPlugin (FullEntry (zero_MetricsPlugin\<lparr>Base := Some \<lparr>BName = PName p, BPluginName = PPlugin p,
     BRepoName = PRepo p, BOwnerName = MetricsOwner p, BStatus = ''idle'', BStatusSince = Some now\<rparr>\<rparr>))"

text \<open>Whether the Prometheus text leaves out the totals, as the loop over the plugins leaves it.\<close>

definition soloReceiver :: "Plugin list \<Rightarrow> bool" where
  "soloReceiver ps = fold (\<lambda>p solo. contains (PPlugin p) ''_receiver'') ps False"

section \<open>One run of a plugin\<close>

definition run_Plugin :: "Plugin result \<Rightarrow> bool \<Rightarrow> ('w \<Rightarrow> gerror option \<times> 'w) \<Rightarrow> ('w \<Rightarrow> gerror option \<times> 'w) \<Rightarrow> 'w \<Rightarrow> gerror option \<times> 'w" where
  "run_Plugin ctxPlugin pluginDone handler receiver w = (case ctxPlugin of
     Inl e \<Rightarrow> (Some e, w)
   | Inr p \<Rightarrow>
       if PPlugin p = [] then (Some (Errorf (''plugin is not set in yaml:plugins:'' @ PName p @ '':plugin'')), w)
       else if PPlugin p = ''github''
       then if pluginDone then (None, w)
         else (case handler w of
            (Some e, w1) \<Rightarrow> (Some (Errorf (''error running github plugin: '' @ Error e)), w1)
          | (None, w1) \<Rightarrow> (None, w1))
       else if PPlugin p = ''github_receiver'' then receiver w
       else (Some (Errorf ''plugin not supported''), w))"

section \<open>The loop of the aggregator\<close>

text \<open>
  A turn ends the worker, goes round again at once (the \<open>break\<close> leaves the \<open>select\<close> only, and the
  context it cancels is not the worker's), or waits for the interval.
\<close>

datatype aggregator_turn = AggregatorEnds | AggregatorSpins | AggregatorWaits

definition aggregator_turn :: "Worker \<Rightarrow> aggregator_turn" where
  "aggregator_turn w = (if workerCanceled w then AggregatorEnds else if toRunOnce w then AggregatorSpins else AggregatorWaits)"

section \<open>The loop of a plugin\<close>

text \<open>Plugins are launched in order, each when the one before it has finished its first run.\<close>

definition may_launch :: "Plugin list \<Rightarrow> nat \<Rightarrow> Globals \<Rightarrow> bool go" where
  "may_launch ps k g = (if k = 0 then Ret True
     else (case own_global (ps ! (k - 1)) g of None \<Rightarrow> Panic | Some s \<Rightarrow> Ret (FinishedInitialRun s)))"

definition launch :: "Plugin list \<Rightarrow> nat \<Rightarrow> Globals \<Rightarrow> Globals" where
  "launch ps k g = (if k = 0 then g else set_own_global (ps ! k) (\<lambda>s. s\<lparr>Paused := False\<rparr>) g)"

definition waits_for_paused :: "nat \<Rightarrow> Plugin \<Rightarrow> Globals \<Rightarrow> bool go" where
  "waits_for_paused index p g = (case own_global p g of
     None \<Rightarrow> Panic | Some s \<Rightarrow> Ret (PluginRunCount s \<noteq> 0 \<and> index \<noteq> 0 \<and> GetPausedPlugin g \<noteq> []))"

definition sibling_preparing :: "Plugin \<Rightarrow> Globals \<Rightarrow> bool" where
  "sibling_preparing p g = (case map_of (GPlugins g) (PPlugin p) of
     None \<Rightarrow> False | Some owners \<Rightarrow> (\<exists>(n, s)\<in>set owners. n \<noteq> PName p \<and> Preparing s))"

text \<open>
  What the loop of a plugin sees, with the world of its runs. \<open>lQuit\<close> is the signal it sends to
  its own process. The position tells the loop from the inner one that waits for a paused plugin.
\<close>

record 'w Loop =
  lGlobals :: Globals
  lMetrics :: MetricsData
  lWorkerCanceled :: bool
  lPluginCanceled :: bool
  lToRunOnce :: bool
  lQuit :: bool
  lWorld :: 'w

datatype position = AtTop | InPause | Returned_from_loop | Crashed

definition set_plugin_status :: "int \<Rightarrow> Plugin \<Rightarrow> string \<Rightarrow> 'w Loop \<Rightarrow> 'w Loop go" where
  "set_plugin_status now p status st = (case SetStatus now (Inr (PName p)) status (lMetrics st) of
     Panic \<Rightarrow> Panic | Ret (_, m) \<Rightarrow> Ret (st\<lparr>lMetrics := m\<rparr>))"

definition go_on :: "'w Loop go \<Rightarrow> 'w Loop \<Rightarrow> ('w Loop \<Rightarrow> position \<times> 'w Loop) \<Rightarrow> position \<times> 'w Loop" where
  "go_on r st f = (case r of Panic \<Rightarrow> (Crashed, st) | Ret st' \<Rightarrow> f st')"

definition cancel_both :: "'w Loop \<Rightarrow> 'w Loop" where
  "cancel_both st = st\<lparr>lPluginCanceled := True, lWorkerCanceled := True\<rparr>"

text \<open>After the waits: the status, the count, the run, and what follows it.\<close>

definition run_once :: "int \<Rightarrow> bool \<Rightarrow> Plugin \<Rightarrow> ('w Loop \<Rightarrow> gerror option \<times> 'w Loop) \<Rightarrow> 'w Loop \<Rightarrow> position \<times> 'w Loop" where
  "run_once now drain p run_it st =
     go_on (set_plugin_status now p (steadyStatus drain p) st) st (\<lambda>st1.
       case run_it (st1\<lparr>lGlobals := IncrementPluginRunCount (lGlobals st1) (PName p)\<rparr>) of
         (Some e, st2) \<Rightarrow> (Returned_from_loop, (cancel_both st2)\<lparr>lQuit := True\<rparr>)
       | (None, st2) \<Rightarrow>
           if lWorkerCanceled st2 \<or> lToRunOnce st2 then (AtTop, st2\<lparr>lPluginCanceled := True\<rparr>)
           else go_on (set_plugin_status now p (steadyStatus drain p) st2) st2 (\<lambda>st3. (AtTop, st3)))"

definition after_pause :: "int \<Rightarrow> bool \<Rightarrow> Plugin \<Rightarrow> ('w Loop \<Rightarrow> gerror option \<times> 'w Loop) \<Rightarrow> 'w Loop \<Rightarrow> position \<times> 'w Loop" where
  "after_pause now drain p run_it st =
     (if sibling_preparing p (lGlobals st) then (AtTop, st) else run_once now drain p run_it st)"

definition while_paused :: "int \<Rightarrow> bool \<Rightarrow> Plugin \<Rightarrow> ('w Loop \<Rightarrow> gerror option \<times> 'w Loop) \<Rightarrow> 'w Loop \<Rightarrow> position \<times> 'w Loop" where
  "while_paused now drain p run_it st =
     (if GetPausedPlugin (lGlobals st) = [] then after_pause now drain p run_it st
      else if lWorkerCanceled st \<or> lPluginCanceled st then (Returned_from_loop, cancel_both st)
      else go_on (set_plugin_status now p ''paused'' st) st (\<lambda>st1. (InPause, st1)))"

definition plugin_turn :: "int \<Rightarrow> bool \<Rightarrow> nat \<Rightarrow> Plugin \<Rightarrow> ('w Loop \<Rightarrow> gerror option \<times> 'w Loop) \<Rightarrow> 'w Loop \<Rightarrow> position \<times> 'w Loop" where
  "plugin_turn now drain index p run_it st =
     (if lPluginCanceled st
      then go_on (set_plugin_status now p ''stopped'' st) st (\<lambda>st1. (Returned_from_loop, cancel_both st1))
      else (case waits_for_paused index p (lGlobals st) of
          Panic \<Rightarrow> (Crashed, st)
        | Ret True \<Rightarrow> while_paused now drain p run_it st
        | Ret False \<Rightarrow> after_pause now drain p run_it st))"

end
