(* ===== verification/WorkerSteps.thy ===== *)
theory WorkerSteps
  imports Worker
begin

text \<open>
  The goroutines of a worker as a step relation: launching the plugins, the checks at the top of
  their loops, and what a run does to the flags of its own plugin, in any interleaving. The
  facts follow the flags of one plugin through the updates of the shared globals.
\<close>

section \<open>The flags of a plugin\<close>

named_theorems own_simps \<open>the own entry of a plugin after an update of the globals\<close>

definition same_entry :: "Plugin \<Rightarrow> Plugin \<Rightarrow> bool" where
  "same_entry p q \<longleftrightarrow> PPlugin p = PPlugin q \<and> PName p = PName q"

lemma map_of_keys: "map_of (map (\<lambda>(k, v). (k, f k v)) xs) k = map_option (f k) (map_of xs k)"
  by (induction xs) auto

lemma own_set [own_simps]:
  "own_global p (set_own_global q f g) = (if same_entry p q then map_option f (own_global p g) else own_global p g)"
  by (cases "map_of (GPlugins g) (PPlugin p)")
    (auto simp: own_global_def set_own_global_def update_global_def same_entry_def map_of_keys [where f = "\<lambda>t ps. if t = PPlugin q then _ ps else ps"]
      map_of_keys [where f = "\<lambda>n s. if n = PName q then f s else s"] option.map_id0 [unfolded id_def])

lemma own_count [own_simps]:
  "own_global p (IncrementPluginRunCount g name) =
     map_option (\<lambda>s. if PName p = name then s\<lparr>PluginRunCount := PluginRunCount s + 1\<rparr> else s) (own_global p g)"
  by (cases "map_of (GPlugins g) (PPlugin p)")
    (simp_all add: own_global_def IncrementPluginRunCount_def update_global_def
      map_of_keys [where f = "\<lambda>t ps. map (\<lambda>(n, s). (n, if n = name then s\<lparr>PluginRunCount := PluginRunCount s + 1\<rparr> else s)) ps"]
      map_of_keys [where f = "\<lambda>n s. if n = name then s\<lparr>PluginRunCount := PluginRunCount s + 1\<rparr> else s"])

lemma own_other [own_simps]: "own_global p (g\<lparr>ReturnAllToMainQueue := b\<rparr>) = own_global p g"
  by (simp add: own_global_def)

definition finished :: "Plugin \<Rightarrow> Globals \<Rightarrow> bool" where
  "finished p g \<longleftrightarrow> (\<exists>s. own_global p g = Some s \<and> FinishedInitialRun s)"

lemma finished_mono:
  "finished p g \<Longrightarrow> (\<And>s. FinishedInitialRun s \<Longrightarrow> FinishedInitialRun (f s)) \<Longrightarrow> finished p (set_own_global q f g)"
  by (auto simp: finished_def own_simps)

lemma finished_count: "finished p g \<Longrightarrow> finished p (IncrementPluginRunCount g name)"
  by (cases "PName p = name") (auto simp: finished_def own_simps)

lemma finished_other: "finished p (g\<lparr>ReturnAllToMainQueue := b\<rparr>) = finished p g"
  by (simp add: finished_def own_simps)

lemma may_launch_iff: "may_launch ps k g = Ret True \<longleftrightarrow> k = 0 \<or> finished (ps ! (k - 1)) g"
  by (auto simp: may_launch_def finished_def split: option.splits)

section \<open>The steps\<close>

datatype place = NotLaunched | Looping | Running | Done

record Sys =
  sGlobals :: Globals
  sLaunched :: nat
  sPlace :: "nat \<Rightarrow> place"
  sCanceled :: bool

definition with_own :: "Plugin \<Rightarrow> (PluginGlobal \<Rightarrow> PluginGlobal) \<Rightarrow> Sys \<Rightarrow> Sys" where
  "with_own p f s = s\<lparr>sGlobals := set_own_global p f (sGlobals s)\<rparr>"

text \<open>
  A run marks its plugin as preparing, ends that, pauses and unpauses it, and releases it when
  it ends; both its checks are one step here, which leaves out only further interleavings.
\<close>

inductive worker_step :: "Plugin list \<Rightarrow> Sys \<Rightarrow> Sys \<Rightarrow> bool" for ps where
  launch: "sLaunched s = k \<Longrightarrow> k < length ps \<Longrightarrow> \<not> sCanceled s \<Longrightarrow> may_launch ps k (sGlobals s) = Ret True \<Longrightarrow>
    worker_step ps s (s\<lparr>sGlobals := Worker.launch ps k (sGlobals s), sLaunched := Suc k, sPlace := (sPlace s)(k := Looping)\<rparr>)"
| start: "sPlace s i = Looping \<Longrightarrow> waits_for_paused i (ps ! i) (sGlobals s) = Ret False \<Longrightarrow> \<not> sibling_preparing (ps ! i) (sGlobals s) \<Longrightarrow>
    worker_step ps s (s\<lparr>sGlobals := IncrementPluginRunCount (sGlobals s) (PName (ps ! i)), sPlace := (sPlace s)(i := Running)\<rparr>)"
| prepare: "sPlace s i = Running \<Longrightarrow> worker_step ps s (with_own (ps ! i) (\<lambda>g. g\<lparr>Preparing := True\<rparr>) s)"
| prepared: "sPlace s i = Running \<Longrightarrow> worker_step ps s (with_own (ps ! i) (\<lambda>g. g\<lparr>Preparing := False\<rparr>) s)"
| pause: "sPlace s i = Running \<Longrightarrow> worker_step ps s (with_own (ps ! i) (\<lambda>g. g\<lparr>Paused := b\<rparr>) s)"
| release: "sPlace s i = Running \<Longrightarrow>
    worker_step ps s (with_own (ps ! i) (\<lambda>g. g\<lparr>Preparing := False, FinishedInitialRun := True, Paused := False\<rparr>) s)"
| over: "sPlace s i = Running \<Longrightarrow> worker_step ps s (s\<lparr>sPlace := (sPlace s)(i := Looping)\<rparr>)"
| cancel: "worker_step ps s (s\<lparr>sCanceled := True\<rparr>)"
| drain_all: "worker_step ps s (s\<lparr>sGlobals := (sGlobals s)\<lparr>ReturnAllToMainQueue := b\<rparr>\<rparr>)"
| stop: "sPlace s i = Looping \<Longrightarrow> sCanceled s \<Longrightarrow> worker_step ps s (s\<lparr>sPlace := (sPlace s)(i := Done)\<rparr>)"

inductive_cases worker_stepE: "worker_step ps s s'"

definition at_start :: "Globals \<Rightarrow> Sys" where
  "at_start g = \<lparr>sGlobals = g, sLaunched = 0, sPlace = (\<lambda>_. NotLaunched), sCanceled = False\<rparr>"

definition in_order :: "Plugin list \<Rightarrow> Sys \<Rightarrow> bool" where
  "in_order ps s \<longleftrightarrow> sLaunched s \<le> length ps \<and> (\<forall>i. sPlace s i \<noteq> NotLaunched \<longrightarrow> i < sLaunched s) \<and>
     (\<forall>j. Suc j < sLaunched s \<longrightarrow> finished (ps ! j) (sGlobals s))"

lemma worker_step_in_order: "worker_step ps s s' \<Longrightarrow> in_order ps s \<Longrightarrow> in_order ps s'"
proof (induction rule: worker_step.induct)
  case (launch s k)
  have "finished (ps ! j) (Worker.launch ps k (sGlobals s))" if "finished (ps ! j) (sGlobals s)" for j
    using that by (auto simp: Worker.launch_def intro: finished_mono)
  moreover have "finished (ps ! j) (sGlobals s)" if "Suc j < Suc k" for j
    using that launch by (cases "k = Suc j") (auto simp: in_order_def may_launch_iff)
  ultimately show ?case using launch by (auto simp: in_order_def less_Suc_eq)
qed (auto simp: in_order_def with_own_def finished_count finished_other intro: finished_mono)

end
