(* ===== verification/ReceiverRun.thy ===== *)
theory ReceiverRun
  imports Receiver
begin

text \<open>
  The start of a receiver, \<open>Run\<close> of \<open>plugins/receivers/github/github.go\<close>: its configuration, its client, its routes,
  the reset of the in-progress queue and whether the redelivery walk is started. The routes are
  registered on the multiplexer of \<open>net/http\<close> that the whole process shares.
\<close>

section \<open>Routes\<close>

text \<open>A second registration of a pattern is a panic.\<close>

definition HandleFunc :: "string \<Rightarrow> string list \<Rightarrow> string list go" where
  "HandleFunc pattern mux = (if pattern \<in> set mux then Panic else Ret (pattern # mux))"

fun handle_all :: "string list \<Rightarrow> string list \<Rightarrow> string list go" where
  "handle_all [] mux = Ret mux"
| "handle_all (pattern # patterns) mux = (case HandleFunc pattern mux of Panic \<Rightarrow> Panic | Ret mux' \<Rightarrow> handle_all patterns mux')"

definition receiver_routes :: "string list" where
  "receiver_routes = [''/healthcheck'', ''/jobs/v1'', ''/jobs'']"

definition receiver_serve :: "Webhooks \<Rightarrow> 's Ctx \<Rightarrow> 's Database \<Rightarrow> string \<Rightarrow> string \<Rightarrow> string \<Rightarrow> request \<Rightarrow> 's \<Rightarrow> (int \<times> 's) go" where
  "receiver_serve lib ctx db secret queueOwner path r s =
     (if path = ''/healthcheck'' then Ret (StatusOK, s)
      else if path = ''/jobs/v1'' then receiver_endpoint lib ctx db secret queueOwner r s
      else if path = ''/jobs'' then Ret (501, s)
      else Ret (404, s))"

section \<open>Starting\<close>

text \<open>The client of a receiver: an enterprise one has none.\<close>

type_synonym 's authenticate = "Plugin \<Rightarrow> 's \<Rightarrow> (Wrapper result \<times> 's) option"

definition receiver_client :: "'s authenticate \<Rightarrow> Plugin \<Rightarrow> 's \<Rightarrow> (Wrapper option result \<times> 's) option" where
  "receiver_client auth p s =
     (if IsEnterpriseScope p then Some (Inr None, s)
      else (case auth p s of
        None \<Rightarrow> None
      | Some (Inl e, s') \<Rightarrow> Some (Inl (Errorf (''error authenticating github client: '' @ Error e)), s')
      | Some (Inr w, s') \<Rightarrow> Some (Inr (Some w), s')))"

text \<open>\<open>None\<close> is a search for the installation that does not end. The flag says whether the walk starts.\<close>

record 's ReceiverState =
  rMux :: "string list"
  rGlobals :: Globals
  rDB :: 's

definition start_receiver :: "string \<Rightarrow> string result \<Rightarrow> 's authenticate \<Rightarrow> 's Ctx \<Rightarrow> 's Database result \<Rightarrow> Plugin \<Rightarrow> 's ReceiverState \<Rightarrow>
    ((Plugin \<times> bool) result go \<times> 's ReceiverState) option" where
  "start_receiver configFileName homeDir auth ctx database p r =
     (case validate_receiver configFileName homeDir p of
        Inl e \<Rightarrow> Some (Ret (Inl e), r)
      | Inr p1 \<Rightarrow> (case database of
           Inl e \<Rightarrow> Some (Ret (Inl (Errorf (''error getting database client from context: '' @ Error e))), r)
         | Inr db \<Rightarrow> (case receiver_client auth p1 (rDB r) of
              None \<Rightarrow> None
            | Some (Inl e, s) \<Rightarrow> Some (Ret (Inl e), r\<lparr>rDB := s\<rparr>)
            | Some (Inr client, s) \<Rightarrow> (case handle_all receiver_routes (rMux r) of
                 Panic \<Rightarrow> Some (Panic, r\<lparr>rDB := s\<rparr>)
               | Ret mux \<Rightarrow> (case receiver_ready ctx db p1 (rGlobals r) s of
                    (Some e, g, s') \<Rightarrow> Some (Ret (Inl e), r\<lparr>rMux := mux, rGlobals := g, rDB := s'\<rparr>)
                  | (None, g, s') \<Rightarrow> Some (Ret (Inr (p1, \<not> PSkipRedeliver p1 \<and> client \<noteq> None)), r\<lparr>rMux := mux, rGlobals := g, rDB := s'\<rparr>))))))"

section \<open>Facts\<close>

lemma handle_all_Ret: "handle_all ps mux = Ret mux' \<Longrightarrow> set mux' = set ps \<union> set mux \<and> (\<forall>p\<in>set ps. p \<notin> set mux)"
  by (induction ps arbitrary: mux) (fastforce simp: HandleFunc_def split: go.splits if_splits)+

lemma handle_again: "p \<in> set ps \<Longrightarrow> p \<in> set mux \<Longrightarrow> handle_all ps mux = Panic"
  by (metis go.exhaust handle_all_Ret)

lemma start_keeps_routes:
  "start_receiver f home auth ctx database p r = Some (out, r') \<Longrightarrow> set (rMux r) \<subseteq> set (rMux r')"
  by (auto simp: start_receiver_def dest!: handle_all_Ret split: sum.splits option.splits go.splits prod.splits)

lemma ready_has_routes:
  "start_receiver f home auth ctx database p r = Some (Ret (Inr pw), r') \<Longrightarrow> set receiver_routes \<subseteq> set (rMux r')"
  by (auto simp: start_receiver_def dest!: handle_all_Ret split: sum.splits option.splits go.splits prod.splits)

lemma validated_enterprise: "validate_receiver f home p = Inr p1 \<Longrightarrow> IsEnterpriseScope p1 \<Longrightarrow> PSkipRedeliver p1"
  by (auto simp: validate_receiver_def Let_def IsEnterpriseScope_def GitHubScope_of_def split: option.splits if_splits sum.splits)

text \<open>The API of GitHub is not used for an enterprise receiver, and its walk does not start.\<close>

lemma enterprise_needs_no_api:
  assumes "start_receiver f home auth ctx database p r = Some (Ret (Inr (p1, walks)), r')" and "IsEnterpriseScope p1"
  shows "\<not> walks \<and> start_receiver f home auth' ctx database p r = Some (Ret (Inr (p1, walks)), r')"
  using assms
  by (auto simp: start_receiver_def receiver_client_def dest!: validated_enterprise split: sum.splits option.splits go.splits prod.splits)

end
