(* ===== verification/HandlerRun.thy ===== *)
theory HandlerRun
  imports WorkerSteps ReceiverRun
begin

text \<open>
  The whole of \<open>Run\<close> of \<open>plugins/handlers/github/github.go\<close>, with what comes before the part modelled in
  \<open>Runner\<close>: the start line, the mark \<open>Preparing\<close>, new channels, the configuration and the client;
  and a run as the loop of its plugin sees it. The facts follow the marks of the plugin through a turn of that loop.
\<close>

section \<open>Entering a run\<close>

definition new_plugin_globals :: "('s, 'h) HState \<Rightarrow> ('s, 'h) HState" where
  "new_plugin_globals st = st\<lparr>JobChannel := [], RetryChannel := [], PausedCancellationJobChannel := [], ReturnToMainQueue := [],
     Unreturnable := False, FirstCheckForCompletedJobsRan := False, CheckForCompletedJobsRunCount := 0, StillInProgressPollCount := 0,
     RunError := None\<rparr>"

definition enter_run :: "int \<Rightarrow> Plugin \<Rightarrow> ('s, 'h) HState \<Rightarrow> ('s, 'h) HState" where
  "enter_run now p st = new_plugin_globals
     (st\<lparr>hGlobals := set_own_global p (\<lambda>g. g\<lparr>Preparing := True\<rparr>) (snd (LogGitHubAPIRateLimitStatusAtRunStart now (hGlobals st)))\<rparr>)"

definition run_env :: "(Wrapper \<Rightarrow> 's Api) \<Rightarrow> ('s, 'h) Env \<Rightarrow> Plugin \<Rightarrow> 's Database \<Rightarrow> Wrapper \<Rightarrow> ('s, 'h) Env" where
  "run_env api_of e p db w = e\<lparr>plugin := p, queues := queue_names p, queueOwner := GetQueueOwner p, database := db, api := api_of w\<rparr>"

text \<open>
  The error \<open>Run\<close> returns, or that it never does: \<open>Crash\<close>, \<open>Block\<close>, and \<open>None\<close> for a search for the installation
  without an end.
\<close>

definition handler_run :: "string \<Rightarrow> string result \<Rightarrow> 's authenticate \<Rightarrow> (Wrapper \<Rightarrow> 's Api) \<Rightarrow> ('s, 'h) Env \<Rightarrow> 's Database result \<Rightarrow> nat \<Rightarrow> int \<Rightarrow> bool \<Rightarrow>
    string \<Rightarrow> ('s, 'h) Schedule \<Rightarrow> Plugin \<Rightarrow> ('s, 'h) HState \<Rightarrow> (gerror option turn \<times> ('s, 'h) HState) option" where
  "handler_run configFileName homeDir auth api_of e dbs fuel now debug pluginsPath sch p st =
     (let st1 = enter_run now p st in
      case validate_run configFileName homeDir p of
        Inl err \<Rightarrow> Some (Go (Some err), st1)
      | Inr p1 \<Rightarrow> (case auth p1 (hDB st1) of
           None \<Rightarrow> None
         | Some (Inl err, s) \<Rightarrow> Some (Go (Some (Errorf (''error authenticating github client: '' @ Error err))), st1\<lparr>hDB := s\<rparr>)
         | Some (Inr w, s) \<Rightarrow> (case dbs of
              Inl err \<Rightarrow> Some (Go (Some (Errorf (''error getting database from context: '' @ Error err))), st1\<lparr>hDB := s\<rparr>)
            | Inr db \<Rightarrow> (case Run fuel (run_env api_of e p1 db w) debug pluginsPath sch (st1\<lparr>hDB := s\<rparr>) of
                 (Crash, st2) \<Rightarrow> Some (Crash, st2)
               | (Block, st2) \<Rightarrow> Some (Block, st2)
               | (_, st2) \<Rightarrow> Some (Go (RunError st2), st2)))))"

text \<open>A run that has returned, as the loop of the plugin sees it: the contexts of the loop are those of the run.\<close>

definition ran :: "('s, 'h) Env \<Rightarrow> gerror option \<Rightarrow> ('s, 'h) HState \<Rightarrow> ('s, 'h) HState Loop \<Rightarrow> gerror option \<times> ('s, 'h) HState Loop" where
  "ran e err hs st = (err, st\<lparr>lGlobals := hGlobals hs, lWorld := hs,
     lWorkerCanceled := (lWorkerCanceled st \<or> CtxErr (workerCtx e) (hDB hs) \<noteq> None),
     lPluginCanceled := (lPluginCanceled st \<or> CtxErr (pluginCtx e) (hDB hs) \<noteq> None)\<rparr>)"

section \<open>The marks after a run\<close>

definition released :: "PluginGlobal \<Rightarrow> PluginGlobal" where
  "released s = s\<lparr>Preparing := False, FinishedInitialRun := True, Paused := False\<rparr>"

lemma await_end_goes: "await_end e evs st = (out, st') \<Longrightarrow> out \<noteq> Stop"
  by (induction e evs st arbitrary: out st' rule: await_end.induct) (auto split: prod.splits turn.splits)

lemma cleanup_releases:
  assumes "cleanup fuel ctx db cli debug p q False pf st = (out, st')" "out \<noteq> Crash"
  shows "\<exists>g. hGlobals st' = set_own_global p released g"
  using assms by (auto simp: cleanup_def cleanup_release_def Let_def released_def [abs_def] split: prod.splits turn.splits)

lemma run_deferred_releases:
  assumes "run_deferred fuel e debug checks st = (out, st')" "out = Go () \<or> out = Stop"
  shows "\<exists>g. hGlobals st' = set_own_global (plugin e) released g"
proof -
  obtain st1 where "cleanup fuel (pluginCtx e) (database e) (ankaCLI e) debug (plugin e) (queues e) False False st1 = (out, st')"
    using assms unfolding run_deferred_def by (auto elim!: and_thenE dest: await_end_goes split: option.splits)
  then show ?thesis using assms(2) by (intro cleanup_releases) auto
qed

lemma run_sets_marks:
  assumes "Run fuel e debug pluginsPath sch st = (out, st')" and "out = Go () \<or> out = Stop" and "\<not> canceled e st"
  shows "\<exists>g. hGlobals st' = set_own_global (plugin e) released g"
proof -
  have deferred: "\<exists>g. hGlobals st2 = set_own_global (plugin e) released g"
    if "run_deferred fuel e' debug checks st1 = (out, st2)" "plugin e' = plugin e" for e' checks st1 st2
    using run_deferred_releases [OF that(1) assms(2)] that(2) by simp
  then show ?thesis
    using assms(1-3) unfolding Run_def Let_def by (auto split: prod.splits turn.splits if_splits dest!: deferred)
qed

lemma canceled_run: "canceled e st \<Longrightarrow> Run fuel e debug pluginsPath sch st = (out, st') \<Longrightarrow> hDB st' = hDB st"
  by (auto simp: Run_def announce_def and_then_def send_job_def return_ok_def split: prod.splits turn.splits if_splits)

lemma validated_same: "validate_run f home p = Inr p1 \<Longrightarrow> same_entry p1 p"
  by (auto simp: validate_run_def same_entry_def split: option.splits if_splits sum.splits)

text \<open>A handler run that returns has failed, has released its plugin, or has found its context canceled.\<close>

lemma handler_run_ends:
  assumes "handler_run f home auth api_of e dbs fuel now debug path sch p st = Some (Go err, st')"
  obtains "err \<noteq> None"
  | "own_global p (hGlobals st') = None"
  | own where "own_global p (hGlobals st') = Some own" "\<not> Preparing own" "FinishedInitialRun own" "\<not> Paused own"
  | "CtxErr (workerCtx e) (hDB st') \<noteq> None \<or> CtxErr (pluginCtx e) (hDB st') \<noteq> None"
proof (cases "err = None")
  case True
  then obtain p1 w s db out st2 where p1: "validate_run f home p = Inr p1"
    and r: "Run fuel (run_env api_of e p1 db w) debug path sch ((enter_run now p st)\<lparr>hDB := s\<rparr>) = (out, st')"
    and out: "out = Go () \<or> out = Stop"
    using assms by (auto simp: handler_run_def Let_def split: sum.splits option.splits prod.splits turn.splits)
  let ?e = "run_env api_of e p1 db w"
  show ?thesis
  proof (cases "canceled ?e ((enter_run now p st)\<lparr>hDB := s\<rparr>)")
    case True
    then have "hDB st' = s" using canceled_run [OF True r] by simp
    then show ?thesis using True that(4) by (simp add: canceled_def run_env_def)
  next
    case False
    obtain g where "hGlobals st' = set_own_global p1 released g" using run_sets_marks [OF r out False] by (auto simp: run_env_def)
    moreover have "same_entry p p1" using validated_same [OF p1] by (simp add: same_entry_def)
    ultimately have "own_global p (hGlobals st') = map_option released (own_global p g)" by (simp add: own_simps)
    then show ?thesis using that(2,3) by (cases "own_global p g") (simp_all add: released_def)
  qed
qed (rule that)

section \<open>The marks after a turn\<close>

lemma status_keeps: "set_plugin_status now p x st = Ret st1 \<Longrightarrow> lGlobals st1 = lGlobals st \<and> lWorkerCanceled st1 = lWorkerCanceled st \<and> lPluginCanceled st1 = lPluginCanceled st"
  by (auto simp: set_plugin_status_def split: go.splits)

lemma go_onE:
  assumes "go_on r st f = (pos, st')" and "pos \<noteq> Crashed"
  obtains st1 where "r = Ret st1" "f st1 = (pos, st')"
  using assms by (auto simp: go_on_def split: go.splits)

lemma run_once_ends:
  assumes "run_once now drain p (ran e err hs) st = (pos, st')" and "pos \<noteq> Crashed"
  shows "lGlobals st' = hGlobals hs \<and> (err \<noteq> None \<longrightarrow> lWorkerCanceled st')
    \<and> (CtxErr (workerCtx e) (hDB hs) \<noteq> None \<longrightarrow> lWorkerCanceled st') \<and> (CtxErr (pluginCtx e) (hDB hs) \<noteq> None \<longrightarrow> lPluginCanceled st')"
  using assms(1) unfolding run_once_def
proof (rule go_onE [OF _ assms(2)])
  fix st1
  assume "(case ran e err hs (st1\<lparr>lGlobals := IncrementPluginRunCount (lGlobals st1) (PName p)\<rparr>) of
      (Some e, st2) \<Rightarrow> (Returned_from_loop, (cancel_both st2)\<lparr>lQuit := True\<rparr>)
    | (None, st2) \<Rightarrow> if lWorkerCanceled st2 \<or> lToRunOnce st2 then (AtTop, st2\<lparr>lPluginCanceled := True\<rparr>)
        else go_on (set_plugin_status now p (steadyStatus drain p) st2) st2 (\<lambda>st3. (AtTop, st3))) = (pos, st')"
  then show ?thesis
    by (auto simp: ran_def cancel_both_def split: option.splits if_splits elim!: go_onE [OF _ assms(2)] dest!: status_keeps)
qed

lemma plugin_turn_cases:
  assumes "plugin_turn now drain i p run_it st = (pos, st')" and "pos \<noteq> Crashed"
  obtains "lGlobals st' = lGlobals st" | "run_once now drain p run_it st = (pos, st')"
  using assms
  by (auto simp: plugin_turn_def while_paused_def after_pause_def cancel_both_def split: if_splits go.splits bool.splits
      elim!: go_onE [OF _ assms(2)] dest!: status_keeps)

end
