(* ===== verification/Worker_Properties.thy ===== *)
theory Worker_Properties
  imports HandlerRun MetricsTrip Handler_Samples
begin

text \<open>
  The properties of the worker: the order in which plugins start, what a run leaves behind, the
  marks the plugins wait for, shutdown, and the settings of the databases.
\<close>

section \<open>Starting\<close>

lemma steps_in_order: "(worker_step ps)\<^sup>*\<^sup>* s s' \<Longrightarrow> in_order ps s \<Longrightarrow> in_order ps s'"
  by (induction rule: rtranclp_induct) (auto intro: worker_step_in_order)

text \<open>
  C18. Plugins start in the order of the configuration: in any interleaving of the worker's
  goroutines, when a plugin has been launched every plugin before it has finished its first run, so what
  it left on the host was cleaned up or resumed.
\<close>
theorem plugins_start_in_order:
  assumes "(worker_step ps)\<^sup>*\<^sup>* (at_start g) s" and "sPlace s i \<noteq> NotLaunched" and "j < i"
  shows "\<exists>own. own_global (ps ! j) (sGlobals s) = Some own \<and> FinishedInitialRun own"
proof -
  have "in_order ps (at_start g)" by (simp add: in_order_def at_start_def)
  then have "in_order ps s" by (rule steps_in_order [OF assms(1)])
  then have "i < sLaunched s" "\<forall>j. Suc j < sLaunched s \<longrightarrow> finished (ps ! j) (sGlobals s)"
    using assms(2) by (auto simp: in_order_def)
  then show ?thesis using assms(3) by (auto simp: finished_def)
qed

abbreviation two_plugins :: "Plugin list" where
  "two_plugins \<equiv> [sample_plugin ''one'', sample_plugin ''two'']"

definition two_globals :: "bool \<Rightarrow> bool \<Rightarrow> bool \<Rightarrow> bool \<Rightarrow> bool \<Rightarrow> 64 word \<Rightarrow> 64 word \<Rightarrow> Globals" where
  "two_globals prep1 prep2 fin1 paused1 paused2 n1 n2 = small_host\<lparr>GPlugins := [(''github'',
     [(''one'', \<lparr>PluginRunCount = n1, Preparing = prep1, FinishedInitialRun = fin1, Paused = paused1\<rparr>),
      (''two'', \<lparr>PluginRunCount = n2, Preparing = prep2, FinishedInitialRun = False, Paused = paused2\<rparr>)])]\<rparr>"

lemma two_start: "pause_all (initial_globals False [] False 12 34359738368 two_plugins) = two_globals False False False True True 0 0"
  by (simp add: pause_all_def initial_globals_def add_global_def fresh_global_def sample_plugin_def zero_Plugin_def two_globals_def)

definition places :: "place \<Rightarrow> place \<Rightarrow> nat \<Rightarrow> place" where
  "places a b i = (if i = 0 then a else if i = 1 then b else NotLaunched)"

lemma places_simps [simp]: "places a b 0 = a" "places a b (Suc 0) = b" "(places a b)(0 := c) = places c b" "(places a b)(Suc 0 := c) = places a c"
  by (auto simp: places_def fun_eq_iff)

lemma places_none: "places NotLaunched NotLaunched = (\<lambda>_. NotLaunched)"
  by (auto simp: places_def fun_eq_iff)

definition two_sys :: "Globals \<Rightarrow> nat \<Rightarrow> place \<Rightarrow> place \<Rightarrow> Sys" where
  "two_sys g k a b = \<lparr>sGlobals = g, sLaunched = k, sPlace = places a b, sCanceled = False\<rparr>"

lemmas two_simps = two_globals_def two_sys_def own_global_def waits_for_paused_def sibling_preparing_def sample_plugin_def
  zero_Plugin_def with_own_def set_own_global_def update_global_def IncrementPluginRunCount_def GetPausedPlugin_def
  may_launch_def Worker.launch_def numeral_2_eq_2

text \<open>The first plugin runs once, then the second is launched.\<close>

lemma first_run:
  "(worker_step two_plugins)\<^sup>*\<^sup>* (at_start (two_globals False False False True True 0 0))
     (two_sys (two_globals False False True False False 1 0) 2 Looping Looping)"
proof -
  have "(worker_step two_plugins)\<^sup>*\<^sup>* (at_start (two_globals False False False True True 0 0))
      (two_sys (two_globals False False False True True 0 0) 0 NotLaunched NotLaunched)"
    by (simp add: at_start_def two_sys_def places_none)
  also have "worker_step two_plugins \<dots> (two_sys (two_globals False False False True True 0 0) 1 Looping NotLaunched)" (is "worker_step _ ?a _")
    using worker_step.launch [of ?a 0 two_plugins] by (simp add: two_simps)
  also have "worker_step two_plugins \<dots> (two_sys (two_globals False False False True True 1 0) 1 Running NotLaunched)" (is "worker_step _ ?a _")
    using worker_step.start [of ?a 0 two_plugins] by (simp add: two_simps)
  also have "worker_step two_plugins \<dots> (two_sys (two_globals False False True False True 1 0) 1 Running NotLaunched)" (is "worker_step _ ?a _")
    using worker_step.release [of ?a 0 two_plugins] by (simp add: two_simps)
  also have "worker_step two_plugins \<dots> (two_sys (two_globals False False True False True 1 0) 1 Looping NotLaunched)" (is "worker_step _ ?a _")
    using worker_step.over [of ?a 0 two_plugins] by (simp add: two_simps)
  also have "worker_step two_plugins \<dots> (two_sys (two_globals False False True False False 1 0) 2 Looping Looping)" (is "worker_step _ ?a _")
    using worker_step.launch [of ?a 1 two_plugins] by (simp add: two_simps)
  finally show ?thesis .
qed

lemma plugins_start_in_order_witness:
  "\<exists>own. own_global (sample_plugin ''one'') (two_globals False False True False False 1 0) = Some own \<and> FinishedInitialRun own"
  using plugins_start_in_order [OF first_run, of 1 0] by (simp add: two_sys_def)

section \<open>Marks between plugins\<close>

text \<open>
  The mark \<open>Preparing\<close> does not keep two handlers of a host from preparing at the same time: a
  handler looks for the marks of its siblings before its run and sets its own inside the run,
  so two of them may both have looked before either has set its mark.
\<close>
theorem siblings_may_prepare_together:
  "\<exists>s. (worker_step two_plugins)\<^sup>*\<^sup>* (at_start (pause_all (initial_globals False [] False 12 34359738368 two_plugins))) s
     \<and> map_option Preparing (own_global (two_plugins ! 0) (sGlobals s)) = Some True
     \<and> map_option Preparing (own_global (two_plugins ! 1) (sGlobals s)) = Some True"
proof -
  note first_run
  also have "worker_step two_plugins (two_sys (two_globals False False True False False 1 0) 2 Looping Looping)
      (two_sys (two_globals False False True False False 1 1) 2 Looping Running)" (is "worker_step _ ?a _")
    using worker_step.start [of ?a 1 two_plugins] by (simp add: two_simps)
  also have "worker_step two_plugins \<dots> (two_sys (two_globals False False True False False 2 1) 2 Running Running)" (is "worker_step _ ?a _")
    using worker_step.start [of ?a 0 two_plugins] by (simp add: two_simps)
  also have "worker_step two_plugins \<dots> (two_sys (two_globals True False True False False 2 1) 2 Running Running)" (is "worker_step _ ?a _")
    using worker_step.prepare [of ?a 0 two_plugins] by (simp add: two_simps)
  also have "worker_step two_plugins \<dots> (two_sys (two_globals True True True False False 2 1) 2 Running Running)" (is "worker_step _ ?a _")
    using worker_step.prepare [of ?a 1 two_plugins] by (simp add: two_simps)
  finally show ?thesis unfolding two_start by (intro exI conjI, assumption) (simp_all add: two_simps)
qed


text \<open>
  The first run of a handler on an empty database, with one turn of its check: it has nothing to
  clean up and ends.
\<close>

abbreviation token_auth :: "mem authenticate" where
  "token_auth \<equiv> (\<lambda>p s. Some (Inr \<lparr>wclient = TokenClient (PToken p), appsTransport = False, orgClients = []\<rparr>, s))"

definition one_turn :: "(mem, nat) Schedule" where
  "one_turn = \<lparr>startChecks = [CheckDefault], pickChecks = [], endChecks = None, watchEvents = [], pauseOthers = []\<rparr>"

definition before_run :: "(mem, nat) HState" where
  "before_run = (sample_state (mem_init []))\<lparr>hGlobals := two_globals False False False True True 1 0\<rparr>"

definition entered :: "(mem, nat) HState" where
  "entered = (sample_state (mem_init []))\<lparr>hGlobals := two_globals True False False True True 1 0\<rparr>"

definition checked :: "(mem, nat) HState" where
  "checked = entered\<lparr>FirstCheckForCompletedJobsRan := True, CheckForCompletedJobsRunCount := 1, hDB := (mem_init [])\<lparr>mnow := 3 * second\<rparr>\<rparr>"

lemma first_enters: "enter_run 0 (sample_plugin ''one'') before_run = entered"
  by (simp add: enter_run_def new_plugin_globals_def before_run_def entered_def sample_state_def LogGitHubAPIRateLimitStatusAtRunStart_def two_simps)

lemma first_check_turn: "check_turn mem_ctx mem_ctx (mem_db 3) quiet_api p q 0 CheckDefault entered = (Go (), checked)"
  by (simp add: check_turn_def check_body_def check_requests_def check_active_def active_job_def and_then_def on_db_def Let_def entered_def checked_def
     two_globals_def sample_state_def mem_simps)

lemma entered_live: "\<not> canceled (sample_env ''one'') entered"
  by (simp add: canceled_def entered_def mem_ctx_def mem_init_def sample_state_def)

lemma first_run_ends:
  "Run 3 (sample_env ''one'') False [] one_turn entered =
     (Stop, checked\<lparr>JobChannel := [finish_job], hGlobals := two_globals False False True False True 1 0\<rparr>)"
proof -
  have own: "own_global (sample_plugin ''one'') (two_globals True False False True True 1 0) =
      Some \<lparr>PluginRunCount = 1, Preparing = True, FinishedInitialRun = False, Paused = True\<rparr>"
    by (simp add: two_simps)
  have set: "set_own_global (sample_plugin ''one'') (\<lambda>g. g\<lparr>Preparing := False, FinishedInitialRun := True, Paused := False\<rparr>)
      (two_globals True False False True True 1 0) = two_globals False False True False True 1 0"
    by (simp add: two_simps)
  have st: "FirstCheckForCompletedJobsRan checked" "JobChannel checked = []" "hGlobals checked = two_globals True False False True True 1 0"
    by (simp_all add: checked_def entered_def)
  have waited: "await_check (sample_env ''one'') f [CheckDefault] entered = (Go (), checked)" for f
    using entered_live by (simp add: first_check_turn st) (simp add: entered_def sample_state_def)
  have "start_channel (sample_env ''one'') [] checked = (Stop, checked\<lparr>JobChannel := [finish_job]\<rparr>)"
    by (simp add: start_channel_def st own announce_def send_job_def and_then_def return_ok_def)
  then have prep: "run_prepare 3 (sample_env ''one'') False [] one_turn entered = (Stop, checked\<lparr>JobChannel := [finish_job]\<rparr>)"
    by (simp add: run_prepare_def run_start_def and_then_def one_turn_def waited del: await_check.simps)
  have clean: "cleanup 3 mem_ctx (mem_db 3) failing_cli False (sample_plugin ''one'') q False False (checked\<lparr>JobChannel := [finish_job]\<rparr>) =
      (Stop, checked\<lparr>JobChannel := [finish_job], hGlobals := two_globals False False True False True 1 0\<rparr>)" for q
    by (simp add: cleanup_def Let_def cleanup_guard_def and_then_def db_or_stop_def on_db_def mem_simps checked_def entered_def cleanup_release_def
      set sample_state_def)
  have "endChecks one_turn = None" by (simp add: one_turn_def)
  then show ?thesis using entered_live by (simp add: Run_def prep run_deferred_def clean and_then_def)
qed


section \<open>A turn of the loop\<close>

text \<open>
  C19. No sibling waits for a handler that is not running: when a turn of a plugin's loop in which the handler ran, and returned,
  leaves its plugin marked as preparing, the run failed or found its context canceled, and then the worker
  or the plugin is being stopped. In every other case the mark is gone.
\<close>
theorem turn_leaves_no_mark:
  assumes "handler_run f home auth api_of e dbs fuel now debug path sch p hs = Some (Go err, hs')"
    and "plugin_turn now' drain i p (ran e err hs') st = (pos, st')" and "pos \<noteq> Crashed"
    and "map_option Preparing (own_global p (lGlobals st)) = Some False"
  shows "map_option Preparing (own_global p (lGlobals st')) \<noteq> Some True \<or> lWorkerCanceled st' \<or> lPluginCanceled st'"
  using assms(2,3)
proof (cases rule: plugin_turn_cases)
  case 1
  then show ?thesis using assms(4) by auto
next
  case 2
  note ends = run_once_ends [OF 2 assms(3)]
  from handler_run_ends [OF assms(1)] show ?thesis using ends by cases auto
qed

lemma sample_run_env: "run_env (\<lambda>_. quiet_api) (sample_env n) (sample_plugin n) (mem_db 3) w = sample_env n"
  by (simp add: run_env_def sample_env_def GetQueueOwner_def sample_plugin_def zero_Plugin_def)

lemma sample_validates: "validate_run f home (sample_plugin n) = Inr (sample_plugin n)"
  by (simp add: validate_run_def sample_plugin_def zero_Plugin_def ValidateGitHubScope_def ValidateEnterpriseGitHubCredentials_def
      IsEnterpriseScope_def GitHubScope_of_def)

lemma first_handler_run:
  "handler_run f home token_auth (\<lambda>_. quiet_api) (sample_env ''one'') (Inr (mem_db 3)) 3 0 False [] one_turn (sample_plugin ''one'') before_run =
     Some (Go None, checked\<lparr>JobChannel := [finish_job], hGlobals := two_globals False False True False True 1 0\<rparr>)"
proof -
  have "entered\<lparr>hDB := hDB entered\<rparr> = entered" by simp
  moreover have "RunError checked = None" by (simp add: checked_def entered_def sample_state_def)
  ultimately show ?thesis by (simp add: handler_run_def first_enters sample_validates sample_run_env first_run_ends)
qed

definition idle_loop :: "'w \<Rightarrow> bool \<Rightarrow> 'w Loop" where
  "idle_loop world once = \<lparr>lGlobals = two_globals False False True False False 1 1,
     lMetrics = \<lparr>TotalRunningVMs = 0, TotalSuccessfulRuns = 0, TotalFailedRuns = 0, TotalCanceledRuns = 0, Usage = zero_usage, MetricsPlugins = []\<rparr>,
     lWorkerCanceled = False, lPluginCanceled = False, lToRunOnce = once, lQuit = False, lWorld = world\<rparr>"

lemma no_status: "MetricsPlugins (lMetrics st) = [] \<Longrightarrow> set_plugin_status n p x st = Ret st"
  by (simp add: set_plugin_status_def SetStatus_def)

lemma turn_leaves_no_mark_witness:
  "let st' = snd (plugin_turn 5 False 0 (sample_plugin ''one'')
       (ran (sample_env ''one'') None (checked\<lparr>JobChannel := [finish_job], hGlobals := two_globals False False True False True 1 0\<rparr>)) (idle_loop before_run False))
   in map_option Preparing (own_global (sample_plugin ''one'') (lGlobals st')) \<noteq> Some True \<or> lWorkerCanceled st' \<or> lPluginCanceled st'"
proof -
  let ?run = "ran (sample_env ''one'') None (checked\<lparr>JobChannel := [finish_job], hGlobals := two_globals False False True False True 1 0\<rparr>)"
  obtain pos st' where t: "plugin_turn 5 False 0 (sample_plugin ''one'') ?run (idle_loop before_run False) = (pos, st')" by fastforce
  have "waits_for_paused 0 (sample_plugin ''one'') (two_globals False False True False False 1 1) = Ret False"
      "\<not> sibling_preparing (sample_plugin ''one'') (two_globals False False True False False 1 1)"
    by (simp_all add: two_simps)
  then have "pos \<noteq> Crashed"
    using t by (auto simp: plugin_turn_def idle_loop_def after_pause_def run_once_def go_on_def no_status ran_def split: if_splits)
  moreover have "map_option Preparing (own_global (sample_plugin ''one'') (lGlobals (idle_loop before_run False))) = Some False"
    by (simp add: idle_loop_def two_simps)
  ultimately show ?thesis
    using turn_leaves_no_mark [OF first_handler_run t] by (simp add: t)
qed

section \<open>Shutdown\<close>

text \<open>
  C37. A graceful shutdown is not graceful with several plugins: the signal \<open>SIGQUIT\<close> itself cancels
  nothing, but the first plugin whose run ends without error after it cancels the context of the worker in its
  next turn, and with it the runs of all other plugins.
\<close>
theorem graceful_shutdown_cancels:
  assumes "exited w = None" "\<not> workerCanceled w"
    and "lToRunOnce st2 = toRunOnce (on_signal SIGQUIT w)"
    and "\<not> lPluginCanceled st" "waits_for_paused index p (lGlobals st) = Ret False" "\<not> sibling_preparing p (lGlobals st)"
    and "set_plugin_status now p (steadyStatus drain p) st = Ret st1"
    and "run_it (st1\<lparr>lGlobals := IncrementPluginRunCount (lGlobals st1) (PName p)\<rparr>) = (None, st2)"
    and "plugin_turn now drain index p run_it st = (pos, st3)"
    and "set_plugin_status now' p ''stopped'' st3 = Ret st4"
  shows "\<not> workerCanceled (on_signal SIGQUIT w) \<and> pos = AtTop
      \<and> plugin_turn now' drain index p run_it st3 = (Returned_from_loop, cancel_both st4) \<and> lWorkerCanceled (cancel_both st4)"
proof -
  have "lToRunOnce st2" using assms(1,3) by (simp add: on_signal_def)
  then have "(pos, st3) = (AtTop, st2\<lparr>lPluginCanceled := True\<rparr>)"
    using assms(4-9) by (simp add: plugin_turn_def after_pause_def run_once_def go_on_def)
  then show ?thesis using assms(1,2,10) by (simp add: plugin_turn_def on_signal_def go_on_def cancel_both_def)
qed

definition quit_worker :: Worker where
  "quit_worker = \<lparr>wGlobals = two_globals False False True False False 1 1, toRunOnce = False, sigCount = 0, workerCanceled = False, exited = None\<rparr>"

abbreviation quit_loop :: "bool \<Rightarrow> unit Loop" where
  "quit_loop \<equiv> idle_loop ()"

lemma graceful_shutdown_cancels_witness:
  "let run_it = (\<lambda>st. (None, st\<lparr>lToRunOnce := toRunOnce (on_signal SIGQUIT quit_worker)\<rparr>));
       st3 = snd (plugin_turn 5 False 0 (sample_plugin ''one'') run_it (quit_loop False))
   in lWorkerCanceled (snd (plugin_turn 6 False 0 (sample_plugin ''one'') run_it st3))"
proof -
  have waits: "waits_for_paused 0 (sample_plugin ''one'') (lGlobals (quit_loop False)) = Ret False"
      "\<not> sibling_preparing (sample_plugin ''one'') (lGlobals (quit_loop False))"
    by (simp_all add: idle_loop_def two_simps)
  let ?run = "\<lambda>st. (None :: gerror option, st\<lparr>lToRunOnce := toRunOnce (on_signal SIGQUIT quit_worker)\<rparr>)"
  obtain pos st3 where t: "plugin_turn 5 False 0 (sample_plugin ''one'') ?run (quit_loop False) = (pos, st3)" by fastforce
  then have m: "MetricsPlugins (lMetrics st3) = []"
    using waits by (auto simp: plugin_turn_def idle_loop_def after_pause_def run_once_def go_on_def no_status split: if_splits)
  have "exited quit_worker = None" "\<not> workerCanceled quit_worker" "\<not> lPluginCanceled (quit_loop False)" "MetricsPlugins (lMetrics (quit_loop False)) = []"
    by (simp_all add: quit_worker_def idle_loop_def)
  then show ?thesis
    using graceful_shutdown_cancels [OF _ _ _ _ waits no_status refl t no_status [OF m], where w = quit_worker and now' = 6]
    by (simp add: Let_def t)
qed

text \<open>
  An aggregator that is asked to stop gracefully never stops: after any number of \<open>SIGQUIT\<close>
  signals its loop goes round without waiting and without an end, until it is interrupted otherwise.
\<close>
theorem aggregator_spins:
  assumes "exited w = None" "\<not> workerCanceled w"
  shows "aggregator_turn (fold on_signal (replicate (Suc n) SIGQUIT) w) = AggregatorSpins"
proof -
  have "exited v = None \<and> \<not> workerCanceled v \<Longrightarrow> toRunOnce v \<Longrightarrow>
      aggregator_turn (fold on_signal (replicate n SIGQUIT) v) = AggregatorSpins" for v
    by (induction n arbitrary: v) (simp_all add: aggregator_turn_def on_signal_def)
  then show ?thesis using assms by (simp add: on_signal_def)
qed

lemma aggregator_spins_witness: "aggregator_turn (on_signal SIGQUIT (on_signal SIGQUIT quit_worker)) = AggregatorSpins"
  using aggregator_spins [of quit_worker 1] by (simp add: quit_worker_def)

text \<open>
  What a sequence of signals comes to: one interrupt cancels the worker, the second ends the
  process with status 1, any signal has the handlers return their jobs, and \<open>SIGQUIT\<close> asks for one last run.
\<close>
theorem signals_counted:
  assumes "exited w = None" "\<not> workerCanceled w" "sigCount w = 0"
  shows "let w' = fold on_signal sigs w; n = length (filter (\<lambda>s. s \<noteq> SIGQUIT) sigs) in
      exited w' = (if n \<ge> 2 then Some 1 else None) \<and> workerCanceled w' = (n \<ge> 1)
      \<and> (n < 2 \<longrightarrow> toRunOnce w' = (toRunOnce w \<or> SIGQUIT \<in> set sigs))
      \<and> ReturnAllToMainQueue (wGlobals w') = (ReturnAllToMainQueue (wGlobals w) \<or> sigs \<noteq> [])"
proof (induction sigs rule: rev_induct)
  case Nil
  then show ?case using assms by simp
next
  case (snoc s sigs)
  define v where "v = fold on_signal sigs w"
  define n where "n = length (filter (\<lambda>s. s \<noteq> SIGQUIT) sigs)"
  have "exited (fold on_signal ss w) = None \<Longrightarrow> sigCount (fold on_signal ss w) = length (filter (\<lambda>s. s \<noteq> SIGQUIT) ss)" for ss
    using assms(1,3) by (induction ss rule: rev_induct) (auto simp: on_signal_def Let_def split: if_splits)
  then have c: "exited v = None \<Longrightarrow> sigCount v = n" by (simp add: v_def n_def)
  have ih: "exited v = (if n \<ge> 2 then Some 1 else None)" "workerCanceled v = (n \<ge> 1)"
      "n < 2 \<Longrightarrow> toRunOnce v = (toRunOnce w \<or> SIGQUIT \<in> set sigs)"
      "ReturnAllToMainQueue (wGlobals v) = (ReturnAllToMainQueue (wGlobals w) \<or> sigs \<noteq> [])"
    using snoc by (simp_all add: v_def n_def Let_def)
  have n: "length (filter (\<lambda>s. s \<noteq> SIGQUIT) (sigs @ [s])) = (if s = SIGQUIT then n else Suc n)" by (simp add: n_def)
  have ne: "n \<ge> 1 \<Longrightarrow> sigs \<noteq> []" by (auto simp: n_def)
  consider "n \<ge> 2" | "n = 1" | "n = 0" by linarith
  then have "let w' = on_signal s v; k = (if s = SIGQUIT then n else Suc n) in
      exited w' = (if k \<ge> 2 then Some 1 else None) \<and> workerCanceled w' = (k \<ge> 1)
      \<and> (k < 2 \<longrightarrow> toRunOnce w' = (toRunOnce w \<or> SIGQUIT \<in> set (sigs @ [s])))
      \<and> ReturnAllToMainQueue (wGlobals w') = (ReturnAllToMainQueue (wGlobals w) \<or> sigs @ [s] \<noteq> [])"
  proof cases
    case 1
    then show ?thesis using ih(1,2,4) ne by (simp add: on_signal_def)
  next
    case 2
    then show ?thesis using ih c ne by (cases s) (simp_all add: on_signal_def)
  next
    case 3
    then show ?thesis using ih c by (cases s) (simp_all add: on_signal_def)
  qed
  then show ?case unfolding n by (simp add: v_def)
qed

lemma signals_counted_witness:
  "exited (fold on_signal [SIGINT, SIGQUIT, SIGTERM] quit_worker) = Some 1 \<and> workerCanceled (fold on_signal [SIGQUIT, SIGINT] quit_worker)"
  using signals_counted [of quit_worker "[SIGINT, SIGQUIT, SIGTERM]"] signals_counted [of quit_worker "[SIGQUIT, SIGINT]"]
  by (simp add: quit_worker_def Let_def)

section \<open>Settings\<close>

text \<open>
  The settings of retries are not passed on: whatever the configuration of the plugin and the
  global one say, the client of a plugin's database retries five times, from a second, with a factor of two;
  and the global template buffer is not used for the default of a plugin.
\<close>
theorem retry_settings_are_ignored:
  assumes "plugin_database cfg p = Some d"
  shows "MaxRetries (configure d rdb) = 5 \<and> RetryDelay (configure d rdb) = second \<and> RetryBackoffFactor (configure d rdb) = 2
      \<and> plugin_database (cfg\<lparr>GlobalDatabaseMaxRetries := n, GlobalDatabaseRetryDelay := k, GlobalDatabaseRetryBackoffFactor := q\<rparr>) p = Some d
      \<and> default_plugin (cfg\<lparr>GlobalTemplateDiskBuffer := b\<rparr>) p = default_plugin cfg p"
proof -
  have d: "d = merged_database cfg (PDatabase p)" "GlobalDatabaseURL cfg \<noteq> [] \<or> DBURL (PDatabase p) \<noteq> []"
    using assms by (auto simp: plugin_database_def split: if_splits)
  have "DBMaxRetries d = 0" "DBRetryDelay d = 0" "DBRetryBackoffFactor d = 0"
    by (simp_all add: d(1) merged_database_def zero_DBConfig_def)
  moreover have "plugin_database (cfg\<lparr>GlobalDatabaseMaxRetries := n, GlobalDatabaseRetryDelay := k, GlobalDatabaseRetryBackoffFactor := q\<rparr>) p = Some d"
    using d(2) by (simp add: d(1) plugin_database_def merged_database_def)
  moreover have "default_plugin (cfg\<lparr>GlobalTemplateDiskBuffer := b\<rparr>) p = default_plugin cfg p" by (simp add: default_plugin_def)
  ultimately show ?thesis by (simp add: configure_def millisecond_def second_def)
qed

lemma retry_settings_are_ignored_witness:
  "let p = zero_Plugin\<lparr>PDatabase := zero_DBConfig\<lparr>DBURL := ''redis'', DBMaxRetries := 9\<rparr>\<rparr>
   in map_option (\<lambda>d. MaxRetries (configure d mem_client)) (plugin_database zero_Config p) = Some 5"
proof -
  let ?p = "zero_Plugin\<lparr>PDatabase := zero_DBConfig\<lparr>DBURL := ''redis'', DBMaxRetries := 9\<rparr>\<rparr>"
  obtain d where d: "plugin_database zero_Config ?p = Some d"
    by (simp add: plugin_database_def zero_Config_def zero_Plugin_def)
  from retry_settings_are_ignored [OF d, of mem_client] show ?thesis by (simp add: d Let_def)
qed

text \<open>
  Whether the totals are left out of the Prometheus text is decided by the last plugin alone:
  with a receiver as the last plugin the text of the worker has the lines of its plugins and of its host, and
  no totals, even when other plugins are handlers.
\<close>
theorem last_receiver_hides_totals:
  assumes "contains (PPlugin p) ''_receiver''"
    and "handlePrometheusMetrics rfc fmt (soloReceiver (ps @ [p])) m = Ret ls"
  shows "\<exists>entries. entries_lines rfc (MetricsPlugins m) = Ret entries \<and> ls = entries @ host_lines fmt (Usage m)"
  using assms by (auto simp: soloReceiver_def handlePrometheusMetrics_def split: go.splits)

lemma last_receiver_hides_totals_witness:
  "\<exists>entries. entries_lines (\<lambda>t. []) (MetricsPlugins (lMetrics (quit_loop False))) = Ret entries
     \<and> handlePrometheusMetrics (\<lambda>t. []) (\<lambda>q. []) (soloReceiver [sample_plugin ''one'', zero_Plugin\<lparr>PPlugin := ''github_receiver''\<rparr>]) (lMetrics (quit_loop False)) =
         Ret (entries @ host_lines (\<lambda>q. []) zero_usage)"
proof -
  let ?m = "lMetrics (quit_loop False)"
  obtain ls where ls: "handlePrometheusMetrics (\<lambda>t. []) (\<lambda>q. []) (soloReceiver ([sample_plugin ''one''] @ [zero_Plugin\<lparr>PPlugin := ''github_receiver''\<rparr>])) ?m = Ret ls"
    by (simp add: handlePrometheusMetrics_def idle_loop_def)
  have r: "contains (PPlugin (zero_Plugin\<lparr>PPlugin := ''github_receiver''\<rparr>)) ''_receiver''" by (simp add: go_string)
  from last_receiver_hides_totals [OF r ls] ls show ?thesis by (auto simp: idle_loop_def)
qed

section \<open>The license\<close>

text \<open>
  A handler starts without a valid license when the question for it is answered with a status
  that is not \<open>OK\<close> and no error: the client is nil then, which the start does not notice.
\<close>
theorem unknown_license_is_accepted:
  assumes "ExecuteParseJson cli [''anka'', ''-j'', ''version''] h = ((Some v, None), h1)" "AStatus v = ''OK''" "ABody v = JObj [(''version'', JStr ver)]"
    and "ExecuteParseJson cli [''anka'', ''-j'', ''license'', ''show''] h1 = ((Some l, None), h2)" "AStatus l \<noteq> ''OK''"
    and "\<not> AnyHostToGuestFolderMountsConfigured cfg" "hTracker h \<noteq> []"
  shows "start_handler cfg amd64 cli None p h = (Ret (Inr p), h2)"
proof -
  have "hTracker h2 = hTracker h"
    using ExecuteParseJson_state [OF assms(1)] ExecuteParseJson_state [OF assms(4)] by simp
  then show ?thesis using assms
    by (simp add: start_handler_def NewCLI_def ask_cli_def answer_def text_of_def check_mounts_def discover_templates_def)
qed

definition unlicensed :: "string list \<Rightarrow> (string \<times> json) list" where
  "unlicensed args = (if ''version'' \<in> set args then doc ''OK'' [] (JObj [(''version'', JStr ''3.9.0'')])
     else doc ''ERROR'' ''no license'' JNull)"

lemma unlicensed_answers:
  "''version'' \<in> set args \<Longrightarrow> ExecuteParseJson (answering_cli unlicensed) args h =
     ((Some \<lparr>AStatus = ''OK'', ACode = 0, ABody = JObj [(''version'', JStr ''3.9.0'')], AMessage = []\<rparr>, None), h\<lparr>hWorld := Suc (hWorld h)\<rparr>)"
  "''version'' \<notin> set args \<Longrightarrow> ExecuteParseJson (answering_cli unlicensed) args h =
     ((Some \<lparr>AStatus = ''ERROR'', ACode = 0, ABody = JNull, AMessage = ''no license''\<rparr>, None), h\<lparr>hWorld := Suc (hWorld h)\<rparr>)"
  using answer_doc [of unlicensed args "''OK''" "[]" "JObj [(''version'', JStr ''3.9.0'')]" h]
    answer_doc [of unlicensed args "''ERROR''" "''no license''" JNull h]
  by (simp_all add: unlicensed_def)

lemma unknown_license_is_accepted_witness:
  "fst (start_handler zero_Config False (answering_cli unlicensed) None (sample_plugin ''one'') (host [(''a'', idle ''a'')])) =
     Ret (Inr (sample_plugin ''one''))"
proof -
  let ?h = "host [(''a'', idle ''a'')]"
  have v: "ExecuteParseJson (answering_cli unlicensed) [''anka'', ''-j'', ''version''] ?h =
      ((Some \<lparr>AStatus = ''OK'', ACode = 0, ABody = JObj [(''version'', JStr ''3.9.0'')], AMessage = []\<rparr>, None), ?h\<lparr>hWorld := Suc (hWorld ?h)\<rparr>)"
    by (rule unlicensed_answers) simp
  have l: "ExecuteParseJson (answering_cli unlicensed) [''anka'', ''-j'', ''license'', ''show''] (?h\<lparr>hWorld := Suc (hWorld ?h)\<rparr>) =
      ((Some \<lparr>AStatus = ''ERROR'', ACode = 0, ABody = JNull, AMessage = ''no license''\<rparr>, None), ?h\<lparr>hWorld := Suc (Suc (hWorld ?h))\<rparr>)"
    by (subst unlicensed_answers) simp_all
  have "\<not> AnyHostToGuestFolderMountsConfigured zero_Config" by (simp add: AnyHostToGuestFolderMountsConfigured_def zero_Config_def)
  from unknown_license_is_accepted [OF v _ _ l _ this] show ?thesis by simp
qed

end
