(* ===== verification/PluginSetup.thy ===== *)
theory PluginSetup
  imports Worker MetricsExport
begin

text \<open>
  The goroutine of a plugin from its start to its loop (\<open>main.go\<close>): the checks and the command line of
  \<open>Worker\<close>, the connection to the database, the entry in the metrics, the export the first plugin starts, and what is
  deferred until it leaves. Any failure cancels the worker. Connecting is a parameter.
\<close>

section \<open>The start of the process\<close>

text \<open>
  \<open>LoadConfig\<close>: opening, decoding (the YAML library) and closing the file are parameters; the file is closed before
  the result is returned, and a failure of that is a panic.
\<close>

definition LoadConfig :: "(string \<Rightarrow> 'f result) \<Rightarrow> ('f \<Rightarrow> Config result) \<Rightarrow> ('f \<Rightarrow> gerror option) \<Rightarrow> string \<Rightarrow> Config result go" where
  "LoadConfig open_file decode close configPath = (case open_file configPath of
     Inl e \<Rightarrow> Ret (Inl e)
   | Inr file \<Rightarrow> if close file \<noteq> None then Panic else Ret (decode file))"

text \<open>
  \<open>main\<close> up to the worker: the configuration from its file, the environment and the defaults, the path of the
  plugins, what the machine has, and the globals, with every plugin paused (the first thing the worker does). Any error ends
  the process with status 1.
\<close>

definition plugins_path :: "string \<Rightarrow> Config \<Rightarrow> string" where
  "plugins_path homeDir cfg = (if PluginsPath cfg \<noteq> [] then PluginsPath cfg else homeDir @ ''/.config/anklet/plugins'')"

definition start_main :: "string result \<Rightarrow> string \<Rightarrow> string \<Rightarrow> (string \<Rightarrow> Config result go) \<Rightarrow> string list \<Rightarrow> (string \<Rightarrow> bool) \<Rightarrow>
    bool \<Rightarrow> bool \<Rightarrow> int result \<Rightarrow> 64 word result \<Rightarrow> (Config \<times> Globals) result go" where
  "start_main homeDir flag envName load env present once debug cpus memory = (case homeDir of
     Inl e \<Rightarrow> Ret (Inl e)
   | Inr home \<Rightarrow> (case load (fst (config_path home flag envName)) of
       Panic \<Rightarrow> Panic
     | Ret r \<Rightarrow> Ret (bind_result r (\<lambda>c0. bind_result (LoadInEnvs env c0) (\<lambda>c1. bind_result (worker_config present c1) (\<lambda>cfg.
         bind_result cpus (\<lambda>n. bind_result memory (\<lambda>m.
           Inr (cfg, pause_all (initial_globals once (plugins_path home cfg) debug n m (Plugins cfg)))))))))))"

section \<open>Operations\<close>

definition githubPluginExists :: "Plugin list \<Rightarrow> bool" where
  "githubPluginExists ps = fold (\<lambda>p found. found \<or> PPlugin p = ''github'' \<or> PPlugin p = ''github_receiver'') ps False"

record 's Setup =
  uHost :: "'s Host"
  uMetrics :: MetricsData
  uWorkerCanceled :: bool
  uPluginCanceled :: bool

definition stop_both :: "'s Setup \<Rightarrow> 's Setup" where
  "stop_both u = u\<lparr>uWorkerCanceled := True, uPluginCanceled := True\<rparr>"

definition open_database :: "(DBConfig \<Rightarrow> 'd result) \<Rightarrow> Config \<Rightarrow> Plugin \<Rightarrow> 'd option result" where
  "open_database connect cfg p = (case plugin_database cfg p of None \<Rightarrow> Inr None | Some d \<Rightarrow> map_sum id Some (connect d))"

definition plugin_setup :: "Config \<Rightarrow> bool \<Rightarrow> gerror option \<Rightarrow> 's Cli \<Rightarrow> gerror option \<Rightarrow> (DBConfig \<Rightarrow> 'd result) \<Rightarrow> int \<Rightarrow>
    Plugin \<Rightarrow> 's Setup \<Rightarrow> (Plugin \<times> 'd option) result go \<times> 's Setup" where
  "plugin_setup cfg amd64 logFile cli anka connect now p u =
     (case start_plugin cfg amd64 logFile cli anka p (uHost u) of (r, h) \<Rightarrow>
       (let u1 = u\<lparr>uHost := h\<rparr> in
        case r of
          Panic \<Rightarrow> (Panic, u1)
        | Ret (Inl e) \<Rightarrow> (Ret (Inl e), stop_both u1)
        | Ret (Inr p1) \<Rightarrow> (case open_database connect cfg p1 of
            Inl e \<Rightarrow> (Ret (Inl e), stop_both u1)
          | Inr db \<Rightarrow> (case register_plugin now p1 (uMetrics u1) of
              Panic \<Rightarrow> (Panic, u1)
            | Ret (Some e, m) \<Rightarrow> (Ret (Inl e), stop_both (u1\<lparr>uMetrics := m\<rparr>))
            | Ret (None, m) \<Rightarrow> (Ret (Inr (p1, db)), u1\<lparr>uMetrics := m\<rparr>)))))"

text \<open>\<open>ExportMetricsToDB\<close> up to its goroutine: whether there is one, and the key it writes to.\<close>

definition export_starts :: "nat \<Rightarrow> 'd option \<Rightarrow> 's Setup \<Rightarrow> bool" where
  "export_starts index db u \<longleftrightarrow> index = 0 \<and> \<not> uWorkerCanceled u \<and> \<not> uPluginCanceled u \<and> db \<noteq> None"

text \<open>The deferred removal of the export, by the first plugin, with a database that does not repeat commands.\<close>

definition leave_plugin :: "nat \<Rightarrow> 's Ctx \<Rightarrow> 's Database option \<Rightarrow> Plugin \<Rightarrow> 's \<Rightarrow> 's" where
  "leave_plugin index ctx db p s = (case db of
     Some d \<Rightarrow> if index = 0 then metrics_Cleanup ctx (d\<lparr>MaxRetries := 0\<rparr>) (MetricsOwner p) (PName p) s else s
   | None \<Rightarrow> s)"

section \<open>Facts\<close>

lemma githubPluginExists_iff: "githubPluginExists ps \<longleftrightarrow> (\<exists>p\<in>set ps. PPlugin p \<in> {''github'', ''github_receiver''})"
proof -
  have "fold (\<lambda>p found. found \<or> PPlugin p = ''github'' \<or> PPlugin p = ''github_receiver'') ps b \<longleftrightarrow>
      b \<or> (\<exists>p\<in>set ps. PPlugin p \<in> {''github'', ''github_receiver''})" for b
    by (induction ps arbitrary: b) auto
  then show ?thesis by (simp add: githubPluginExists_def)
qed

text \<open>The globals of the process: a fresh entry for every plugin of the configuration, all paused.\<close>

lemma own_add_global:
  "Option.bind (map_of (add_global q m) (PPlugin p)) (\<lambda>ps. map_of ps (PName p)) =
     (if PPlugin q = PPlugin p \<and> PName q = PName p then Some fresh_global
      else Option.bind (map_of m (PPlugin p)) (\<lambda>ps. map_of ps (PName p)))"
  by (auto simp: add_global_def Let_def update_conv' split: option.split)

lemma own_initial:
  "Option.bind (map_of (fold add_global ps m) (PPlugin p)) (\<lambda>qs. map_of qs (PName p)) =
     (if \<exists>q\<in>set ps. PPlugin q = PPlugin p \<and> PName q = PName p then Some fresh_global
      else Option.bind (map_of m (PPlugin p)) (\<lambda>qs. map_of qs (PName p)))"
  by (induction ps arbitrary: m) (auto simp: own_add_global)

lemma map_of_map_snd: "map_of (map (\<lambda>(k, v). (k, f v)) xs) k = map_option f (map_of xs k)"
  by (induction xs) auto

lemma own_pause_all: "own_global p (pause_all g) = map_option (\<lambda>s. s\<lparr>Paused := True\<rparr>) (own_global p g)"
  by (cases "map_of (GPlugins g) (PPlugin p)") (simp_all add: own_global_def pause_all_def map_of_map_snd)

lemma start_main_globals:
  assumes "start_main homeDir flag envName load env present once debug cpus memory = Ret (Inr (cfg, g))"
  shows "own_global p g = (if \<exists>q\<in>set (Plugins cfg). PPlugin q = PPlugin p \<and> PName q = PName p
      then Some (fresh_global\<lparr>Paused := True\<rparr>) else None) \<and>
    RunPluginsOnce g = once \<and> \<not> ReturnAllToMainQueue g \<and> QueueTargetIndex g = 0"
proof -
  obtain path n m where g: "g = pause_all (initial_globals once path debug n m (Plugins cfg))"
    using assms by (auto simp: start_main_def split: sum.splits go.splits)
  have "own_global p (initial_globals once path debug n m (Plugins cfg)) =
      (if \<exists>q\<in>set (Plugins cfg). PPlugin q = PPlugin p \<and> PName q = PName p then Some fresh_global else None)"
    using own_initial [of "Plugins cfg" "[]" p] by (simp add: own_global_def initial_globals_def)
  then show ?thesis by (simp add: g own_pause_all) (simp add: pause_all_def initial_globals_def)
qed

text \<open>The entries the worker itself adds: full ones with a base.\<close>

definition entries_ok :: "MetricsData \<Rightarrow> bool" where
  "entries_ok m \<longleftrightarrow> list_all (\<lambda>x. \<exists>n. entry_name x = Ret (Inr n)) (MetricsPlugins m)"

lemma named_entry_ok:
  "list_all (\<lambda>x. \<exists>n. entry_name x = Ret (Inr n)) xs \<Longrightarrow>
     named_entry name xs = Ret (Inr (\<exists>x\<in>set xs. entry_name x = Ret (Inr name)))"
  by (induction xs) auto

lemma register_plugin_ok:
  assumes "entries_ok m"
  obtains m' where "register_plugin now p m = Ret (None, m')" "entries_ok m'"
    "named_entry (PName p) (MetricsPlugins m') = Ret (Inr True)"
    "named_entry (PName p) (MetricsPlugins m) = Ret (Inr True) \<Longrightarrow> m' = m"
proof (cases "\<exists>x\<in>set (MetricsPlugins m). entry_name x = Ret (Inr (PName p))")
  case True
  have "register_plugin now p m = Ret (None, m)"
    using assms True by (simp add: register_plugin_def AddPlugin_def entries_ok_def named_entry_ok)
  moreover have "named_entry (PName p) (MetricsPlugins m) = Ret (Inr True)"
    using assms True by (simp add: entries_ok_def named_entry_ok)
  ultimately show ?thesis using assms that by blast
next
  case False
  let ?x = "FullEntry (zero_MetricsPlugin\<lparr>Base := Some \<lparr>BName = PName p, BPluginName = PPlugin p,
     BRepoName = PRepo p, BOwnerName = MetricsOwner p, BStatus = ''idle'', BStatusSince = Some now\<rparr>\<rparr>)"
  let ?m = "m\<lparr>MetricsPlugins := MetricsPlugins m @ [?x]\<rparr>"
  have r: "register_plugin now p m = Ret (None, ?m)"
    using assms False by (simp add: register_plugin_def AddPlugin_def entries_ok_def named_entry_ok)
  have ok: "entries_ok ?m" using assms by (simp add: entries_ok_def)
  have "named_entry (PName p) (MetricsPlugins ?m) = Ret (Inr True)"
    using ok unfolding entries_ok_def by (subst named_entry_ok) simp_all
  moreover have "named_entry (PName p) (MetricsPlugins m) \<noteq> Ret (Inr True)"
    using assms False by (simp add: entries_ok_def named_entry_ok)
  ultimately show ?thesis using that [OF r ok] by blast
qed

lemma start_plugin_ready:
  "start_plugin cfg amd64 logFile cli anka p h = (Ret (Inr q), h') \<Longrightarrow>
     q = default_credentials cfg p \<and> PName p \<noteq> [] \<and> \<not> contains (PName p) '' ''"
  by (auto simp: start_plugin_def start_handler_def Let_def split: if_splits option.splits prod.splits go.splits sum.splits)

lemma default_credentials_names [simp]:
  "PName (default_credentials cfg p) = PName p" "PPlugin (default_credentials cfg p) = PPlugin p"
  "GetQueueOwner (default_credentials cfg p) = GetQueueOwner p" "MetricsOwner (default_credentials cfg p) = MetricsOwner p"
  "PDatabase (default_credentials cfg p) = PDatabase p"
  by (simp_all add: default_credentials_def Let_def GetQueueOwner_def MetricsOwner_def)

lemma plugin_setup_cases:
  assumes "plugin_setup cfg amd64 logFile cli anka connect now p u = (Ret r, u')" "entries_ok (uMetrics u)"
  shows "case r of
      Inl e \<Rightarrow> uWorkerCanceled u' \<and> uPluginCanceled u' \<and> uMetrics u' = uMetrics u
    | Inr (q, db) \<Rightarrow> q = default_credentials cfg p \<and> PName p \<noteq> [] \<and> (db = None \<longleftrightarrow> plugin_database cfg p = None) \<and>
        uWorkerCanceled u' = uWorkerCanceled u \<and> uPluginCanceled u' = uPluginCanceled u \<and> entries_ok (uMetrics u') \<and>
        named_entry (PName p) (MetricsPlugins (uMetrics u')) = Ret (Inr True) \<and>
        (named_entry (PName p) (MetricsPlugins (uMetrics u)) = Ret (Inr True) \<longrightarrow> uMetrics u' = uMetrics u)"
proof -
  obtain r1 h where st: "start_plugin cfg amd64 logFile cli anka p (uHost u) = (r1, h)" by fastforce
  show ?thesis
  proof (cases "\<exists>q. r1 = Ret (Inr q)")
    case False
    then obtain e where "r1 = Ret (Inl e)" using assms(1) st by (cases r1; auto simp: plugin_setup_def Let_def) (metis sum.exhaust)
    then show ?thesis using assms st by (auto simp: plugin_setup_def Let_def stop_both_def)
  next
    case True
    then have q: "r1 = Ret (Inr (default_credentials cfg p))" "PName p \<noteq> []"
      using start_plugin_ready [of cfg amd64 logFile cli anka p "uHost u"] st by blast+
    obtain m where m: "register_plugin now (default_credentials cfg p) (uMetrics u) = Ret (None, m)" "entries_ok m"
      "named_entry (PName p) (MetricsPlugins m) = Ret (Inr True)"
      "named_entry (PName p) (MetricsPlugins (uMetrics u)) = Ret (Inr True) \<Longrightarrow> m = uMetrics u"
      using register_plugin_ok [OF assms(2), of now "default_credentials cfg p"] by auto
    have db: "open_database connect cfg (default_credentials cfg p) = Inr d \<Longrightarrow> d = None \<longleftrightarrow> plugin_database cfg p = None" for d
      by (auto simp: open_database_def plugin_database_def map_sum_Inr split: if_splits option.splits)
    show ?thesis using assms(1) st q m db
      by (auto simp: plugin_setup_def Let_def stop_both_def split: sum.splits)
  qed
qed

end
