(* ===== verification/Start_Properties.thy ===== *)
theory Start_Properties
  imports ReceiverRun PluginSetup Aggregator Samples Anka_Samples
begin

text \<open>What holds of the start of plugins, and of receivers among them.\<close>

text \<open>
  One process holds one receiver: the routes are registered on the multiplexer all servers of the process share, so once a
  receiver has started, no other ever becomes ready, whatever its port, its configuration and what
  was started in between: it is refused, its search for the installation never ends, or it panics.
\<close>
theorem one_receiver_per_process:
  assumes "start_receiver f home auth ctx dbs p r = Some (Ret (Inr pw), r1)" and "set (rMux r1) \<subseteq> set (rMux r2)"
    and "start_receiver f' home' auth' ctx' dbs' p' r2 = Some (out, r3)"
  shows "out = Panic \<or> (\<exists>e. out = Ret (Inl e))"
proof -
  have "set receiver_routes \<subseteq> set (rMux r2)" using ready_has_routes [OF assms(1)] assms(2) by blast
  then have "''/jobs'' \<in> set (rMux r2)" by (auto simp: receiver_routes_def)
  then have "handle_all receiver_routes (rMux r2) = Panic" by (intro handle_again [of "''/jobs''"]) (auto simp: receiver_routes_def)
  then show ?thesis using assms(3) by (auto simp: start_receiver_def split: sum.splits option.splits prod.splits)
qed

definition sample_receiver :: "string \<Rightarrow> Plugin" where
  "sample_receiver port = zero_Plugin\<lparr>PName := ''receiver'', PPlugin := ''github_receiver'', POwner := ''veertu'', PSecret := ''s'', PToken := ''t'', PPort := port\<rparr>"

definition start_sample :: "string \<Rightarrow> mem ReceiverState \<Rightarrow> ((Plugin \<times> bool) result go \<times> mem ReceiverState) option" where
  "start_sample port = start_receiver ''config.yml'' (Inr ''/root'')
     (\<lambda>p s. Some (Inr \<lparr>wclient = TokenClient ''t'', appsTransport = False, orgClients = []\<rparr>, s)) mem_ctx (Inr (mem_db 0)) (sample_receiver port)"

definition first_receiver :: "mem ReceiverState" where
  "first_receiver = \<lparr>rMux = [], rGlobals = small_host, rDB = mem_init []\<rparr>"

lemma first_starts: "\<exists>r1. start_sample ''54321'' first_receiver = Some (Ret (Inr (sample_receiver ''54321'', True)), r1)"
  by (simp add: start_sample_def start_receiver_def validate_receiver_def sample_receiver_def zero_Plugin_def receiver_client_def
      ValidateGitHubScope_def IsEnterpriseScope_def GitHubScope_of_def receiver_routes_def HandleFunc_def receiver_ready_def first_receiver_def mem_simps)

lemma sample_returns: "start_sample port r \<noteq> None"
  by (auto simp: start_sample_def start_receiver_def receiver_client_def split: sum.splits go.splits prod.splits option.split)

lemma one_receiver_per_process_witness:
  "\<exists>r1 out r2. start_sample ''54321'' first_receiver = Some (Ret (Inr (sample_receiver ''54321'', True)), r1) \<and>
     start_sample ''54322'' r1 = Some (out, r2) \<and> (out = Panic \<or> (\<exists>e. out = Ret (Inl e)))"
proof -
  obtain r1 where r1: "start_sample ''54321'' first_receiver = Some (Ret (Inr (sample_receiver ''54321'', True)), r1)"
    using first_starts by blast
  obtain out r2 where r2: "start_sample ''54322'' r1 = Some (out, r2)" using sample_returns [of "''54322''" r1] by fastforce
  have "out = Panic \<or> (\<exists>e. out = Ret (Inl e))"
    by (rule one_receiver_per_process [OF r1 [unfolded start_sample_def] subset_refl r2 [unfolded start_sample_def]])
  then show ?thesis using r1 r2 by blast
qed

section \<open>The goroutine of a plugin up to its loop\<close>

abbreviation no_plugins :: MetricsData where
  "no_plugins \<equiv> \<lparr>TotalRunningVMs = 0, TotalSuccessfulRuns = 0, TotalFailedRuns = 0, TotalCanceledRuns = 0, Usage = zero_usage, MetricsPlugins = []\<rparr>"

definition setup_sample :: "(DBConfig \<Rightarrow> nat result) \<Rightarrow> string \<Rightarrow> string \<Rightarrow> nat Setup \<Rightarrow> (Plugin \<times> nat option) result go \<times> nat Setup" where
  "setup_sample connect url port = plugin_setup zero_Config False None failing_cli None connect 0
     ((sample_receiver port)\<lparr>PDatabase := zero_DBConfig\<lparr>DBURL := url\<rparr>\<rparr>)"

abbreviation fresh_setup :: "nat Setup" where
  "fresh_setup \<equiv> \<lparr>uHost = host [], uMetrics = no_plugins, uWorkerCanceled = False, uPluginCanceled = False\<rparr>"

lemma start_sample_receiver:
  "start_plugin zero_Config False None failing_cli None ((sample_receiver port)\<lparr>PDatabase := d\<rparr>) h =
     (Ret (Inr ((sample_receiver port)\<lparr>PDatabase := d\<rparr>)), h)"
proof -
  have "default_credentials zero_Config q = q" for q by (simp add: default_credentials_def zero_Config_def)
  moreover have "contains ''github_receiver'' ''_receiver''" "\<not> contains ''receiver'' '' ''" by code_simp+
  ultimately show ?thesis by (simp add: start_plugin_def sample_receiver_def Let_def)
qed

lemma sample_database:
  "plugin_database zero_Config (p\<lparr>PDatabase := zero_DBConfig\<lparr>DBURL := url\<rparr>\<rparr>) =
     (if url = [] then None else Some (merged_database zero_Config (zero_DBConfig\<lparr>DBURL := url\<rparr>)))"
  by (simp add: plugin_database_def zero_Config_def)



text \<open>
  Nothing checks that the names of the plugins differ: two plugins of one owner with the same name both start, have one entry
  in the metrics and work on one queue, and the worker has one set of marks for both if they are of one kind.
\<close>
theorem same_name_shares_queue:
  assumes "plugin_setup cfg a1 l1 cli anka connect n1 p1 u = (Ret (Inr (q1, d1)), u1)" "entries_ok (uMetrics u)"
    and "plugin_setup cfg a2 l2 cli anka connect n2 p2 u1 = (Ret (Inr (q2, d2)), u2)"
    and "PName p1 = PName p2" "GetQueueOwner p1 = GetQueueOwner p2"
  shows "uMetrics u2 = uMetrics u1 \<and> queue_names q1 = queue_names q2 \<and> (PPlugin p1 = PPlugin p2 \<longrightarrow> own_global q1 g = own_global q2 g)"
  using plugin_setup_cases [OF assms(1,2)] plugin_setup_cases [OF assms(3)] assms(4,5)
  by (simp add: queue_names_def Let_def own_global_def)

lemma same_name_shares_queue_witness:
  "\<exists>q1 u1 q2 u2. setup_sample (\<lambda>_. Inr 0) [] ''1'' fresh_setup = (Ret (Inr (q1, None)), u1) \<and>
     setup_sample (\<lambda>_. Inr 0) [] ''2'' u1 = (Ret (Inr (q2, None)), u2) \<and> uMetrics u2 = uMetrics u1 \<and> queue_names q1 = queue_names q2"
proof -
  let ?p = "\<lambda>port. (sample_receiver port)\<lparr>PDatabase := zero_DBConfig\<lparr>DBURL := []\<rparr>\<rparr>"
  have step: "\<exists>m. setup_sample (\<lambda>_. Inr 0) [] port u = (Ret (Inr (?p port, None)), u\<lparr>uMetrics := m\<rparr>) \<and> entries_ok m"
    if ok: "entries_ok (uMetrics u)" for u port
  proof -
    obtain m where "register_plugin 0 (?p port) (uMetrics u) = Ret (None, m)" "entries_ok m"
      using register_plugin_ok [OF ok, of 0 "?p port"] by blast
    then show ?thesis
      by (intro exI [of _ m]) (simp add: setup_sample_def plugin_setup_def start_sample_receiver open_database_def sample_database Let_def)
  qed
  have ok: "entries_ok (uMetrics fresh_setup)" by (simp add: entries_ok_def)
  obtain m1 where 1: "setup_sample (\<lambda>_. Inr 0) [] ''1'' fresh_setup = (Ret (Inr (?p ''1'', None)), fresh_setup\<lparr>uMetrics := m1\<rparr>)" "entries_ok m1"
    using step [OF ok] by blast
  obtain m2 where 2: "setup_sample (\<lambda>_. Inr 0) [] ''2'' (fresh_setup\<lparr>uMetrics := m1\<rparr>) = (Ret (Inr (?p ''2'', None)), fresh_setup\<lparr>uMetrics := m2\<rparr>)"
    using step [of "fresh_setup\<lparr>uMetrics := m1\<rparr>" "''2''"] 1(2) by auto
  have "uMetrics (fresh_setup\<lparr>uMetrics := m2\<rparr>) = uMetrics (fresh_setup\<lparr>uMetrics := m1\<rparr>) \<and> queue_names (?p ''1'') = queue_names (?p ''2'')"
    using same_name_shares_queue [OF 1(1) [unfolded setup_sample_def] ok 2 [unfolded setup_sample_def]]
    by (simp add: sample_receiver_def GetQueueOwner_def)
  then show ?thesis using 1(1) 2 by blast
qed

end
