(* ===== verification/Logging.thy ===== *)
theory Logging
  imports Handler
begin

text \<open>
  \<open>internal/logging/logging.go\<close> and \<open>internal/logging/prettylog.go\<close>: the levels, the attributes
  a context carries, and what a record of the log holds. The attributes of a context are a Go slice, and
  deriving a context may write to the array of the one it is derived from: slices and their arrays are modelled as
  such. How far an array grows when it is full is a parameter, the files and the source position too.
\<close>

section \<open>Levels and loggers\<close>

definition LevelDebug :: int where "LevelDebug = -4"
definition LevelInfo :: int where "LevelInfo = 0"
definition LevelWarn :: int where "LevelWarn = 4"
definition LevelError :: int where "LevelError = 8"

definition IsDebugEnabled :: "string \<Rightarrow> bool" where
  "IsDebugEnabled env = (let logLevel = ToUpper env in
     logLevel = ''DEBUG'' \<or> logLevel = ''DEBUG-PRETTY'' \<or> logLevel = ''DEV'')"

type_synonym attr = "string \<times> json"

datatype sink = PrettyStdout | JsonStdout | JsonFile string

record Logger =
  lSink :: sink
  lLevel :: int
  lAttrs :: "attr list"

definition NewLogger :: "string \<Rightarrow> Logger" where
  "NewLogger env = (let logLevel = ToUpper env in
     if logLevel = ''DEBUG-PRETTY'' \<or> logLevel = ''DEV'' then \<lparr>lSink = PrettyStdout, lLevel = LevelDebug, lAttrs = []\<rparr>
     else \<lparr>lSink = JsonStdout,
       lLevel = (if logLevel = ''DEBUG'' then LevelDebug else if logLevel = ''ERROR'' then LevelError else LevelInfo),
       lAttrs = []\<rparr>)"

definition UpdateLoggerToFile :: "(string \<Rightarrow> gerror option) \<Rightarrow> Logger \<Rightarrow> string \<Rightarrow> string \<Rightarrow> (Logger \<times> string) result" where
  "UpdateLoggerToFile open_file logger filePath sfx =
     (let fileLocation = filePath @ ''anklet'' @ sfx @ ''.log'' in
      case open_file fileLocation of
        Some e \<Rightarrow> Inl e
      | None \<Rightarrow> Inr (\<lparr>lSink = JsonFile fileLocation, lLevel = LevelDebug, lAttrs = lAttrs logger\<rparr>, fileLocation))"

definition With_attrs :: "attr list \<Rightarrow> Logger \<Rightarrow> Logger" where
  "With_attrs attrs l = l\<lparr>lAttrs := lAttrs l @ attrs\<rparr>"

section \<open>The attributes of a context\<close>

text \<open>An array is the list of its cells; a slice its first \<open>slen\<close> cells. A context without attributes is \<open>None\<close>.\<close>

type_synonym arrays = "attr option list list"

record slice =
  sbase :: nat
  slen :: nat

definition cells :: "arrays \<Rightarrow> slice \<Rightarrow> attr option list" where
  "cells h s = h ! sbase s"

definition read_slice :: "arrays \<Rightarrow> slice \<Rightarrow> attr list" where
  "read_slice h s = map the (take (slen s) (cells h s))"

definition read_ctx :: "arrays \<Rightarrow> slice option \<Rightarrow> attr list" where
  "read_ctx h c = (case c of None \<Rightarrow> [] | Some s \<Rightarrow> read_slice h s)"

definition append_attr :: "(nat \<Rightarrow> nat) \<Rightarrow> attr \<Rightarrow> slice \<times> arrays \<Rightarrow> slice \<times> arrays" where
  "append_attr grow a v = (case v of (s, h) \<Rightarrow>
     if slen s < length (cells h s)
     then (s\<lparr>slen := Suc (slen s)\<rparr>, h[sbase s := (cells h s)[slen s := Some a]])
     else (\<lparr>sbase = length h, slen = Suc (slen s)\<rparr>,
           h @ [take (slen s) (cells h s) @ Some a # replicate (grow (length (cells h s)) - Suc (slen s)) None]))"

fun key_index :: "string \<Rightarrow> attr list \<Rightarrow> nat option" where
  "key_index k [] = None"
| "key_index k (a # as) = (if fst a = k then Some 0 else map_option Suc (key_index k as))"

definition put_attr :: "(nat \<Rightarrow> nat) \<Rightarrow> slice \<times> arrays \<Rightarrow> attr \<Rightarrow> slice \<times> arrays" where
  "put_attr grow v a = (case v of (s, h) \<Rightarrow>
     (case key_index (fst a) (read_slice h s) of
        Some i \<Rightarrow> (s, h[sbase s := (cells h s)[i := Some a]])
      | None \<Rightarrow> append_attr grow a (s, h)))"

definition AppendCtx :: "(nat \<Rightarrow> nat) \<Rightarrow> slice option \<Rightarrow> attr list \<Rightarrow> arrays \<Rightarrow> slice option \<times> arrays" where
  "AppendCtx grow c attrs h =
     (if attrs = [] then (c, h)
      else (case c of
        Some s \<Rightarrow> (case foldl (put_attr grow) (s, h) attrs of (s', h') \<Rightarrow> (Some s', h'))
      | None \<Rightarrow> (Some \<lparr>sbase = length h, slen = length attrs\<rparr>, h @ [map Some attrs])))"

section \<open>Records\<close>

text \<open>
  The attributes of the plugin. Its globals make the map; without them the map is nil: it can be
  shown, but a name is a write to it.
\<close>

definition GetPluginAttributes :: "Globals option \<Rightarrow> Plugin option \<Rightarrow> json go" where
  "GetPluginAttributes workerGlobals ctxPlugin = (case workerGlobals of
     None \<Rightarrow> Ret (JObj [])
   | Some g \<Rightarrow> let p = (case ctxPlugin of Some p \<Rightarrow> p | None \<Rightarrow> zero_Plugin);
         more = (if PName p \<noteq> [] then [(''repo'', JStr (PRepo p)), (''owner'', JStr (POwner p)), (''enterprise'', JStr (PEnterprise p)),
            (''plugin'', JStr (PPlugin p)), (''name'', JStr (PName p))] else []) in
       (case own_global p g of
          Some s \<Rightarrow> Ret (JObj ([(''runs'', JNum (uint (PluginRunCount s))), (''paused'', JBool (Paused s)),
            (''finishedInitialRun'', JBool (FinishedInitialRun s)), (''preparing'', JBool (Preparing s))] @ more))
        | None \<Rightarrow> if more = [] then Ret JNull else Panic))"

definition AppendCurrentPluginAttributes :: "(nat \<Rightarrow> nat) \<Rightarrow> Globals option \<Rightarrow> Plugin option \<Rightarrow> slice option \<Rightarrow> arrays \<Rightarrow> (slice option \<times> arrays) go" where
  "AppendCurrentPluginAttributes grow g p c h = (case GetPluginAttributes g p of
     Panic \<Rightarrow> Panic | Ret attributes \<Rightarrow> Ret (AppendCtx grow c [(''attributes'', attributes)] h))"

text \<open>What the handler adds to a record: the attributes of the context, then its own.\<close>

definition ContextHandler_Handle :: "Logger \<Rightarrow> arrays \<Rightarrow> slice option \<Rightarrow> attr list \<Rightarrow> attr list" where
  "ContextHandler_Handle l h c args = args @ read_ctx h c @ lAttrs l"

text \<open>
  One call of \<open>Debug\<close>, \<open>Info\<close>, \<open>Warn\<close> or \<open>Error\<close>: nothing is written below the level of the logger,
  but the attributes of the plugin are put in the context in any case.
\<close>

definition log_at :: "int \<Rightarrow> (nat \<Rightarrow> nat) \<Rightarrow> Logger option \<Rightarrow> Globals option \<Rightarrow> Plugin option \<Rightarrow> json option \<Rightarrow> slice option \<Rightarrow> attr list \<Rightarrow>
    arrays \<Rightarrow> (attr list option \<times> arrays) go" where
  "log_at level grow logger g p source c args h = (case logger of
     None \<Rightarrow> Panic
   | Some l \<Rightarrow> (case AppendCurrentPluginAttributes grow g p c h of
        Panic \<Rightarrow> Panic
      | Ret (c', h') \<Rightarrow> let args' = args @ (case source of None \<Rightarrow> [] | Some v \<Rightarrow> [(''source'', v)]) in
          Ret (if level \<ge> lLevel l then Some (ContextHandler_Handle l h' c' args') else None, h')))"

definition Info :: "(nat \<Rightarrow> nat) \<Rightarrow> Logger option \<Rightarrow> Globals option \<Rightarrow> Plugin option \<Rightarrow> json option \<Rightarrow> slice option \<Rightarrow> attr list \<Rightarrow>
    arrays \<Rightarrow> (attr list option \<times> arrays) go" where
  "Info = log_at LevelInfo"

definition Debug :: "(nat \<Rightarrow> nat) \<Rightarrow> Logger option \<Rightarrow> Globals option \<Rightarrow> Plugin option \<Rightarrow> json option \<Rightarrow> slice option \<Rightarrow> attr list \<Rightarrow>
    arrays \<Rightarrow> (attr list option \<times> arrays) go" where
  "Debug = log_at LevelDebug"

definition Warn :: "(nat \<Rightarrow> nat) \<Rightarrow> Logger option \<Rightarrow> Globals option \<Rightarrow> Plugin option \<Rightarrow> json option \<Rightarrow> slice option \<Rightarrow> attr list \<Rightarrow>
    arrays \<Rightarrow> (attr list option \<times> arrays) go" where
  "Warn = log_at LevelWarn"

definition LogError :: "(nat \<Rightarrow> nat) \<Rightarrow> Logger option \<Rightarrow> Globals option \<Rightarrow> Plugin option \<Rightarrow> json option \<Rightarrow> slice option \<Rightarrow> attr list \<Rightarrow>
    arrays \<Rightarrow> (attr list option \<times> arrays) go" where
  "LogError = log_at LevelError"

definition Dev :: "string \<Rightarrow> (nat \<Rightarrow> nat) \<Rightarrow> Logger option \<Rightarrow> Globals option \<Rightarrow> Plugin option \<Rightarrow> json option \<Rightarrow> slice option \<Rightarrow> attr list \<Rightarrow>
    arrays \<Rightarrow> (attr list option \<times> arrays) go" where
  "Dev env grow logger g p source c args h =
     (if ToUpper env = ''DEV'' \<or> ToUpper env = ''DEBUG-PRETTY'' then Debug grow logger g p source c args h
      else Ret (None, h))"

section \<open>The pretty handler\<close>

definition colorize :: "int \<Rightarrow> string \<Rightarrow> string" where
  "colorize colorCode v = char_of (27::nat) # ''['' @ FormatInt colorCode @ ''m'' @ v @ char_of (27::nat) # ''[0m''"

text \<open>\<open>slog.Level.String\<close>.\<close>

definition level_string :: "int \<Rightarrow> string" where
  "level_string l =
     (let str = (\<lambda>base d. if d = 0 then base else base @ (if d > 0 then ''+'' else []) @ FormatInt d) in
      if l < LevelInfo then str ''DEBUG'' (l - LevelDebug)
      else if l < LevelWarn then str ''INFO'' l
      else if l < LevelError then str ''WARN'' (l - LevelWarn)
      else str ''ERROR'' (l - LevelError))"

definition level_color :: "int \<Rightarrow> int" where
  "level_color l =
     (if l \<le> LevelDebug then 37 else if l \<le> LevelInfo then 36 else if l < LevelWarn then 94
      else if l < LevelError then 93 else if l \<le> LevelError + 1 then 91 else 95)"

text \<open>\<open>json.MarshalIndent\<close> with two blanks.\<close>

definition newline_at :: "nat \<Rightarrow> string" where
  "newline_at n = char_of (10::nat) # replicate (2 * n) (CHR '' '')"

fun jindent :: "nat \<Rightarrow> json \<Rightarrow> string"
and jindent_elems :: "nat \<Rightarrow> json list \<Rightarrow> string"
and jindent_members :: "nat \<Rightarrow> (string \<times> json) list \<Rightarrow> string" where
  "jindent n (JArr vs) = (if vs = [] then ''[]'' else ''['' @ jindent_elems (Suc n) vs @ newline_at n @ '']'')"
| "jindent n (JObj ms) = (if ms = [] then ''{}'' else ''{'' @ jindent_members (Suc n) ms @ newline_at n @ ''}'')"
| "jindent n v = jprint v"
| "jindent_elems n [] = []"
| "jindent_elems n (v # vs) = newline_at n @ jindent n v @ (if vs = [] then [] else '','') @ jindent_elems n vs"
| "jindent_members n [] = []"
| "jindent_members n ((k, v) # ms) = newline_at n @ jstr k @ '': '' @ jindent n v @ (if ms = [] then [] else '','') @ jindent_members n ms"

text \<open>
  One line: \<open>replace\<close> is the option \<open>ReplaceAttr\<close>, which answers \<open>None\<close> for an attribute to drop; the
  attributes without time, level and message are a map.
\<close>

definition pretty_line :: "(string \<Rightarrow> string \<Rightarrow> string option) option \<Rightarrow> int \<Rightarrow> string \<Rightarrow> string \<Rightarrow> json \<Rightarrow> string" where
  "pretty_line replace level time msg attrs =
     (let part = (\<lambda>key text. case replace of None \<Rightarrow> Some text | Some r \<Rightarrow> r key text);
          shown = (\<lambda>color text. case text of None \<Rightarrow> [] | Some t \<Rightarrow> colorize color t @ '' '');
          lev = part ''level'' (level_string level)
      in shown 37 (part ''time'' time) @
         shown (level_color level) (map_option (\<lambda>t. t @ '':'') lev) @
         shown 97 (part ''msg'' msg) @
         colorize (if lev = None then 0 else level_color level) (jindent 0 attrs))"

definition suppressDefaults :: "(attr \<Rightarrow> attr option) option \<Rightarrow> attr \<Rightarrow> attr option" where
  "suppressDefaults next a =
     (if fst a \<in> {''time'', ''level'', ''msg''} then None else (case next of None \<Rightarrow> Some a | Some f \<Rightarrow> f a))"

text \<open>
  \<open>computeAttrs\<close>: the attributes are printed by the JSON handler behind it, a record a line, and read back as a map.
\<close>

definition json_record :: "(attr \<Rightarrow> attr option) option \<Rightarrow> attr list \<Rightarrow> string" where
  "json_record next attrs = jprint (JObj (List.map_filter (suppressDefaults next) attrs)) @ [CHR 0x0A]"

definition computeAttrs :: "(attr \<Rightarrow> attr option) option \<Rightarrow> attr list \<Rightarrow> json result" where
  "computeAttrs next attrs = (case json_parse (json_record next attrs) of
     None \<Rightarrow> Inl (Errorf ''error when unmarshaling inner handler's Handle result'')
   | Some v \<Rightarrow> Inr (any_value v))"

definition pretty_Handle :: "(string \<Rightarrow> string \<Rightarrow> string option) option \<Rightarrow> (attr \<Rightarrow> attr option) option \<Rightarrow> int \<Rightarrow> string \<Rightarrow> string \<Rightarrow>
    attr list \<Rightarrow> string result" where
  "pretty_Handle replace next level time msg attrs = map_sum id (pretty_line replace level time msg) (computeAttrs next attrs)"

section \<open>Facts\<close>

text \<open>The way through the JSON handler succeeds and keeps every attribute but those of the names it takes for its own.\<close>

lemma json_parse_record:
  assumes "list_all (\<lambda>(k, v). json_ok v) ms"
  shows "json_parse (jprint (JObj ms) @ [CHR 0x0A]) = Some (JObj ms)"
proof -
  have ok: "json_ok (JObj ms)" using assms by simp
  have "jsize (JObj ms) \<le> 2 * length (jprint (JObj ms) @ [CHR 0x0A]) + 2" using jsize_le_length(1) [OF ok] by simp
  then have "pval (2 * length (jprint (JObj ms) @ [CHR 0x0A]) + 2) (jprint (JObj ms) @ [CHR 0x0A]) = Some (JObj ms, [CHR 0x0A])"
    by (intro pval_jprint ok) (simp_all add: ends_value_def is_num_char_def is_digit_def)
  then show ?thesis by (simp add: json_parse_def is_ws_def)
qed

lemma computeAttrs_keeps:
  assumes "list_all (\<lambda>(k, v). json_ok v) attrs"
  shows "computeAttrs None attrs = Inr (any_value (JObj (filter (\<lambda>(k, v). k \<notin> {''time'', ''level'', ''msg''}) attrs)))"
proof -
  have f: "List.map_filter (suppressDefaults None) attrs = filter (\<lambda>(k, v). k \<notin> {''time'', ''level'', ''msg''}) attrs"
    by (induction attrs) (auto simp: suppressDefaults_def List.map_filter_def)
  have "list_all (\<lambda>(k, v). json_ok v) (filter (\<lambda>(k, v). k \<notin> {''time'', ''level'', ''msg''}) attrs)"
    using assms by (auto simp: list_all_iff)
  then show ?thesis unfolding computeAttrs_def json_record_def f by (simp only: json_parse_record option.case)
qed


text \<open>What deriving a context comes to, seen through it: keys it has are given their new value in place, the others are added.\<close>

fun override :: "attr \<Rightarrow> attr list \<Rightarrow> attr list" where
  "override a [] = [a]"
| "override a (b # bs) = (if fst b = fst a then a # bs else b # override a bs)"

definition slice_ok :: "arrays \<Rightarrow> slice \<Rightarrow> bool" where
  "slice_ok h s \<longleftrightarrow> sbase s < length h \<and> slen s \<le> length (cells h s) \<and> None \<notin> set (take (slen s) (cells h s))"

definition ctx_ok :: "arrays \<Rightarrow> slice option \<Rightarrow> bool" where
  "ctx_ok h c \<longleftrightarrow> (case c of None \<Rightarrow> True | Some s \<Rightarrow> slice_ok h s)"

lemma key_index_None: "key_index k xs = None \<longleftrightarrow> k \<notin> fst ` set xs"
  by (induction xs) auto

lemma key_index_Some: "key_index (fst a) xs = Some i \<Longrightarrow> i < length xs \<and> xs[i := a] = override a xs"
  by (induction xs arbitrary: i) (auto split: if_splits)

lemma override_new: "fst a \<notin> fst ` set xs \<Longrightarrow> override a xs = xs @ [a]"
  by (induction xs) auto

lemma override_binds:
  "distinct (map fst xs) \<Longrightarrow> distinct (map fst (override a xs)) \<and> map_of (override a xs) = (map_of xs)(fst a \<mapsto> snd a)
     \<and> fst ` set (override a xs) = insert (fst a) (fst ` set xs)"
proof (induction xs)
  case (Cons b bs)
  show ?case
  proof (cases "fst b = fst a")
    case True
    then show ?thesis using Cons by (cases a; cases b) auto
  next
    case False
    then show ?thesis using Cons by (cases b) (auto simp: fun_upd_twist)
  qed
qed (cases a, simp)

lemma cells_update [simp]:
  "sbase s < length h \<Longrightarrow> cells (h[sbase s := xs]) (s\<lparr>slen := n\<rparr>) = xs"
  "sbase s < length h \<Longrightarrow> cells (h[sbase s := xs]) s = xs"
  by (simp_all add: cells_def)

lemma put_existing:
  assumes "slice_ok h s" and "key_index (fst a) (read_slice h s) = Some i"
  shows "put_attr grow (s, h) a = (s, h[sbase s := (cells h s)[i := Some a]])"
    and "slice_ok (h[sbase s := (cells h s)[i := Some a]]) s"
    and "read_slice (h[sbase s := (cells h s)[i := Some a]]) s = override a (read_slice h s)"
proof -
  have i: "i < slen s" "override a (read_slice h s) = (read_slice h s)[i := a]"
    using key_index_Some [OF assms(2)] assms(1) by (simp_all add: read_slice_def slice_ok_def)
  show "put_attr grow (s, h) a = (s, h[sbase s := (cells h s)[i := Some a]])"
    using assms(2) by (simp add: put_attr_def)
  show "slice_ok (h[sbase s := (cells h s)[i := Some a]]) s"
    using assms(1) i(1) by (auto simp: slice_ok_def take_update_swap dest: set_update_subset_insert [THEN subsetD])
  show "read_slice (h[sbase s := (cells h s)[i := Some a]]) s = override a (read_slice h s)"
    using assms(1) i by (simp add: slice_ok_def read_slice_def take_update_swap map_update)
qed

lemma append_read:
  assumes "slice_ok h s" and "append_attr grow a (s, h) = (s', h')"
  shows "slice_ok h' s' \<and> read_slice h' s' = read_slice h s @ [a]"
proof (cases "slen s < length (cells h s)")
  case True
  then show ?thesis using assms
    by (auto simp: append_attr_def slice_ok_def read_slice_def take_Suc_conv_app_nth)
next
  case False
  then have "cells h' s' = take (slen s) (cells h s) @ Some a # replicate (grow (length (cells h s)) - Suc (slen s)) None"
      "slen s = length (cells h s)" "slen s' = Suc (slen s)" "sbase s' < length h'"
    using assms by (auto simp: append_attr_def cells_def slice_ok_def nth_append)
  then show ?thesis using assms(1) by (auto simp: slice_ok_def read_slice_def)
qed

lemma put_read:
  assumes "slice_ok h s" and "put_attr grow (s, h) a = (s', h')"
  shows "slice_ok h' s' \<and> read_slice h' s' = override a (read_slice h s)"
proof (cases "key_index (fst a) (read_slice h s)")
  case None
  then have "override a (read_slice h s) = read_slice h s @ [a]" by (intro override_new) (simp add: key_index_None)
  then show ?thesis using append_read [OF assms(1)] assms(2) None by (simp add: put_attr_def)
next
  case (Some i)
  then show ?thesis using put_existing(1) [OF assms(1) Some, of grow] put_existing(2,3) [OF assms(1) Some] assms(2) by simp
qed

lemma puts_read:
  "slice_ok h s \<Longrightarrow> foldl (put_attr grow) (s, h) as = (s', h') \<Longrightarrow>
     slice_ok h' s' \<and> read_slice h' s' = foldl (\<lambda>xs a. override a xs) (read_slice h s) as"
proof (induction as arbitrary: s h)
  case (Cons a as)
  obtain s1 h1 where p: "put_attr grow (s, h) a = (s1, h1)" by fastforce
  then show ?case using put_read [OF Cons.prems(1) p] Cons.IH [of h1 s1] Cons.prems(2) by simp
qed simp

lemma overrides_bind:
  "distinct (map fst xs) \<Longrightarrow> distinct (map fst (foldl (\<lambda>xs a. override a xs) xs as))
     \<and> map_of (foldl (\<lambda>xs a. override a xs) xs as) = map_of xs ++ map_of (rev as)"
proof (induction as arbitrary: xs)
  case (Cons a as)
  then show ?case using override_binds [OF Cons.prems, of a]
    by (cases a) (auto simp: fun_eq_iff map_add_def split: option.splits)
qed simp

lemma map_of_rev: "distinct (map fst xs) \<Longrightarrow> map_of (rev xs) = map_of xs"
proof (induction xs)
  case (Cons x xs)
  then have "map_of (rev (x # xs)) = [fst x \<mapsto> snd x] ++ map_of xs" by (cases x) simp
  moreover have "map_of xs (fst x) = None" using Cons.prems by (simp add: map_of_eq_None_iff)
  ultimately show ?case by (cases x) (auto simp: fun_eq_iff map_add_def split: option.splits)
qed simp

text \<open>With room in the array an attribute is written behind the slice, where every context derived from it puts its own.\<close>

definition written_behind :: "attr \<Rightarrow> slice \<Rightarrow> arrays \<Rightarrow> arrays" where
  "written_behind a s h = h[sbase s := (cells h s)[slen s := Some a]]"

lemma append_in_place:
  assumes "slice_ok h s" and "slen s < length (cells h s)" and "fst a \<notin> fst ` set (read_slice h s)"
  shows "AppendCtx grow (Some s) [a] h = (Some (s\<lparr>slen := Suc (slen s)\<rparr>), written_behind a s h)"
  using assms by (simp add: AppendCtx_def put_attr_def key_index_None [THEN iffD2] append_attr_def written_behind_def)

lemma behind_ok:
  assumes "slice_ok h s" and "slen s < length (cells h s)"
  shows "slice_ok (written_behind a s h) s" and "read_slice (written_behind a s h) s = read_slice h s"
    and "slen s < length (cells (written_behind a s h) s)"
    and "read_slice (written_behind a s h) (s\<lparr>slen := Suc (slen s)\<rparr>) = read_slice h s @ [a]"
  using assms by (simp_all add: slice_ok_def written_behind_def read_slice_def take_Suc_conv_app_nth)

end
