(* ===== verification/Logging_Properties.thy ===== *)
theory Logging_Properties
  imports Logging Handler_Samples
begin

text \<open>
  What the attributes of a context are worth: a context shows what was put in it, as long as no other
  context is derived from, or logged through, the one it was derived from.
\<close>

text \<open>
  A context derived by \<open>AppendCtx\<close> shows the attributes of its parent with the new ones put over them: each key
  once, with the last value given for it, and every other key as before; and it can be derived from
  in turn.
\<close>
theorem derived_context_shows:
  assumes "ctx_ok h c" and "distinct (map fst (read_ctx h c))" and "c = None \<Longrightarrow> distinct (map fst attrs)"
    and "AppendCtx grow c attrs h = (c', h')"
  shows "ctx_ok h' c' \<and> distinct (map fst (read_ctx h' c')) \<and> map_of (read_ctx h' c') = map_of (read_ctx h c) ++ map_of (rev attrs)"
proof (cases c)
  case None
  then have "distinct (map fst attrs)" using assms(3) by simp
  then have "map_of (rev attrs) = map_of attrs" by (rule map_of_rev)
  then show ?thesis using None assms(3,4)
    by (auto simp: AppendCtx_def ctx_ok_def slice_ok_def cells_def read_ctx_def read_slice_def nth_append comp_def split: if_splits)
next
  case (Some s)
  have ok: "slice_ok h s" "distinct (map fst (read_slice h s))" using assms(1,2) Some by (simp_all add: ctx_ok_def read_ctx_def)
  obtain s' h1 where f: "foldl (put_attr grow) (s, h) attrs = (s', h1)" by fastforce
  then have "(c', h') = (Some s', h1)" using assms(4) Some by (auto simp: AppendCtx_def split: if_splits)
  then show ?thesis using puts_read [OF ok(1) f] overrides_bind [OF ok(2), of attrs] Some
    by (simp add: ctx_ok_def read_ctx_def)
qed

definition run_attributes :: "slice option \<times> arrays" where
  "run_attributes = AppendCtx (\<lambda>n. 2 * n) (fst (AppendCtx (\<lambda>n. 2 * n) None [(''queueTargetIndex'', JNum 0)] []))
     [(''hostCPUCount'', JNum 12), (''hostMemoryBytes'', JNum 34359738368)] (snd (AppendCtx (\<lambda>n. 2 * n) None [(''queueTargetIndex'', JNum 0)] []))"

definition run_slice :: slice where
  "run_slice = \<lparr>sbase = 2, slen = 3\<rparr>"

definition run_arrays :: arrays where
  "run_arrays = [[Some (''queueTargetIndex'', JNum 0)], [Some (''queueTargetIndex'', JNum 0), Some (''hostCPUCount'', JNum 12)],
     [Some (''queueTargetIndex'', JNum 0), Some (''hostCPUCount'', JNum 12), Some (''hostMemoryBytes'', JNum 34359738368), None]]"

text \<open>The attributes \<open>Run\<close> starts with, in arrays that double when they are full: there is room for one more.\<close>

lemma run_attributes: "run_attributes = (Some run_slice, run_arrays)"
  by (simp add: run_attributes_def AppendCtx_def put_attr_def append_attr_def read_slice_def cells_def run_slice_def run_arrays_def numeral_2_eq_2 numeral_3_eq_3)

lemma run_slice_ok:
  "slice_ok run_arrays run_slice" "slen run_slice < length (cells run_arrays run_slice)"
  "read_slice run_arrays run_slice = [(''queueTargetIndex'', JNum 0), (''hostCPUCount'', JNum 12), (''hostMemoryBytes'', JNum 34359738368)]"
  by (simp_all add: slice_ok_def run_slice_def run_arrays_def cells_def read_slice_def)

lemma derived_context_shows_witness:
  "map_of (read_ctx (snd (AppendCtx (\<lambda>n. 2 * n) (Some run_slice) [(''vm'', JNull)] run_arrays)) (fst (AppendCtx (\<lambda>n. 2 * n) (Some run_slice) [(''vm'', JNull)] run_arrays))) ''vm''
     = Some JNull"
  using derived_context_shows [OF _ _ _ surjective_pairing, of run_arrays "Some run_slice" "[(''vm'', JNull)]" "\<lambda>n. 2 * n"]
  by (simp add: ctx_ok_def read_ctx_def run_slice_ok)

text \<open>
  C38. An attribute a goroutine has put in its own context is lost as soon as another logs: when there is room behind
  the attributes of a context, a context derived from it keeps its new attribute there, and any record logged
  through the first, written or not, puts the attributes of the plugin in the same place. So the
  check of a run, which derives its context to leave that of the run alone, shows its \<open>check_id\<close> only
  until the run logs.
\<close>
theorem logging_overwrites_sibling:
  assumes "slice_ok h s" and "slen s < length (cells h s)"
    and "fst a \<notin> fst ` set (read_slice h s)" and "''attributes'' \<notin> fst ` set (read_slice h s)"
    and "AppendCtx grow (Some s) [a] h = (c1, h1)"
    and "log_at level grow logger g p source (Some s) args h1 = Ret (out, h2)"
  shows "read_ctx h1 c1 = read_slice h s @ [a] \<and> (\<exists>v. read_ctx h2 c1 = read_slice h s @ [(''attributes'', v)])"
proof -
  have c1: "c1 = Some (s\<lparr>slen := Suc (slen s)\<rparr>)" "h1 = written_behind a s h"
    using append_in_place [OF assms(1-3), of grow] assms(5) by simp_all
  note ok = behind_ok [OF assms(1,2), of a]
  obtain v where "AppendCtx grow (Some s) [(''attributes'', v)] h1 = (Some (s\<lparr>slen := Suc (slen s)\<rparr>), h2)"
    using assms(6) append_in_place [OF ok(1,3), of "(''attributes'', _)" grow] assms(4) ok(2) c1(2)
    by (auto simp: log_at_def AppendCurrentPluginAttributes_def Let_def split: option.splits go.splits)
  then have "h2 = written_behind (''attributes'', v) s h1"
    using append_in_place [OF ok(1,3), of "(''attributes'', v)" grow] assms(4) ok(2) c1(2) by simp
  then show ?thesis using ok(4) behind_ok(4) [OF ok(1,3)] ok(2) c1 by (auto simp: read_ctx_def)
qed

lemma logging_overwrites_sibling_witness:
  "let (c1, h1) = AppendCtx (\<lambda>n. 2 * n) (Some run_slice) [(''check_id'', JNum 42)] run_arrays;
       h2 = (case log_at LevelInfo (\<lambda>n. 2 * n) (Some (NewLogger ''INFO'')) None None None (Some run_slice) [] h1 of Ret (_, h2) \<Rightarrow> h2 | Panic \<Rightarrow> h1)
   in ''check_id'' \<in> fst ` set (read_ctx h1 c1) \<and> ''check_id'' \<notin> fst ` set (read_ctx h2 c1)"
proof -
  obtain c1 h1 where a: "AppendCtx (\<lambda>n. 2 * n) (Some run_slice) [(''check_id'', JNum 42)] run_arrays = (c1, h1)" by fastforce
  obtain out h2 where l: "log_at LevelInfo (\<lambda>n. 2 * n) (Some (NewLogger ''INFO'')) None None None (Some run_slice) [] h1 = Ret (out, h2)"
    by (simp add: log_at_def AppendCurrentPluginAttributes_def GetPluginAttributes_def split_beta)
  show ?thesis
    using logging_overwrites_sibling [OF run_slice_ok(1,2) _ _ a l] by (auto simp: a l run_slice_ok(3))
qed

end
