(* ===== verification/JobTrip.thy ===== *)
theory JobTrip
  imports Receiver RunJob
begin

text \<open>
  From the webhook to the handler: what the choice of a job does when the plugin has nothing left of its own and
  no job is paused. The receiver and the handler share only the lists of Redis, so the lemmas speak of these.
\<close>

section \<open>A choice without a job of its own or a paused one\<close>

locale idle_handler =
  fixes e :: "('s, 'h) Env" and view :: "'s \<Rightarrow> lists"
  assumes db: "redis_db (database e) view (pluginCtx e)"
begin

lemma own_job_none:
  assumes "own_job e st = (out, st')" "view (hDB st) (pluginQueueName (queues e)) = []"
  shows "out = Stop \<or> out = Go None \<and> (\<exists>s. st' = st\<lparr>hDB := s\<rparr> \<and> view s = view (hDB st))"
proof -
  obtain r s where l: "RetryLIndex (pluginCtx e) (database e) (pluginQueueName (queues e)) (- 1) (hDB st) = (r, s)" by fastforce
  have "r \<noteq> Inr json" for json using redis_db.LIndexD(1) [OF db l] assms(2) by auto
  then show ?thesis using assms(1) redis_db.LIndex_view [OF db l] l
    by (cases r) (auto simp: own_job_def on_db_def return_error_def split: if_splits)
qed

lemma paused_search_none:
  assumes "paused_search (Suc fuel) e 0 [] 0 st = (out, st')" "view (hDB st) (pausedQueueName (queues e)) = []" "JobChannel st = []"
  shows "out = Stop \<or> out = Go (0, [], None) \<and> (\<exists>s. st' = st\<lparr>hDB := s\<rparr> \<and> view s = view (hDB st))"
proof -
  obtain r s where l: "RetryLLen (pluginCtx e) (database e) (pausedQueueName (queues e)) (hDB st) = (r, s)" by fastforce
  have "r = Inr len \<Longrightarrow> len = 0" for len using redis_db.LLenD(1) [OF db l] assms(2) by auto
  then show ?thesis using assms(1,3) redis_db.LLen_view [OF db l] l
    by (cases r) (auto simp: paused_turn_def and_then_def with_put_back_def db_or_error_def on_db_def return_error_def announce_def
      send_job_def return_ok_def split: if_splits)
qed

lemma main_job_at:
  assumes m: "main_job e st = (out, st')" and i: "0 \<le> sint (QueueTargetIndex (hGlobals st))"
    "nat (sint (QueueTargetIndex (hGlobals st))) < length (view (hDB st) (mainQueueName (queues e)))"
    and x: "view (hDB st) (mainQueueName (queues e)) ! nat (sint (QueueTargetIndex (hGlobals st))) = json" "Unwrap json = Inr job" "json \<noteq> []"
    and c: "JobChannel st = []"
  shows "out = Stop \<or> out = Go (job, json) \<and>
    view (hDB st') = (view (hDB st))(mainQueueName (queues e) := remove1 json (view (hDB st) (mainQueueName (queues e))))"
proof -
  let ?q = "mainQueueName (queues e)"
  obtain r s where l: "RetryLLen (pluginCtx e) (database e) ?q (hDB st) = (r, s)" by fastforce
  have len: "r = Inr len \<Longrightarrow> len = int (length (view (hDB st) ?q))" for len using redis_db.LLenD(1) [OF db l] by auto
  have v: "view s = view (hDB st)" by (rule redis_db.LLen_view [OF db l])
  obtain y s2 where p: "PopJobOffQueue (pluginCtx e) (database e) ?q (sint (QueueTargetIndex (hGlobals st))) s = (y, s2)" by fastforce
  have pop: "y = Inr z \<Longrightarrow> z = json \<and> view s2 = (view (hDB st))(?q := remove1 json (view (hDB st) ?q))" for z
    using redis_db.pop_law [OF db _ i(1)] p i(2) x(1) v by fastforce
  show ?thesis
  proof (cases r)
    case (Inl err)
    then show ?thesis using m l by (auto simp: main_job_def and_then_def db_or_error_def on_db_def return_error_def)
  next
    case (Inr len)
    have "\<not> sint (QueueTargetIndex (hGlobals st)) > len" using len [OF Inr] i by linarith
    then show ?thesis using m l p pop x(2,3) c Inr
      by (cases y) (auto simp: main_job_def and_then_def db_or_error_def on_db_def return_error_def announce_def
        send_job_def return_ok_def stop_preparing_def set_own_def Let_def split: if_splits option.splits prod.splits)
  qed
qed

lemma main_job_takes:
  assumes "main_job e st = (Go (job, json), st')" "0 \<le> sint (QueueTargetIndex (hGlobals st))"
  shows "json \<in> set (view (hDB st) (mainQueueName (queues e))) \<and>
    view (hDB st') = (view (hDB st))(mainQueueName (queues e) := remove1 json (view (hDB st) (mainQueueName (queues e)))) \<and> Unwrap json = Inr job"
proof -
  let ?q = "mainQueueName (queues e)"
  obtain r s where l: "RetryLLen (pluginCtx e) (database e) ?q (hDB st) = (r, s)" by fastforce
  have v: "view s = view (hDB st)" by (rule redis_db.LLen_view [OF db l])
  obtain len where len: "r = Inr len" using assms(1) l
    by (cases r) (auto simp: main_job_def and_then_def db_or_error_def on_db_def return_error_def)
  let ?g = "if sint (QueueTargetIndex (hGlobals st)) > len then ResetQueueTargetIndex (hGlobals st) else hGlobals st"
  obtain y s2 where p: "PopJobOffQueue (pluginCtx e) (database e) ?q (sint (QueueTargetIndex ?g)) s = (y, s2)" by fastforce
  have "0 \<le> sint (QueueTargetIndex ?g)" using assms(2) by (simp add: ResetQueueTargetIndex_def)
  moreover have "y = Inr json \<and> json \<noteq> [] \<and> Unwrap json = Inr job \<and> hDB st' = s2"
    using assms(1) l len p unfolding main_job_def
    by (cases y) (auto simp: and_then_def db_or_error_def on_db_def Let_def no_go return_error_def announce_def return_ok_def
      send_job_def simp del: if_split split: turn.splits sum.splits prod.splits if_split_asm)
  ultimately obtain i where i: "0 \<le> i" "PopJobOffQueue (pluginCtx e) (database e) ?q i s = (Inr json, s2)" "json \<noteq> []"
    "Unwrap json = Inr job" "hDB st' = s2" using p by blast
  show ?thesis using redis_db.pop_law [OF db i(2,1)] i v by (auto split: if_splits)
qed

lemma pick_from_main:
  assumes p: "pick_job (Suc fuel) e st = (out, st')" and c: "JobChannel st = []"
    and own: "view (hDB st) (pluginQueueName (queues e)) = []" and paused: "view (hDB st) (pausedQueueName (queues e)) = []"
    and i: "0 \<le> sint (QueueTargetIndex (hGlobals st))"
    "nat (sint (QueueTargetIndex (hGlobals st))) < length (view (hDB st) (mainQueueName (queues e)))"
    and x: "view (hDB st) (mainQueueName (queues e)) ! nat (sint (QueueTargetIndex (hGlobals st))) = json" "Unwrap json = Inr job" "json \<noteq> []"
    and q: "pluginQueueName (queues e) \<noteq> mainQueueName (queues e)"
  shows "out = Stop \<or> out = Go job \<and> view (hDB st') = (view (hDB st))
    (mainQueueName (queues e) := remove1 json (view (hDB st) (mainQueueName (queues e))), pluginQueueName (queues e) := [json])"
proof (cases "out = Stop")
  case False
  obtain o1 st1 where 1: "own_job e st = (o1, st1)" by fastforce
  have o1: "o1 = Go None" "\<exists>s. st1 = st\<lparr>hDB := s\<rparr> \<and> view s = view (hDB st)"
    using own_job_none [OF 1 own] p 1 False by (auto simp: pick_job_def and_then_def)
  then have v1: "view (hDB st1) = view (hDB st)" "JobChannel st1 = []" "hGlobals st1 = hGlobals st" using c by auto
  obtain o2 st2 where 2: "paused_search (Suc fuel) e 0 [] 0 st1 = (o2, st2)" by fastforce
  have o2: "o2 = Go (0, [], None)" "\<exists>s. st2 = st1\<lparr>hDB := s\<rparr> \<and> view s = view (hDB st1)"
    using paused_search_none [OF 2] p 1 2 o1(1) False paused v1 by (auto simp: pick_job_def and_then_def simp del: paused_search.simps)
  then have v2: "view (hDB st2) = view (hDB st)" "JobChannel st2 = []" "hGlobals st2 = hGlobals st" using v1 by auto
  obtain o3 st3 where 3: "main_job e st2 = (o3, st3)" by fastforce
  have rest: "(out, st') = and_then (main_job e) (\<lambda>(job, json).
      and_then (db_or_error ''error pushing job to plugin queue: '' (RetryRPush (pluginCtx e) (database e) (pluginQueueName (queues e)) [json]))
        (\<lambda>_ st. (Go job, st))) st2"
    using p 1 2 o1(1) o2(1) by (simp add: pick_job_def and_then_def release_held_def del: paused_search.simps)
  have o3: "o3 = Go (job, json)" "view (hDB st3) = (view (hDB st))(mainQueueName (queues e) := remove1 json (view (hDB st) (mainQueueName (queues e))))"
    using main_job_at [OF 3, of json job] rest 3 False i x v2 by (auto simp: and_then_def)
  obtain r s where push: "RetryRPush (pluginCtx e) (database e) (pluginQueueName (queues e)) [json] (hDB st3) = (r, s)" by fastforce
  show ?thesis using rest 3 o3 push redis_db.RPushD(1) [OF db push] own q False
    by (cases r) (auto simp: and_then_def db_or_error_def on_db_def return_error_def)
qed simp

end

section \<open>A webhook that finds no queue\<close>

context redis_db begin

lemma in_a_queue_True:
  "in_a_queue ctx db i qs s = (True, s') \<Longrightarrow> \<exists>q\<in>set qs. \<exists>x\<in>set (view s q). job_item i x"
proof (induction qs arbitrary: s s')
  case (Cons q qs)
  obtain r s1 where g: "GetJobJSONFromQueueByID ctx db i q s = (r, s1)" by fastforce
  obtain b s2 where more: "in_a_queue ctx db i qs s1 = (b, s2)" by fastforce
  show ?case
  proof (cases b)
    case True
    then show ?thesis using Cons.IH [of s1 s2] more get_job_law(1) [OF g] by auto
  next
    case False
    then obtain json where "r = Inr json" "json \<noteq> []" using Cons.prems g more by (cases r) auto
    then show ?thesis using find_job_Inr [OF get_job_law(2) [OF g]] by fastforce
  qed
qed simp

lemma receive_completed_dropped:
  assumes "\<And>k x. x \<in> set (view s k) \<Longrightarrow> \<not> job_item i x" "plain_pattern (''anklet/jobs/github/queued/'' @ owner)"
  shows "view (receive_completed ctx db owner i job s) = view s"
proof -
  obtain r s1 where k: "RetryKeys ctx db (''anklet/jobs/github/queued/'' @ owner @ ''*'') s = (r, s1)" by fastforce
  have v: "view s1 = view s" using KeysD [OF assms(2), of s r s1] k by (cases r) auto
  have no: "\<not> b \<and> view s2 = view s" if "in_a_queue ctx db i qs s1 = (b, s2)" for b qs s2
  proof (cases b)
    case True
    with that v assms(1) show ?thesis using in_a_queue_True [of i qs s1 s2] by force
  next
    case False
    then show ?thesis using in_a_queue_view [OF that] v by simp
  qed
  show ?thesis using k v no
    by (cases r) (auto simp: receive_completed_def split: prod.split)
qed

end

end
