(* ===== verification/Trip_Properties.thy ===== *)
theory Trip_Properties
  imports JobTrip Receiver_Properties Handler_Samples
begin

text \<open>
  The receiver and the handlers together: a job a webhook has filed is the job a handler goes on with, and
  nothing of it is lost on the way through Redis.
\<close>

interpretation idle: idle_handler "sample_env name" mem_view for name
  by unfold_locales

section \<open>A choice on a database that answers\<close>

lemma pick_live:
  assumes "mem_live m" "database e = mem_db n" "0 \<le> n" "pluginCtx e = mem_ctx" "workerCtx e = mem_ctx" "hDB st = m"
    and "mem_view m (pluginQueueName (queues e)) = []" "mem_view m (pausedQueueName (queues e)) = []"
    and "0 \<le> sint (QueueTargetIndex (hGlobals st))"
    and "nat (sint (QueueTargetIndex (hGlobals st))) < length (mem_view m (mainQueueName (queues e)))"
    and "mem_view m (mainQueueName (queues e)) ! nat (sint (QueueTargetIndex (hGlobals st))) = MarshalJob job" "job_ok job"
    and "IsEnterpriseScope (plugin e) \<or> RepoOwner (Repo job) \<in> {None, Some (POwner (plugin e))}"
  shows "\<exists>s. pick_job (Suc fuel) e st = (Go job, st\<lparr>hDB := s\<rparr>)"
proof -
  let ?main = "mainQueueName (queues e)" and ?i = "sint (QueueTargetIndex (hGlobals st))" and ?x = "MarshalJob job"
  have i: "\<not> int (length (mem_view m ?main)) < ?i" using assms(9,10) by linarith
  have d: "drop (nat ?i) (mem_view m ?main) = ?x # drop (Suc (nat ?i)) (mem_view m ?main)"
    using Cons_nth_drop_Suc [OF assms(10)] assms(11) by simp
  have "?x \<in> set (mem_view m ?main)" using nth_mem [OF assms(10)] assms(11) by simp
  then have pop: "PopJobOffQueue mem_ctx (mem_db n) ?main ?i m = (Inr ?x, mem_put ?main (remove1 ?x (mem_view m ?main)) m)"
    using assms(1,3,9) d by (simp add: PopJobOffQueue_def take_target_def mem_simps)
  have none: "own_job e st = (Go None, st)" "paused_search (Suc fuel) e 0 [] 0 st = (Go (0, [], None), st)"
    using assms(1-8) by (simp_all add: own_job_def paused_turn_def with_put_back_def canceled_def and_then_def db_or_error_def on_db_def mem_simps)
  have main: "main_job e st = (Go (job, ?x), st\<lparr>hDB := mem_put ?main (remove1 ?x (mem_view m ?main)) m\<rparr>)"
    using assms(1-6,13) pop i Unwrap_MarshalJob [OF assms(12)]
    by (auto simp: main_job_def and_then_def db_or_error_def on_db_def Let_def mem_simps)
  show ?thesis
    using assms(1-6) none main
    by (auto simp: pick_job_def and_then_def release_held_def db_or_error_def on_db_def mem_simps simp del: paused_search.simps)
qed


text \<open>The tick that finds the completed webhook of the active job.\<close>

lemma mem_get_job:
  assumes "mem_live m" "0 \<le> n"
  shows "GetJobJSONFromQueueByID mem_ctx (mem_db n) i q m = (find_job i (mem_view m q), m)"
  using assms by (simp add: GetJobJSONFromQueueByID_def mem_simps)

lemma mem_update_head:
  assumes "mem_live m" "0 \<le> n" "mem_view m q = MarshalJob a # rest" "job_ok a" "Status (WorkflowJob a) \<noteq> Some ''completed''"
    and "same_job a job = Ret True"
  shows "UpdateJobInDB mem_ctx (mem_db n) q job m = (Ret (None, None), mem_put q (MarshalJob job # rest) m)"
  using assms by (simp add: UpdateJobInDB_def CheckIfJobIsCompleted_def Unwrap_MarshalJob mem_simps)

lemma find_job_last:
  "list_all (other_job i) pre \<Longrightarrow> Unwrap x = Inr job \<Longrightarrow> ID (WorkflowJob job) = Some i \<Longrightarrow> find_job i (pre @ [x]) = Inr x"
  by (induction pre) (auto simp: other_job_def split: sum.splits option.splits)

definition ended :: "QueueJob \<Rightarrow> QueueJob \<Rightarrow> QueueJob" where
  "ended active job = active\<lparr>WorkflowJob := (WorkflowJob active)\<lparr>Status := Status (WorkflowJob job), Conclusion := Conclusion (WorkflowJob job)\<rparr>\<rparr>"

lemma check_active_completed:
  assumes "mem_live m" "0 \<le> n" "hDB st = m" "own_global p (hGlobals st) = Some own" "length (JobChannel st) \<le> 1"
    and "mem_view m (pluginQueueName q) = MarshalJob active # rest" "job_ok active" "ID (WorkflowJob active) = Some i"
      "RunID (WorkflowJob active) \<noteq> None" "Status (WorkflowJob active) \<noteq> Some ''completed''"
    and "list_all (other_job i) (mem_view m (mainInProgressQueueName q))" "list_all (other_job i) (mem_view m (pluginCompletedQueueName q))"
    and "mem_view m (mainCompletedQueueName q) = pre @ [MarshalJob job]" "list_all (other_job i) pre" "job_ok job" "ID (WorkflowJob job) = Some i"
    and "distinct [pluginQueueName q, pluginCompletedQueueName q, mainCompletedQueueName q]"
  shows "\<exists>st'. check_active mem_ctx (mem_db n) gh p q st = (Go (Some (ended active job)), st') \<and> JobChannel st' = [ended active job] \<and>
    mem_view (hDB st') = (mem_view m)(mainCompletedQueueName q := pre,
      pluginCompletedQueueName q := MarshalJob job # mem_view m (pluginCompletedQueueName q),
      pluginQueueName q := MarshalJob (ended active job) # rest)"
proof -
  let ?main = "mainCompletedQueueName q" and ?done = "pluginCompletedQueueName q" and ?own = "pluginQueueName q"
  define m1 where "m1 = mem_put ?done (MarshalJob job # mem_view m ?done) (mem_put ?main pre m)"
  have m1: "mem_live m1" "mem_view m1 ?own = MarshalJob active # rest" using assms by (simp_all add: m1_def)
  have u: "Unwrap (MarshalJob active) = Inr active" "Unwrap (MarshalJob job) = Inr job" using assms by (simp_all add: Unwrap_MarshalJob)
  have new: "MarshalJob job \<notin> set pre" using assms(14,16) u by (auto simp: list_all_iff other_job_def)
  have index: "reset_index p (hGlobals st) = Go (if PluginRunCount own mod 2 = 0 then ResetQueueTargetIndex (hGlobals st) else hGlobals st)"
    using assms(4) by (simp add: reset_index_def)
  have tl: "tl (JobChannel st) = []" using assms(5) by (cases "JobChannel st") auto
  have same: "same_job active (ended active job) = Ret True"
    using assms(8,9) by (auto simp: same_job_def ended_def split: option.split)
  note update = mem_update_head [OF m1(1) assms(2) m1(2) assms(7,10) same]
  have find: "find_job i (mem_view m (mainInProgressQueueName q)) = Inr []" "find_job i (mem_view m ?done) = Inr []"
    "find_job i (mem_view m ?main) = Inr (MarshalJob job)"
    using assms find_job_last [OF assms(14) u(2)] by (simp_all add: find_job_Nil_iff)
  let ?st1 = "st\<lparr>StillInProgressPollCount := 0\<rparr>"
  obtain g where g: "reset_index p (hGlobals st) = Go g" using index by blast
  let ?st2 = "?st1\<lparr>JobChannel := [ended active job], hGlobals := g, hDB := m1\<rparr>"
  have steps: "active_job mem_ctx (mem_db n) q st = (Go (Some (i, active)), st)"
    "note_in_progress mem_ctx (mem_db n) q i active st = (Go ([], active, False), ?st1)"
    "find_completed mem_ctx (mem_db n) q i ?st1 = (Go ([], MarshalJob job), ?st1)"
    using assms(1-3,6,8) u find
    by (simp_all add: active_job_def note_in_progress_def find_completed_def and_then_def db_or_stop_def on_db_def mem_get_job mem_simps)
  have main: "main_completed mem_ctx (mem_db n) p q (MarshalJob job) active ?st1 = (Go (ended active job), ?st2)"
    using assms(1-3,13,17) u new g tl
    by (simp add: main_completed_def and_then_def db_or_stop_def on_db_def pure_or_stop_def send_job_def ended_def m1_def remove1_append Let_def mem_simps)
  have save: "save_status mem_ctx (mem_db n) q True (ended active job) ?st2 =
      (Go (), ?st2\<lparr>hDB := mem_put ?own (MarshalJob (ended active job) # rest) m1\<rparr>)"
    using update by (simp add: save_status_def on_db_def)
  show ?thesis
    using steps main save assms(17) by (simp add: check_active_def and_then_def m1_def)
qed

text \<open>The queue after the sample webhook, seen by a handler of the same owner.\<close>

lemma sample_names [simp]:
  "mainQueueName (queue_names (sample_plugin name)) = ''anklet/jobs/github/queued/veertu''"
  "pluginQueueName (queue_names (sample_plugin name)) = ''anklet/jobs/github/queued/veertu/{'' @ name @ ''}''"
  "pausedQueueName (queue_names (sample_plugin name)) = ''anklet/jobs/github/paused/veertu''"
  "mainCompletedQueueName (queue_names (sample_plugin name)) = ''anklet/jobs/github/completed/veertu''"
  "pluginCompletedQueueName (queue_names (sample_plugin name)) = ''anklet/jobs/github/completed/veertu/'' @ name"
  "mainInProgressQueueName (queue_names (sample_plugin name)) = ''anklet/jobs/github/in_progress/veertu''"
  "GetQueueOwner (sample_plugin name) = ''veertu''"
  by (simp_all add: queue_names_def sample_plugin_def zero_Plugin_def Let_def GetQueueOwner_def)

lemma sample_trip [simp]:
  "QueueTargetIndex sample_globals = 0" "mem_view (mem_init []) k = []" "RepoOwner (Repo (sample_received act)) = None"
  by (simp_all add: mem_simps sample_globals_def sample_received_def zero_QueueJob_def zero_Repository_def)

section \<open>From the webhook to the run\<close>



text \<open>
  C8. A queued job is taken: while the database answers, a handler that has no job of its own and finds no paused
  one goes on with the job its index points at, if there is one and it belongs to the plugin's owner: the choice neither
  blocks nor fails, whatever else is in the main queue.
\<close>
theorem queued_job_is_taken:
  assumes "mem_live m" "database e = mem_db n" "0 \<le> n" "pluginCtx e = mem_ctx" "workerCtx e = mem_ctx" "hDB st = m"
    and "mem_view m (pluginQueueName (queues e)) = []" "mem_view m (pausedQueueName (queues e)) = []"
    and "0 \<le> sint (QueueTargetIndex (hGlobals st))"
    and "nat (sint (QueueTargetIndex (hGlobals st))) < length (mem_view m (mainQueueName (queues e)))"
    and "mem_view m (mainQueueName (queues e)) ! nat (sint (QueueTargetIndex (hGlobals st))) = MarshalJob job" "job_ok job"
    and "IsEnterpriseScope (plugin e) \<or> RepoOwner (Repo job) \<in> {None, Some (POwner (plugin e))}"
  shows "\<exists>st'. pick_job (Suc fuel) e st = (Go job, st')"
  using pick_live [OF assms] by blast

lemma queued_job_is_taken_witness:
  "\<exists>st'. pick_job (Suc 0) (sample_env ''one'') (sample_state queued_mem) = (Go (sample_received ''queued''), st')"
  by (rule queued_job_is_taken [where m = queued_mem and n = 3]) (simp_all add: sample_received_ok)

section \<open>From the completed webhook to the end of the job\<close>


lemma completed_endpoint:
  "receiver_endpoint (sample_lib ''completed'') mem_ctx (mem_db 3) ''s'' ''veertu'' request
     (mem_init [(''anklet/jobs/github/queued/veertu/{one}'', [MarshalJob (sample_job 7 ''in_progress'')])]) =
   Ret (StatusOK, mem_put ''anklet/jobs/github/completed/veertu'' [MarshalJob (sample_received ''completed'')]
     (mem_init [(''anklet/jobs/github/queued/veertu/{one}'', [MarshalJob (sample_job 7 ''in_progress'')])]))"
  by (simp add: receiver_endpoint_def sample_decode receive_job_def receive_completed_def sample_wanted push_unless_present_def
    mem_get_job mem_simps)


text \<open>
  C10. A job can end unnoticed while it changes queues: a handler takes it off the main queue first and stores it in its own
  queue afterwards, so a delivery with the action \<open>completed\<close> that arrives in between finds the job in no
  queue. It is answered with 200, and thus never redelivered, but stored nowhere.
\<close>
theorem completed_webhook_in_gap:
  assumes "redis_db db view ctx" "redis_db (database e) view (pluginCtx e)" "plain_pattern (''anklet/jobs/github/queued/'' @ owner)"
    and "\<And>k. filter (job_item i) (view (hDB st) k) = (if k = mainQueueName (queues e) then [json] else [])"
    and "main_job e st = (Go (job, json), st1)" "0 \<le> sint (QueueTargetIndex (hGlobals st))" "ID (WorkflowJob job) = Some i"
    and "decodeReceiverWebhook lib r secret = Inr (Some webhook)" "Action webhook = ''completed''" "ID (WorkflowJob webhook) = Some i"
    and "receiver_endpoint lib ctx db secret owner r (hDB st1) = Ret (code, s')"
  shows "code = StatusOK \<and> view s' = view (hDB st1) \<and> (\<forall>d ds. StatusCode d = Some code \<longrightarrow> d \<notin> set (filterFailedOriginalDeliveries ds))"
proof -
  have taken: "view (hDB st1) = (view (hDB st))(mainQueueName (queues e) := remove1 json (view (hDB st) (mainQueueName (queues e))))"
    "job_item i json"
    using idle_handler.main_job_takes [OF idle_handler.intro [OF assms(2)] assms(5,6)] assms(7) by (simp_all add: job_item_def)
  have rem: "filter P (remove1 a xs) = remove1 a (filter P xs)" if "P a" for P and a :: string and xs using that by (induction xs) auto
  have "filter (job_item i) (view (hDB st1) k) = []" for k
    using assms(4) [of k] taken by (cases "k = mainQueueName (queues e)") (simp_all add: rem)
  then have none: "\<not> job_item i x" if "x \<in> set (view (hDB st1) k)" for k x using that by (auto simp: filter_empty_conv)
  have "code = StatusOK \<and> s' = receive_completed ctx db owner i webhook (hDB st1)"
    using assms(8-11) by (simp add: receiver_endpoint_def receive_job_def)
  then show ?thesis using redis_db.receive_completed_dropped [OF assms(1) none assms(3)] 
    by (auto simp: filterFailed_set failed_original_def StatusOK_def Let_def)
qed

lemma completed_webhook_in_gap_witness:
  "receiver_endpoint (sample_lib ''completed'') mem_ctx (mem_db 3) ''s'' ''veertu'' request
     (mem_put ''anklet/jobs/github/queued/veertu'' [] queued_mem) = Ret (StatusOK, mem_put ''anklet/jobs/github/queued/veertu'' [] queued_mem) \<and>
   mem_view (mem_put ''anklet/jobs/github/queued/veertu'' [] queued_mem) ''anklet/jobs/github/completed/veertu'' = []"
proof -
  let ?m = "mem_put ''anklet/jobs/github/queued/veertu'' [] queued_mem" and ?x = "MarshalJob (sample_received ''queued'')"
  have u: "Unwrap ?x = Inr (sample_received ''queued'')" by (rule Unwrap_MarshalJob [OF sample_received_ok])
  have m: "main_job (sample_env ''one'') (sample_state queued_mem) = (Go (sample_received ''queued'', ?x), sample_state ?m)"
    by (simp add: main_job_def and_then_def db_or_error_def on_db_def PopJobOffQueue_def take_target_def u Let_def sample_state_def mem_simps)
  have keys: "mstore ?m = [(''anklet/jobs/github/queued/veertu'', [])]" by (simp add: mem_put_def mem_init_def)
  have e: "receiver_endpoint (sample_lib ''completed'') mem_ctx (mem_db 3) ''s'' ''veertu'' request ?m = Ret (StatusOK, ?m)"
    by (simp add: receiver_endpoint_def sample_decode receive_job_def receive_completed_def sample_wanted mem_get_job keys mem_simps)
  have "StatusOK = StatusOK \<and> mem_view ?m = mem_view (hDB (sample_state ?m)) \<and>
      (\<forall>d ds. StatusCode d = Some StatusOK \<longrightarrow> d \<notin> set (filterFailedOriginalDeliveries ds))"
    by (rule completed_webhook_in_gap [OF mem.redis_db_axioms [of 3] _ plain_sample _ m _ _ sample_decode [of "''completed''" "''s''"], where i = 7])
      (use mem.redis_db_axioms [of 3] in \<open>simp_all add: e [simplified] u job_item_def mem_simps\<close>)
  then show ?thesis using e by (simp add: mem_simps)
qed

end
