(* ===== verification/Handover_Properties.thy ===== *)
theory Handover_Properties
  imports Trip_Properties
begin

text \<open>
  A job that waits for resources on one host and is taken over by another: the way it is meant to go, and what happens
  when the waiting host has looked at its queue just before.
\<close>

section \<open>Finding the job by its number\<close>

lemma decode_id:
  assumes "job_ok job" "ID (WorkflowJob job) = Some i"
  shows "\<exists>m. decode_map (MarshalJob job) = Inr m \<and> value_text (navigate m [''workflow_job'', ''id'']) = FormatInt i"
proof -
  have p: "json_parse (MarshalJob job) = Some (enc_QueueJob job)"
    using json_parse_jprint [OF json_ok_enc [OF assms(1)]] by (simp add: MarshalJob_def)
  have "f64 i = i" using assms by (simp add: job_ok_def id_ok_def f64_exact)
  then show ?thesis using assms(2)
    by (simp add: decode_map_def p) (simp add: enc_QueueJob_def enc_WorkflowJob_def lit_simps)
qed

lemma find_by_id:
  assumes "job_ok job" "ID (WorkflowJob job) = Some i"
  shows "find_key_value ''workflow_job.id'' (FormatInt i) (MarshalJob job # xs) = Inr (MarshalJob job)"
proof -
  have s: "Split CHR ''.'' ''workflow_job.id'' = [''workflow_job'', ''id'']" by simp
  show ?thesis using decode_id [OF assms] by (auto simp: s)
qed

section \<open>Taking over\<close>

text \<open>What the search of the second host does to the lists, on a database that answers.\<close>

definition taken :: "string \<Rightarrow> string \<Rightarrow> mem \<Rightarrow> mem" where
  "taken old paused m = mem_put old [] (mem_put paused [] m)"

lemma search_takes_over:
  assumes live: "mem_live m" "0 \<le> n" "database e = mem_db n" "pluginCtx e = mem_ctx" "workerCtx e = mem_ctx" "hDB st = m"
    and job: "job_ok job" "ID (WorkflowJob job) = Some i" "Action job = ''paused''" "host_queue e (PausedOn job) = old"
    and other: "own_global ((plugin e)\<lparr>PName := PausedOn job\<rparr>) (hGlobals st) = None"
    and room: "\<And>s. enough_resources e (AnkaVM job) (st\<lparr>hDB := s\<rparr>) = (Go True, st\<lparr>hDB := s, hHost := h\<rparr>)"
    and lists: "mem_view m (pausedQueueName (queues e)) = [MarshalJob job]" "mem_view m old = [MarshalJob job]"
    and names: "old \<noteq> pausedQueueName (queues e)"
  shows "paused_search (Suc fuel) e 0 [] 0 st = (Go (1, [], Some (job, MarshalJob job)), st\<lparr>hHost := h, hDB := taken old (pausedQueueName (queues e)) m\<rparr>)"
proof -
  have u: "Unwrap (MarshalJob job) = Inr job" by (rule Unwrap_MarshalJob [OF job(1)])
  show ?thesis using live job other lists names find_by_id [OF job(1,2)]
    by (simp add: paused_turn_def and_then_def canceled_def with_put_back_def db_or_error_def on_db_def PopJobOffQueue_def take_target_def
      consider_paused_def room take_over_def GetJobFromQueueByKeyAndValue_def u taken_def mem_simps del: find_key_value.simps)
qed

lemma pick_takes_over:
  assumes live: "mem_live m" "0 \<le> n" "database e = mem_db n" "pluginCtx e = mem_ctx" "workerCtx e = mem_ctx" "hDB st = m"
    and job: "job_ok job" "ID (WorkflowJob job) = Some i" "Action job = ''paused''" "host_queue e (PausedOn job) = old"
    and other: "own_global ((plugin e)\<lparr>PName := PausedOn job\<rparr>) (hGlobals st) = None"
    and room: "\<And>s. enough_resources e (AnkaVM job) (st\<lparr>hDB := s\<rparr>) = (Go True, st\<lparr>hDB := s, hHost := h\<rparr>)"
    and lists: "mem_view m (pausedQueueName (queues e)) = [MarshalJob job]" "mem_view m old = [MarshalJob job]"
      "mem_view m (pluginQueueName (queues e)) = []"
    and names: "distinct [old, pausedQueueName (queues e), pluginQueueName (queues e)]"
  shows "pick_job (Suc fuel) e st = (Go job, st\<lparr>hHost := h,
    hDB := mem_put (pluginQueueName (queues e)) [MarshalJob job] (taken old (pausedQueueName (queues e)) m)\<rparr>)"
proof -
  have own: "own_job e st = (Go None, st)" using live lists(3) by (simp add: own_job_def on_db_def mem_simps)
  have search: "paused_search (Suc fuel) e 0 [] 0 st =
      (Go (1, [], Some (job, MarshalJob job)), st\<lparr>hHost := h, hDB := taken old (pausedQueueName (queues e)) m\<rparr>)"
    using search_takes_over [OF live job other room lists(1,2)] names by simp
  have "mem_view (taken old (pausedQueueName (queues e)) m) (pluginQueueName (queues e)) = []" "mem_live (taken old (pausedQueueName (queues e)) m)"
    using live(1) lists(3) names by (simp_all add: taken_def)
  then show ?thesis using own search live
    by (simp add: pick_job_def and_then_def release_held_def db_or_error_def on_db_def mem_simps del: paused_search.simps)
qed

section \<open>The host that waits\<close>

text \<open>The lists after the take-over, seen by the first host: neither its own queue nor the paused one has anything.\<close>

lemma pause_turn_stops:
  assumes "mem_live m" "0 \<le> n" "database e = mem_db n" "pluginCtx e = mem_ctx" "workerCtx e = mem_ctx" "hDB st = m"
    and "JobChannel st = []" "PausedCancellationJobChannel st = []" "mem_view m (pluginQueueName (queues e)) = []"
  shows "\<exists>st'. pause_turn e i job st = (Stop, st') \<and> PausedCancellationJobChannel st' = [job] \<and> mem_view (hDB st') = mem_view m"
  using assms by (simp add: pause_turn_def and_then_def pause_channel_def canceled_def on_db_def mem_get_job set_paused_def set_own_def mem_simps Let_def)

lemma resume_goes_on:
  assumes "mem_live m" "0 \<le> n" "database e = mem_db n" "pluginCtx e = mem_ctx" "hDB st = m"
    and "VmHasEnoughResources (ankaCLI e) (hGlobals st) (AnkaVM job) (hHost st) = (Ret None, h)"
    and "mem_view m (pluginQueueName (queues e)) = []" "mem_view m (pausedQueueName (queues e)) = []"
  shows "\<exists>st'. resume_paused e i job st = (Go (Some (job\<lparr>Action := ''in_progress''\<rparr>)), st') \<and> mem_view (hDB st') = mem_view m"
  using assms by (simp add: resume_paused_def and_then_def on_host_go_def delete_paused_def save_or_finish_def save_def on_db_def
    DeleteFromQueue_def UpdateJobInDB_def CheckIfJobIsCompleted_def mem_simps)

section \<open>Both hosts\<close>

definition on_mem :: "(mem, 'h) Env \<Rightarrow> (mem, 'h) HState \<Rightarrow> mem \<Rightarrow> bool" where
  "on_mem e st m \<longleftrightarrow> (\<exists>n\<ge>0. database e = mem_db n) \<and> pluginCtx e = mem_ctx \<and> workerCtx e = mem_ctx \<and> hDB st = m"

lemma second_host_takes:
  assumes m: "mem_live m" and A: "on_mem eA stA m" and B: "on_mem eB stB m"
    and plugins: "queues eA = queue_names pA" "queues eB = queue_names pB" "GetQueueOwner pA = GetQueueOwner pB"
      "queueOwner eB = GetQueueOwner pB" "PName pA \<noteq> PName pB"
    and job: "job_ok job" "ID (WorkflowJob job) = Some i" "Action job = ''paused''" "PausedOn job = PName pA"
    and lists: "mem_view m (pluginQueueName (queues eA)) = [MarshalJob job]" "mem_view m (pausedQueueName (queues eA)) = [MarshalJob job]"
      "mem_view m (pluginQueueName (queues eB)) = []"
    and other: "own_global ((plugin eB)\<lparr>PName := PName pA\<rparr>) (hGlobals stB) = None"
    and room: "\<And>s. enough_resources eB (AnkaVM job) (stB\<lparr>hDB := s\<rparr>) = (Go True, stB\<lparr>hDB := s, hHost := h\<rparr>)"
  shows "\<exists>stB'. pick_job (Suc fuel) eB stB = (Go job, stB') \<and> mem_live (hDB stB') \<and>
    mem_view (hDB stB') = (mem_view m)(pausedQueueName (queues eA) := [], pluginQueueName (queues eA) := [], pluginQueueName (queues eB) := [MarshalJob job])"
proof -
  obtain n where n: "0 \<le> n" "database eB = mem_db n" using B by (auto simp: on_mem_def)
  have b: "pluginCtx eB = mem_ctx" "workerCtx eB = mem_ctx" "hDB stB = m" using B by (simp_all add: on_mem_def)
  let ?old = "pluginQueueName (queues eA)" and ?paused = "pausedQueueName (queues eB)" and ?own = "pluginQueueName (queues eB)"
  have names: "distinct [?old, ?paused, ?own]" "pausedQueueName (queues eA) = ?paused" "host_queue eB (PausedOn job) = ?old"
    using plugins job(4) by (simp_all add: queue_names_def Let_def host_queue_def)
  have "pick_job (Suc fuel) eB stB = (Go job, stB\<lparr>hHost := h, hDB := mem_put ?own [MarshalJob job] (taken ?old ?paused m)\<rparr>)"
    by (rule pick_takes_over [OF m n b job(1-3) names(3) _ room _ lists(1,3) names(1)]) (use other job(4) lists(2) names(2) in simp_all)
  moreover have "mem_view (mem_put ?own [MarshalJob job] (taken ?old ?paused m)) = (mem_view m)(?paused := [], ?old := [], ?own := [MarshalJob job])"
    by (simp add: taken_def)
  ultimately show ?thesis using m names(2) by (simp add: taken_def)
qed

text \<open>Two hosts of one owner: the first has room again and waits, the second skips the checks of resources.\<close>

definition idle_docs :: "string list \<Rightarrow> (string \<times> json) list" where
  "idle_docs args = doc ''OK'' [] (JArr [])"

definition waiting_env :: "(mem, nat) Env" where
  "waiting_env = (sample_env ''one'')\<lparr>ankaCLI := answering_cli idle_docs\<rparr>"

definition taking_env :: "(mem, nat) Env" where
  "taking_env = (sample_env ''two'')\<lparr>plugin := (sample_plugin ''two'')\<lparr>PSkipCPUAndMemoryResourceChecks := True\<rparr>\<rparr>"

definition waiting_job :: QueueJob where
  "waiting_job = (sample_job 7 ''queued'')\<lparr>Action := ''paused'', PausedOn := ''one''\<rparr>"

definition waiting_mem :: mem where
  "waiting_mem = mem_init [(''anklet/jobs/github/queued/veertu/{one}'', [MarshalJob waiting_job]), (''anklet/jobs/github/paused/veertu'', [MarshalJob waiting_job])]"

lemma sample_plugin_name [simp]: "PName (sample_plugin name) = name"
  by (simp add: sample_plugin_def)

lemma waiting_facts:
  "mem_live waiting_mem" "on_mem waiting_env (sample_state waiting_mem) waiting_mem"
  "on_mem taking_env ((sample_state waiting_mem)\<lparr>hGlobals := small_host\<rparr>) waiting_mem"
  "queues waiting_env = queue_names (sample_plugin ''one'')" "queues taking_env = queue_names (sample_plugin ''two'')"
  "GetQueueOwner (sample_plugin ''one'') = GetQueueOwner (sample_plugin ''two'')" "queueOwner taking_env = GetQueueOwner (sample_plugin ''two'')"
  "PName (sample_plugin ''one'') \<noteq> PName (sample_plugin ''two'')"
  "job_ok waiting_job" "ID (WorkflowJob waiting_job) = Some 7" "Action waiting_job = ''paused''" "PausedOn waiting_job = PName (sample_plugin ''one'')"
  "mem_view waiting_mem (pluginQueueName (queues waiting_env)) = [MarshalJob waiting_job]"
  "mem_view waiting_mem (pausedQueueName (queues waiting_env)) = [MarshalJob waiting_job]"
  "mem_view waiting_mem (pluginQueueName (queues taking_env)) = []"
  "own_global ((plugin taking_env)\<lparr>PName := PName (sample_plugin ''one'')\<rparr>) (hGlobals ((sample_state waiting_mem)\<lparr>hGlobals := small_host\<rparr>)) = None"
  "enough_resources taking_env (AnkaVM waiting_job) (((sample_state waiting_mem)\<lparr>hGlobals := small_host\<rparr>)\<lparr>hDB := s\<rparr>) =
     (Go True, ((sample_state waiting_mem)\<lparr>hGlobals := small_host\<rparr>)\<lparr>hDB := s, hHost := host []\<rparr>)"
proof -
  have "job_ok (sample_job 7 ''queued'')" by simp
  then show "job_ok waiting_job" by (simp add: waiting_job_def job_ok_def)
  show "on_mem waiting_env (sample_state waiting_mem) waiting_mem"
    "on_mem taking_env ((sample_state waiting_mem)\<lparr>hGlobals := small_host\<rparr>) waiting_mem"
    by (auto simp: on_mem_def waiting_env_def taking_env_def intro!: exI [of _ 3])
  show "enough_resources taking_env (AnkaVM waiting_job) (((sample_state waiting_mem)\<lparr>hGlobals := small_host\<rparr>)\<lparr>hDB := s\<rparr>) =
     (Go True, ((sample_state waiting_mem)\<lparr>hGlobals := small_host\<rparr>)\<lparr>hDB := s, hHost := host []\<rparr>)"
    by (simp add: enough_resources_def taking_env_def sample_state_def)
  show "queueOwner taking_env = GetQueueOwner (sample_plugin ''two'')" by (simp add: taking_env_def sample_env_def)
qed (simp_all add: waiting_env_def taking_env_def waiting_job_def waiting_mem_def own_global_def mem_simps)



text \<open>
  C12. A paused job can run twice: between the moment the waiting host has found the job on its own queue and the moment it
  resumes it, another host can take the job over; the waiting host then finds room too, ignores that it can neither
  delete the paused entry nor update the job, and goes on with the job, although it is on the other host's queue only.
\<close>
theorem paused_job_runs_twice:
  assumes m: "mem_live m" and A: "on_mem eA stA m" and B: "on_mem eB stB m"
    and plugins: "queues eA = queue_names pA" "queues eB = queue_names pB" "GetQueueOwner pA = GetQueueOwner pB"
      "queueOwner eB = GetQueueOwner pB" "PName pA \<noteq> PName pB"
    and job: "job_ok job" "ID (WorkflowJob job) = Some i" "Action job = ''paused''" "PausedOn job = PName pA"
    and lists: "mem_view m (pluginQueueName (queues eA)) = [MarshalJob job]" "mem_view m (pausedQueueName (queues eA)) = [MarshalJob job]"
      "mem_view m (pluginQueueName (queues eB)) = []"
    and other: "own_global ((plugin eB)\<lparr>PName := PName pA\<rparr>) (hGlobals stB) = None"
    and room: "\<And>s. enough_resources eB (AnkaVM job) (stB\<lparr>hDB := s\<rparr>) = (Go True, stB\<lparr>hDB := s, hHost := h\<rparr>)"
    and fit: "VmHasEnoughResources (ankaCLI eA) (hGlobals stA) (AnkaVM job) (hHost stA) = (Ret None, hA)"
  shows "fst (on_db (GetJobJSONFromQueueByID (pluginCtx eA) (database eA) i (pluginQueueName (queues eA))) stA) = Inr (MarshalJob job) \<and>
    (\<exists>stB' stA'. pick_job (Suc fuel) eB stB = (Go job, stB') \<and>
      resume_paused eA i job (stA\<lparr>hDB := hDB stB'\<rparr>) = (Go (Some (job\<lparr>Action := ''in_progress''\<rparr>)), stA') \<and>
      mem_view (hDB stA') = (mem_view m)(pausedQueueName (queues eA) := [], pluginQueueName (queues eA) := [], pluginQueueName (queues eB) := [MarshalJob job]))"
proof -
  obtain stB' where B': "pick_job (Suc fuel) eB stB = (Go job, stB')" "mem_live (hDB stB')"
    "mem_view (hDB stB') = (mem_view m)(pausedQueueName (queues eA) := [], pluginQueueName (queues eA) := [], pluginQueueName (queues eB) := [MarshalJob job])"
    using second_host_takes [OF m A B plugins job lists other room] by blast
  obtain n where n: "0 \<le> n" "database eA = mem_db n" using A by (auto simp: on_mem_def)
  have empty: "mem_view (hDB stB') (pluginQueueName (queues eA)) = []" "mem_view (hDB stB') (pausedQueueName (queues eA)) = []"
    using B'(3) plugins by (simp_all add: queue_names_def Let_def)
  then have "\<exists>stA'. resume_paused eA i job (stA\<lparr>hDB := hDB stB'\<rparr>) = (Go (Some (job\<lparr>Action := ''in_progress''\<rparr>)), stA') \<and>
      mem_view (hDB stA') = mem_view (hDB stB')"
    using A fit by (intro resume_goes_on [OF B'(2) n]) (simp_all add: on_mem_def)
  moreover have "find_job i [MarshalJob job] = Inr (MarshalJob job)" using Unwrap_MarshalJob [OF job(1)] job(2) by simp
  then have "fst (on_db (GetJobJSONFromQueueByID (pluginCtx eA) (database eA) i (pluginQueueName (queues eA))) stA) = Inr (MarshalJob job)"
    using A n m lists(1) by (simp add: on_mem_def on_db_def mem_get_job)
  ultimately show ?thesis using B' by auto
qed

lemma waiting_fits: "VmHasEnoughResources (ankaCLI waiting_env) (hGlobals (sample_state waiting_mem)) (AnkaVM waiting_job) (hHost (sample_state waiting_mem)) =
    (Ret None, (host [])\<lparr>hWorld := 1\<rparr>)"
proof -
  have "ExecuteParseJson (answering_cli idle_docs) args h =
      ((Some \<lparr>AStatus = ''OK'', ACode = 0, ABody = JArr [], AMessage = []\<rparr>, None), h\<lparr>hWorld := Suc (hWorld h)\<rparr>)" for args h
    using answer_doc [of idle_docs args "''OK''" "[]" "JArr []"] by (simp add: idle_docs_def)
  then show ?thesis
    by (simp add: VmHasEnoughResources_def AnkaList_def answer_def waiting_env_def fits_def waiting_job_def sample_job_def zero_QueueJob_def zero_VM_def
      sample_globals_def)
qed

lemma paused_job_runs_twice_witness:
  "\<exists>stB' stA'. pick_job (Suc 0) taking_env ((sample_state waiting_mem)\<lparr>hGlobals := small_host\<rparr>) = (Go waiting_job, stB') \<and>
    resume_paused waiting_env 7 waiting_job ((sample_state waiting_mem)\<lparr>hDB := hDB stB'\<rparr>) = (Go (Some (waiting_job\<lparr>Action := ''in_progress''\<rparr>)), stA')"
  using paused_job_runs_twice [OF waiting_facts waiting_fits, of 0] by blast

end
