(* ===== verification/AnkaExec.thy ===== *)
theory AnkaExec
  imports Anka Logging
begin

text \<open>
  How the process of a command is watched (\<open>internal/anka/cli.go\<close>): the two select loops of \<open>Execute\<close> and
  \<open>ExecuteWithTimeout\<close>, which of their channels becomes ready next being an event, what they log and when they kill the
  process. A process-backed command line provides the functions \<open>run\<close> and \<open>runTimeout\<close> the rest of the model works with.
\<close>

section \<open>Events\<close>

text \<open>
  The goroutine starts the process and sends how it ended. Each event carries what the process has written to its error
  output by then; the end also what it has written to its output. \<open>Started\<close> is the point at which \<open>cmd.Process\<close> is set.
\<close>

datatype proc_end = Success | ExitError int gerror | OtherError gerror

datatype exec_event =
    Started
  | Ticked string
  | TimedOut string
  | CtxDone gerror string
  | Ended proc_end string string

definition end_error :: "proc_end \<Rightarrow> gerror option" where
  "end_error p = (case p of Success \<Rightarrow> None | ExitError _ e \<Rightarrow> Some e | OtherError e \<Rightarrow> Some e)"

text \<open>A record of the log: its level, its message and its attributes.\<close>

type_synonym log_record = "int \<times> string \<times> attr list"

text \<open>\<open>%v\<close> of a slice of strings.\<close>

definition show_args :: "string list \<Rightarrow> string" where
  "show_args args = ''['' @ Join '' '' args @ '']''"

definition logAnkaCommandProgress :: "string list \<Rightarrow> string \<Rightarrow> log_record list" where
  "logAnkaCommandProgress args stderr = (let progress = lastAnkaProgressLine stderr in
     if progress \<noteq> []
     then [(LevelInfo, ''execution of command still in progress'', [(''command'', JArr (map JStr args)), (''progress'', JStr progress)])]
     else [(LevelInfo, ''execution of command '' @ show_args args @ '' is still in progress...'', [])])"

definition logAnkaCommandStderr :: "bool \<Rightarrow> string \<Rightarrow> bool \<Rightarrow> log_record list" where
  "logAnkaCommandStderr debug stderr failed =
     (if \<not> shouldLogAnkaStderr debug failed stderr then []
      else [(if failed then LevelError else LevelDebug, ''anka command stderr'', [(''stderr'', JStr stderr)])])"

definition finishAnkaExec :: "bool \<Rightarrow> string \<Rightarrow> string \<Rightarrow> proc_end \<Rightarrow> (string \<times> int \<times> gerror option) \<times> log_record list" where
  "finishAnkaExec debug stdout stderr err =
     ((stdout, case err of ExitError code _ \<Rightarrow> code | _ \<Rightarrow> 0, end_error err),
      logAnkaCommandStderr debug stderr (end_error err \<noteq> None))"

section \<open>The loops\<close>

text \<open>
  What a loop leaves behind: its result, whether it has killed the process, and what it has logged. \<open>None\<close> means that it
  still waits. A process that has not been started when the loop ends is not killed, as there is none yet: the
  goroutine starts it afterwards.
\<close>

type_synonym 'a exec = "('a \<times> bool \<times> log_record list) option"

definition logging :: "log_record list \<Rightarrow> 'a exec \<Rightarrow> 'a exec" where
  "logging ls r = map_option (\<lambda>(a, killed, ls'). (a, killed, ls @ ls')) r"

fun execute_loop :: "bool \<Rightarrow> string list \<Rightarrow> bool \<Rightarrow> exec_event list \<Rightarrow> (string \<times> int \<times> gerror option) exec" where
  "execute_loop debug args started [] = None"
| "execute_loop debug args started (Started # evs) = execute_loop debug args True evs"
| "execute_loop debug args started (CtxDone err stderr # _) =
     Some (([], 0, Some (Errorf (''context canceled during command execution: '' @ Error err))), started, logAnkaCommandStderr debug stderr True)"
| "execute_loop debug args started (Ticked stderr # evs) = logging (logAnkaCommandProgress args stderr) (execute_loop debug args started evs)"
| "execute_loop debug args started (Ended err stdout stderr # _) =
     (case finishAnkaExec debug stdout stderr err of (r, ls) \<Rightarrow> Some (r, False, ls))"
| "execute_loop debug args started (TimedOut _ # evs) = execute_loop debug args started evs"

fun timeout_loop :: "bool \<Rightarrow> string list \<Rightarrow> bool \<Rightarrow> exec_event list \<Rightarrow> (string \<times> int \<times> gerror option \<times> gerror option) exec" where
  "timeout_loop debug args started [] = None"
| "timeout_loop debug args started (Started # evs) = timeout_loop debug args True evs"
| "timeout_loop debug args started (CtxDone err stderr # _) =
     Some (([], 0, None, Some (Errorf (''context canceled during command execution: '' @ Error err))), started, logAnkaCommandStderr debug stderr True)"
| "timeout_loop debug args started (TimedOut stderr # _) =
     Some (([], 0, None, Some (Errorf (''execution of command '' @ show_args args @ '' timed out''))), started, logAnkaCommandStderr debug stderr True)"
| "timeout_loop debug args started (Ticked stderr # evs) = logging (logAnkaCommandProgress args stderr) (timeout_loop debug args started evs)"
| "timeout_loop debug args started (Ended err stdout stderr # _) =
     (case finishAnkaExec debug stdout stderr err of ((out, exitCode, execErr), ls) \<Rightarrow> Some ((out, exitCode, execErr, None), False, ls))"

text \<open>The calls as a whole; the third argument of a command decides whether it is logged, so it must have one.\<close>

definition log_command :: "string list \<Rightarrow> log_record list go" where
  "log_command args = (if length args < 3 then Panic
     else Ret (if args ! 2 \<noteq> ''list'' then [(LevelDebug, ''executing'', [(''command'', JStr (Join '' '' (injectAnkaDebugFlag args)))])] else []))"

definition Execute_process :: "bool \<Rightarrow> string list \<Rightarrow> exec_event list \<Rightarrow> (string \<times> int \<times> gerror option) exec go" where
  "Execute_process debug args evs = (case log_command args of Panic \<Rightarrow> Panic
     | Ret ls \<Rightarrow> Ret (logging ls (execute_loop debug (injectAnkaDebugFlag args) False evs)))"

definition ExecuteWithTimeout_process :: "bool \<Rightarrow> string list \<Rightarrow> exec_event list \<Rightarrow> (string \<times> int \<times> gerror option \<times> gerror option) exec go" where
  "ExecuteWithTimeout_process debug args evs = (case log_command args of Panic \<Rightarrow> Panic
     | Ret ls \<Rightarrow> Ret (logging ls (timeout_loop debug (injectAnkaDebugFlag args) False evs)))"

definition ExecuteAndParseJsonOnError :: "'s Cli \<Rightarrow> string list \<Rightarrow> 's Host \<Rightarrow> (string \<times> gerror option) \<times> 's Host" where
  "ExecuteAndParseJsonOnError cli args h =
     (if cancelled cli h then (([], Some (Errorf ''context canceled before ExecuteAndParseJsonOnError'')), h)
      else (case Execute cli args h of ((out, exitCode, _), h') \<Rightarrow>
        ((out, if exitCode \<noteq> 0 then Some (Errorf out)
               else (case ParseAnkaJson out of Inl e \<Rightarrow> Some (Errorf (''command execution failed: '' @ Error e)) | Inr _ \<Rightarrow> None)), h')))"

section \<open>What ends a command\<close>

text \<open>The event a loop returns on: the first that is neither a tick nor the start, and for \<open>Execute\<close> no timeout.\<close>

definition waits :: "bool \<Rightarrow> exec_event \<Rightarrow> bool" where
  "waits timed ev \<longleftrightarrow> (case ev of Started \<Rightarrow> True | Ticked _ \<Rightarrow> True | TimedOut _ \<Rightarrow> \<not> timed | _ \<Rightarrow> False)"

definition progress_of :: "string list \<Rightarrow> exec_event list \<Rightarrow> log_record list" where
  "progress_of args evs = concat (map (\<lambda>ev. case ev of Ticked stderr \<Rightarrow> logAnkaCommandProgress args stderr | _ \<Rightarrow> []) evs)"

lemma progress_of_simps [simp]:
  "progress_of args [] = []" "progress_of args (Ticked x # evs) = logAnkaCommandProgress args x @ progress_of args evs"
  "progress_of args (Started # evs) = progress_of args evs" "progress_of args (TimedOut x # evs) = progress_of args evs"
  by (simp_all add: progress_of_def)

lemma logging_logging [simp]: "logging a (logging b r) = logging (a @ b) r" "logging [] r = r"
  by (simp_all add: logging_def option.map_comp comp_def case_prod_unfold option.map_ident)

lemma execute_loop_waits:
  "list_all (waits False) pre \<Longrightarrow>
   execute_loop debug args started (pre @ evs) = logging (progress_of args pre) (execute_loop debug args (started \<or> Started \<in> set pre) evs)"
  by (induction pre arbitrary: started) (auto simp: waits_def split: exec_event.splits)

lemma timeout_loop_waits:
  "list_all (waits True) pre \<Longrightarrow>
   timeout_loop debug args started (pre @ evs) = logging (progress_of args pre) (timeout_loop debug args (started \<or> Started \<in> set pre) evs)"
  by (induction pre arbitrary: started) (auto simp: waits_def split: exec_event.splits)

lemma execute_loop_returns: "execute_loop debug args started evs = None \<longleftrightarrow> list_all (waits False) evs"
  by (induction debug args started evs rule: execute_loop.induct)
    (auto simp: waits_def logging_def finishAnkaExec_def split: prod.splits)

lemma timeout_loop_returns: "timeout_loop debug args started evs = None \<longleftrightarrow> list_all (waits True) evs"
  by (induction debug args started evs rule: timeout_loop.induct)
    (auto simp: waits_def logging_def finishAnkaExec_def split: prod.splits)

section \<open>The command line over processes\<close>

text \<open>
  The command line whose processes are given by \<open>proc\<close>, the interface to the operating system: the events the loop of a
  command sees. The result of a loop that still waits is that of no command, so what rests on it asks for an end.
\<close>

definition process_run :: "bool \<Rightarrow> (string list \<Rightarrow> 's \<Rightarrow> exec_event list \<times> 's) \<Rightarrow> string list \<Rightarrow> 's \<Rightarrow> (string \<times> int \<times> gerror option) \<times> 's" where
  "process_run debug proc args s = (case proc args s of (evs, s') \<Rightarrow>
     (case execute_loop debug args False evs of None \<Rightarrow> ([], 0, Some (Errorf ''waiting'')) | Some (r, _) \<Rightarrow> r, s'))"

lemma Execute_process_run:
  assumes "run cli = process_run debug proc" "proc (injectAnkaDebugFlag args) (hWorld h) = (evs, s')"
    and "execute_loop debug (injectAnkaDebugFlag args) False evs = Some (r, killed, ls)"
  shows "Execute cli args h = (r, h\<lparr>hWorld := s'\<rparr>)"
  using assms by (simp add: Execute_def process_run_def)

lemma last_line_Nil [simp]: "last_line [] = []"
  by (simp add: last_line_def TrimSpace_def)

end
