(* ===== verification/Exec_Properties.thy ===== *)
theory Exec_Properties
  imports AnkaExec Anka_Samples
begin

text \<open>
  Properties of the loops that watch the process of a command: when they end, and what becomes of a command whose
  context is canceled.
\<close>

text \<open>
  When a command ends: \<open>ExecuteWithTimeout\<close> returns on the first event that is a canceled context, the timeout or
  the end of the process, whatever came before, and waits as long as there is none; \<open>Execute\<close> knows no timeout, so a
  command that hangs keeps its caller until the context is canceled. Ticks only add to the log.
\<close>
theorem commands_end:
  "(timeout_loop debug args started evs = None \<longleftrightarrow> list_all (waits True) evs) \<and>
   (execute_loop debug args started evs = None \<longleftrightarrow> list_all (waits False) evs)"
  by (simp add: timeout_loop_returns execute_loop_returns)



end
