(* ===== verification/HookDeliveries.thy ===== *)
theory HookDeliveries
  imports Redeliver
begin

text \<open>
  The request of \<open>internal/github/hook_deliveries.go\<close>: the URL with its query, escaped as \<open>net/url\<close> does, and what a
  server reads from it. Sending it is the parameter \<open>send\<close>.
\<close>

section \<open>Queries\<close>

definition hex_upper :: "nat \<Rightarrow> char" where
  "hex_upper n = char_of (if n < 10 then 48 + n else 55 + n)"

definition unreserved :: "char \<Rightarrow> bool" where
  "unreserved c \<longleftrightarrow> is_digit c \<or> (CHR ''a'' \<le> c \<and> c \<le> CHR ''z'') \<or> (CHR ''A'' \<le> c \<and> c \<le> CHR ''Z'') \<or> c \<in> {CHR ''-'', CHR ''_'', CHR ''.'', CHR ''~''}"

definition query_char :: "char \<Rightarrow> string" where
  "query_char c = (if unreserved c then [c] else if c = CHR '' '' then ''+''
     else [CHR ''%'', hex_upper (of_char c div 16), hex_upper (of_char c mod 16)])"

definition QueryEscape :: "string \<Rightarrow> string" where
  "QueryEscape s = concat (map query_char s)"

text \<open>\<open>Encode\<close> of the values, which are in the order of their keys.\<close>

definition encode_values :: "(string \<times> string) list \<Rightarrow> string" where
  "encode_values q = Join ''&'' (map (\<lambda>(k, v). QueryEscape k @ ''='' @ QueryEscape v) q)"

definition failed_query :: "(int \<times> string) option \<Rightarrow> (string \<times> string) list" where
  "failed_query opts = (case (case opts of None \<Rightarrow> (100, []) | Some o' \<Rightarrow> o') of (perPage, cursor) \<Rightarrow>
     (if cursor \<noteq> [] then [(''cursor'', cursor)] else []) @
     (if perPage > 0 then [(''per_page'', FormatInt perPage)] else []) @ [(''status'', ''failure'')])"

definition failed_deliveries_url :: "string \<Rightarrow> string \<Rightarrow> int \<Rightarrow> (int \<times> string) option \<Rightarrow> string" where
  "failed_deliveries_url owner repo hookID opts = deliveries_path owner repo hookID @ ''?'' @ encode_values (failed_query opts)"

text \<open>The call: without a client, or if the request cannot be built, there is no response.\<close>

definition ListFailedHookDeliveries :: "(string \<Rightarrow> 'q result) option \<Rightarrow> ('q \<Rightarrow> 's \<Rightarrow> ('d list \<times> 'r \<times> gerror option) \<times> 's) \<Rightarrow>
    string \<Rightarrow> string \<Rightarrow> int \<Rightarrow> (int \<times> string) option \<Rightarrow> 's \<Rightarrow> ('d list option \<times> 'r option \<times> gerror option) \<times> 's" where
  "ListFailedHookDeliveries client send owner repo hookID opts s = (case client of
     None \<Rightarrow> ((None, None, Some (Errorf ''github client is nil'')), s)
   | Some newRequest \<Rightarrow> (case newRequest (failed_deliveries_url owner repo hookID opts) of
        Inl e \<Rightarrow> ((None, None, Some e), s)
      | Inr q \<Rightarrow> (case send q s of ((ds, resp, err), s1) \<Rightarrow> ((Some ds, Some resp, err), s1))))"

section \<open>What the server reads\<close>

definition hex_value :: "char \<Rightarrow> nat" where
  "hex_value c = (let n = of_char c in if n < 58 then n - 48 else n - 55)"

fun QueryUnescape :: "string \<Rightarrow> string" where
  "QueryUnescape [] = []"
| "QueryUnescape (c # s) =
     (if c = CHR ''+'' then CHR '' '' # QueryUnescape s
      else if c = CHR ''%'' then (case s of h # l # r \<Rightarrow> char_of (16 * hex_value h + hex_value l) # QueryUnescape r | _ \<Rightarrow> c # QueryUnescape s)
      else c # QueryUnescape s)"

definition parse_values :: "string \<Rightarrow> (string \<times> string) list" where
  "parse_values s = map (\<lambda>part. case Cut CHR ''='' part of (k, v, _) \<Rightarrow> (QueryUnescape k, QueryUnescape v)) (Split CHR ''&'' s)"

lemma hex_upper_value: "n < 16 \<Longrightarrow> hex_value (hex_upper n) = n"
  by (auto simp: hex_value_def hex_upper_def Let_def)

lemma hex_upper_plain: "n < 16 \<Longrightarrow> hex_upper n \<notin> {CHR ''='', CHR ''&'', CHR ''?'', CHR ''#''}"
  by (auto simp: hex_upper_def char_eq_nat split: if_splits)

lemma unreserved_not: "unreserved c \<Longrightarrow> c \<notin> {CHR ''+'', CHR ''%'', CHR ''='', CHR ''&'', CHR ''?'', CHR ''#''}"
  by (auto simp: unreserved_def is_digit_def less_eq_char_def)

lemma nibble: "(of_char c :: nat) div 16 < 16"
proof -
  have "(of_char c :: nat) < 16 * 16" using nat_of_char_less_256 [of c] by (simp only: numeral_times_numeral semiring_norm)
  then show ?thesis by (rule less_mult_imp_div_less)
qed

lemma Unescape_char: "QueryUnescape (query_char c @ s) = c # QueryUnescape s"
proof -
  have "char_of (16 * (of_char c div 16) + of_char c mod 16 :: nat) = c" by (simp only: mult_div_mod_eq char_of_char)
  then show ?thesis using unreserved_not [of c] nibble [of c] by (auto simp: query_char_def hex_upper_value)
qed

lemma QueryUnescape_Escape [simp]: "QueryUnescape (QueryEscape s) = s"
proof -
  have "QueryUnescape (QueryEscape s @ t) = s @ QueryUnescape t" for t
    by (induction s) (simp_all add: QueryEscape_def Unescape_char)
  from this [of "[]"] show ?thesis by simp
qed

lemma QueryEscape_plain: "c \<in> set (QueryEscape s) \<Longrightarrow> c \<notin> {CHR ''='', CHR ''&'', CHR ''?'', CHR ''#''}"
proof -
  assume "c \<in> set (QueryEscape s)"
  then obtain d where d: "c \<in> set (query_char d)" by (auto simp: QueryEscape_def)
  show ?thesis using d unreserved_not [of d] hex_upper_plain [OF nibble] hex_upper_plain [of "of_char d mod 16"]
    by (auto simp: query_char_def split: if_splits)
qed

lemma Cut_append: "d \<notin> set w \<Longrightarrow> Cut d (w @ d # s) = (w, s, True)"
  by (induction w) auto

lemma parse_encode:
  assumes "q \<noteq> []"
  shows "parse_values (encode_values q) = q"
proof -
  let ?part = "\<lambda>(k, v). QueryEscape k @ ''='' @ QueryEscape v"
  have no: "CHR ''&'' \<notin> set (?part kv)" for kv using QueryEscape_plain by (auto split: prod.splits)
  have "Split CHR ''&'' (Join ''&'' (map ?part q)) = map ?part q" using assms
  proof (induction q rule: induct_list012)
    case (3 a b q)
    then show ?case using Split_append [OF no [of a]] by simp
  qed (use no in \<open>simp_all add: Split_no_sep\<close>)
  moreover have "(case Cut CHR ''='' (?part kv) of (k, v, _) \<Rightarrow> (QueryUnescape k, QueryUnescape v)) = kv" for kv
  proof (cases kv)
    case (Pair k v)
    have "CHR ''='' \<notin> set (QueryEscape k)" using QueryEscape_plain by blast
    from Cut_append [OF this] Pair show ?thesis by simp
  qed
  ultimately show ?thesis by (simp add: parse_values_def encode_values_def comp_def)
qed

end
