(* ===== verification/RunKeys.thy ===== *)
theory RunKeys
  imports Database
begin

text \<open>
  The unique run key of \<open>internal/database/database.go\<close>: a key that marks a run as taken. A context
  holds the database by value, by pointer or not at all, and the functions differ in what they
  accept. Every command is wrapped in the retry loop twice.
\<close>

datatype 's ctx_database = NoDatabase | ByValue "'s Database" | ByPointer "'s Database"

definition GetDatabaseFromContext :: "'s ctx_database \<Rightarrow> 's Database result" where
  "GetDatabaseFromContext v = (case v of
     ByPointer db \<Rightarrow> Inr db
   | _ \<Rightarrow> Inl (Errorf ''GetDatabaseFromContext failed (is your database running and enabled in your config.yml?)''))"

definition UpdateUniqueRunKey :: "string \<Rightarrow> 's ctx_database \<Rightarrow> gerror option \<times> 's ctx_database" where
  "UpdateUniqueRunKey key v = (case v of
     ByValue db \<Rightarrow> (None, ByValue (db\<lparr>UniqueRunKey := key\<rparr>))
   | _ \<Rightarrow> (Some (Errorf ''database not found in context''), v))"

definition RemoveUniqueKeyFromDB :: "'s Ctx \<Rightarrow> 's ctx_database \<Rightarrow> 's \<Rightarrow> gerror option \<times> 's" where
  "RemoveUniqueKeyFromDB ctx v s = (case v of
     ByValue db \<Rightarrow> (case retryOperation (Background ctx) db ''delete unique key'' (RetryDel (Background ctx) db [UniqueRunKey db]) s of
        (Inl e, s1) \<Rightarrow> (Some e, s1) | (Inr _, s1) \<Rightarrow> (None, s1))
   | _ \<Rightarrow> (Some (Errorf ''database not found in context''), s))"

definition CheckIfKeyExists :: "'s Ctx \<Rightarrow> 's ctx_database \<Rightarrow> int \<Rightarrow> string \<Rightarrow> 's \<Rightarrow> bool result \<times> 's" where
  "CheckIfKeyExists ctx v randomSleep key s =
     (if CtxErr ctx s \<noteq> None then (Inl (Errorf ''context canceled during CheckIfKeyExists''), s)
      else (case GetDatabaseFromContext v of
        Inl e \<Rightarrow> (Inl e, s)
      | Inr db \<Rightarrow> (case retryOperation ctx db ''check key exists'' (RetryExists ctx db [key]) (Sleep (Background ctx) randomSleep s) of
           (Inl e, s1) \<Rightarrow> (Inl e, s1) | (Inr n, s1) \<Rightarrow> (Inr (n = 1), s1))))"

text \<open>The answer is \<open>true\<close> also with the error that the key exists.\<close>

definition AddUniqueRunKey :: "'s Ctx \<Rightarrow> 's ctx_database \<Rightarrow> int \<Rightarrow> 's \<Rightarrow> (bool \<times> gerror option) \<times> 's" where
  "AddUniqueRunKey ctx v randomSleep s =
     (if CtxErr ctx s \<noteq> None then ((False, Some (Errorf ''context canceled during AddUniqueRunKey'')), s)
      else (case GetDatabaseFromContext v of
        Inl e \<Rightarrow> ((False, Some e), s)
      | Inr db \<Rightarrow> (case CheckIfKeyExists ctx v randomSleep (UniqueRunKey db) s of
           (Inl e, s1) \<Rightarrow> ((False, Some e), s1)
         | (Inr True, s1) \<Rightarrow> ((True, Some (Errorf ''unique run key already exists'')), s1)
         | (Inr False, s1) \<Rightarrow>
             (case retryOperation ctx db ''set unique key'' (RetrySet ctx db (UniqueRunKey db) ''true'' 0) s1 of
                (Inl e, s2) \<Rightarrow> ((False, Some e), s2) | (Inr _, s2) \<Rightarrow> ((True, None), s2)))))"

text \<open>
  No context serves both the functions that take the key and those that set or remove it: with the
  pointer the worker stores, the key gets no name and is never removed.
\<close>

theorem run_keys_need_two_contexts:
  "fst (UpdateUniqueRunKey key v) = None \<Longrightarrow> \<exists>e. GetDatabaseFromContext v = Inl e"
  "fst (RemoveUniqueKeyFromDB ctx v s) = None \<Longrightarrow> \<exists>e. AddUniqueRunKey ctx v d s' = ((False, Some e), s')"
  by (auto simp: UpdateUniqueRunKey_def RemoveUniqueKeyFromDB_def AddUniqueRunKey_def GetDatabaseFromContext_def split: ctx_database.splits)

end
