(* ===== verification/Spec2Isabelle.thy ===== *)
theory Spec2Isabelle
  imports Data_Properties Queue_Properties Host_Properties GitHub_Properties Receiver_Properties
    Handler_Properties Cleanup_Properties Run_Properties Metrics_Properties Worker_Properties
    Start_Properties Logging_Properties Handover_Properties Exec_Properties HookDeliveries RunKeys
begin

text \<open>
  Anklet runs GitHub Actions jobs in macOS VMs. A \<^emph>\<open>receiver\<close> files the webhooks of GitHub as entries of Redis lists;
  \<^emph>\<open>handlers\<close> on any number of hosts take the entries off the shared lists, pull a VM template, start a VM with a
  runner in it, watch the job and clean up; a \<^emph>\<open>worker\<close> is the process that runs the plugins of one host, and
  an \<^emph>\<open>aggregator\<close> shows the metrics the workers export. All sources are Go, under \<open>src/\<close>.

  \<^bold>\<open>Basis.\<close>
  \<open>Prelude\<close>: errors (\<open>gerror\<close>, results as sums), the packages \<open>strings\<close> and \<open>strconv\<close> on ASCII.
  \<open>Json\<close>: \<open>encoding/json\<close>: a printer, a parser with as much fuel as the text is long, and what becomes of a value
  that passes through \<open>map[string]any\<close> (numbers as float64, sorted keys); printing and parsing round-trip.
  \<open>Jobs\<close>: the structs of a queue entry and \<open>Unwrap\<close> (\<open>internal/github/config.go\<close>, \<open>internal/database/database.go\<close>).
  \<open>Config\<close>, \<open>Tracker\<close>: plugins, scopes, environment, the globals of a worker, the tracker of templates
  (\<open>internal/config/config.go\<close>).
  A value of type \<open>go\<close> is a result or the panic of a nil dereference.

  \<^bold>\<open>Database.\<close>
  \<open>Database\<close>: \<open>retryOperation\<close> and its wrappers over a record of Redis commands on an arbitrary world \<open>'s\<close>.
  \<open>Redis\<close> and \<open>RedisStrings\<close> state what Redis documents of its commands as the locales \<open>redis_lists\<close>, \<open>redis_db\<close>,
  \<open>redis_strings\<close> and \<open>redis_string_db\<close>: an abstraction \<open>view\<close> of the world to lists (\<open>strings\<close> to strings), the effect
  of each command on it, and that a command that returns an error has not been carried out. They are interpreted on a server
  in memory (\<open>mem_client\<close>) with faults. \<open>Queue\<close>: the operations on the lists of jobs (\<open>internal/github/queue.go\<close>,
  \<open>database.go\<close>), with their refinement of operations on lists of jobs. \<open>RunKeys\<close>: the unique run keys.

  \<^bold>\<open>Receiver.\<close>
  \<open>Receiver\<close>: decoding and filing of a webhook; \<open>ReceiverRun\<close>: start, routes and client (\<open>plugins/receivers/github\<close>).
  \<open>Redeliver\<close>: the walk over failed deliveries; \<open>HookDeliveries\<close>: the URL of their list, and that its query reads back.
  \<open>RateLimit\<close>, \<open>GitHubClient\<close>: the pause at the rate limit, the redelivery budget,
  the choice of the installation and the retries of API calls (\<open>internal/github\<close>).

  \<^bold>\<open>Handler.\<close>
  \<open>Anka\<close>, \<open>AnkaVersion\<close>, \<open>AnkaTemplates\<close>, \<open>AnkaSpace\<close>: the command line of Anka, versions and mounts, templates and the
  room for them; \<open>AnkaExec\<close>: the loops that watch the process of a command, on lists of events (\<open>internal/anka\<close>).
  \<open>Handler\<close>: the state of a handler, its channels as lists, the watch of a job;
  \<open>CheckCompleted\<close>: a turn of the goroutine \<open>checkForCompletedJobs\<close>; \<open>Cleanup\<close>; \<open>RunJob\<close>, \<open>RunVM\<close>, \<open>Runner\<close>,
  \<open>HandlerRun\<close>: \<open>Run\<close>, from the choice of a job over the VM to the deferred cleanup, and its entry
  (\<open>plugins/handlers/github/github.go\<close>). A piece of a goroutine goes on, returns, waits for ever or crashes (\<open>turn\<close>); what
  other goroutines do while it waits is an argument (\<open>Schedule\<close>, the event of a \<open>select\<close>).
  \<open>JobTrip\<close> (locale \<open>idle_handler\<close>) joins receiver and handler: what a choice of a job does to the lists a webhook has changed.
  \<open>HostSafety\<close>, \<open>HandlerSafety\<close> (locale \<open>handler_world\<close>), \<open>RunSafety\<close> show that every operation keeps to its own lists and
  channels; \<open>HandlerSteps\<close> makes handlers and systems of handlers step relations.

  \<^bold>\<open>Worker.\<close>
  \<open>Metrics\<close>, \<open>MetricsExport\<close>, \<open>Aggregator\<close>: counters, export, the texts and JSON documents of the servers
  (\<open>internal/metrics\<close>); \<open>MetricsSteps\<close>, \<open>MetricsTrip\<close>: well-formed metrics, and an export as the aggregator reads it.
  \<open>Worker\<close>: \<open>main.go\<close>, \<open>internal/run\<close>, \<open>internal/drain\<close> and \<open>NewCLI\<close>; \<open>WorkerSteps\<close>: its goroutines interleaved;
  \<open>PluginSetup\<close>: \<open>main\<close> up to the worker, and the goroutine of a plugin up to its loop.
  \<open>Logging\<close>: levels, the attributes of a context with the arrays they share, the pretty handler (\<open>internal/logging\<close>).

  \<^bold>\<open>Properties.\<close>
  The theories named \<open>_Properties\<close> hold the theorems on the code, each after a text that states it, with instances on the
  worlds of \<open>Samples\<close>, \<open>Anka_Samples\<close> and \<open>Handler_Samples\<close>. Data: entries survive the database.
  Queue: every operation refines its list operation, one of two racing handlers gets a job. Receiver: a webhook
  files a job at most once. Host: the tracker, what room is made of, what is never removed. GitHub: budgets and
  repetitions. Handler: a run and a system of runs touch no list and no channel but their own. Cleanup and Run: what becomes of
  a job and its VM on every path. Trip: a queued webhook is the job a handler goes on with, a completed one ends it,
  unless it arrives while the job changes queues. Handover: a paused job moves to another host, or runs on both. Exec:
  what becomes of a canceled command. Metrics: counters add up and exports reach the aggregator. Worker, Start and Logging: the
  order of starts, marks, signals, shutdown, one receiver for a process, shared attributes. Several theorems prove a flaw: they
  state what the code does where a comment or its purpose says otherwise.

  \<^bold>\<open>Fuel and bounds.\<close>
  The cleaning loop and the scan of the aggregator take fuel: the first goes round at most once for each entry of its
  two lists (proved), the second ends when the cursor of the server returns to 0; a theorem about it assumes such a
  scan. Loops that wait for GitHub (\<open>wait_loop\<close>, \<open>reserve_loop\<close>, \<open>list_failed\<close>, the retries of API calls) are
  partial functions, and their bounds are theorems. Numbers that are 64 bits wide in Go and can overflow (sizes, run counts) are words;
  counters and job numbers are integers, with the limit of float64 where they pass through it.

  \<^bold>\<open>Not modelled.\<close>
  HTTP servers and transports (TLS, the rate-limited transport, the construction of Redis clients), the signature check of
  go-github, the decoding of YAML, what a process does (its end and its output are events), system calls on the host, writing of log
  files, the attributes of single log calls. They are parameters of the definitions that use them, or have no effect on the state
  modelled. Code that is commented out in the sources is left out.
\<close>

end
